(* ===== verification/Prelude.thy ===== *)
theory Prelude
  imports Complex_Main "HOL-Library.AList"
begin

text \<open>
  Shared vocabulary of the development: the exceptions of
  host/rp2350_relay_6ch/exceptions.py, the Python values that travel through the JSON
  and CBOR payloads, their \<open>isinstance\<close> tests, equality, \<open>int()\<close> and
  \<open>str()\<close>, and generic lemmas on results, decimal numerals and association lists.

  Conventions. A Python \<open>str\<close> is the HOL string of its UTF-8 bytes, so encoding is the
  identity and decoding is a validity check. A \<open>dict\<close> is an association list in
  insertion order. A \<open>float\<close> value is carried by its literal. A call that may raise
  returns a value of \<open>'a result\<close>: \<open>Inl\<close> of the exception or \<open>Inr\<close> of the
  value.
\<close>

named_theorems exc_simps \<open>isinstance tests on exceptions\<close>
named_theorems py_simps \<open>evaluation of the Python value helpers\<close>

section \<open>Exceptions (exceptions.py)\<close>

text \<open>
  The classes of exceptions.py, with \<open>RelayErrorBase\<close> for a bare \<open>RelayError\<close>, and
  \<open>PyExc cls msg\<close> for every exception that is not a \<open>RelayError\<close>.
\<close>

datatype exc =
    RelayErrorBase string
  | RelayTransportError string
  | RelayTimeoutError string
  | RelayProtocolError string
  | RelayValidationError string
  | RelayDeviceError int int string
  | PyExc string string

type_synonym 'a result = "exc + 'a"

fun exc_str :: "exc \<Rightarrow> string" where
  "exc_str (RelayErrorBase m) = m"
| "exc_str (RelayTransportError m) = m"
| "exc_str (RelayTimeoutError m) = m"
| "exc_str (RelayProtocolError m) = m"
| "exc_str (RelayValidationError m) = m"
| "exc_str (RelayDeviceError g r m) = m"
| "exc_str (PyExc c m) = m"

text \<open>\<open>isinstance(exc, C)\<close>: \<open>RelayTimeoutError\<close> is a \<open>RelayTransportError\<close>.\<close>

fun is_RelayError :: "exc \<Rightarrow> bool" where
  "is_RelayError (PyExc c m) = False"
| "is_RelayError e = True"

fun is_RelayTransportError :: "exc \<Rightarrow> bool" where
  "is_RelayTransportError (RelayTransportError m) = True"
| "is_RelayTransportError (RelayTimeoutError m) = True"
| "is_RelayTransportError e = False"

fun is_RelayTimeoutError :: "exc \<Rightarrow> bool" where
  "is_RelayTimeoutError (RelayTimeoutError m) = True"
| "is_RelayTimeoutError e = False"

fun is_RelayProtocolError :: "exc \<Rightarrow> bool" where
  "is_RelayProtocolError (RelayProtocolError m) = True"
| "is_RelayProtocolError e = False"

fun is_RelayValidationError :: "exc \<Rightarrow> bool" where
  "is_RelayValidationError (RelayValidationError m) = True"
| "is_RelayValidationError e = False"

fun is_RelayDeviceError :: "exc \<Rightarrow> bool" where
  "is_RelayDeviceError (RelayDeviceError g r m) = True"
| "is_RelayDeviceError e = False"

fun py_class :: "exc \<Rightarrow> string" where
  "py_class (PyExc c m) = c"
| "py_class e = ''''"

lemma timeout_is_transport [exc_simps]:
  "is_RelayTimeoutError e \<Longrightarrow> is_RelayTransportError e"
  by (cases e) auto

lemma transport_is_relay [exc_simps]:
  "is_RelayTransportError e \<Longrightarrow> is_RelayError e"
  by (cases e) auto

lemma validation_is_relay [exc_simps]:
  "is_RelayValidationError e \<Longrightarrow> is_RelayError e"
  by (cases e) auto

lemma protocol_is_relay [exc_simps]:
  "is_RelayProtocolError e \<Longrightarrow> is_RelayError e"
  by (cases e) auto

lemma validation_not_transport [exc_simps]:
  "is_RelayValidationError e \<Longrightarrow> \<not> is_RelayTransportError e"
  by (cases e) auto

lemma protocol_not_transport [exc_simps]:
  "is_RelayProtocolError e \<Longrightarrow> \<not> is_RelayTransportError e"
  by (cases e) auto

lemma is_timeoutE: "is_RelayTimeoutError e \<Longrightarrow> \<exists>m. e = RelayTimeoutError m"
  by (cases e) auto

text \<open>\<open>except Exception\<close>: not what ends the interpreter.\<close>

definition is_Exception :: "exc \<Rightarrow> bool" where
  "is_Exception e \<longleftrightarrow> py_class e \<notin> {''KeyboardInterrupt'', ''SystemExit'', ''GeneratorExit''}"

section \<open>Sequencing results\<close>

definition rbind :: "'a result \<Rightarrow> ('a \<Rightarrow> 'b result) \<Rightarrow> 'b result" where
  "rbind r f = (case r of Inl e \<Rightarrow> Inl e | Inr x \<Rightarrow> f x)"

lemma rbind_simps [simp]: "rbind (Inl e) f = Inl e" "rbind (Inr x) f = f x"
  by (simp_all add: rbind_def)

lemma rbind_Inr: "rbind r f = Inr y \<longleftrightarrow> (\<exists>x. r = Inr x \<and> f x = Inr y)"
  by (cases r) auto

lemma rbind_Inl: "rbind r f = Inl e \<longleftrightarrow> r = Inl e \<or> (\<exists>x. r = Inr x \<and> f x = Inl e)"
  by (cases r) auto

section \<open>Decimal numerals\<close>

definition digit_char :: "nat \<Rightarrow> char" where
  "digit_char d = char_of (48 + d)"

fun nat_str :: "nat \<Rightarrow> string" where
  "nat_str n = (if n < 10 then [digit_char n] else nat_str (n div 10) @ [digit_char (n mod 10)])"

declare nat_str.simps [simp del]

definition int_str :: "int \<Rightarrow> string" where
  "int_str i = (if i < 0 then CHR ''-'' # nat_str (nat (- i)) else nat_str (nat i))"

definition is_digit :: "char \<Rightarrow> bool" where
  "is_digit c \<longleftrightarrow> 48 \<le> (of_char c :: nat) \<and> (of_char c :: nat) \<le> 57"

definition digit_val :: "char \<Rightarrow> nat" where
  "digit_val c = of_char c - 48"

definition digits_val :: "string \<Rightarrow> nat" where
  "digits_val ds = foldl (\<lambda>a c. 10 * a + digit_val c) 0 ds"

lemma of_char_digit [simp]: "d < 10 \<Longrightarrow> (of_char (digit_char d) :: nat) = 48 + d"
  by (simp add: digit_char_def)

lemma is_digit_digit_char [simp]: "d < 10 \<Longrightarrow> is_digit (digit_char d)"
  by (simp add: is_digit_def)

lemma digit_val_digit_char [simp]: "d < 10 \<Longrightarrow> digit_val (digit_char d) = d"
  by (simp add: digit_val_def)

lemma nat_str_nonempty [simp]: "nat_str n \<noteq> []"
  by (subst nat_str.simps) simp

lemma nat_str_digits: "c \<in> set (nat_str n) \<Longrightarrow> is_digit c"
proof (induction n rule: nat_str.induct)
  case (1 n)
  then show ?case
    by (subst (asm) (2) nat_str.simps) (auto split: if_splits)
qed

lemma digits_val_snoc: "digits_val (ds @ [c]) = 10 * digits_val ds + digit_val c"
  by (simp add: digits_val_def)

lemma digits_val_nat_str [simp]: "digits_val (nat_str n) = n"
proof (induction n rule: nat_str.induct)
  case (1 n)
  show ?case
  proof (cases "n < 10")
    case True
    then show ?thesis by (subst nat_str.simps) (simp add: digits_val_def)
  next
    case False
    with "1" show ?thesis by (subst nat_str.simps) (simp add: digits_val_snoc)
  qed
qed

lemma nat_str_hd: "hd (nat_str n) = CHR ''0'' \<longleftrightarrow> n = 0"
proof (induction n rule: nat_str.induct)
  case (1 n)
  show ?case
  proof (cases "n < 10")
    case True
    have "digit_char n = CHR ''0'' \<longleftrightarrow> (of_char (digit_char n) :: nat) = of_char (CHR ''0'')"
      by (metis of_char_eq_iff)
    with True show ?thesis by (subst nat_str.simps) simp
  next
    case False
    with "1" show ?thesis by (subst nat_str.simps) simp
  qed
qed

lemma nat_str_zero: "nat_str 0 = ''0''"
  by code_simp

lemma int_str_nonempty [simp]: "int_str i \<noteq> []"
  by (simp add: int_str_def)


section \<open>String helpers\<close>

fun join :: "string \<Rightarrow> string list \<Rightarrow> string" where
  "join sep [] = []"
| "join sep [x] = x"
| "join sep (x # y # xs) = x @ sep @ join sep (y # xs)"

fun starts_with :: "string \<Rightarrow> string \<Rightarrow> bool" where
  "starts_with s [] = True"
| "starts_with [] (p # ps) = False"
| "starts_with (c # s) (p # ps) = (c = p \<and> starts_with s ps)"

lemma starts_with_append [simp]: "starts_with (p @ s) p"
  by (induction p) auto

lemma starts_with_iff: "starts_with s p \<longleftrightarrow> (\<exists>t. s = p @ t)"
  by (induction s p rule: starts_with.induct) auto

definition hex_char :: "nat \<Rightarrow> char" where
  "hex_char d = (if d < 10 then char_of (48 + d) else char_of (87 + d))"

text \<open>The value of a digit character in any base up to 36, as \<open>int(s, base)\<close> reads it.\<close>

definition digit_in_base :: "nat \<Rightarrow> char \<Rightarrow> nat option" where
  "digit_in_base b c =
     (let n = (of_char c :: nat);
          d = (if 48 \<le> n \<and> n \<le> 57 then n - 48
               else if 97 \<le> n \<and> n \<le> 122 then n - 87
               else if 65 \<le> n \<and> n \<le> 90 then n - 55 else 36)
      in if d < b then Some d else None)"

definition is_space :: "char \<Rightarrow> bool" where
  "is_space c \<longleftrightarrow>
     (let n = (of_char c :: nat) in n = 32 \<or> (9 \<le> n \<and> n \<le> 13) \<or> (28 \<le> n \<and> n \<le> 31))"

definition strip :: "string \<Rightarrow> string" where
  "strip s = rev (dropWhile is_space (rev (dropWhile is_space s)))"

definition lower_char :: "char \<Rightarrow> char" where
  "lower_char c =
     (let n = (of_char c :: nat) in if 65 \<le> n \<and> n \<le> 90 then char_of (n + 32) else c)"

definition lower :: "string \<Rightarrow> string" where
  "lower s = map lower_char s"

section \<open>Parsing integers: int(s) and int(s, 0)\<close>

text \<open>
  Digits with single underscores between them, as Python's integer literals allow.
\<close>

fun scan_digits :: "nat \<Rightarrow> nat \<Rightarrow> string \<Rightarrow> nat option" where
  "scan_digits b acc [] = Some acc"
| "scan_digits b acc (c # cs) =
     (if c = CHR ''_'' then
        (case cs of
           [] \<Rightarrow> None
         | d # ds \<Rightarrow> (case digit_in_base b d of
                        None \<Rightarrow> None | Some x \<Rightarrow> scan_digits b (b * acc + x) ds))
      else (case digit_in_base b c of
              None \<Rightarrow> None | Some x \<Rightarrow> scan_digits b (b * acc + x) cs))"

definition scan_nat :: "nat \<Rightarrow> string \<Rightarrow> nat option" where
  "scan_nat b s =
     (case s of
        [] \<Rightarrow> None
      | c # cs \<Rightarrow> (case digit_in_base b c of None \<Rightarrow> None | Some x \<Rightarrow> scan_digits b x cs))"

text \<open>
  After a prefix such as 0x one underscore may come first.  In base 0 a decimal numeral
  with a leading zero is refused unless its value is 0.
\<close>

definition scan_prefixed :: "nat \<Rightarrow> string \<Rightarrow> nat option" where
  "scan_prefixed b s = (if starts_with s ''_'' then scan_nat b (tl s) else scan_nat b s)"

definition scan_base0 :: "string \<Rightarrow> nat option" where
  "scan_base0 s =
     (if starts_with s ''0x'' \<or> starts_with s ''0X'' then scan_prefixed 16 (drop 2 s)
      else if starts_with s ''0o'' \<or> starts_with s ''0O'' then scan_prefixed 8 (drop 2 s)
      else if starts_with s ''0b'' \<or> starts_with s ''0B'' then scan_prefixed 2 (drop 2 s)
      else if starts_with s ''0'' then (if scan_nat 10 s = Some 0 then Some 0 else None)
      else scan_nat 10 s)"

definition parse_signed :: "(string \<Rightarrow> nat option) \<Rightarrow> string \<Rightarrow> int option" where
  "parse_signed scan s =
     (let t = strip s in
      if starts_with t ''-'' then map_option (\<lambda>n. - int n) (scan (tl t))
      else if starts_with t ''+'' then map_option int (scan (tl t))
      else map_option int (scan t))"

definition py_int_of_str :: "string \<Rightarrow> int option" where
  "py_int_of_str = parse_signed (scan_nat 10)"

definition py_int_of_str0 :: "string \<Rightarrow> int option" where
  "py_int_of_str0 = parse_signed scan_base0"

section \<open>Python values\<close>

datatype pyval =
    PNone
  | PBool bool
  | PInt int
  | PFloat string
  | PStr string
  | PBytes string
  | PList "pyval list"
  | PDict "(string \<times> pyval) list"

type_synonym pydict = "(string \<times> pyval) list"

text \<open>\<open>d.get(k)\<close>, \<open>k in d\<close> and \<open>d[k] = v\<close> (in place, or appended).\<close>

definition dget :: "pydict \<Rightarrow> string \<Rightarrow> pyval" where
  "dget d k = (case map_of d k of None \<Rightarrow> PNone | Some v \<Rightarrow> v)"

definition dget_or :: "pydict \<Rightarrow> string \<Rightarrow> pyval \<Rightarrow> pyval" where
  "dget_or d k v = (case map_of d k of None \<Rightarrow> v | Some w \<Rightarrow> w)"

definition dhas :: "pydict \<Rightarrow> string \<Rightarrow> bool" where
  "dhas d k \<longleftrightarrow> map_of d k \<noteq> None"

definition dset :: "pydict \<Rightarrow> string \<Rightarrow> pyval \<Rightarrow> pydict" where
  "dset d k v = AList.update k v d"

lemma dget_dset [simp]: "dget (dset d k v) k' = (if k' = k then v else dget d k')"
  by (simp add: dget_def dset_def update_conv)

lemma dset_fresh: "k \<notin> fst ` set d \<Longrightarrow> dset d k v = d @ [(k, v)]"
  unfolding dset_def by (induction d) auto

definition is_dict :: "pyval \<Rightarrow> bool" where
  "is_dict v \<longleftrightarrow> (case v of PDict d \<Rightarrow> True | _ \<Rightarrow> False)"

text \<open>\<open>isinstance(v, int)\<close> holds of booleans too; \<open>as_int\<close> is the integer such a value is.\<close>

definition is_bool :: "pyval \<Rightarrow> bool" where
  "is_bool v \<longleftrightarrow> (case v of PBool b \<Rightarrow> True | _ \<Rightarrow> False)"

definition as_int :: "pyval \<Rightarrow> int option" where
  "as_int v = (case v of PInt i \<Rightarrow> Some i | PBool b \<Rightarrow> Some (of_bool b) | _ \<Rightarrow> None)"

text \<open>The integer of a value that is an int and not a bool.\<close>

definition strict_int :: "pyval \<Rightarrow> int option" where
  "strict_int v = (if is_bool v then None else as_int v)"

lemma strict_int_iff [simp]: "strict_int v = Some i \<longleftrightarrow> v = PInt i"
  by (cases v) (auto simp: strict_int_def is_bool_def as_int_def)

lemma as_int_Some: "as_int v = Some i \<longleftrightarrow> v = PInt i \<or> (\<exists>b. v = PBool b \<and> i = of_bool b)"
  by (cases v) (auto simp: as_int_def)

section \<open>Numeric value, equality with an integer, int()\<close>

text \<open>The exact value of a decimal literal; None for NaN and the infinities.\<close>

definition exponent_value :: "string \<Rightarrow> int option" where
  "exponent_value s =
     (if s = [] then Some 0
      else if starts_with s ''e'' \<or> starts_with s ''E'' then
        (if starts_with (tl s) ''-'' then Some (- int (digits_val (drop 2 s)))
         else if starts_with (tl s) ''+'' then Some (int (digits_val (drop 2 s)))
         else Some (int (digits_val (tl s))))
      else None)"

definition scale10 :: "rat \<Rightarrow> int \<Rightarrow> rat" where
  "scale10 q e = (if 0 \<le> e then q * 10 ^ nat e else q / 10 ^ nat (- e))"

definition unsigned_float_value :: "string \<Rightarrow> rat option" where
  "unsigned_float_value s =
     (let ip = takeWhile is_digit s; r = dropWhile is_digit s;
          fp = (if starts_with r ''.'' then takeWhile is_digit (tl r) else []);
          r' = (if starts_with r ''.'' then dropWhile is_digit (tl r) else r)
      in if ip @ fp = [] then None
         else map_option
                (\<lambda>e. scale10 (of_nat (digits_val (ip @ fp))) (e - int (length fp)))
                (exponent_value r'))"

definition literal_value :: "string \<Rightarrow> rat option" where
  "literal_value s =
     (if starts_with s ''-'' then map_option uminus (unsigned_float_value (tl s))
      else unsigned_float_value s)"

text \<open>Doubles; \<open>Infinite True\<close> is the positive infinity.\<close>

datatype pyfloat = Finite rat | Infinite bool | NaN

text \<open>The nearest double: ulps of a power of two, halves to even.\<close>

function bits_of :: "int \<Rightarrow> int" where
  "bits_of n = (if n \<le> 0 then 0 else bits_of (n div 2) + 1)"
  by auto

termination by (relation "measure nat") auto

declare bits_of.simps [simp del]

definition pow2 :: "int \<Rightarrow> rat" where
  "pow2 e = (if 0 \<le> e then 2 ^ nat e else 1 / 2 ^ nat (- e))"

definition round_even :: "rat \<Rightarrow> int" where
  "round_even q =
     (let f = floor q; d = q - of_int f in
      if d < 1 / 2 then f else if 1 / 2 < d then f + 1 else if even f then f else f + 1)"

definition double_of :: "rat \<Rightarrow> pyfloat" where
  "double_of q =
     (let (n, d) = quotient_of \<bar>q\<bar>;
          k = bits_of n - bits_of d;
          e = (if \<bar>q\<bar> < pow2 k then k - 1 else k);
          u = pow2 (max (e - 52) (- 1074));
          r = of_int (round_even (\<bar>q\<bar> / u)) * u
      in if pow2 1024 \<le> r then Infinite (0 < q) else Finite (if q < 0 then - r else r))"

text \<open>The finite value of a float that is carried by its literal.\<close>

definition float_value :: "string \<Rightarrow> rat option" where
  "float_value s =
     (case literal_value s of
        None \<Rightarrow> None
      | Some q \<Rightarrow> (case double_of q of Finite r \<Rightarrow> Some r | _ \<Rightarrow> None))"

definition py_num :: "pyval \<Rightarrow> rat option" where
  "py_num v =
     (case v of
        PBool b \<Rightarrow> Some (of_bool b)
      | PInt i \<Rightarrow> Some (of_int i)
      | PFloat s \<Rightarrow> float_value s
      | _ \<Rightarrow> None)"

text \<open>Python's \<open>v == n\<close> for an integer \<open>n\<close>: true of equal floats and booleans as well.\<close>

definition py_eq_int :: "pyval \<Rightarrow> int \<Rightarrow> bool" where
  "py_eq_int v n \<longleftrightarrow> py_num v = Some (of_int n)"

lemma py_eq_int_PInt [py_simps]: "py_eq_int (PInt i) n \<longleftrightarrow> i = n"
  by (simp add: py_eq_int_def py_num_def)

lemma py_eq_int_other [py_simps]:
  "\<not> py_eq_int PNone n" "\<not> py_eq_int (PStr s) n" "\<not> py_eq_int (PBytes s) n"
  "\<not> py_eq_int (PList l) n" "\<not> py_eq_int (PDict d) n"
  by (simp_all add: py_eq_int_def py_num_def)

definition trunc_rat :: "rat \<Rightarrow> int" where
  "trunc_rat q = (if 0 \<le> q then floor q else - floor (- q))"

text \<open>\<open>int(v)\<close>.\<close>

definition py_int :: "pyval \<Rightarrow> int result" where
  "py_int v =
     (case v of
        PInt i \<Rightarrow> Inr i
      | PBool b \<Rightarrow> Inr (of_bool b)
      | PFloat s \<Rightarrow>
          (case float_value s of
             Some q \<Rightarrow> Inr (trunc_rat q)
           | None \<Rightarrow> if s = ''NaN'' then Inl (PyExc ''ValueError'' ''cannot convert float NaN to integer'')
                     else Inl (PyExc ''OverflowError'' ''cannot convert float infinity to integer''))
      | PStr s \<Rightarrow> (case py_int_of_str s of
                    Some i \<Rightarrow> Inr i | None \<Rightarrow> Inl (PyExc ''ValueError'' ''invalid literal for int() with base 10''))
      | PBytes s \<Rightarrow> (case py_int_of_str s of
                    Some i \<Rightarrow> Inr i | None \<Rightarrow> Inl (PyExc ''ValueError'' ''invalid literal for int() with base 10''))
      | _ \<Rightarrow> Inl (PyExc ''TypeError'' ''int() argument must be a string, a bytes-like object or a real number''))"

section \<open>str() and repr()\<close>

definition hex2 :: "nat \<Rightarrow> string" where
  "hex2 n = [hex_char (n div 16), hex_char (n mod 16)]"

definition repr_char :: "char \<Rightarrow> char \<Rightarrow> string" where
  "repr_char q c =
     (let n = (of_char c :: nat) in
      if c = q \<or> n = 92 then [char_of (92::nat), c]
      else if n = 9 then [char_of (92::nat), CHR ''t'']
      else if n = 10 then [char_of (92::nat), CHR ''n'']
      else if n = 13 then [char_of (92::nat), CHR ''r'']
      else if n < 32 \<or> n = 127 then char_of (92::nat) # CHR ''x'' # hex2 n
      else [c])"

definition quote_char :: "string \<Rightarrow> char" where
  "quote_char s =
     (if char_of (39::nat) \<in> set s \<and> char_of (34::nat) \<notin> set s
      then char_of (34::nat) else char_of (39::nat))"

definition repr_str :: "string \<Rightarrow> string" where
  "repr_str s = (let q = quote_char s in q # concat (map (repr_char q) s) @ [q])"

definition repr_byte :: "char \<Rightarrow> char \<Rightarrow> string" where
  "repr_byte q c =
     (if 128 \<le> (of_char c :: nat) then char_of (92::nat) # CHR ''x'' # hex2 (of_char c)
      else repr_char q c)"

definition repr_bytes :: "string \<Rightarrow> string" where
  "repr_bytes s = (let q = quote_char s in CHR ''b'' # q # concat (map (repr_byte q) s) @ [q])"

fun py_repr :: "pyval \<Rightarrow> string"
  and py_repr_list :: "pyval list \<Rightarrow> string list"
  and py_repr_items :: "(string \<times> pyval) list \<Rightarrow> string list" where
  "py_repr PNone = ''None''"
| "py_repr (PBool b) = (if b then ''True'' else ''False'')"
| "py_repr (PInt i) = int_str i"
| "py_repr (PFloat s) = s"
| "py_repr (PStr s) = repr_str s"
| "py_repr (PBytes s) = repr_bytes s"
| "py_repr (PList vs) = ''['' @ join '', '' (py_repr_list vs) @ '']''"
| "py_repr (PDict kvs) = ''{'' @ join '', '' (py_repr_items kvs) @ ''}''"
| "py_repr_list [] = []"
| "py_repr_list (v # vs) = py_repr v # py_repr_list vs"
| "py_repr_items [] = []"
| "py_repr_items ((k, v) # kvs) = (repr_str k @ '': '' @ py_repr v) # py_repr_items kvs"

definition py_str :: "pyval \<Rightarrow> string" where
  "py_str v = (case v of PStr s \<Rightarrow> s | _ \<Rightarrow> py_repr v)"

definition py_truthy :: "pyval \<Rightarrow> bool" where
  "py_truthy v =
     (case v of
        PNone \<Rightarrow> False | PBool b \<Rightarrow> b | PInt i \<Rightarrow> i \<noteq> 0
      | PFloat s \<Rightarrow> float_value s \<noteq> Some 0
      | PStr s \<Rightarrow> s \<noteq> [] | PBytes s \<Rightarrow> s \<noteq> []
      | PList l \<Rightarrow> l \<noteq> [] | PDict d \<Rightarrow> d \<noteq> [])"

end
