(* ===== verification/Utf8.thy ===== *)
theory Utf8
  imports Prelude
begin

text \<open>
  The text encodings the program uses from the standard library: \<open>bytes.decode()\<close> (strict
  UTF-8) and \<open>str.encode()\<close>. A Python \<open>str\<close> is modelled by its UTF-8 bytes, so both
  are the identity on valid input and raise on the rest. \<open>codepoints\<close> and \<open>encode_cp\<close>
  relate such a string to its code points, which the JSON encoder escapes one by one.
\<close>

section \<open>One code point\<close>

abbreviation ord :: "char \<Rightarrow> nat" where
  "ord c \<equiv> of_char c"

abbreviation chr :: "nat \<Rightarrow> char" where
  "chr n \<equiv> char_of n"

lemma ord_chr [simp]: "n < 256 \<Longrightarrow> ord (chr n) = n"
  by simp

definition is_cont :: "char \<Rightarrow> bool" where
  "is_cont c \<longleftrightarrow> 128 \<le> ord c \<and> ord c < 192"

definition is_surrogate :: "nat \<Rightarrow> bool" where
  "is_surrogate n \<longleftrightarrow> 55296 \<le> n \<and> n < 57344"

text \<open>
  The first code point of a byte string and the rest, or None where the bytes are not
  well-formed: overlong forms, surrogates, values above U+10FFFF, missing or wrong
  continuation bytes.
\<close>

definition decode2 :: "nat \<Rightarrow> string \<Rightarrow> (nat \<times> string) option" where
  "decode2 a cs =
     (case cs of
        c1 # r \<Rightarrow> (if is_cont c1 then Some ((a - 192) * 64 + (ord c1 - 128), r) else None)
      | _ \<Rightarrow> None)"

definition decode3 :: "nat \<Rightarrow> string \<Rightarrow> (nat \<times> string) option" where
  "decode3 a cs =
     (case cs of
        c1 # c2 # r \<Rightarrow>
          (let n = ((a - 224) * 64 + (ord c1 - 128)) * 64 + (ord c2 - 128) in
           if is_cont c1 \<and> is_cont c2 \<and> 2048 \<le> n \<and> \<not> is_surrogate n
           then Some (n, r) else None)
      | _ \<Rightarrow> None)"

definition decode4 :: "nat \<Rightarrow> string \<Rightarrow> (nat \<times> string) option" where
  "decode4 a cs =
     (case cs of
        c1 # c2 # c3 # r \<Rightarrow>
          (let n = (((a - 240) * 64 + (ord c1 - 128)) * 64 + (ord c2 - 128)) * 64
                   + (ord c3 - 128) in
           if is_cont c1 \<and> is_cont c2 \<and> is_cont c3 \<and> 65536 \<le> n \<and> n < 1114112
           then Some (n, r) else None)
      | _ \<Rightarrow> None)"

definition decode_cp :: "string \<Rightarrow> (nat \<times> string) option" where
  "decode_cp s =
     (case s of
        [] \<Rightarrow> None
      | c # cs \<Rightarrow>
          (let a = ord c in
           if a < 128 then Some (a, cs)
           else if 194 \<le> a \<and> a < 224 then decode2 a cs
           else if 224 \<le> a \<and> a < 240 then decode3 a cs
           else if 240 \<le> a \<and> a < 248 then decode4 a cs
           else None))"

definition encode_cp :: "nat \<Rightarrow> string" where
  "encode_cp n =
     (if n < 128 then [chr n]
      else if n < 2048 then [chr (192 + n div 64), chr (128 + n mod 64)]
      else if n < 65536 then
        [chr (224 + n div 4096), chr (128 + n div 64 mod 64), chr (128 + n mod 64)]
      else [chr (240 + n div 262144), chr (128 + n div 4096 mod 64),
            chr (128 + n div 64 mod 64), chr (128 + n mod 64)])"

definition is_scalar :: "nat \<Rightarrow> bool" where
  "is_scalar n \<longleftrightarrow> n < 1114112 \<and> \<not> is_surrogate n"

lemma decode_cp_shorter: "decode_cp s = Some (n, r) \<Longrightarrow> length r < length s"
  by (auto simp: decode_cp_def decode2_def decode3_def decode4_def Let_def
           split: list.splits if_splits)

lemma encode_cp_nonempty [simp]: "encode_cp n \<noteq> []"
  by (simp add: encode_cp_def)

lemma cont_chr: "n < 64 \<Longrightarrow> is_cont (chr (128 + n))"
  by (simp add: is_cont_def)

lemma split64: "(n div 64 :: nat) * 64 + n mod 64 = n"
  by simp

lemma div4096: "(n :: nat) div 4096 = n div 64 div 64"
  by (simp add: div_mult2_eq [symmetric])

lemma div262144: "(n :: nat) div 262144 = n div 64 div 64 div 64"
  by (simp add: div_mult2_eq [symmetric])

lemma split4096: "4096 * (n div 4096 :: nat) + n div 64 mod 64 * 64 + n mod 64 = n"
  using split64 [of n] split64 [of "n div 64"] unfolding div4096 by linarith

lemma split262144:
  "262144 * (n div 262144 :: nat) + 4096 * (n div 4096 mod 64) + n div 64 mod 64 * 64 + n mod 64 = n"
  using split64 [of n] split64 [of "n div 64"] split64 [of "n div 64 div 64"]
  unfolding div262144 div4096 by linarith

lemma digit64: "k < 64 \<Longrightarrow> (h * 64 + k) div 64 = h" "k < 64 \<Longrightarrow> (h * 64 + k) mod 64 = (k :: nat)"
  by simp_all

text \<open>Decoding what was encoded, with any suffix.\<close>

lemma decode_encode_cp:
  assumes "is_scalar n"
  shows "decode_cp (encode_cp n @ s) = Some (n, s)"
proof -
  consider "n < 128" | "128 \<le> n" "n < 2048" | "2048 \<le> n" "n < 65536" | "65536 \<le> n"
    by linarith
  then show ?thesis
  proof cases
    case 1
    then show ?thesis by (simp add: decode_cp_def encode_cp_def)
  next
    case 2
    then have "2 \<le> n div 64" "n div 64 < 32" by auto
    with 2 show ?thesis
      by (simp add: decode_cp_def encode_cp_def decode2_def is_cont_def split64)
  next
    case 3
    then have d: "n div 4096 < 16" by auto
    have c: "ord (chr (224 + n div 4096)) = 224 + n div 4096" using d by simp
    from 3 d assms show ?thesis
      by (simp add: decode_cp_def encode_cp_def decode3_def is_cont_def split4096 c
                    is_scalar_def Let_def)
  next
    case 4
    with assms have n: "n < 1114112" by (simp add: is_scalar_def)
    then have d: "n div 262144 < 5" by auto
    have c: "ord (chr (240 + n div 262144)) = 240 + n div 262144" using d by simp
    from 4 d n show ?thesis
      by (simp add: decode_cp_def encode_cp_def decode4_def is_cont_def split262144 c Let_def)
  qed
qed


text \<open>Encoding what was decoded.\<close>

lemma chr_ord [simp]: "chr (ord c) = c"
  by (rule char_of_char)

lemma cont_byte: "is_cont c \<Longrightarrow> \<exists>k. k < 64 \<and> c = chr (128 + k) \<and> ord c = 128 + k"
proof -
  assume "is_cont c"
  then have "ord c - 128 < 64" "ord c = 128 + (ord c - 128)" by (auto simp: is_cont_def)
  then show ?thesis by (metis chr_ord)
qed

lemma lead_byte: "b \<le> ord c \<Longrightarrow> \<exists>k. c = chr (b + k) \<and> ord c = b + k"
  by (metis chr_ord le_Suc_ex)

lemma decode2_encode:
  assumes "decode2 a cs = Some (n, r)" "194 \<le> a" "a < 224"
  shows "chr a # cs = encode_cp n @ r \<and> is_scalar n"
proof -
  obtain c1 where cs: "cs = c1 # r" "is_cont c1" "n = (a - 192) * 64 + (ord c1 - 128)"
    using assms(1) by (auto simp: decode2_def split: list.splits if_splits)
  obtain k where k: "k < 64" "c1 = chr (128 + k)" "ord c1 = 128 + k"
    using cont_byte [OF cs(2)] by blast
  obtain h where h: "a = 192 + h" "2 \<le> h" "h < 32" using assms(2,3)
    by (intro that [of "a - 192"]) auto
  have n: "n = h * 64 + k" "n div 64 = h" "n mod 64 = k" using cs(3) k h by auto
  have "128 \<le> n" "n < 2048" using n h k by linarith+
  with n k h cs show ?thesis by (simp add: encode_cp_def is_scalar_def is_surrogate_def)
qed

lemma decode3_encode:
  assumes "decode3 a cs = Some (n, r)" "224 \<le> a" "a < 240"
  shows "chr a # cs = encode_cp n @ r \<and> is_scalar n"
proof -
  obtain c1 c2 where cs: "cs = c1 # c2 # r" "is_cont c1" "is_cont c2"
      "n = ((a - 224) * 64 + (ord c1 - 128)) * 64 + (ord c2 - 128)"
      "2048 \<le> n" "\<not> is_surrogate n"
    using assms(1) by (auto simp: decode3_def Let_def split: list.splits if_splits)
  obtain k where k: "k < 64" "c1 = chr (128 + k)" "ord c1 = 128 + k"
    using cont_byte [OF cs(2)] by blast
  obtain l where l: "l < 64" "c2 = chr (128 + l)" "ord c2 = 128 + l"
    using cont_byte [OF cs(3)] by blast
  obtain h where h: "a = 224 + h" "h < 16" using assms(2,3)
    by (intro that [of "a - 224"]) auto
  have n: "n = (h * 64 + k) * 64 + l" using cs(4) k l h by simp
  have d: "n mod 64 = l" "n div 4096 = h" "n div 64 mod 64 = k"
    unfolding n div4096 by (simp_all only: digit64 [OF k(1)] digit64 [OF l(1)])
  have "n < 65536" unfolding n using h(2) k(1) l(1) by auto
  have "encode_cp n = [chr a, c1, c2]"
    unfolding encode_cp_def d using cs(5) \<open>n < 65536\<close> by (simp add: k(2) l(2) h(1))
  moreover have "is_scalar n" using cs(6) \<open>n < 65536\<close> by (simp add: is_scalar_def)
  ultimately show ?thesis using cs(1) by simp
qed

lemma decode4_encode:
  assumes "decode4 a cs = Some (n, r)" "240 \<le> a" "a < 248"
  shows "chr a # cs = encode_cp n @ r \<and> is_scalar n"
proof -
  obtain c1 c2 c3 where cs: "cs = c1 # c2 # c3 # r" "is_cont c1" "is_cont c2" "is_cont c3"
      "n = (((a - 240) * 64 + (ord c1 - 128)) * 64 + (ord c2 - 128)) * 64 + (ord c3 - 128)"
      "65536 \<le> n" "n < 1114112"
    using assms(1) by (auto simp: decode4_def Let_def split: list.splits if_splits)
  obtain k where k: "k < 64" "c1 = chr (128 + k)" "ord c1 = 128 + k"
    using cont_byte [OF cs(2)] by blast
  obtain l where l: "l < 64" "c2 = chr (128 + l)" "ord c2 = 128 + l"
    using cont_byte [OF cs(3)] by blast
  obtain m where m: "m < 64" "c3 = chr (128 + m)" "ord c3 = 128 + m"
    using cont_byte [OF cs(4)] by blast
  obtain h where h: "a = 240 + h" "h < 8" using assms(2,3)
    by (intro that [of "a - 240"]) auto
  have n: "n = ((h * 64 + k) * 64 + l) * 64 + m" using cs(5) k l m h by simp
  have d: "n div 262144 = h" "n div 4096 mod 64 = k" "n div 64 mod 64 = l" "n mod 64 = m"
    unfolding n div4096 div262144
    by (simp_all only: digit64 [OF k(1)] digit64 [OF l(1)] digit64 [OF m(1)])
  have "encode_cp n = [chr a, c1, c2, c3]"
    unfolding encode_cp_def d using cs(6) by (simp add: k(2) l(2) m(2) h(1))
  moreover have "is_scalar n" using cs(6,7) by (simp add: is_scalar_def is_surrogate_def)
  ultimately show ?thesis using cs(1) by simp
qed

lemma encode_decode_cp:
  assumes "decode_cp s = Some (n, r)"
  shows "s = encode_cp n @ r \<and> is_scalar n"
proof -
  obtain c cs where s: "s = c # cs"
    using assms by (cases s) (auto simp: decode_cp_def)
  show ?thesis
  proof (cases "ord c < 128")
    case True
    with assms s show ?thesis
      by (auto simp: decode_cp_def encode_cp_def is_scalar_def is_surrogate_def)
  next
    case False
    with assms s show ?thesis
      using decode2_encode [of "ord c" cs n r] decode3_encode [of "ord c" cs n r]
        decode4_encode [of "ord c" cs n r]
      by (auto simp: decode_cp_def Let_def split: if_splits)
  qed
qed

section \<open>Whole strings\<close>

function utf8_valid :: "string \<Rightarrow> bool" where
  "utf8_valid s =
     (if s = [] then True
      else (case decode_cp s of None \<Rightarrow> False | Some (n, r) \<Rightarrow> utf8_valid r))"
  by pat_completeness auto
termination
  by (relation "measure length") (auto dest: decode_cp_shorter)

declare utf8_valid.simps [simp del]

function codepoints :: "string \<Rightarrow> nat list" where
  "codepoints s =
     (case decode_cp s of None \<Rightarrow> [] | Some (n, r) \<Rightarrow> n # codepoints r)"
  by pat_completeness auto
termination
  by (relation "measure length") (auto dest: decode_cp_shorter)

declare codepoints.simps [simp del]

definition encode_cps :: "nat list \<Rightarrow> string" where
  "encode_cps ns = concat (map encode_cp ns)"

lemma encode_cps_simps [simp]:
  "encode_cps [] = []" "encode_cps (n # ns) = encode_cp n @ encode_cps ns"
  "encode_cps (ns @ ms) = encode_cps ns @ encode_cps ms"
  by (simp_all add: encode_cps_def)

lemma utf8_valid_Nil [simp]: "utf8_valid []"
  by (simp add: utf8_valid.simps)

lemma utf8_valid_encode [simp]:
  "is_scalar n \<Longrightarrow> utf8_valid (encode_cp n @ s) \<longleftrightarrow> utf8_valid s"
  by (subst utf8_valid.simps) (simp add: decode_encode_cp)

lemma utf8_valid_iff:
  "utf8_valid s \<longleftrightarrow> (\<exists>ns. s = encode_cps ns \<and> (\<forall>n \<in> set ns. is_scalar n))"
proof (induction s rule: utf8_valid.induct)
  case (1 s)
  show ?case
  proof (cases "s = [] \<or> decode_cp s = None")
    case True
    have "\<not> (\<exists>ns. s = encode_cps ns \<and> (\<forall>n \<in> set ns. is_scalar n))"
      if "decode_cp s = None" "s \<noteq> []"
    proof
      assume "\<exists>ns. s = encode_cps ns \<and> (\<forall>n \<in> set ns. is_scalar n)"
      then obtain ns where ns: "s = encode_cps ns" "\<forall>n \<in> set ns. is_scalar n" by blast
      with that(2) obtain m ms where "ns = m # ms" by (cases ns) auto
      with ns that(1) show False by (simp add: decode_encode_cp)
    qed
    with True show ?thesis
      by (subst utf8_valid.simps) (auto intro: exI [of _ "[]"])
  next
    case False
    then obtain n r where d: "decode_cp s = Some (n, r)" by auto
    note e = encode_decode_cp [OF d]
    have IH: "utf8_valid r \<longleftrightarrow> (\<exists>ns. r = encode_cps ns \<and> (\<forall>n \<in> set ns. is_scalar n))"
      using "1" False d by simp
    have "utf8_valid s \<longleftrightarrow> utf8_valid r"
      using False d by (subst utf8_valid.simps) simp
    moreover have "(\<exists>ns. s = encode_cps ns \<and> (\<forall>n \<in> set ns. is_scalar n)) \<longleftrightarrow>
        (\<exists>ns. r = encode_cps ns \<and> (\<forall>n \<in> set ns. is_scalar n))"
    proof
      assume "\<exists>ns. s = encode_cps ns \<and> (\<forall>n \<in> set ns. is_scalar n)"
      then obtain ns where ns: "s = encode_cps ns" "\<forall>n \<in> set ns. is_scalar n" by blast
      with False obtain m ms where m: "ns = m # ms" by (cases ns) auto
      with ns d have "r = encode_cps ms" by (simp add: decode_encode_cp)
      with ns m show "\<exists>ns. r = encode_cps ns \<and> (\<forall>n \<in> set ns. is_scalar n)" by auto
    next
      assume "\<exists>ns. r = encode_cps ns \<and> (\<forall>n \<in> set ns. is_scalar n)"
      then obtain ns where "r = encode_cps ns" "\<forall>n \<in> set ns. is_scalar n" by blast
      with e show "\<exists>ns. s = encode_cps ns \<and> (\<forall>n \<in> set ns. is_scalar n)"
        by (intro exI [of _ "n # ns"]) simp
    qed
    ultimately show ?thesis using IH by simp
  qed
qed

lemma codepoints_encode [simp]:
  "\<forall>n \<in> set ns. is_scalar n \<Longrightarrow> codepoints (encode_cps ns) = ns"
proof (induction ns)
  case Nil
  show ?case by (subst codepoints.simps) (simp add: decode_cp_def)
next
  case (Cons n ns)
  then show ?case by (subst codepoints.simps) (simp add: decode_encode_cp)
qed

lemma utf8_valid_append: "utf8_valid s \<Longrightarrow> utf8_valid t \<Longrightarrow> utf8_valid (s @ t)"
proof -
  assume "utf8_valid s" "utf8_valid t"
  then obtain ns ms where "s = encode_cps ns" "t = encode_cps ms"
      "\<forall>n \<in> set ns \<union> set ms. is_scalar n"
    unfolding utf8_valid_iff by blast
  then show ?thesis
    unfolding utf8_valid_iff by (intro exI [of _ "ns @ ms"]) auto
qed

lemma ascii_utf8_valid: "\<forall>c \<in> set s. ord c < 128 \<Longrightarrow> utf8_valid s"
proof (induction s)
  case (Cons c s)
  then show ?case by (subst utf8_valid.simps) (simp add: decode_cp_def)
qed simp

text \<open>\<open>bytes.decode()\<close>.\<close>

definition py_decode :: "string \<Rightarrow> string result" where
  "py_decode bs =
     (if utf8_valid bs then Inr bs
      else Inl (PyExc ''UnicodeDecodeError'' ''utf-8 codec can't decode bytes''))"

end
