(* ===== verification/Wire.thy ===== *)
theory Wire
  imports Utf8 "HOL-Library.Word"
begin

unbundle bit_operations_syntax

text \<open>
  The byte level of tools/usb_rpc_smoke.py: struct.pack and struct.unpack of big-endian
  fields, the CRC of a serial packet, base64 lines, and the framing of an SMP packet. A byte
  is an \<open>8 word\<close>; the CRC register is a \<open>16 word\<close>, whose wrap-around is the code's
  mask with 0xFFFF.
\<close>

type_synonym byte = "8 word"
type_synonym bytes = "byte list"

named_theorems wire_simps \<open>layout of fixed-width fields\<close>

section \<open>struct.pack and struct.unpack, big endian\<close>

definition struct_error :: "string \<Rightarrow> exc" where
  "struct_error m = PyExc ''struct.error'' m"

definition pack_B :: "int \<Rightarrow> bytes result" where
  "pack_B n = (if 0 \<le> n \<and> n < 256 then Inr [word_of_int n]
     else Inl (struct_error ''ubyte format requires 0 <= number <= 255''))"

definition pack_H :: "int \<Rightarrow> bytes result" where
  "pack_H n = (if 0 \<le> n \<and> n < 65536 then Inr [word_of_int (n div 256), word_of_int n]
     else Inl (struct_error ''ushort format requires 0 <= number <= 65535''))"

definition pack_I :: "int \<Rightarrow> bytes result" where
  "pack_I n = (if 0 \<le> n \<and> n < 4294967296
     then Inr [word_of_int (n div 16777216), word_of_int (n div 65536), word_of_int (n div 256),
               word_of_int n]
     else Inl (struct_error ''argument out of range''))"

text \<open>An unsigned big-endian field of any length.\<close>

definition unpack_be :: "bytes \<Rightarrow> int" where
  "unpack_be bs = foldl (\<lambda>a b. 256 * a + uint b) 0 bs"

lemma uint_byte_mod [wire_simps]: "uint (word_of_int n :: byte) = n mod 256"
  by (simp add: uint_word_of_int)

lemma unpack_be_pack_H: "pack_H n = Inr bs \<Longrightarrow> unpack_be bs = n \<and> length bs = 2"
  by (auto simp: pack_H_def unpack_be_def wire_simps split: if_splits)

lemma pack_I_digits:
  assumes "0 \<le> n" "n < (4294967296 :: int)"
  shows "256 * (256 * (256 * (n div 16777216 mod 256) + n div 65536 mod 256) + n div 256 mod 256)
    + n mod 256 = n"
proof -
  have "n div 65536 = n div 256 div 256" "n div 16777216 = n div 256 div 256 div 256"
    using assms by (simp_all add: zdiv_zmult2_eq [symmetric])
  moreover have "n div 256 div 256 div 256 mod 256 = n div 256 div 256 div 256"
    using assms by (intro mod_pos_pos_trivial) (simp_all add: zdiv_zmult2_eq [symmetric])
  moreover have "256 * (m div 256) + m mod 256 = m" for m :: int by simp
  ultimately show ?thesis by (simp only:)
qed

lemma unpack_be_pack_I:
  assumes "pack_I n = Inr bs"
  shows "unpack_be bs = n \<and> length bs = 4"
proof -
  have n: "0 \<le> n" "n < 4294967296"
    and bs: "bs = [word_of_int (n div 16777216), word_of_int (n div 65536),
                   word_of_int (n div 256), word_of_int n]"
    using assms by (auto simp: pack_I_def split: if_splits)
  have "unpack_be bs = 256 * (256 * (256 * (n div 16777216 mod 256) + n div 65536 mod 256)
      + n div 256 mod 256) + n mod 256"
    by (simp only: bs unpack_be_def foldl.simps uint_byte_mod mult_zero_right add_0_left)
  with pack_I_digits [OF n] have "unpack_be bs = n" by (simp only:)
  then show ?thesis by (simp add: bs)
qed

lemma unpack_be_single [simp]: "unpack_be [b] = uint b"
  by (simp add: unpack_be_def)

section \<open>CRC-16 of a serial packet\<close>

definition crc_bit :: "16 word \<Rightarrow> 16 word" where
  "crc_bit crc = (if crc AND 0x8000 \<noteq> 0 then push_bit 1 crc XOR 0x1021 else push_bit 1 crc)"

definition crc_shift8 :: "16 word \<Rightarrow> 16 word" where
  "crc_shift8 crc = (crc_bit ^^ 8) crc"

definition crc_byte :: "16 word \<Rightarrow> byte \<Rightarrow> 16 word" where
  "crc_byte crc b = crc_shift8 (crc XOR push_bit 8 (ucast b))"

definition crc16_itu_t :: "bytes \<Rightarrow> 16 word \<Rightarrow> 16 word" where
  "crc16_itu_t data seed = foldl crc_byte seed data"

lemma crc16_append: "crc16_itu_t (a @ b) seed = crc16_itu_t b (crc16_itu_t a seed)"
  by (simp add: crc16_itu_t_def)

text \<open>One shift is linear and injective: the polynomial's low bit records the bit shifted out.\<close>

lemma crc_bit_nth:
  "bit (crc_bit c) n \<longleftrightarrow> n < 16 \<and>
     (((0 < n) \<and> bit c (n - 1)) \<noteq> (bit c 15 \<and> (n = 0 \<or> n = 5 \<or> n = 12)))"
proof -
  have top: "c AND 0x8000 \<noteq> 0 \<longleftrightarrow> bit c 15"
    using and_exp_eq_0_iff_not_bit [of c 15] by simp
  have poly: "bit (0x1021 :: 16 word) m \<longleftrightarrow> m = 0 \<or> m = 5 \<or> m = 12" for m
  proof -
    have "(0x1021 :: 16 word) = push_bit 12 1 OR push_bit 5 1 OR 1" by code_simp
    then have "bit (0x1021 :: 16 word) m
        \<longleftrightarrow> bit (push_bit 12 1 OR push_bit 5 1 OR 1 :: 16 word) m" by (simp only:)
    then show ?thesis
      unfolding bit_or_iff bit_push_bit_iff bit_1_iff by auto
  qed
  have shift: "bit (push_bit 1 c) n \<longleftrightarrow> n < 16 \<and> 0 < n \<and> bit c (n - 1)"
    unfolding bit_push_bit_iff by auto
  show ?thesis
    unfolding crc_bit_def top by (cases "bit c 15") (auto simp only: bit_xor_iff shift poly if_True if_False)
qed

lemma crc_bit_xor: "crc_bit (a XOR b) = crc_bit a XOR crc_bit b"
  by (rule bit_eqI) (auto simp: crc_bit_nth bit_simps)

lemma crc_bit_inj: "crc_bit a = crc_bit b \<longleftrightarrow> a = b"
proof
  assume eq: "crc_bit a = crc_bit b"
  then have e: "bit (crc_bit a) n = bit (crc_bit b) n" for n by simp
  have top: "bit a 15 = bit b 15" using e [of 0] by (simp add: crc_bit_nth)
  have "bit a n = bit b n" if "n < 15" for n
    using e [of "Suc n"] top that by (auto simp: crc_bit_nth)
  with top show "a = b"
    by (intro bit_word_eqI) (auto simp: less_Suc_eq numeral_eq_Suc)
qed simp

lemma crc_shift8_xor: "crc_shift8 (a XOR b) = crc_shift8 a XOR crc_shift8 b"
  by (simp add: crc_shift8_def numeral_eq_Suc crc_bit_xor)

lemma crc_shift8_inj: "crc_shift8 a = crc_shift8 b \<longleftrightarrow> a = b"
  by (simp add: crc_shift8_def numeral_eq_Suc crc_bit_inj)


text \<open>The low byte of the register passes through eight shifts unchanged.\<close>

lemma crc_bit_low:
  "\<not> bit c 15 \<Longrightarrow> crc_bit c = push_bit 1 c"
  using and_exp_eq_0_iff_not_bit [of c 15] by (simp only: crc_bit_def) simp

lemma crc_bits_low: "(\<forall>n \<ge> 16 - k. \<not> bit c n) \<Longrightarrow> (crc_bit ^^ k) c = push_bit k c"
proof (induction k)
  case (Suc k)
  then have IH: "(crc_bit ^^ k) c = push_bit k c" by simp
  have "\<not> bit (push_bit k c) 15"
  proof (cases "k \<le> 15")
    case True
    with Suc.prems have "\<not> bit c (15 - k)" by auto
    then show ?thesis by (simp only: bit_push_bit_iff) simp
  next
    case False
    then show ?thesis by (simp only: bit_push_bit_iff) simp
  qed
  with IH show ?case by (simp add: crc_bit_low push_bit_push_bit)
qed simp

lemma crc_shift8_byte: "crc_shift8 (ucast (b :: byte)) = push_bit 8 (ucast b)"
  unfolding crc_shift8_def by (rule crc_bits_low) (auto simp: bit_ucast_iff bit_imp_le_length
      dest: bit_imp_le_length)

lemma xor_cancel: "a XOR c = b XOR c \<longleftrightarrow> a = (b :: 16 word)"
proof
  assume "a XOR c = b XOR c"
  then have "(a XOR c) XOR c = (b XOR c) XOR c" by (simp only:)
  then show "a = b" by (simp add: xor.assoc)
qed simp

lemma crc_byte_inj_seed: "crc_byte s b = crc_byte t b \<longleftrightarrow> s = t"
  by (simp only: crc_byte_def crc_shift8_inj xor_cancel)

lemma crc16_inj_seed: "crc16_itu_t data s = crc16_itu_t data t \<longleftrightarrow> s = t"
  by (induction data arbitrary: s t) (simp_all add: crc16_itu_t_def crc_byte_inj_seed)

text \<open>Two bytes at once: the register absorbs them as one 16-bit value.\<close>

lemma crc_two_bytes:
  "crc_byte (crc_byte s a) b
   = crc_shift8 (crc_shift8 (s XOR (push_bit 8 (ucast a) OR ucast b)))"
proof -
  have "push_bit 8 (ucast a) OR ucast b = (push_bit 8 (ucast a) XOR ucast b :: 16 word)"
    by (rule bit_eqI) (auto simp: bit_push_bit_iff bit_or_iff bit_xor_iff bit_ucast_iff
        dest: bit_imp_le_length)
  then have "crc_shift8 (s XOR (push_bit 8 (ucast a) OR ucast b))
      = crc_shift8 (s XOR push_bit 8 (ucast a)) XOR push_bit 8 (ucast b)"
    by (simp add: xor.assoc [symmetric] crc_shift8_xor crc_shift8_byte)
  then show ?thesis by (simp add: crc_byte_def)
qed


text \<open>Appending the checksum makes the checksum of the whole vanish.\<close>

lemma crc_of_parts:
  "push_bit 8 (ucast (word_of_int (uint c div 256) :: byte))
   OR ucast (word_of_int (uint c) :: byte) = (c :: 16 word)"
proof (rule bit_word_eqI)
  fix n assume n: "n < LENGTH(16)"
  have d: "uint c div 256 = drop_bit 8 (uint c)" by (simp add: drop_bit_eq_div)
  show "bit (push_bit 8 (ucast (word_of_int (uint c div 256) :: byte))
      OR ucast (word_of_int (uint c) :: byte) :: 16 word) n = bit c n"
    using n unfolding d bit_or_iff bit_push_bit_iff
    by (auto simp: bit_ucast_iff bit_word_of_int_iff bit_drop_bit_eq bit_uint_iff)
qed

lemma crc_shift8_zero [simp]: "crc_shift8 0 = 0"
  by (simp add: crc_shift8_def numeral_eq_Suc crc_bit_def)

lemma crc16_self:
  assumes "pack_H (uint (crc16_itu_t data seed)) = Inr tail"
  shows "crc16_itu_t (data @ tail) seed = 0"
proof -
  let ?c = "crc16_itu_t data seed"
  have "tail = [word_of_int (uint ?c div 256), word_of_int (uint ?c)]"
    using assms by (auto simp: pack_H_def split: if_splits)
  then have "crc16_itu_t tail ?c = crc_byte (crc_byte ?c (word_of_int (uint ?c div 256)))
      (word_of_int (uint ?c))"
    by (simp add: crc16_itu_t_def)
  also have "\<dots> = 0"
    unfolding crc_two_bytes crc_of_parts by simp
  finally show ?thesis by (simp only: crc16_append)
qed

lemma pack_H_uint16: "\<exists>bs. pack_H (uint (c :: 16 word)) = Inr bs"
  using uint_lt2p [of c] by (simp add: pack_H_def)

section \<open>base64 lines\<close>

text \<open>The alphabet, the four sextets of three bytes, and the bytes they join to.\<close>

definition byte_of :: "nat \<Rightarrow> byte" where
  "byte_of n = of_nat n"

definition b64_enc6 :: "nat \<Rightarrow> byte" where
  "b64_enc6 n =
     byte_of (if n < 26 then 65 + n else if n < 52 then 71 + n
              else if n < 62 then n - 4 else if n = 62 then 43 else 47)"

definition b64_dec6 :: "byte \<Rightarrow> nat option" where
  "b64_dec6 b =
     (let n = unat b in
      if 65 \<le> n \<and> n \<le> 90 then Some (n - 65)
      else if 97 \<le> n \<and> n \<le> 122 then Some (n - 71)
      else if 48 \<le> n \<and> n \<le> 57 then Some (n + 4)
      else if n = 43 then Some 62 else if n = 47 then Some 63 else None)"

definition sext1 :: "byte \<Rightarrow> nat" where "sext1 a = unat a div 4"
definition sext2 :: "byte \<Rightarrow> byte \<Rightarrow> nat" where "sext2 a b = unat a mod 4 * 16 + unat b div 16"
definition sext3 :: "byte \<Rightarrow> byte \<Rightarrow> nat" where "sext3 b c = unat b mod 16 * 4 + unat c div 64"
definition sext4 :: "byte \<Rightarrow> nat" where "sext4 c = unat c mod 64"

definition join1 :: "nat \<Rightarrow> nat \<Rightarrow> byte" where "join1 l v = byte_of (l * 4 + v div 16)"
definition join2 :: "nat \<Rightarrow> nat \<Rightarrow> byte" where "join2 l v = byte_of (l * 16 + v div 4)"
definition join3 :: "nat \<Rightarrow> nat \<Rightarrow> byte" where "join3 l v = byte_of (l * 64 + v)"

fun b64encode :: "bytes \<Rightarrow> bytes" where
  "b64encode (a # b # c # r) =
     b64_enc6 (sext1 a) # b64_enc6 (sext2 a b) # b64_enc6 (sext3 b c) # b64_enc6 (sext4 c)
     # b64encode r"
| "b64encode [a, b] = [b64_enc6 (sext1 a), b64_enc6 (sext2 a b), b64_enc6 (sext3 b 0), 61]"
| "b64encode [a] = [b64_enc6 (sext1 a), b64_enc6 (sext2 a 0), 61, 61]"
| "b64encode [] = []"

text \<open>
  \<open>base64.b64decode(s, validate=False)\<close>: characters outside the alphabet are skipped, a
  complete padding ends the input, an incomplete quad is an error. \<open>q\<close> is the position
  in the quad, \<open>l\<close> the bits left over, \<open>pads\<close> the padding characters in a row.
\<close>

definition b64_error :: exc where
  "b64_error = PyExc ''binascii.Error'' ''Incorrect padding''"

fun b64_scan :: "nat \<Rightarrow> nat \<Rightarrow> nat \<Rightarrow> bytes \<Rightarrow> bytes \<Rightarrow> bytes result" where
  "b64_scan q l pads out [] = (if q = 0 then Inr out else Inl b64_error)"
| "b64_scan q l pads out (x # xs) =
     (if x = 61 then
        (if 2 \<le> q \<and> 4 \<le> q + (pads + 1) then Inr out
         else b64_scan q l (if 2 \<le> q then pads + 1 else pads) out xs)
      else
        (case b64_dec6 x of
           None \<Rightarrow> b64_scan q l pads out xs
         | Some v \<Rightarrow>
             if q = 0 then b64_scan 1 v 0 out xs
             else if q = 1 then b64_scan 2 (v mod 16) 0 (out @ [join1 l v]) xs
             else if q = 2 then b64_scan 3 (v mod 4) 0 (out @ [join2 l v]) xs
             else b64_scan 0 0 0 (out @ [join3 l v]) xs))"

definition b64decode :: "bytes \<Rightarrow> bytes result" where
  "b64decode s = b64_scan 0 0 0 [] s"

lemma unat_byte_less [simp]: "unat (b :: byte) < 256"
  by (rule order_less_le_trans [OF unsigned_less]) simp

lemma unat_byte_of: "n < 256 \<Longrightarrow> unat (byte_of n) = n"
  by (simp add: byte_of_def unat_of_nat)

lemma byte_of_unat [simp]: "byte_of (unat b) = b"
  by (simp add: byte_of_def)

lemma unat_b64_enc6: "n < 64 \<Longrightarrow> unat (b64_enc6 n) =
    (if n < 26 then 65 + n else if n < 52 then 71 + n
     else if n < 62 then n - 4 else if n = 62 then 43 else 47)"
  unfolding b64_enc6_def by (rule unat_byte_of) auto

lemma b64_dec_enc [simp]: "n < 64 \<Longrightarrow> b64_dec6 (b64_enc6 n) = Some n"
  by (auto simp: b64_dec6_def unat_b64_enc6 Let_def)

lemma b64_enc_range: "n < 64 \<Longrightarrow> 43 \<le> unat (b64_enc6 n) \<and> unat (b64_enc6 n) \<noteq> 61"
  by (auto simp: unat_b64_enc6)

lemma b64_enc_not_pad [simp]: "n < 64 \<Longrightarrow> b64_enc6 n \<noteq> 61"
  using b64_enc_range [of n] by auto

lemma sext_less [simp]: "sext1 a < 64" "sext2 a b < 64" "sext3 b c < 64" "sext4 c < 64"
  using unat_byte_less [of a] unat_byte_less [of b] unat_byte_less [of c]
  unfolding sext1_def sext2_def sext3_def sext4_def by linarith+

lemma join_sext [simp]:
  "join1 (sext1 a) (sext2 a b) = a"
  "join2 (sext2 a b mod 16) (sext3 b c) = b"
  "join3 (sext3 b c mod 4) (sext4 c) = c"
proof -
  have b: "unat b div 16 < 16" and c: "unat c div 64 < 4"
    using unat_byte_less [of b] unat_byte_less [of c] by linarith+
  have "unat a div 4 * 4 + (unat a mod 4 * 16 + unat b div 16) div 16 = unat a"
    using b by simp
  then show "join1 (sext1 a) (sext2 a b) = a"
    unfolding join1_def sext1_def sext2_def by (simp only: byte_of_unat)
  have "(unat a mod 4 * 16 + unat b div 16) mod 16 * 16 + (unat b mod 16 * 4 + unat c div 64) div 4
      = unat b"
    using b c by simp
  then show "join2 (sext2 a b mod 16) (sext3 b c) = b"
    unfolding join2_def sext2_def sext3_def by (simp only: byte_of_unat)
  have "(unat b mod 16 * 4 + unat c div 64) mod 4 * 64 + unat c mod 64 = unat c"
    using c by simp
  then show "join3 (sext3 b c mod 4) (sext4 c) = c"
    unfolding join3_def sext3_def sext4_def by (simp only: byte_of_unat)
qed

lemma b64_scan_encode: "b64_scan 0 l pads out (b64encode bs) = Inr (out @ bs)"
proof (induction bs arbitrary: l pads out rule: b64encode.induct)
  case (1 a b c r)
  show ?case by (simp add: 1)
qed simp_all

lemma b64decode_encode [simp]: "b64decode (b64encode bs) = Inr bs"
  by (simp add: b64decode_def b64_scan_encode)


section \<open>Serial frames\<close>

definition SERIAL_HDR_PKT :: int where "SERIAL_HDR_PKT = 0x0609"
definition SERIAL_HDR_FRAG :: int where "SERIAL_HDR_FRAG = 0x0414"

definition serial_frame :: "bytes \<Rightarrow> bytes result" where
  "serial_frame packet =
     (case pack_H (int (length packet) + 2) of
        Inl e \<Rightarrow> Inl e
      | Inr len \<Rightarrow>
          (case pack_H (uint (crc16_itu_t packet 0)) of
             Inl e \<Rightarrow> Inl e
           | Inr crc \<Rightarrow>
               (case pack_H SERIAL_HDR_PKT of
                  Inl e \<Rightarrow> Inl e
                | Inr hdr \<Rightarrow> Inr (hdr @ b64encode (len @ packet @ crc) @ [10]))))"

definition is_bspace :: "byte \<Rightarrow> bool" where
  "is_bspace b \<longleftrightarrow> unat b = 32 \<or> (9 \<le> unat b \<and> unat b \<le> 13)"

definition bstrip :: "bytes \<Rightarrow> bytes" where
  "bstrip s = rev (dropWhile is_bspace (rev (dropWhile is_bspace s)))"

text \<open>
  \<open>decoded_frames\<close>: the loop over the lines read, with the announced length (None before
  the first packet frame) and the bytes collected so far.
\<close>

definition frame_error :: "string \<Rightarrow> exc" where
  "frame_error m = PyExc ''ValueError'' m"

definition packet_complete :: "int option \<Rightarrow> bytes \<Rightarrow> bytes result option" where
  "packet_complete packet_len decoded =
     (case packet_len of
        None \<Rightarrow> None
      | Some n \<Rightarrow>
          if int (length decoded) < n then None
          else if int (length decoded) \<noteq> n
          then Some (Inl (frame_error ''received more bytes than the SMP packet length''))
          else if crc16_itu_t decoded 0 \<noteq> 0
          then Some (Inl (frame_error ''bad SMP serial CRC''))
          else Some (Inr (take (length decoded - 2) decoded)))"

text \<open>One line: None where the loop goes on to the next with this length and these bytes.\<close>

definition frame_line ::
    "int option \<Rightarrow> bytes \<Rightarrow> bytes \<Rightarrow> (int option \<times> bytes) + bytes result" where
  "frame_line packet_len decoded raw =
     (let line = bstrip raw; marker = unpack_be (take 2 line) in
      if length line < 2 then Inl (packet_len, decoded)
      else if marker \<noteq> SERIAL_HDR_PKT \<and> marker \<noteq> SERIAL_HDR_FRAG then Inl (packet_len, decoded)
      else
        (case b64decode (drop 2 line) of
           Inl e \<Rightarrow> Inr (Inl e)
         | Inr fragment \<Rightarrow>
             if marker = SERIAL_HDR_PKT \<and> length fragment < 2
             then Inr (Inl (frame_error ''serial packet frame is missing length''))
             else
               (let len' = (if marker = SERIAL_HDR_PKT then Some (unpack_be (take 2 fragment))
                            else packet_len);
                    dec' = (if marker = SERIAL_HDR_PKT then drop 2 fragment
                            else decoded @ fragment)
                in case packet_complete len' dec' of
                     None \<Rightarrow> Inl (len', dec')
                   | Some r \<Rightarrow> Inr r)))"

fun frames_loop :: "string \<Rightarrow> int option \<Rightarrow> bytes \<Rightarrow> bytes list \<Rightarrow> bytes result" where
  "frames_loop nt packet_len decoded [] = Inl (PyExc ''TimeoutError'' nt)"
| "frames_loop nt packet_len decoded (raw # lines) =
     (if raw = [] then Inl (PyExc ''TimeoutError'' nt)
      else (case frame_line packet_len decoded raw of
              Inl (len', dec') \<Rightarrow> frames_loop nt len' dec' lines
            | Inr r \<Rightarrow> r))"

definition decoded_frames :: "bytes list \<Rightarrow> string \<Rightarrow> bytes result" where
  "decoded_frames lines timeout_note = frames_loop timeout_note None [] lines"

lemma b64_not_space [simp]: "n < 64 \<Longrightarrow> \<not> is_bspace (b64_enc6 n)"
  using b64_enc_range [of n] by (auto simp: is_bspace_def)

lemma b64encode_no_space: "\<forall>x \<in> set (b64encode bs). \<not> is_bspace x"
  by (induction bs rule: b64encode.induct) (simp_all, simp_all add: is_bspace_def)

lemma bstrip_framed:
  assumes "\<not> is_bspace x" "xs \<noteq> []" "\<not> is_bspace (last xs)"
  shows "bstrip (x # xs @ [10]) = x # xs"
proof -
  obtain ys z where xs: "xs = ys @ [z]" using assms(2) by (cases xs rule: rev_cases) auto
  have "is_bspace 10" by (simp add: is_bspace_def)
  with xs assms show ?thesis by (simp add: bstrip_def)
qed

lemma serial_frame_parts:
  assumes "serial_frame p = Inr f"
  obtains len crc where "pack_H (int (length p) + 2) = Inr len"
    "pack_H (uint (crc16_itu_t p 0)) = Inr crc"
    "f = 6 # 9 # b64encode (len @ p @ crc) @ [10]"
proof -
  have "pack_H SERIAL_HDR_PKT = Inr [6, 9]"
    by (simp add: pack_H_def SERIAL_HDR_PKT_def)
  with assms that show ?thesis
    by (auto simp: serial_frame_def split: sum.splits)
qed

lemma frames_loop_serial_frame:
  assumes "serial_frame p = Inr f"
  shows "frames_loop nt packet_len decoded (f # rest) = Inr p"
proof -
  obtain len crc where len: "pack_H (int (length p) + 2) = Inr len"
    and crc: "pack_H (uint (crc16_itu_t p 0)) = Inr crc"
    and f: "f = 6 # 9 # b64encode (len @ p @ crc) @ [10]"
    using serial_frame_parts [OF assms] by blast
  note l = unpack_be_pack_H [OF len] and c = unpack_be_pack_H [OF crc]
  let ?b = "b64encode (len @ p @ crc)"
  obtain u v w where lp: "len @ p @ crc = u # v # w" using l
    by (metis append_Cons length_0_conv length_Suc_conv numeral_2_eq_2)
  then have "?b \<noteq> []" by (cases w) auto
  then have last: "\<not> is_bspace (last (9 # ?b))"
    using b64encode_no_space [of "len @ p @ crc"] last_in_set [of ?b] by auto
  have "\<not> is_bspace 6" by (simp add: is_bspace_def)
  then have strip: "bstrip f = 6 # 9 # ?b"
    using bstrip_framed [of 6 "9 # ?b"] last f by simp
  have marker: "unpack_be [6, 9] = SERIAL_HDR_PKT"
    by (simp add: unpack_be_def SERIAL_HDR_PKT_def)
  have "take 2 (len @ p @ crc) = len" "drop 2 (len @ p @ crc) = p @ crc" using l by auto
  with l c crc16_self [OF crc] marker strip f show ?thesis
    by (simp add: frame_line_def packet_complete_def Let_def numeral_2_eq_2)
qed

text \<open>Lines that are too short once stripped, or start with neither marker, are skipped.\<close>

definition noise_line :: "bytes \<Rightarrow> bool" where
  "noise_line raw \<longleftrightarrow> raw \<noteq> [] \<and>
     (length (bstrip raw) < 2 \<or> unpack_be (take 2 (bstrip raw)) \<notin> {SERIAL_HDR_PKT, SERIAL_HDR_FRAG})"

lemma frames_loop_noise:
  "\<forall>l \<in> set noise. noise_line l \<Longrightarrow>
   frames_loop nt n d (noise @ rest) = frames_loop nt n d rest"
  by (induction noise) (auto simp: noise_line_def frame_line_def Let_def)

text \<open>
  The abstract contract of framing, and what every accepted packet satisfies: it is followed
  by its own checksum.
\<close>

lemma packet_complete_accepts:
  "packet_complete n q = Some (Inr p) \<Longrightarrow>
   \<exists>tail. crc16_itu_t (p @ tail) 0 = 0 \<and> n = Some (int (length (p @ tail))) \<and> length tail \<le> 2"
  by (rule exI [of _ "drop (length q - 2) q"])
     (auto simp: packet_complete_def split: option.splits if_splits)

lemma frame_line_accepts:
  "frame_line n d raw = Inr (Inr p) \<Longrightarrow>
   \<exists>tail. crc16_itu_t (p @ tail) 0 = 0 \<and> length tail \<le> 2"
  by (auto simp: frame_line_def Let_def dest!: packet_complete_accepts
           split: if_splits sum.splits option.splits)

lemma frames_loop_accepts:
  "frames_loop nt n d lines = Inr p \<Longrightarrow>
   \<exists>tail. crc16_itu_t (p @ tail) 0 = 0 \<and> length tail \<le> 2"
  by (induction lines arbitrary: n d)
     (auto simp: frame_line_accepts split: if_splits sum.splits)

section \<open>Properties\<close>

lemma crc_two_bytes_inj:
  "crc_byte (crc_byte s x) y = crc_byte (crc_byte s x') y' \<longleftrightarrow> x = x' \<and> y = y'"
proof -
  have p: "push_bit 8 (ucast x) OR ucast y = (push_bit 8 (ucast x') OR ucast y' :: 16 word)
      \<longleftrightarrow> x = x' \<and> y = y'"
  proof
    assume e: "push_bit 8 (ucast x) OR ucast y = (push_bit 8 (ucast x') OR ucast y' :: 16 word)"
    have "bit y n = bit y' n" if "n < 8" for n
      using that arg_cong [OF e, of "\<lambda>w. bit w n"]
      by (auto simp: bit_or_iff bit_push_bit_iff bit_ucast_iff)
    moreover have "bit x n = bit x' n" if "n < 8" for n
      using that arg_cong [OF e, of "\<lambda>w. bit w (n + 8)"]
      by (auto simp: bit_or_iff bit_push_bit_iff bit_ucast_iff dest: bit_imp_le_length)
    ultimately show "x = x' \<and> y = y'" by (auto intro!: bit_word_eqI)
  qed simp
  have c: "(s XOR a = s XOR b) = (a = b)" for a b :: "16 word"
    using xor_cancel [of a s b] by (simp add: xor.commute)
  show ?thesis unfolding crc_two_bytes crc_shift8_inj c p ..
qed

lemma crc16_two_bytes_inj:
  "crc16_itu_t (a @ [x, y] @ b) s = crc16_itu_t (a @ [x', y'] @ b) s \<longleftrightarrow> x = x' \<and> y = y'"
  unfolding crc16_append crc16_inj_seed
  using crc_two_bytes_inj by (simp add: crc16_itu_t_def)

lemma pack_H_total: "0 \<le> n \<Longrightarrow> n < 65536 \<Longrightarrow> \<exists>bs. pack_H n = Inr bs"
  by (simp add: pack_H_def)

lemma serial_frame_total:
  assumes "length p + 2 < 65536"
  shows "\<exists>f. serial_frame p = Inr f"
proof -
  obtain l where "pack_H (int (length p) + 2) = Inr l"
    using pack_H_total [of "int (length p) + 2"] assms by auto
  moreover obtain c where "pack_H (uint (crc16_itu_t p 0)) = Inr c"
    using pack_H_uint16 by blast
  moreover obtain h where "pack_H SERIAL_HDR_PKT = Inr h"
    using pack_H_total [of SERIAL_HDR_PKT] by (auto simp: SERIAL_HDR_PKT_def)
  ultimately show ?thesis by (simp add: serial_frame_def)
qed

text \<open>
  C5. Framing: the line \<open>serial_frame\<close> makes of a packet, after any lines that are not
  SMP frames and before any lines, is decoded to exactly that packet.
\<close>

theorem frame_round_trip:
  assumes "serial_frame p = Inr f" "\<forall>l \<in> set noise. noise_line l"
  shows "decoded_frames (noise @ f # rest) nt = Inr p"
  using frames_loop_serial_frame [OF assms(1)]
  by (simp only: decoded_frames_def frames_loop_noise [OF assms(2)])

theorem frame_round_trip_witness:
  "\<exists>f. serial_frame [8, 0, 7] = Inr f
     \<and> decoded_frames ([[104, 105, 10], [10]] @ f # [[1]]) [] = Inr [8, 0, 7]"
proof -
  have n: "\<forall>l \<in> set [[104, 105, 10], [10 :: byte]]. noise_line l" by code_simp
  have "\<exists>f. serial_frame [8, 0, 7 :: byte] = Inr f" by (rule serial_frame_total) simp
  with frame_round_trip [OF _ n] show ?thesis by blast
qed

text \<open>
  C6. The checksum: a frame whose packet and checksum were altered within two adjacent
  bytes is refused as a bad CRC, whatever the packet.
\<close>

theorem corrupted_frame_refused:
  assumes "pack_H (uint (crc16_itu_t p 0)) = Inr tail" "p @ tail = a @ [x, y] @ b"
    and "pack_H (int (length p) + 2) = Inr len" "[x', y'] \<noteq> [x, y]"
  shows "decoded_frames [[6, 9] @ b64encode (len @ a @ [x', y'] @ b) @ [10]] nt
    = Inl (frame_error ''bad SMP serial CRC'')"
proof -
  let ?q = "a @ [x', y'] @ b" and ?b = "b64encode (len @ a @ [x', y'] @ b)"
  note l = unpack_be_pack_H [OF assms(3)] and t = unpack_be_pack_H [OF assms(1)]
  have q: "length ?q = length p + 2" using arg_cong [OF assms(2), of length] t by simp
  have "crc16_itu_t (a @ [x, y] @ b) 0 = 0" using crc16_self [OF assms(1)] assms(2) by simp
  then have crc: "crc16_itu_t ?q 0 \<noteq> 0" using crc16_two_bytes_inj [of a x y b 0 x' y'] assms(4) by auto
  have "len @ ?q \<noteq> []" by simp
  then have "?b \<noteq> []" by (cases "len @ ?q" rule: b64encode.cases) auto
  then have last: "\<not> is_bspace (last (9 # ?b))"
    using b64encode_no_space [of "len @ ?q"] last_in_set [of ?b] by auto
  have "\<not> is_bspace 6" by (simp add: is_bspace_def)
  then have strip: "bstrip (6 # 9 # ?b @ [10]) = 6 # 9 # ?b"
    using bstrip_framed [of 6 "9 # ?b"] last by simp
  have marker: "unpack_be [6, 9] = SERIAL_HDR_PKT"
    by (simp add: unpack_be_def SERIAL_HDR_PKT_def)
  have "take 2 (len @ ?q) = len" "drop 2 (len @ ?q) = ?q" using l by auto
  with l q crc marker strip show ?thesis
    by (simp add: decoded_frames_def frame_line_def packet_complete_def Let_def numeral_2_eq_2)
qed

theorem corrupted_frame_refused_witness:
  "\<exists>tail len. pack_H (uint (crc16_itu_t [1, 2] 0)) = Inr tail \<and> pack_H 4 = Inr len
     \<and> decoded_frames [[6, 9] @ b64encode (len @ [] @ [1, 3] @ tail) @ [10]] []
       = Inl (frame_error ''bad SMP serial CRC'')"
proof -
  obtain tail where t: "pack_H (uint (crc16_itu_t [1, 2 :: byte] 0)) = Inr tail"
    using pack_H_uint16 by blast
  obtain len where l: "pack_H 4 = Inr len" by (auto simp: pack_H_def)
  have "pack_H (int (length [1, 2 :: byte]) + 2) = Inr len" using l by simp
  from corrupted_frame_refused [OF t _ this, of "[]" 1 2 tail 1 3 "[]"] t l show ?thesis by auto
qed

end
