(* ===== verification/Json.thy ===== *)
theory Json
  imports Utf8
begin

text \<open>
  What the program uses of the standard library's json module: \<open>json.dumps\<close> with
  \<open>ensure_ascii\<close> and explicit separators, and \<open>json.loads\<close> on a decoded line, with the
  decoder's bound on nesting as a parameter (the interpreter's recursion limit). Errors of
  the decoder are values of class JSONDecodeError; their text omits the position. The
  theory ends with the round trip, and with the characters of a compact text.
\<close>

abbreviation bslash :: char where "bslash \<equiv> CHR 0x5C"
abbreviation dquote :: char where "dquote \<equiv> CHR 0x22"

section \<open>json.dumps\<close>

definition hex4 :: "nat \<Rightarrow> string" where
  "hex4 n = [hex_char (n div 4096 mod 16), hex_char (n div 256 mod 16),
             hex_char (n div 16 mod 16), hex_char (n mod 16)]"

definition json_escape_cp :: "nat \<Rightarrow> string" where
  "json_escape_cp n =
     (if n = 34 then [bslash, dquote]
      else if n = 92 then [bslash, bslash]
      else if n = 10 then [bslash, CHR ''n'']
      else if n = 13 then [bslash, CHR ''r'']
      else if n = 9 then [bslash, CHR ''t'']
      else if n = 12 then [bslash, CHR ''f'']
      else if n = 8 then [bslash, CHR ''b'']
      else if 32 \<le> n \<and> n \<le> 126 then [chr n]
      else if n < 65536 then bslash # CHR ''u'' # hex4 n
      else bslash # CHR ''u'' # hex4 (55296 + (n - 65536) div 1024)
           @ bslash # CHR ''u'' # hex4 (56320 + (n - 65536) mod 1024))"

definition json_str :: "string \<Rightarrow> string" where
  "json_str s = dquote # concat (map json_escape_cp (codepoints s)) @ [dquote]"

text \<open>A value is serialisable unless it contains bytes.\<close>

fun json_ok :: "pyval \<Rightarrow> bool" where
  "json_ok (PBytes s) = False"
| "json_ok (PList vs) = (\<forall>v \<in> set vs. json_ok v)"
| "json_ok (PDict kvs) = (\<forall>kv \<in> set kvs. json_ok (snd kv))"
| "json_ok v = True"

fun json_text :: "string \<Rightarrow> string \<Rightarrow> pyval \<Rightarrow> string"
  and json_items :: "string \<Rightarrow> string \<Rightarrow> pyval list \<Rightarrow> string list"
  and json_members :: "string \<Rightarrow> string \<Rightarrow> (string \<times> pyval) list \<Rightarrow> string list" where
  "json_text i k PNone = ''null''"
| "json_text i k (PBool b) = (if b then ''true'' else ''false'')"
| "json_text i k (PInt n) = int_str n"
| "json_text i k (PFloat s) = s"
| "json_text i k (PStr s) = json_str s"
| "json_text i k (PBytes s) = []"
| "json_text i k (PList vs) = ''['' @ join i (json_items i k vs) @ '']''"
| "json_text i k (PDict kvs) = ''{'' @ join i (json_members i k kvs) @ ''}''"
| "json_items i k [] = []"
| "json_items i k (v # vs) = json_text i k v # json_items i k vs"
| "json_members i k [] = []"
| "json_members i k ((s, v) # kvs) = (json_str s @ k @ json_text i k v) # json_members i k kvs"

definition json_dumps :: "string \<Rightarrow> string \<Rightarrow> pyval \<Rightarrow> string result" where
  "json_dumps i k v =
     (if json_ok v then Inr (json_text i k v)
      else Inl (PyExc ''TypeError'' ''Object of type bytes is not JSON serializable''))"

text \<open>The separators of the wire format, \<open>separators=(",", ":")\<close>.\<close>

definition json_compact :: "pyval \<Rightarrow> string result" where
  "json_compact v = json_dumps '','' '':'' v"

section \<open>json.loads\<close>

definition jerr :: "string \<Rightarrow> exc" where
  "jerr m = PyExc ''JSONDecodeError'' m"

definition json_ws :: "char \<Rightarrow> bool" where
  "json_ws c \<longleftrightarrow> ord c \<in> {32, 9, 10, 13}"

definition skip_ws :: "string \<Rightarrow> string" where
  "skip_ws s = dropWhile json_ws s"

definition hex4_val :: "string \<Rightarrow> nat option" where
  "hex4_val s =
     (case map (digit_in_base 16) s of
        [Some a, Some b, Some c, Some d] \<Rightarrow> Some (((a * 16 + b) * 16 + c) * 16 + d)
      | _ \<Rightarrow> None)"

definition is_high :: "nat \<Rightarrow> bool" where "is_high n \<longleftrightarrow> 55296 \<le> n \<and> n < 56320"
definition is_low :: "nat \<Rightarrow> bool" where "is_low n \<longleftrightarrow> 56320 \<le> n \<and> n < 57344"

definition bad_uXXXX :: exc where
  "bad_uXXXX = jerr (''Invalid '' @ [bslash] @ ''uXXXX escape'')"

text \<open>
  An escape after the backslash: the text it stands for and the characters it consumed. A
  high surrogate followed by an escaped low surrogate is one code point.
\<close>

definition parse_unicode :: "string \<Rightarrow> (string \<times> nat) result" where
  "parse_unicode es =
     (case hex4_val (take 4 es) of
        None \<Rightarrow> Inl bad_uXXXX
      | Some n \<Rightarrow>
          if is_high n \<and> take 2 (drop 4 es) = [bslash, CHR ''u''] then
            (case hex4_val (take 4 (drop 6 es)) of
               None \<Rightarrow> Inl bad_uXXXX
             | Some m \<Rightarrow> if is_low m
                 then Inr (encode_cp (65536 + (n - 55296) * 1024 + (m - 56320)), 11)
                 else Inr (encode_cp n, 5))
          else Inr (encode_cp n, 5))"

definition parse_escape :: "string \<Rightarrow> (string \<times> nat) result" where
  "parse_escape cs =
     (case cs of
        [] \<Rightarrow> Inl (jerr ''Unterminated string starting at'')
      | e # es \<Rightarrow>
          (if e = CHR ''u'' then parse_unicode es
           else if e = dquote then Inr ([dquote], 1)
           else if e = bslash then Inr ([bslash], 1)
           else if e = CHR ''/'' then Inr (''/'', 1)
           else if e = CHR ''b'' then Inr ([chr 8], 1)
           else if e = CHR ''f'' then Inr ([chr 12], 1)
           else if e = CHR ''n'' then Inr ([chr 10], 1)
           else if e = CHR ''r'' then Inr ([chr 13], 1)
           else if e = CHR ''t'' then Inr ([chr 9], 1)
           else Inl (jerr (''Invalid '' @ [bslash] @ ''escape''))))"

fun prepend :: "string \<Rightarrow> (string \<times> string) result \<Rightarrow> (string \<times> string) result" where
  "prepend t (Inl e) = Inl e"
| "prepend t (Inr (s, r)) = Inr (t @ s, r)"

text \<open>The characters of a string literal after its opening quote.\<close>

fun parse_chars :: "string \<Rightarrow> (string \<times> string) result" where
  "parse_chars [] = Inl (jerr ''Unterminated string starting at'')"
| "parse_chars (c # cs) =
     (if c = dquote then Inr ([], cs)
      else if c = bslash then
        (case parse_escape cs of
           Inl e \<Rightarrow> Inl e
         | Inr (t, n) \<Rightarrow> prepend t (parse_chars (drop n cs)))
      else if ord c < 32 then Inl (jerr ''Invalid control character at'')
      else prepend [c] (parse_chars cs))"

declare parse_chars.simps(2) [simp del]

definition num_int :: "string \<Rightarrow> (string \<times> string) option" where
  "num_int s =
     (case s of
        [] \<Rightarrow> None
      | c # cs \<Rightarrow> if c = CHR ''0'' then Some ([c], cs)
                  else if is_digit c then Some (takeWhile is_digit s, dropWhile is_digit s)
                  else None)"

definition num_frac :: "string \<Rightarrow> string \<times> string" where
  "num_frac s =
     (if starts_with s ''.'' \<and> tl s \<noteq> [] \<and> is_digit (hd (tl s))
      then (CHR ''.'' # takeWhile is_digit (tl s), dropWhile is_digit (tl s))
      else ([], s))"

definition num_exp :: "string \<Rightarrow> string \<times> string" where
  "num_exp s =
     (case s of
        [] \<Rightarrow> ([], [])
      | e # cs \<Rightarrow>
          if e = CHR ''e'' \<or> e = CHR ''E'' then
            (let (sg, ds) = (case cs of x # xs \<Rightarrow> if x = CHR ''+'' \<or> x = CHR ''-'' then ([x], xs)
                                                  else ([], cs)
                                      | [] \<Rightarrow> ([], []))
             in if ds \<noteq> [] \<and> is_digit (hd ds)
                then (e # sg @ takeWhile is_digit ds, dropWhile is_digit ds) else ([], s))
          else ([], s))"

definition parse_number :: "string \<Rightarrow> (pyval \<times> string) result" where
  "parse_number s =
     (let (sg, s1) = (if starts_with s ''-'' then (''-'', tl s) else ([], s)) in
      case num_int s1 of
        None \<Rightarrow> Inl (jerr ''Expecting value'')
      | Some (ip, s2) \<Rightarrow>
          (let (fp, s3) = num_frac s2; (ep, s4) = num_exp s3 in
           if fp = [] \<and> ep = []
           then Inr (PInt (if sg = [] then int (digits_val ip) else - int (digits_val ip)), s2)
           else Inr (PFloat (sg @ ip @ fp @ ep), s4)))"

lemma length_skip_ws [simp]: "length (skip_ws s) \<le> length s"
  by (simp add: skip_ws_def length_dropWhile_le)

lemma skip_ws_Cons:
  "skip_ws s = c # r \<Longrightarrow> length r < length s \<and> length (skip_ws r) < length s"
  by (metis Suc_le_eq le_less_trans length_Cons length_skip_ws)

lemma prepend_Inr: "prepend t p = Inr (s, r) \<longleftrightarrow> (\<exists>s'. p = Inr (s', r) \<and> s = t @ s')"
  by (cases "(t, p)" rule: prepend.cases) auto

lemma parse_chars_shorter: "parse_chars s = Inr (t, r) \<Longrightarrow> length r < length s"
proof (induction s arbitrary: t rule: parse_chars.induct)
  case (2 c cs)
  then show ?case
    by (force simp: parse_chars.simps(2) prepend_Inr split: if_splits sum.splits prod.splits)
qed simp

text \<open>
  The recursive scanner. \<open>d\<close> is the nesting still allowed; each list or object costs one.
  The length tests never fail (\<open>parse_value_shorter\<close>): they only let the recursion be
  seen to stop.
\<close>

function (sequential) parse_value :: "nat \<Rightarrow> string \<Rightarrow> (pyval \<times> string) result"
  and parse_items :: "nat \<Rightarrow> pyval list \<Rightarrow> string \<Rightarrow> (pyval \<times> string) result"
  and parse_members :: "nat \<Rightarrow> pydict \<Rightarrow> string \<Rightarrow> (pyval \<times> string) result" where
  "parse_value d [] = Inl (jerr ''Expecting value'')"
| "parse_value d (c # cs) =
     (if c = dquote then
        (case parse_chars cs of Inl e \<Rightarrow> Inl e | Inr (s, r) \<Rightarrow> Inr (PStr s, r))
      else if c = CHR ''{'' then
        (if d = 0 then Inl (PyExc ''RecursionError'' ''maximum recursion depth exceeded'')
         else if starts_with (skip_ws cs) ''}'' then Inr (PDict [], tl (skip_ws cs))
         else parse_members (d - 1) [] (skip_ws cs))
      else if c = CHR ''['' then
        (if d = 0 then Inl (PyExc ''RecursionError'' ''maximum recursion depth exceeded'')
         else if starts_with (skip_ws cs) '']'' then Inr (PList [], tl (skip_ws cs))
         else parse_items (d - 1) [] (skip_ws cs))
      else if starts_with (c # cs) ''null'' then Inr (PNone, drop 4 (c # cs))
      else if starts_with (c # cs) ''true'' then Inr (PBool True, drop 4 (c # cs))
      else if starts_with (c # cs) ''false'' then Inr (PBool False, drop 5 (c # cs))
      else if starts_with (c # cs) ''NaN'' then Inr (PFloat ''NaN'', drop 3 (c # cs))
      else if starts_with (c # cs) ''Infinity'' then Inr (PFloat ''Infinity'', drop 8 (c # cs))
      else if starts_with (c # cs) ''-Infinity'' then Inr (PFloat ''-Infinity'', drop 9 (c # cs))
      else parse_number (c # cs))"
| "parse_items d acc s =
     (case parse_value d s of
        Inl e \<Rightarrow> Inl e
      | Inr (v, r) \<Rightarrow>
          if length r < length s then
            (case skip_ws r of
               [] \<Rightarrow> Inl (jerr ''Expecting ',' delimiter'')
             | c # r' \<Rightarrow>
                 if c = CHR '']'' then Inr (PList (acc @ [v]), r')
                 else if c = CHR '','' then parse_items d (acc @ [v]) (skip_ws r')
                 else Inl (jerr ''Expecting ',' delimiter''))
          else Inl (jerr ''Expecting value''))"
| "parse_members d acc s =
     (case s of
        [] \<Rightarrow> Inl (jerr ''Expecting property name enclosed in double quotes'')
      | q # cs \<Rightarrow>
          if q \<noteq> dquote then Inl (jerr ''Expecting property name enclosed in double quotes'')
          else
            (case parse_chars cs of
               Inl e \<Rightarrow> Inl e
             | Inr (key, r) \<Rightarrow>
                 if \<not> starts_with (skip_ws r) '':'' then Inl (jerr ''Expecting ':' delimiter'')
                 else
                   (let s1 = skip_ws (tl (skip_ws r)) in
                    if length s1 < length s then
                      (case parse_value d s1 of
                         Inl e \<Rightarrow> Inl e
                       | Inr (v, r1) \<Rightarrow>
                           if length r1 < length s then
                             (case skip_ws r1 of
                                [] \<Rightarrow> Inl (jerr ''Expecting ',' delimiter'')
                              | c # r2 \<Rightarrow>
                                  if c = CHR ''}'' then Inr (PDict (dset acc key v), r2)
                                  else if c = CHR '','' then
                                    parse_members d (dset acc key v) (skip_ws r2)
                                  else Inl (jerr ''Expecting ',' delimiter''))
                           else Inl (jerr ''Expecting value''))
                    else Inl (jerr ''Expecting value''))))"
  by pat_completeness auto

termination
  by (relation "measure (case_sum (\<lambda>(d, s). 2 * length s)
        (case_sum (\<lambda>(d, acc, s). 2 * length s + 1) (\<lambda>(d, acc, s). 2 * length s + 1)))")
     (auto simp: less_Suc_eq_le intro: le_trans [OF length_skip_ws]
           dest!: skip_ws_Cons intro!: mult_le_mono2)


declare parse_value.simps [simp del] parse_items.simps [simp del] parse_members.simps [simp del]

text \<open>\<open>json.loads(s)\<close>.\<close>

definition json_loads :: "nat \<Rightarrow> string \<Rightarrow> pyval result" where
  "json_loads d s =
     (case parse_value d (skip_ws s) of
        Inl e \<Rightarrow> Inl e
      | Inr (v, r) \<Rightarrow> if skip_ws r = [] then Inr v else Inl (jerr ''Extra data''))"


section \<open>Decoding what was encoded\<close>

lemma digit_in_base_hex [simp]: "d < 16 \<Longrightarrow> digit_in_base 16 (hex_char d) = Some d"
  by (auto simp: digit_in_base_def hex_char_def Let_def)

lemma length_hex4 [simp]: "length (hex4 n) = 4"
  by (simp add: hex4_def)

lemma hex4_digits: "(n :: nat) < 65536 \<Longrightarrow>
  ((n div 4096 mod 16 * 16 + n div 256 mod 16) * 16 + n div 16 mod 16) * 16 + n mod 16 = n"
proof -
  assume "n < 65536"
  then have "n div 4096 mod 16 = n div 4096" by simp
  moreover have "n div 256 = n div 16 div 16" "n div 4096 = n div 16 div 16 div 16"
    by (simp_all add: div_mult2_eq [symmetric])
  moreover have "n div 16 * 16 + n mod 16 = n" "n div 16 div 16 * 16 + n div 16 mod 16 = n div 16"
    "n div 16 div 16 div 16 * 16 + n div 16 div 16 mod 16 = n div 16 div 16"
    by simp_all
  ultimately show ?thesis by (simp only:)
qed

lemma hex4_val_hex4 [simp]: "n < 65536 \<Longrightarrow> hex4_val (hex4 n) = Some n"
  using hex4_digits [of n] by (simp add: hex4_val_def hex4_def)

lemma parse_unicode_bmp:
  assumes "n < 65536" "\<not> is_high n"
  shows "parse_unicode (hex4 n @ t) = Inr (encode_cp n, 5)"
  using assms by (simp add: parse_unicode_def)

lemma parse_unicode_pair:
  assumes "65536 \<le> n" "n < 1114112"
  shows "parse_unicode (hex4 (55296 + (n - 65536) div 1024) @ bslash # CHR ''u'' #
           hex4 (56320 + (n - 65536) mod 1024) @ t) = Inr (encode_cp n, 11)"
proof -
  let ?m = "n - 65536"
  have "?m < 1048576" using assms by simp
  then have hi: "?m div 1024 < 1024" by auto
  have "65536 + (?m div 1024 * 1024 + ?m mod 1024) = n" using assms(1) by simp
  with hi show ?thesis
    by (simp add: parse_unicode_def is_high_def is_low_def add.assoc)
qed

lemma drop_hex4: "drop 5 (u # hex4 n @ t) = t"
  "drop 11 (u # hex4 n @ b # v # hex4 m @ t) = t"
  by (simp_all add: hex4_def)

lemma parse_chars_bslash:
  "parse_escape cs = Inr (t, n) \<Longrightarrow>
   parse_chars (bslash # cs) = prepend t (parse_chars (drop n cs))"
  by (simp add: parse_chars.simps(2))

lemma parse_escape_u: "parse_escape (CHR ''u'' # es) = parse_unicode es"
  by (simp add: parse_escape_def)

lemma parse_chars_escape:
  assumes "is_scalar n"
  shows "parse_chars (json_escape_cp n @ t) = prepend (encode_cp n) (parse_chars t)"
proof -
  consider "n \<in> {34, 92, 10, 13, 9, 12, 8}"
    | "n \<notin> {34, 92, 10, 13, 9, 12, 8}" "32 \<le> n" "n \<le> 126"
    | "n \<notin> {34, 92, 10, 13, 9, 12, 8}" "\<not> (32 \<le> n \<and> n \<le> 126)" "n < 65536"
    | "65536 \<le> n"
    by force
  then show ?thesis
  proof cases
    case 1
    have e: "chr 34 = dquote" "chr 92 = bslash" by code_simp+
    from 1 show ?thesis
      by (elim insertE emptyE)
         (simp_all add: json_escape_cp_def encode_cp_def parse_chars.simps(2) parse_escape_def e)
  next
    case 2
    have "ord (chr n) = n" using 2(3) by simp
    moreover have "ord dquote = 34" "ord bslash = 92" by simp_all
    ultimately have "chr n \<noteq> dquote" "chr n \<noteq> bslash" using 2(1) by fastforce+
    with 2 show ?thesis
      by (simp add: json_escape_cp_def encode_cp_def parse_chars.simps(2))
  next
    case 3
    with assms have "\<not> is_high n" by (auto simp: is_scalar_def is_surrogate_def is_high_def)
    then have "parse_escape (CHR ''u'' # hex4 n @ t) = Inr (encode_cp n, 5)"
      using 3(3) by (simp add: parse_escape_u parse_unicode_bmp)
    moreover have "json_escape_cp n = bslash # CHR ''u'' # hex4 n"
      using 3 by (auto simp: json_escape_cp_def)
    ultimately show ?thesis by (simp add: parse_chars_bslash drop_hex4)
  next
    case 4
    with assms have "n < 1114112" by (simp add: is_scalar_def)
    note p = parse_unicode_pair [OF 4 this, of t]
    have "json_escape_cp n = bslash # CHR ''u'' # hex4 (55296 + (n - 65536) div 1024)
        @ bslash # CHR ''u'' # hex4 (56320 + (n - 65536) mod 1024)"
      using 4 by (simp add: json_escape_cp_def)
    with parse_chars_bslash [OF trans [OF parse_escape_u p]] show ?thesis
      by (simp add: drop_hex4)
  qed
qed

lemma parse_chars_json_str:
  "\<forall>n \<in> set ns. is_scalar n \<Longrightarrow>
   parse_chars (concat (map json_escape_cp ns) @ dquote # r) = Inr (encode_cps ns, r)"
  by (induction ns) (simp_all add: parse_chars.simps(2) parse_chars_escape)

lemma parse_chars_codepoints:
  "utf8_valid s \<Longrightarrow>
   parse_chars (concat (map json_escape_cp (codepoints s)) @ dquote # r) = Inr (s, r)"
  by (auto simp: utf8_valid_iff parse_chars_json_str)


text \<open>Numbers: what may follow a number so that the scanner stops at its end.\<close>

definition num_end :: "string \<Rightarrow> bool" where
  "num_end r \<longleftrightarrow>
     (case r of [] \<Rightarrow> True
              | c # cs \<Rightarrow> \<not> is_digit c \<and> c \<noteq> CHR ''.'' \<and> c \<noteq> CHR ''e'' \<and> c \<noteq> CHR ''E'')"

lemma takeWhile_digits:
  "\<forall>c \<in> set ds. is_digit c \<Longrightarrow> num_end r \<Longrightarrow>
   takeWhile is_digit (ds @ r) = ds \<and> dropWhile is_digit (ds @ r) = r"
  by (induction ds) (auto simp: num_end_def split: list.splits)

lemma num_frac_end: "num_end r \<Longrightarrow> num_frac r = ([], r)"
  by (cases r) (auto simp: num_end_def num_frac_def)

lemma num_exp_end: "num_end r \<Longrightarrow> num_exp r = ([], r)"
  by (auto simp: num_end_def num_exp_def split: list.splits)

lemma num_int_nat_str:
  assumes "num_end r"
  shows "num_int (nat_str n @ r) = Some (nat_str n, r)"
proof (cases "n = 0")
  case True
  then show ?thesis by (simp add: num_int_def nat_str_zero)
next
  case False
  obtain c cs where c: "nat_str n = c # cs" by (cases "nat_str n") auto
  with False nat_str_hd [of n] have "c \<noteq> CHR ''0''" by simp
  moreover have d: "\<forall>x \<in> set (nat_str n). is_digit x" using nat_str_digits by blast
  then have "is_digit c" using c by simp
  ultimately show ?thesis
    using takeWhile_digits [OF d assms] c by (simp add: num_int_def)
qed

lemma not_digit_minus [simp]: "\<not> is_digit (CHR ''-'')"
  by (simp add: is_digit_def)

lemma nat_str_not_minus: "nat_str n = c # cs \<Longrightarrow> c \<noteq> CHR ''-''"
  using nat_str_digits [of c n] by auto

lemma parse_number_int_str:
  assumes "num_end r"
  shows "parse_number (int_str i @ r) = Inr (PInt i, r)"
proof (cases "i < 0")
  case True
  then show ?thesis
    using assms by (simp add: parse_number_def int_str_def num_int_nat_str num_frac_end num_exp_end)
next
  case False
  obtain c cs where c: "nat_str (nat i) = c # cs" by (cases "nat_str (nat i)") auto
  have "parse_number (nat_str (nat i) @ r) = Inr (PInt (int (digits_val (nat_str (nat i)))), r)"
    using num_int_nat_str [OF assms, of "nat i"] nat_str_not_minus [OF c] assms c
    by (simp add: parse_number_def num_frac_end num_exp_end)
  with False show ?thesis by (simp add: int_str_def)
qed

section \<open>The values that round trip\<close>

text \<open>
  No bytes and no floats, text that is valid UTF-8, distinct keys; and the nesting a value
  needs.
\<close>

fun json_clean :: "pyval \<Rightarrow> bool" where
  "json_clean (PFloat s) = False"
| "json_clean (PBytes s) = False"
| "json_clean (PStr s) = utf8_valid s"
| "json_clean (PList vs) = (\<forall>v \<in> set vs. json_clean v)"
| "json_clean (PDict kvs) =
     (distinct (map fst kvs) \<and> (\<forall>kv \<in> set kvs. utf8_valid (fst kv) \<and> json_clean (snd kv)))"
| "json_clean v = True"

fun json_depth :: "pyval \<Rightarrow> nat" where
  "json_depth (PList vs) = Suc (fold max (map json_depth vs) 0)"
| "json_depth (PDict kvs) = Suc (fold max (map (\<lambda>kv. json_depth (snd kv)) kvs) 0)"
| "json_depth v = 0"

lemma fold_max_le: "fold max xs (a :: nat) \<le> d \<longleftrightarrow> a \<le> d \<and> (\<forall>x \<in> set xs. x \<le> d)"
  by (induction xs arbitrary: a) auto

lemma json_depth_list: "json_depth (PList vs) \<le> d \<longleftrightarrow> 0 < d \<and> (\<forall>v \<in> set vs. json_depth v \<le> d - 1)"
  by (cases d) (auto simp: fold_max_le)

lemma json_depth_dict:
  "json_depth (PDict kvs) \<le> d \<longleftrightarrow> 0 < d \<and> (\<forall>kv \<in> set kvs. json_depth (snd kv) \<le> d - 1)"
  by (cases d) (auto simp: fold_max_le)

lemma json_clean_ok: "json_clean v \<Longrightarrow> json_ok v"
  by (induction v rule: json_clean.induct) auto


section \<open>The scanner on an encoded value\<close>

text \<open>Separators: a comma or a colon, then white space only.\<close>

definition is_sep :: "char \<Rightarrow> string \<Rightarrow> bool" where
  "is_sep c s \<longleftrightarrow> (\<exists>w. s = c # w \<and> (\<forall>x \<in> set w. json_ws x))"

lemma is_sep_compact [simp]: "is_sep c [c]"
  by (simp add: is_sep_def)

lemma skip_ws_stop: "\<not> json_ws c \<Longrightarrow> skip_ws (c # r) = c # r"
  by (simp add: skip_ws_def)

lemma skip_ws_prefix: "\<forall>x \<in> set w. json_ws x \<Longrightarrow> \<not> json_ws c \<Longrightarrow> skip_ws (w @ c # r) = c # r"
  by (induction w) (auto simp: skip_ws_def)

lemma not_ws_chars [simp]:
  "\<not> json_ws dquote" "\<not> json_ws (CHR '','')" "\<not> json_ws (CHR '':'')"
  "\<not> json_ws (CHR '']'')" "\<not> json_ws (CHR ''}'')" "\<not> json_ws (CHR ''{'')"
  "\<not> json_ws (CHR ''['')" "\<not> json_ws (CHR ''n'')" "\<not> json_ws (CHR ''t'')"
  "\<not> json_ws (CHR ''f'')" "\<not> json_ws (CHR ''-'')"
  by (simp_all add: json_ws_def)

lemma digit_not_ws: "is_digit c \<Longrightarrow> \<not> json_ws c"
  by (auto simp: json_ws_def is_digit_def)

lemma num_end_chars [simp]:
  "num_end (CHR '','' # r)" "num_end (CHR '']'' # r)" "num_end (CHR ''}'' # r)" "num_end []"
  by (simp_all add: num_end_def is_digit_def)

text \<open>An encoded value starts with a character that is neither space nor a closing bracket.\<close>

definition value_start :: "string \<Rightarrow> bool" where
  "value_start s \<longleftrightarrow> (\<exists>c cs. s = c # cs \<and> \<not> json_ws c \<and> c \<noteq> CHR '']'')"

lemma value_start_nat_str: "value_start (nat_str n)"
proof -
  obtain c cs where c: "nat_str n = c # cs" by (cases "nat_str n") auto
  then have "is_digit c" using nat_str_digits [of c n] by simp
  with c show ?thesis
    by (auto simp: value_start_def digit_not_ws) (auto simp: is_digit_def)
qed

lemma value_start_text: "json_clean v \<Longrightarrow> value_start (json_text i k v)"
  using value_start_nat_str
  by (cases v) (auto simp: value_start_def json_str_def int_str_def)

lemma skip_ws_text:
  "json_clean v \<Longrightarrow> skip_ws (json_text i k v @ r) = json_text i k v @ r"
  using value_start_text [of v i k] by (auto simp: value_start_def skip_ws_stop)

lemma parse_value_int_str:
  assumes "num_end r"
  shows "parse_value d (int_str n @ r) = Inr (PInt n, r)"
proof -
  have digit: "\<exists>c cs. nat_str m = c # cs \<and> is_digit c" for m
    using nat_str_digits [of "hd (nat_str m)" m] by (cases "nat_str m") auto
  show ?thesis
  proof (cases "n < 0")
    case True
    obtain c cs where c: "nat_str (nat (- n)) = c # cs" "is_digit c" using digit by blast
    from c(2) have "c \<noteq> CHR ''I''" by (auto simp: is_digit_def)
    with True c parse_number_int_str [OF assms, of n] show ?thesis
      by (simp add: int_str_def parse_value.simps)
  next
    case False
    obtain c cs where c: "nat_str (nat n) = c # cs" "is_digit c" using digit by blast
    from c(2) have "c \<notin> {dquote, CHR ''{'', CHR ''['', CHR ''n'', CHR ''t'', CHR ''f'',
        CHR ''N'', CHR ''I'', CHR ''-''}" by (auto simp: is_digit_def)
    with False c parse_number_int_str [OF assms, of n] show ?thesis
      by (simp add: int_str_def parse_value.simps)
  qed
qed

lemma parse_items_text:
  assumes i: "is_sep (CHR '','') i"
    and v: "\<And>v r. v \<in> set vs \<Longrightarrow> num_end r \<Longrightarrow> parse_value d (json_text i k v @ r) = Inr (v, r)"
    and clean: "\<And>v. v \<in> set vs \<Longrightarrow> json_clean v"
    and "vs \<noteq> []"
  shows "parse_items d acc (join i (json_items i k vs) @ CHR '']'' # r) = Inr (PList (acc @ vs), r)"
  using v clean \<open>vs \<noteq> []\<close>
proof (induction vs arbitrary: acc)
  case (Cons v vs)
  have pv: "num_end t \<Longrightarrow> parse_value d (json_text i k v @ t) = Inr (v, t)" for t
    using Cons.prems(1) by simp
  have len: "0 < length (json_text i k v)"
    using value_start_text [of v i k] Cons.prems(2) by (auto simp: value_start_def)
  show ?case
  proof (cases vs)
    case Nil
    with pv [of "CHR '']'' # r"] len show ?thesis
      by (simp add: parse_items.simps skip_ws_stop)
  next
    case (Cons w ws)
    obtain sp where sp: "i = CHR '','' # sp" "\<forall>x \<in> set sp. json_ws x"
      using i by (auto simp: is_sep_def)
    let ?t = "join i (json_items i k vs) @ CHR '']'' # r"
    have "json_clean w" using Cons Cons.prems(2) by simp
    then obtain c cs where c: "json_text i k w = c # cs" "\<not> json_ws c"
      using value_start_text [of w i k] by (auto simp: value_start_def)
    have "\<exists>u. ?t = c # u"
      unfolding Cons using c(1) by (cases ws) auto
    then obtain u where u: "?t = c # u" by blast
    then have t: "skip_ws (sp @ ?t) = ?t"
      using skip_ws_prefix [OF sp(2) c(2), of u] by simp
    have "parse_items d (acc @ [v]) ?t = Inr (PList ((acc @ [v]) @ vs), r)"
      using Cons.IH [of "acc @ [v]"] Cons.prems Cons by simp
    moreover have "join i (json_items i k (v # vs)) @ CHR '']'' # r
        = json_text i k v @ CHR '','' # sp @ ?t"
      using Cons sp(1) by simp
    ultimately show ?thesis
      using pv [of "CHR '','' # sp @ ?t"] len t
      by (subst parse_items.simps) (simp add: skip_ws_stop)
  qed
qed simp


text \<open>One member: its key, the colon and its value; then what follows.\<close>

lemma member_value_start:
  assumes "is_sep (CHR '':'') k" "json_clean v"
  obtains w c cs where "k = CHR '':'' # w" "\<forall>x \<in> set w. json_ws x"
    "json_text i k v = c # cs" "\<not> json_ws c"
  using assms value_start_text [of v i k] unfolding is_sep_def value_start_def by blast

lemma parse_members_step:
  assumes k: "is_sep (CHR '':'') k" and v: "json_clean v" and s: "utf8_valid s"
    and pv: "parse_value d (json_text i k v @ t) = Inr (v, t)"
    and t: "skip_ws t = c # r"
  shows "parse_members d acc (json_str s @ k @ json_text i k v @ t)
    = (if c = CHR ''}'' then Inr (PDict (dset acc s v), r)
       else if c = CHR '','' then parse_members d (dset acc s v) (skip_ws r)
       else Inl (jerr ''Expecting ',' delimiter''))"
proof -
  obtain w b bs where w: "k = CHR '':'' # w" "\<forall>x \<in> set w. json_ws x"
    "json_text i k v = b # bs" "\<not> json_ws b"
    using member_value_start [OF k v] by blast
  let ?chars = "concat (map json_escape_cp (codepoints s))"
  have p: "parse_chars (?chars @ dquote # k @ json_text i k v @ t)
      = Inr (s, k @ json_text i k v @ t)"
    using parse_chars_codepoints [OF s] by simp
  have colon: "skip_ws (k @ json_text i k v @ t) = k @ json_text i k v @ t"
    using w(1) by (simp add: skip_ws_stop)
  have val: "skip_ws (tl (k @ json_text i k v @ t)) = json_text i k v @ t"
    using w skip_ws_prefix [OF w(2,4), of "bs @ t"] by simp
  have frame: "json_str s @ k @ json_text i k v @ t
      = dquote # ?chars @ dquote # k @ json_text i k v @ t"
    by (simp add: json_str_def)
  have "starts_with (k @ json_text i k v @ t) '':''" using w(1) by simp
  then show ?thesis
    unfolding frame
    by (subst parse_members.simps) (simp add: p colon val pv t Let_def)
qed

lemma parse_members_text:
  assumes i: "is_sep (CHR '','') i" and k: "is_sep (CHR '':'') k"
    and "\<And>s v r. (s, v) \<in> set kvs \<Longrightarrow> num_end r \<Longrightarrow>
           parse_value d (json_text i k v @ r) = Inr (v, r)"
    and "\<forall>kv \<in> set kvs. json_clean (snd kv) \<and> utf8_valid (fst kv)"
    and "distinct (map fst (acc @ kvs))" and "kvs \<noteq> []"
  shows "parse_members d acc (join i (json_members i k kvs) @ CHR ''}'' # r)
    = Inr (PDict (acc @ kvs), r)"
  using assms(3-6)
proof (induction kvs arbitrary: acc)
  case (Cons kv kvs)
  obtain s v where kv: "kv = (s, v)" by (cases kv)
  have pv: "num_end t \<Longrightarrow> parse_value d (json_text i k v @ t) = Inr (v, t)" for t
    using Cons.prems(1) kv by auto
  have clean: "json_clean v" "utf8_valid s" using Cons.prems(2) kv by auto
  have fresh: "dset acc s v = acc @ [(s, v)]"
    using Cons.prems(3) kv by (intro dset_fresh) auto
  show ?case
  proof (cases kvs)
    case Nil
    with kv pv [of "CHR ''}'' # r"] fresh show ?thesis
      using parse_members_step [OF k clean pv, of "CHR ''}'' # r" "CHR ''}''" r acc]
      by (simp add: skip_ws_stop)
  next
    case (Cons kw ws)
    obtain sp where sp: "i = CHR '','' # sp" "\<forall>x \<in> set sp. json_ws x"
      using i by (auto simp: is_sep_def)
    let ?t = "join i (json_members i k kvs) @ CHR ''}'' # r"
    have "\<exists>u. ?t = dquote # u"
      unfolding Cons by (cases kw; cases ws) (auto simp: json_str_def)
    then obtain u where u: "?t = dquote # u" by blast
    then have t: "skip_ws (sp @ ?t) = ?t"
      using skip_ws_prefix [OF sp(2), of dquote u] by simp
    have "parse_members d (acc @ [(s, v)]) ?t = Inr (PDict ((acc @ [(s, v)]) @ kvs), r)"
      using Cons.prems Cons kv by (intro Cons.IH) auto
    moreover have "join i (json_members i k (kv # kvs)) @ CHR ''}'' # r
        = json_str s @ k @ json_text i k v @ CHR '','' # sp @ ?t"
      using Cons sp(1) kv by (cases kw) simp
    ultimately show ?thesis
      using parse_members_step [OF k clean pv, of "CHR '','' # sp @ ?t" "CHR '',''" "sp @ ?t" acc]
        fresh t kv by (simp add: skip_ws_stop)
  qed
qed simp

lemma parse_value_text:
  assumes i: "is_sep (CHR '','') i" and k: "is_sep (CHR '':'') k"
  shows "json_clean v \<Longrightarrow> json_depth v \<le> d \<Longrightarrow> num_end r \<Longrightarrow>
    parse_value d (json_text i k v @ r) = Inr (v, r)"
proof (induction v arbitrary: d r)
  case (PStr s)
  then show ?case
    by (simp add: json_str_def parse_value.simps parse_chars_codepoints)
next
  case (PInt n)
  then show ?case by (simp add: parse_value_int_str)
next
  case (PList vs)
  from PList.prems(2) have d: "0 < d" "\<forall>v \<in> set vs. json_depth v \<le> d - 1"
    unfolding json_depth_list by blast+
  show ?case
  proof (cases vs)
    case Nil
    with d show ?thesis by (simp add: parse_value.simps skip_ws_stop)
  next
    case (Cons w ws)
    let ?t = "join i (json_items i k vs) @ CHR '']'' # r"
    have items: "parse_items (d - 1) [] ?t = Inr (PList vs, r)"
      using PList.IH PList.prems(1) d(2) Cons
        parse_items_text [OF i, of vs "d - 1" k "[]" r, unfolded append_Nil]
      by (metis json_clean.simps(4) list.distinct(1))
    obtain c cs where c: "json_text i k w = c # cs" "\<not> json_ws c" "c \<noteq> CHR '']''"
      using PList.prems(1) Cons value_start_text [of w i k] by (auto simp: value_start_def)
    have "\<exists>u. ?t = c # u" unfolding Cons using c(1) by (cases ws) auto
    then obtain u where u: "?t = c # u" by blast
    have "skip_ws ?t = ?t" "\<not> starts_with ?t '']''"
      unfolding u using c by (simp_all add: skip_ws_stop)
    with d(1) items show ?thesis by (simp add: parse_value.simps)
  qed
next
  case (PDict kvs)
  from PDict.prems(2) have d: "0 < d" "\<forall>kv \<in> set kvs. json_depth (snd kv) \<le> d - 1"
    unfolding json_depth_dict by blast+
  show ?case
  proof (cases kvs)
    case Nil
    with d show ?thesis by (simp add: parse_value.simps skip_ws_stop)
  next
    case (Cons kw ws)
    let ?t = "join i (json_members i k kvs) @ CHR ''}'' # r"
    have IH: "(s, v) \<in> set kvs \<Longrightarrow> num_end q \<Longrightarrow>
        parse_value (d - 1) (json_text i k v @ q) = Inr (v, q)" for s v q
      using PDict.IH [of "(s, v)" v "d - 1" q] PDict.prems(1) d by force
    have clean: "\<forall>kv \<in> set kvs. json_clean (snd kv) \<and> utf8_valid (fst kv)"
      using PDict.prems(1) by simp
    have members: "parse_members (d - 1) [] ?t = Inr (PDict kvs, r)"
      using parse_members_text [OF i k IH clean, where acc = "[]" and r = r] PDict.prems(1) Cons
      by simp
    have "\<exists>u. ?t = dquote # u"
      unfolding Cons by (cases kw; cases ws) (auto simp: json_str_def)
    then obtain u where u: "?t = dquote # u" by blast
    have "skip_ws ?t = ?t" "\<not> starts_with ?t ''}''"
      unfolding u by (simp_all add: skip_ws_stop)
    with d(1) members show ?thesis by (simp add: parse_value.simps)
  qed
qed (simp_all add: parse_value.simps)

lemma json_loads_text:
  assumes "is_sep (CHR '','') i" "is_sep (CHR '':'') k" "json_clean v" "json_depth v \<le> d"
  shows "json_loads d (json_text i k v) = Inr v"
  using parse_value_text [OF assms, of "[]"] skip_ws_text [OF assms(3), of i k "[]"]
  by (simp add: json_loads_def skip_ws_def)

lemma json_compact_text: "json_clean v \<Longrightarrow> json_compact v = Inr (json_text '','' '':'' v)"
  by (simp add: json_compact_def json_dumps_def json_clean_ok)

section \<open>The characters of a compact text\<close>

text \<open>The text of a clean value is printable ASCII: it contains no line break.\<close>

definition printable :: "char \<Rightarrow> bool" where
  "printable c \<longleftrightarrow> 32 \<le> ord c \<and> ord c < 127"

definition all_printable :: "string \<Rightarrow> bool" where
  "all_printable s \<longleftrightarrow> (\<forall>c \<in> set s. printable c)"

lemma all_printable_simps [simp]:
  "all_printable []" "all_printable (c # s) \<longleftrightarrow> printable c \<and> all_printable s"
  "all_printable (s @ t) \<longleftrightarrow> all_printable s \<and> all_printable t"
  by (auto simp: all_printable_def)

lemma printable_hex_char: "d < 16 \<Longrightarrow> printable (hex_char d)"
  by (auto simp: printable_def hex_char_def)

lemma all_printable_hex4: "all_printable (hex4 n)"
  by (simp add: hex4_def printable_hex_char)

lemma all_printable_escape: "all_printable (json_escape_cp n)"
  by (simp add: json_escape_cp_def all_printable_hex4) (simp add: printable_def)

lemma all_printable_json_str: "all_printable (json_str s)"
proof -
  have "all_printable (concat (map json_escape_cp ns))" for ns
    by (induction ns) (simp_all add: all_printable_escape)
  then show ?thesis by (simp add: json_str_def printable_def)
qed

lemma all_printable_int_str: "all_printable (int_str n)"
proof -
  have "printable c" if "is_digit c" for c
    using that by (simp add: is_digit_def printable_def)
  then have "all_printable (nat_str m)" for m
    using nat_str_digits by (auto simp: all_printable_def)
  then show ?thesis by (simp add: int_str_def) (simp add: printable_def)
qed

lemma all_printable_join:
  "all_printable sep \<Longrightarrow> (\<And>x. x \<in> set xs \<Longrightarrow> all_printable x) \<Longrightarrow> all_printable (join sep xs)"
  by (induction sep xs rule: join.induct) auto

lemma all_printable_text:
  assumes "all_printable i" "all_printable k"
  shows "json_clean v \<Longrightarrow> all_printable (json_text i k v)"
proof (induction v)
  case (PList vs)
  have "json_items i k ws = map (json_text i k) ws" for ws by (induction ws) auto
  with PList assms show ?case by (auto simp: printable_def intro!: all_printable_join)
next
  case (PDict kvs)
  have m: "json_members i k ws = map (\<lambda>(s, v). json_str s @ k @ json_text i k v) ws" for ws
    by (induction ws) auto
  have "all_printable x" if "x \<in> set (json_members i k kvs)" for x
  proof -
    from that obtain s v where sv: "(s, v) \<in> set kvs" "x = json_str s @ k @ json_text i k v"
      by (auto simp: m)
    have "all_printable (json_text i k v)"
      using PDict.IH [OF sv(1), of v] PDict.prems sv(1) by fastforce
    with sv(2) assms show ?thesis by (simp add: all_printable_json_str)
  qed
  with assms show ?case by (auto simp: printable_def intro!: all_printable_join)
qed (simp_all add: printable_def all_printable_json_str all_printable_int_str)

text \<open>A text is read back whatever white space follows it, a line break in particular.\<close>

lemma json_loads_text_ws:
  assumes "is_sep (CHR '','') i" "is_sep (CHR '':'') k" "json_clean v" "json_depth v \<le> d"
    and ws: "\<forall>c \<in> set w. json_ws c"
  shows "json_loads d (json_text i k v @ w) = Inr v"
proof -
  have "num_end w" using ws by (cases w) (auto simp: num_end_def json_ws_def is_digit_def)
  with parse_value_text [OF assms(1-4)] skip_ws_text [OF assms(3), of i k w] ws show ?thesis
    by (simp add: json_loads_def) (simp add: skip_ws_def)
qed

lemma json_compact_read_back:
  assumes "json_clean v" "json_depth v \<le> d"
  shows "\<exists>t. json_compact v = Inr t \<and> all_printable t \<and> t \<noteq> []
    \<and> (\<forall>w. (\<forall>c \<in> set w. json_ws c) \<longrightarrow> rbind (py_decode (t @ w)) (json_loads d) = Inr v)"
proof -
  let ?t = "json_text '','' '':'' v"
  have p: "all_printable ?t"
    using assms(1) by (intro all_printable_text) (simp_all add: printable_def)
  have "rbind (py_decode (?t @ w)) (json_loads d) = Inr v" if w: "\<forall>c \<in> set w. json_ws c" for w
  proof -
    have "\<forall>c \<in> set (?t @ w). ord c < 128"
      using p w by (fastforce simp: all_printable_def printable_def json_ws_def)
    then have "py_decode (?t @ w) = Inr (?t @ w)" by (simp add: py_decode_def ascii_utf8_valid)
    moreover have "json_loads d (?t @ w) = Inr v"
      by (rule json_loads_text_ws [OF _ _ assms w]) simp_all
    ultimately show ?thesis by simp
  qed
  moreover have "?t \<noteq> []" using value_start_text [OF assms(1), of "'',''" "'':''"]
    by (auto simp: value_start_def)
  ultimately show ?thesis using p json_compact_text [OF assms(1)] by blast
qed

section \<open>Which errors the scanner raises\<close>

lemma py_class_jerr [simp]: "py_class (jerr m) = ''JSONDecodeError''"
  by (simp add: jerr_def)

lemma parse_chars_error: "parse_chars s = Inl e \<Longrightarrow> py_class e = ''JSONDecodeError''"
proof (induction s arbitrary: e rule: parse_chars.induct)
  case 1
  then show ?case by (auto simp: jerr_def)
next
  case (2 c cs)
  have esc: "parse_escape cs = Inl e \<Longrightarrow> py_class e = ''JSONDecodeError''" for e
    by (auto simp: parse_escape_def parse_unicode_def bad_uXXXX_def jerr_def
        split: list.splits if_splits option.splits)
  have pre: "prepend t p = Inl e \<longleftrightarrow> p = Inl e" for t p e
    by (cases "(t, p)" rule: prepend.cases) auto
  from 2 show ?case
    by (auto simp: parse_chars.simps(2) pre jerr_def split: if_splits sum.splits prod.splits dest: esc)
qed

lemma parse_number_error: "parse_number s = Inl e \<Longrightarrow> py_class e = ''JSONDecodeError''"
  by (auto simp: parse_number_def Let_def split: option.splits prod.splits if_splits)

text \<open>Only nesting beyond \<open>d\<close> gives an error of another class, and a text has less nesting than
  characters.\<close>

definition scan_error :: "nat \<Rightarrow> string \<Rightarrow> exc \<Rightarrow> bool" where
  "scan_error d s e \<longleftrightarrow> py_class e = ''JSONDecodeError'' \<or> py_class e = ''RecursionError'' \<and> d < length s"

lemma parse_errors:
  "parse_value d s = Inl e \<Longrightarrow> scan_error d s e"
  "parse_items d acc s = Inl e \<Longrightarrow> scan_error d s e"
  "parse_members d mems s = Inl e \<Longrightarrow> scan_error d s e"
proof (induction d s and d acc s and d mems s arbitrary: e and e and e
    rule: parse_value_parse_items_parse_members.induct)
  case (1 d)
  then show ?case by (auto simp: parse_value.simps scan_error_def)
next
  case (2 d c cs)
  have l: "length (skip_ws cs) \<le> length cs" by simp
  have step: "scan_error d (c # cs) e" if "scan_error (d - Suc 0) (skip_ws cs) e" "0 < d" for c e
    using that l unfolding scan_error_def by (cases "length (skip_ws cs)") auto
  have zero: "scan_error 0 (c # cs) (PyExc ''RecursionError'' m)" for c m by (simp add: scan_error_def)
  have chars: "parse_chars cs = Inl e \<Longrightarrow> scan_error d (c # cs) e" for c e
    by (simp add: scan_error_def parse_chars_error)
  have num: "parse_number (c # cs) = Inl e \<Longrightarrow> scan_error d (c # cs) e" for e
    by (simp add: scan_error_def parse_number_error)
  from 2(3) show ?case
    unfolding parse_value.simps(2) [of d c cs]
    by (auto intro: chars num zero step 2(1,2) [simplified] split: if_splits sum.splits prod.splits)
next
  case (3 d acc s)
  have less: "scan_error d s e" if "scan_error d r e" "length r \<le> length s" for r e
    using that by (auto simp: scan_error_def)
  have j: "scan_error d s (jerr m)" for m by (simp add: scan_error_def)
  have tail: "scan_error d s e" if "parse_value d s = Inr (v, r)" "length r < length s"
    "skip_ws r = CHR '','' # r'" "parse_items d (acc @ [v]) (skip_ws r') = Inl e" for v r r' e
  proof (rule less)
    show "scan_error d (skip_ws r') e" using 3(2) [OF that(1) refl that(2,3)] that(4) by simp
    show "length (skip_ws r') \<le> length s" using skip_ws_Cons [OF that(3)] that(2) by simp
  qed
  from 3(3) show ?case
    unfolding parse_items.simps [of d acc s]
    by (auto intro: j 3(1) tail split: if_splits sum.splits prod.splits list.splits)
next
  case (4 d acc s)
  have less: "scan_error d s e" if "scan_error d r e" "length r \<le> length s" for r e
    using that by (auto simp: scan_error_def)
  have j: "scan_error d s (jerr m)" for m by (simp add: scan_error_def)
  have chars: "parse_chars cs = Inl e \<Longrightarrow> scan_error d s e" for e cs
    by (simp add: scan_error_def parse_chars_error)
  have val: "scan_error d s e" if "s = dquote # cs" "parse_chars cs = Inr (key, r)"
    "starts_with (skip_ws r) '':''" "length (skip_ws (tl (skip_ws r))) < length s"
    "parse_value d (skip_ws (tl (skip_ws r))) = Inl e" for cs key r e
    using less [OF 4(1) [OF that(1) _ that(2) refl _ refl that(4,5)]] that(3,4) by simp
  have tail: "scan_error d s e" if "s = dquote # cs" "parse_chars cs = Inr (key, r)"
    "starts_with (skip_ws r) '':''" "length (skip_ws (tl (skip_ws r))) < length s"
    "parse_value d (skip_ws (tl (skip_ws r))) = Inr (v, r1)" "length r1 < length s"
    "skip_ws r1 = CHR '','' # r2" "parse_members d (dset acc key v) (skip_ws r2) = Inl e" for cs key r v r1 r2 e
  proof (rule less)
    show "scan_error d (skip_ws r2) e"
      using 4(2) [OF that(1) _ that(2) refl _ refl that(4,5) refl that(6,7)] that(3,8) by simp
    show "length (skip_ws r2) \<le> length s" using skip_ws_Cons [OF that(7)] that(6) by simp
  qed
  define P where "P = scan_error d s"
  note hint = j [folded P_def] chars [folded P_def]
  have "P e"
  proof (cases s)
    case Nil
    with 4(3) show ?thesis unfolding parse_members.simps [of d acc s] by (auto intro: hint)
  next
    case (Cons q cs)
    show ?thesis
    proof (cases "q = dquote")
      case True
      with Cons have s: "s = dquote # cs" by simp
      note v = val [OF s, folded P_def] and t = tail [OF s, folded P_def]
      from 4(3) show ?thesis
        unfolding parse_members.simps [of d acc s] Let_def using s
        by (auto intro: hint v t split: if_splits sum.splits prod.splits list.splits)
    next
      case False
      with Cons 4(3) show ?thesis unfolding parse_members.simps [of d acc s] by (auto intro: hint)
    qed
  qed
  then show ?case by (simp add: P_def)
qed

lemma json_loads_error:
  assumes "json_loads d s = Inl e"
  shows "py_class e = ''JSONDecodeError'' \<or> py_class e = ''RecursionError'' \<and> d < length s"
proof -
  have "scan_error d (skip_ws s) e"
    using assms by (auto simp: json_loads_def scan_error_def split: sum.splits prod.splits if_splits dest: parse_errors(1) [unfolded scan_error_def])
  then show ?thesis using length_skip_ws [of s] by (auto simp: scan_error_def simp del: length_skip_ws)
qed

text \<open>Opening one list more than the scanner allows.\<close>

lemma parse_value_too_deep:
  "d < n \<Longrightarrow> parse_value d (replicate n (CHR ''['')) = Inl (PyExc ''RecursionError'' ''maximum recursion depth exceeded'')"
proof (induction n arbitrary: d)
  case (Suc n)
  have ws: "skip_ws (replicate n (CHR ''['')) = replicate n (CHR ''['')"
    by (cases n) (simp_all add: skip_ws_def json_ws_def)
  have st: "\<not> starts_with (replicate n (CHR ''['')) '']''" by (cases n) simp_all
  show ?case
  proof (cases "d = 0")
    case True
    then show ?thesis by (simp add: parse_value.simps)
  next
    case False
    with Suc.prems have "d - 1 < n" by simp
    from Suc.IH [OF this] False show ?thesis
      by (simp add: parse_value.simps(2) ws st parse_items.simps)
  qed
qed simp

lemma json_loads_too_deep:
  "json_loads d (replicate (Suc d) (CHR ''['')) = Inl (PyExc ''RecursionError'' ''maximum recursion depth exceeded'')"
proof -
  have "skip_ws (replicate (Suc d) (CHR ''['')) = replicate (Suc d) (CHR ''['')"
    by (simp add: skip_ws_def json_ws_def)
  then show ?thesis using parse_value_too_deep [of d "Suc d"] by (simp add: json_loads_def del: replicate.simps)
qed
end
