(* ===== verification/Cbor.thy ===== *)
theory Cbor
  imports Wire Json
begin

text \<open>
  The CBOR subset of tools/usb_rpc_smoke.py: the encoder of unsigned integers, text,
  booleans and maps, and \<open>CborReader\<close>, whose position in the data is modelled by the
  bytes still to be read. The reader's recursion is bounded by the nesting \<open>d\<close> the
  interpreter allows.
\<close>

section \<open>Text and bytes\<close>

definition bytes_of :: "string \<Rightarrow> bytes" where
  "bytes_of s = map (\<lambda>c. byte_of (ord c)) s"

definition string_of :: "bytes \<Rightarrow> string" where
  "string_of bs = map (\<lambda>b. chr (unat b)) bs"

lemma string_of_bytes_of [simp]: "string_of (bytes_of s) = s"
  by (induction s) (simp_all add: string_of_def bytes_of_def unat_byte_of)

lemma length_bytes_of [simp]: "length (bytes_of s) = length s"
  by (simp add: bytes_of_def)

section \<open>Encoder\<close>

definition head_byte :: "int \<Rightarrow> int \<Rightarrow> byte" where
  "head_byte major additional = word_of_int (push_bit 5 major OR additional)"

definition py_append :: "bytes result \<Rightarrow> bytes result \<Rightarrow> bytes result" where
  "py_append a b = (case a of Inl e \<Rightarrow> Inl e
     | Inr x \<Rightarrow> (case b of Inl e \<Rightarrow> Inl e | Inr y \<Rightarrow> Inr (x @ y)))"

definition encode_uint :: "int \<Rightarrow> bytes result" where
  "encode_uint value =
     (if value < 0 then Inl (PyExc ''ValueError'' ''negative integers are not supported'')
      else if value < 24 then Inr [word_of_int value]
      else if value \<le> 0xFF then Inr [0x18, word_of_int value]
      else if value \<le> 0xFFFF then py_append (Inr [0x19]) (pack_H value)
      else py_append (Inr [0x1A]) (pack_I value))"

definition encode_type_len :: "int \<Rightarrow> int \<Rightarrow> bytes result" where
  "encode_type_len major len =
     (if len < 24 then Inr [head_byte major len]
      else if len \<le> 0xFF then Inr [head_byte major 24, word_of_int len]
      else if len \<le> 0xFFFF then py_append (Inr [head_byte major 25]) (pack_H len)
      else py_append (Inr [head_byte major 26]) (pack_I len))"

definition encode_text :: "string \<Rightarrow> bytes result" where
  "encode_text value =
     py_append (encode_type_len 3 (int (length value))) (Inr (bytes_of value))"

fun encode_value :: "pyval \<Rightarrow> bytes result"
  and encode_entries :: "pydict \<Rightarrow> bytes result" where
  "encode_value (PBool b) = Inr [if b then 0xF5 else 0xF4]"
| "encode_value (PInt i) = encode_uint i"
| "encode_value (PStr s) = encode_text s"
| "encode_value (PDict kvs) =
     py_append (encode_type_len 5 (int (length kvs))) (encode_entries kvs)"
| "encode_value v = Inl (PyExc ''TypeError'' (''unsupported CBOR value: '' @ py_repr v))"
| "encode_entries [] = Inr []"
| "encode_entries ((k, v) # kvs) =
     py_append (encode_text k) (py_append (encode_value v) (encode_entries kvs))"

definition encode_map :: "pydict \<Rightarrow> bytes result" where
  "encode_map values = py_append (encode_type_len 5 (int (length values))) (encode_entries values)"

lemma py_append_Inr:
  "py_append a b = Inr z \<longleftrightarrow> (\<exists>x y. a = Inr x \<and> b = Inr y \<and> z = x @ y)"
  by (auto simp: py_append_def split: sum.splits)

section \<open>CborReader\<close>

definition cbor_error :: "string \<Rightarrow> exc" where
  "cbor_error m = PyExc ''ValueError'' m"

definition cbor_read :: "int \<Rightarrow> bytes \<Rightarrow> (bytes \<times> bytes) result" where
  "cbor_read count s =
     (if int (length s) < count then Inl (cbor_error ''truncated CBOR payload'')
      else Inr (take (nat count) s, drop (nat count) s))"

definition next_is_break :: "bytes \<Rightarrow> bool" where
  "next_is_break s \<longleftrightarrow> (case s of [] \<Rightarrow> False | b # r \<Rightarrow> b = 0xFF)"

definition read_len :: "int \<Rightarrow> bytes \<Rightarrow> (int \<times> bytes) result" where
  "read_len additional s =
     (if additional < 24 then Inr (additional, s)
      else
        (let n = (if additional = 24 then 1 else if additional = 25 then 2
                  else if additional = 26 then 4 else if additional = 27 then 8 else 0)
         in if n = 0
            then Inl (cbor_error (''unsupported CBOR additional info: '' @ int_str additional))
            else (case cbor_read n s of
                    Inl e \<Rightarrow> Inl e
                  | Inr (bs, r) \<Rightarrow> Inr (unpack_be bs, r))))"

definition major_of :: "byte \<Rightarrow> int" where "major_of b = drop_bit 5 (uint b)"
definition additional_of :: "byte \<Rightarrow> int" where "additional_of b = uint b AND 0x1F"

text \<open>\<open>self.read(self.read_len(additional))\<close>: a counted run of bytes.\<close>

definition read_counted :: "int \<Rightarrow> bytes \<Rightarrow> (bytes \<times> bytes) result" where
  "read_counted additional s =
     (case read_len additional s of Inl e \<Rightarrow> Inl e | Inr (n, r) \<Rightarrow> cbor_read n r)"

lemma cbor_read_length: "cbor_read n s = Inr (c, r) \<Longrightarrow> length r \<le> length s"
  by (auto simp: cbor_read_def split: if_splits)

lemma read_len_length: "read_len a s = Inr (n, r) \<Longrightarrow> length r \<le> length s"
  by (auto simp: read_len_def Let_def split: if_splits sum.splits dest: cbor_read_length)

lemma read_counted_length: "read_counted a s = Inr (c, r) \<Longrightarrow> length r \<le> length s"
  by (auto simp: read_counted_def split: sum.splits dest!: read_len_length cbor_read_length)

text \<open>The chunks of an indefinite text, up to the break.\<close>

function read_indefinite_text :: "bytes \<Rightarrow> bytes \<Rightarrow> (bytes \<times> bytes) result" where
  "read_indefinite_text chunks s =
     (case s of
        [] \<Rightarrow> Inl (cbor_error ''truncated CBOR payload'')
      | b # r \<Rightarrow>
          if b = 0xFF then Inr (chunks, r)
          else if major_of b \<noteq> 3 \<or> additional_of b = 31
          then Inl (cbor_error ''invalid indefinite CBOR text chunk'')
          else (case read_counted (additional_of b) r of
                  Inl e \<Rightarrow> Inl e
                | Inr (c, r') \<Rightarrow> read_indefinite_text (chunks @ c) r'))"
  by pat_completeness auto
termination
  by (relation "measure (\<lambda>(c, s). length s)") (auto dest: read_counted_length)

declare read_indefinite_text.simps [simp del]

definition read_text :: "(bytes \<times> bytes) result \<Rightarrow> (pyval \<times> bytes) result" where
  "read_text x =
     (case x of
        Inl e \<Rightarrow> Inl e
      | Inr (c, r) \<Rightarrow> (case py_decode (string_of c) of Inl e \<Rightarrow> Inl e | Inr t \<Rightarrow> Inr (PStr t, r)))"

definition as_map :: "(pydict \<times> bytes) result \<Rightarrow> (pyval \<times> bytes) result" where
  "as_map x = (case x of Inl e \<Rightarrow> Inl e | Inr (kvs, r) \<Rightarrow> Inr (PDict kvs, r))"

function (sequential) read_value :: "nat \<Rightarrow> bytes \<Rightarrow> (pyval \<times> bytes) result"
  and read_map_entry :: "nat \<Rightarrow> pydict \<Rightarrow> bytes \<Rightarrow> (pydict \<times> bytes) result"
  and read_entries :: "nat \<Rightarrow> nat \<Rightarrow> pydict \<Rightarrow> bytes \<Rightarrow> (pydict \<times> bytes) result"
  and read_until_break :: "nat \<Rightarrow> pydict \<Rightarrow> bytes \<Rightarrow> (pydict \<times> bytes) result" where
  "read_value d [] = Inl (cbor_error ''truncated CBOR payload'')"
| "read_value d (b # r) =
     (let major = major_of b; additional = additional_of b in
      if major = 0 then
        (case read_len additional r of Inl e \<Rightarrow> Inl e | Inr (n, r') \<Rightarrow> Inr (PInt n, r'))
      else if major = 3 then
        read_text (if additional = 31 then read_indefinite_text [] r
                   else read_counted additional r)
      else if major = 5 then
        (if d = 0 then Inl (PyExc ''RecursionError'' ''maximum recursion depth exceeded'')
         else if additional = 31 then as_map (read_until_break (d - 1) [] r)
         else (case read_len additional r of
                 Inl e \<Rightarrow> Inl e
               | Inr (n, r') \<Rightarrow> as_map (read_entries (d - 1) (nat n) [] r')))
      else if major = 7 \<and> (additional = 20 \<or> additional = 21)
      then Inr (PBool (additional = 21), r)
      else Inl (cbor_error (''unsupported CBOR item: major='' @ int_str major
                            @ '' additional='' @ int_str additional)))"
| "read_map_entry d acc s =
     (case read_value d s of
        Inl e \<Rightarrow> Inl e
      | Inr (PStr k, r) \<Rightarrow>
          (case read_value d r of Inl e \<Rightarrow> Inl e | Inr (v, r') \<Rightarrow> Inr (dset acc k v, r'))
      | Inr (v, r) \<Rightarrow> Inl (cbor_error ''CBOR map key is not text''))"
| "read_entries d 0 acc s = Inr (acc, s)"
| "read_entries d (Suc n) acc s =
     (case read_map_entry d acc s of
        Inl e \<Rightarrow> Inl e | Inr (acc', r) \<Rightarrow> read_entries d n acc' r)"
| "read_until_break d acc s =
     (if next_is_break s then Inr (acc, tl s)
      else (case read_map_entry d acc s of
              Inl e \<Rightarrow> Inl e
            | Inr (acc', r) \<Rightarrow>
                if length r < length s then read_until_break d acc' r
                else Inl (cbor_error ''truncated CBOR payload'')))"
  by pat_completeness auto
termination
  by (relation "measures
       [case_sum (case_sum (\<lambda>(d, s). d) (\<lambda>(d, acc, s). d))
          (case_sum (\<lambda>(d, n, acc, s). d) (\<lambda>(d, acc, s). d)),
        case_sum (case_sum (\<lambda>_. 0) (\<lambda>_. 1)) (\<lambda>_. 2),
        case_sum (\<lambda>_. 0)
          (case_sum (\<lambda>(d, n, acc, s). n) (\<lambda>(d, acc, s). length s))]") auto

declare read_value.simps [simp del] read_map_entry.simps [simp del]
  read_until_break.simps [simp del]

definition decode_map :: "nat \<Rightarrow> bytes \<Rightarrow> pydict result" where
  "decode_map d data =
     (case read_value d data of
        Inl e \<Rightarrow> Inl e
      | Inr (v, r) \<Rightarrow>
          if r \<noteq> [] then Inl (cbor_error ''trailing CBOR data'')
          else (case v of PDict kvs \<Rightarrow> Inr kvs
                | _ \<Rightarrow> Inl (cbor_error ''CBOR payload is not a map'')))"

section \<open>Decoding what the encoder wrote\<close>

lemma encode_value_PDict [simp]: "encode_value (PDict kvs) = encode_map kvs"
  by (simp add: encode_map_def)

fun cbor_clean :: "pyval \<Rightarrow> bool" where
  "cbor_clean (PBool b) = True"
| "cbor_clean (PInt i) = (0 \<le> i \<and> i < 4294967296)"
| "cbor_clean (PStr s) = (utf8_valid s \<and> length s < 4294967296)"
| "cbor_clean (PDict kvs) =
     (distinct (map fst kvs) \<and> length kvs < 4294967296
      \<and> (\<forall>kv \<in> set kvs. utf8_valid (fst kv) \<and> length (fst kv) < 4294967296 \<and> cbor_clean (snd kv)))"
| "cbor_clean v = False"

lemma head_byte_add:
  assumes "0 \<le> a" "a < 32"
  shows "push_bit 5 m OR a = 32 * m + (a :: int)"
proof -
  have a: "take_bit 5 a = a" using assms by (simp add: take_bit_int_eq_self_iff)
  have "\<not> bit (push_bit 5 m) n \<or> \<not> bit a n" for n
    by (subst a [symmetric]) (auto simp: bit_simps)
  then have "push_bit 5 m + a = push_bit 5 m OR a" by (rule disjunctive_add)
  then show ?thesis by (simp add: push_bit_eq_mult)
qed

lemma head_byte_fields:
  assumes "0 \<le> m" "m < 8" "0 \<le> a" "a < 32"
  shows "major_of (head_byte m a) = m" and "additional_of (head_byte m a) = a"
proof -
  have r: "0 \<le> 32 * m + a" "32 * m + a < 256" using assms by linarith+
  then have u: "uint (head_byte m a) = 32 * m + a"
    by (simp only: head_byte_def head_byte_add [OF assms(3,4)] uint_byte_mod) simp
  show "major_of (head_byte m a) = m"
    using assms by (simp add: major_of_def u drop_bit_eq_div)
  have "a mod 32 = a" using assms by (intro mod_pos_pos_trivial) auto
  moreover have "x AND 31 = x mod 32" for x :: int
    using take_bit_eq_mask [of 5 x] by (simp add: take_bit_eq_mod mask_eq_exp_minus_1)
  ultimately show "additional_of (head_byte m a) = a"
    by (simp add: additional_of_def u)
qed

lemma cbor_read_append:
  "n = int (length a) \<Longrightarrow> cbor_read n (a @ b) = Inr (a, b)"
  by (simp add: cbor_read_def)

lemma encode_type_len_head:
  assumes "0 \<le> n" "n < 4294967296" "0 \<le> m" "m < 8"
  obtains a bs where "encode_type_len m n = Inr (head_byte m a # bs)" "0 \<le> a" "a < 28"
    "\<And>r. read_len a (bs @ r) = Inr (n, r)"
proof -
  consider "n < 24" | "24 \<le> n" "n \<le> 255" | "255 < n" "n \<le> 65535" | "65535 < n" by linarith
  then show ?thesis
  proof cases
    case 1
    then show ?thesis
      using assms by (intro that [of n "[]"]) (auto simp: encode_type_len_def read_len_def)
  next
    case 2
    have "uint (word_of_int n :: byte) = n" using 2 by (simp add: uint_byte_mod)
    with 2 show ?thesis
      by (intro that [of 24 "[word_of_int n]"])
        (auto simp: encode_type_len_def read_len_def cbor_read_def)
  next
    case 3
    then obtain bs where bs: "pack_H n = Inr bs" by (auto simp: pack_H_def)
    from unpack_be_pack_H [OF bs] have u: "unpack_be bs = n" "length bs = 2" by auto
    show ?thesis
      by (rule that [of 25 bs])
        (use 3 u in \<open>auto simp: encode_type_len_def read_len_def bs py_append_def cbor_read_append\<close>)
  next
    case 4
    then obtain bs where bs: "pack_I n = Inr bs" using assms by (auto simp: pack_I_def)
    from unpack_be_pack_I [OF bs] have u: "unpack_be bs = n" "length bs = 4" by auto
    show ?thesis
      by (rule that [of 26 bs])
        (use 4 u in \<open>auto simp: encode_type_len_def read_len_def bs py_append_def cbor_read_append\<close>)
  qed
qed

lemma encode_uint_type_len:
  assumes "0 \<le> n" "n < 4294967296"
  shows "encode_uint n = encode_type_len 0 n"
proof -
  have h: "head_byte 0 a = word_of_int a" if "0 \<le> a" "a < 32" for a
    using that by (simp add: head_byte_def head_byte_add)
  show ?thesis
    using assms by (auto simp: encode_uint_def encode_type_len_def h)
qed

lemma read_value_uint:
  assumes "0 \<le> n" "n < 4294967296" "encode_uint n = Inr bs"
  shows "read_value d (bs @ r) = Inr (PInt n, r)"
proof -
  obtain a cs where "encode_type_len 0 n = Inr (head_byte 0 a # cs)" "0 \<le> a" "a < 28"
    "\<And>r. read_len a (cs @ r) = Inr (n, r)"
    using encode_type_len_head [of n 0] assms by auto
  with assms show ?thesis
    by (auto simp: encode_uint_type_len read_value.simps Let_def head_byte_fields)
qed

lemma read_value_text:
  assumes "encode_text s = Inr bs" "utf8_valid s" "length s < 4294967296"
  shows "read_value d (bs @ r) = Inr (PStr s, r)"
proof -
  obtain a cs where h: "encode_type_len 3 (int (length s)) = Inr (head_byte 3 a # cs)"
    "0 \<le> a" "a < 28" and rl: "\<And>r. read_len a (cs @ r) = Inr (int (length s), r)"
    using encode_type_len_head [of "int (length s)" 3] assms by auto
  from h assms(1) have bs: "bs = head_byte 3 a # cs @ bytes_of s"
    by (simp add: encode_text_def py_append_def)
  have "read_counted a (cs @ bytes_of s @ r) = Inr (bytes_of s, r)"
    by (simp add: read_counted_def rl cbor_read_append)
  with h(2,3) assms(2) show ?thesis
    by (simp add: bs read_value.simps Let_def head_byte_fields read_text_def py_decode_def)
qed

lemma read_map_entry_encode:
  assumes "encode_text k = Inr kb" "utf8_valid k" "length k < 4294967296"
    and "read_value d (vb @ r) = Inr (v, r)"
  shows "read_map_entry d acc (kb @ vb @ r) = Inr (dset acc k v, r)"
  using assms(4) by (simp add: read_map_entry.simps read_value_text [OF assms(1-3)])

lemma read_entries_encode:
  assumes "\<And>v bs r. v \<in> snd ` set kvs \<Longrightarrow> encode_value v = Inr bs
      \<Longrightarrow> read_value d (bs @ r) = Inr (v, r)"
    and "\<forall>kv \<in> set kvs. utf8_valid (fst kv) \<and> length (fst kv) < 4294967296"
    and "encode_entries kvs = Inr bs" and "distinct (map fst (acc @ kvs))"
  shows "read_entries d (length kvs) acc (bs @ r) = Inr (acc @ kvs, r)"
  using assms
proof (induction kvs arbitrary: acc bs)
  case Nil
  then show ?case by simp
next
  case (Cons kv kvs)
  obtain k v where kv: "kv = (k, v)" by force
  from Cons.prems(3) obtain kb vb cs where b: "encode_text k = Inr kb" "encode_value v = Inr vb"
    "encode_entries kvs = Inr cs" "bs = kb @ vb @ cs"
    by (auto simp: kv py_append_Inr)
  have "read_map_entry d acc (kb @ vb @ cs @ r) = Inr (dset acc k v, cs @ r)"
    using Cons.prems(1,2) b by (intro read_map_entry_encode) (auto simp: kv)
  moreover have "dset acc k v = acc @ [(k, v)]"
    using Cons.prems(4) by (intro dset_fresh) (auto simp: kv)
  moreover have "read_entries d (length kvs) (acc @ [(k, v)]) (cs @ r)
      = Inr ((acc @ [(k, v)]) @ kvs, r)"
    by (rule Cons.IH) (use Cons.prems b kv in auto)
  ultimately show ?case by (simp add: b kv)
qed

lemma read_value_encode:
  "cbor_clean v \<Longrightarrow> json_depth v \<le> d \<Longrightarrow> encode_value v = Inr bs \<Longrightarrow>
   read_value d (bs @ r) = Inr (v, r)"
proof (induction v arbitrary: d bs r rule: cbor_clean.induct)
  case (4 kvs)
  from "4.prems"(1) have c: "distinct (map fst kvs)" "int (length kvs) < 4294967296"
    "\<forall>kv \<in> set kvs. utf8_valid (fst kv) \<and> length (fst kv) < 4294967296 \<and> cbor_clean (snd kv)"
    by auto
  from "4.prems"(2) have d: "0 < d" "\<forall>kv \<in> set kvs. json_depth (snd kv) \<le> d - 1"
    unfolding json_depth_dict by auto
  obtain a cs where h: "encode_type_len 5 (int (length kvs)) = Inr (head_byte 5 a # cs)"
    "0 \<le> a" "a < 28" and rl: "\<And>r. read_len a (cs @ r) = Inr (int (length kvs), r)"
    using encode_type_len_head [of "int (length kvs)" 5] c by auto
  from "4.prems"(3) h obtain es where es: "encode_entries kvs = Inr es"
    "bs = head_byte 5 a # cs @ es"
    by (auto simp: encode_map_def py_append_Inr)
  have "read_entries (d - 1) (length kvs) [] (es @ r) = Inr ([] @ kvs, r)"
    by (rule read_entries_encode) (use "4.IH" c d es in fastforce)+
  with h(2,3) d(1) show ?case
    by (simp add: es read_value.simps Let_def head_byte_fields rl as_map_def)
qed (auto simp: read_value_uint read_value_text read_value.simps major_of_def additional_of_def
  Let_def drop_bit_eq_div)

lemma encode_uint_total: "0 \<le> n \<Longrightarrow> n < 4294967296 \<Longrightarrow> \<exists>bs. encode_uint n = Inr bs"
  by (auto simp: encode_uint_def py_append_def pack_H_def pack_I_def)

lemma encode_type_len_total:
  "0 \<le> n \<Longrightarrow> n < 4294967296 \<Longrightarrow> \<exists>bs. encode_type_len m n = Inr bs"
  by (auto simp: encode_type_len_def py_append_def pack_H_def pack_I_def)

lemma encode_text_total: "length s < 4294967296 \<Longrightarrow> \<exists>bs. encode_text s = Inr bs"
  using encode_type_len_total [of "int (length s)" 3]
  by (auto simp: encode_text_def py_append_def)

lemma encode_entries_total:
  assumes "\<And>kv. kv \<in> set kvs \<Longrightarrow> length (fst kv) < 4294967296 \<and> (\<exists>bs. encode_value (snd kv) = Inr bs)"
  shows "\<exists>bs. encode_entries kvs = Inr bs"
  using assms
proof (induction kvs)
  case (Cons kv kvs)
  obtain k v where kv: "kv = (k, v)" by force
  have "\<exists>bs. encode_text k = Inr bs" "\<exists>bs. encode_value v = Inr bs"
    using Cons.prems [of kv] by (auto simp: kv intro: encode_text_total)
  moreover have "\<exists>bs. encode_entries kvs = Inr bs" using Cons.IH Cons.prems by simp
  ultimately show ?case by (auto simp: kv py_append_def)
qed simp

lemma encode_value_total: "cbor_clean v \<Longrightarrow> \<exists>bs. encode_value v = Inr bs"
proof (induction v rule: cbor_clean.induct)
  case (4 kvs)
  then have "\<exists>bs. encode_entries kvs = Inr bs" by (intro encode_entries_total) auto
  moreover have "\<exists>bs. encode_type_len 5 (int (length kvs)) = Inr bs"
    using "4.prems" by (intro encode_type_len_total) auto
  ultimately show ?case by (auto simp: encode_map_def py_append_def)
qed (auto intro: encode_uint_total encode_text_total)

text \<open>
  A value the encoder accepts in full is written, and \<open>decode_map\<close> reads it back,
  consuming every byte.
\<close>

lemma decode_map_encode_map:
  assumes "cbor_clean (PDict kvs)" "json_depth (PDict kvs) \<le> d"
  shows "\<exists>bs. encode_map kvs = Inr bs \<and> decode_map d bs = Inr kvs"
proof -
  obtain bs where bs: "encode_value (PDict kvs) = Inr bs"
    using encode_value_total [OF assms(1)] by blast
  have "read_value d (bs @ []) = Inr (PDict kvs, [])"
    by (rule read_value_encode [OF assms bs])
  then have "decode_map d bs = Inr kvs" by (simp add: decode_map_def)
  moreover have "encode_map kvs = Inr bs" using bs by (simp only: encode_value_PDict)
  ultimately show ?thesis by blast
qed

section \<open>The reader consumes its input\<close>

lemma read_indefinite_text_length:
  "read_indefinite_text cs s = Inr (t, r) \<Longrightarrow> length r < length s"
proof (induction cs s rule: read_indefinite_text.induct)
  case (1 cs s)
  show ?case
  proof (cases s)
    case Nil
    with "1.prems" show ?thesis by (simp add: read_indefinite_text.simps)
  next
    case (Cons b q)
    show ?thesis
    proof (cases "b = 0xFF \<or> major_of b \<noteq> 3 \<or> additional_of b = 31")
      case True
      with "1.prems" Cons show ?thesis
        by (auto simp: read_indefinite_text.simps [of cs "b # q"] split: if_splits)
    next
      case False
      with "1.prems" Cons obtain c q' where c: "read_counted (additional_of b) q = Inr (c, q')"
        and "read_indefinite_text (cs @ c) q' = Inr (t, r)"
        by (auto simp: read_indefinite_text.simps [of cs "b # q"] split: sum.splits)
      then have "length r < length q'" using "1.IH" Cons False by auto
      with read_counted_length [OF c] Cons show ?thesis by simp
    qed
  qed
qed

lemma read_text_length:
  "read_text x = Inr (v, r) \<Longrightarrow> (\<And>c r'. x = Inr (c, r') \<Longrightarrow> length r' \<le> n) \<Longrightarrow> length r \<le> n"
  by (auto simp: read_text_def split: sum.splits)

lemma as_map_length:
  "as_map x = Inr (v, r) \<Longrightarrow> (\<And>c r'. x = Inr (c, r') \<Longrightarrow> length r' \<le> n) \<Longrightarrow> length r \<le> n"
  by (auto simp: as_map_def split: sum.splits)

lemma read_map_entry_Inr:
  "read_map_entry d acc s = Inr (acc', r) \<Longrightarrow>
   \<exists>k q v. read_value d s = Inr (PStr k, q) \<and> read_value d q = Inr (v, r) \<and> acc' = dset acc k v"
  by (auto simp: read_map_entry.simps split: sum.splits pyval.splits)

lemma read_value_length:
  shows "read_value d s = Inr (v, r) \<Longrightarrow> length r < length s"
    and "read_map_entry d acc s = Inr (acc', r) \<Longrightarrow> length r < length s"
    and "read_entries d n acc s = Inr (acc', r) \<Longrightarrow> length r \<le> length s"
    and "read_until_break d acc s = Inr (acc', r) \<Longrightarrow> length r \<le> length s"
proof (induction d s and d acc s and d n acc s and d acc s arbitrary: v r and acc' r and acc' r and acc' r
    rule: read_value_read_map_entry_read_entries_read_until_break.induct)
  case (1 d)
  then show ?case by (simp add: read_value.simps)
next
  case (2 d b s)
  have ub: "length r' \<le> length s"
    if "major_of b = 5" "0 < d" "additional_of b = 31" "read_until_break (d - 1) [] s = Inr (c, r')"
    for c r'
    using that by (intro "2.IH"(1) [OF refl refl]) auto
  have re: "length r' \<le> length s"
    if "major_of b = 5" "0 < d" "additional_of b \<noteq> 31"
      "read_len (additional_of b) s = Inr (n, q)" "read_entries (d - 1) (nat n) [] q = Inr (c, r')"
    for n q c r'
  proof -
    have "length r' \<le> length q"
      using that by (intro "2.IH"(2) [OF refl refl _ _ _ _ _ that(4) refl]) auto
    with read_len_length [OF that(4)] show ?thesis by simp
  qed
  have "length r \<le> length s"
  proof (cases "major_of b = 5")
    case True
    with "2.prems" show ?thesis
      by (auto simp: read_value.simps Let_def split: if_splits sum.splits
          elim!: as_map_length intro: ub re)
  next
    case False
    with "2.prems" show ?thesis
      by (auto simp: read_value.simps Let_def split: if_splits sum.splits
          dest: read_len_length read_counted_length read_indefinite_text_length
          elim!: read_text_length)
  qed
  then show ?case by simp
next
  case (3 d acc s)
  from read_map_entry_Inr [OF "3.prems"] obtain k q w where
    kq: "read_value d s = Inr (PStr k, q)" "read_value d q = Inr (w, r)" by blast
  have "length q < length s" by (rule "3.IH"(1) [OF kq(1)])
  moreover have "length r < length q" by (rule "3.IH"(2) [OF kq(1)]) (use kq in auto)
  ultimately show ?case by simp
next
  case (4 d acc s)
  then show ?case by simp
next
  case (5 d n acc s)
  then show ?case by (fastforce split: sum.splits)
next
  case (6 d acc s)
  then show ?case
    by (auto simp: read_until_break.simps [of d acc s] split: sum.splits if_splits) fastforce
qed

text \<open>
  Every entry read shortens the data, so the test of the length in
  \<open>read_until_break\<close>, which makes its recursion well-founded, never fails: it is the
  source's loop.
\<close>

lemma read_until_break_loop:
  "read_until_break d acc s =
     (if next_is_break s then Inr (acc, tl s)
      else (case read_map_entry d acc s of
              Inl e \<Rightarrow> Inl e | Inr (acc', r) \<Rightarrow> read_until_break d acc' r))"
  by (subst read_until_break.simps) (auto split: sum.splits dest: read_value_length(2))

section \<open>Properties\<close>

text \<open>
  C7. The CBOR codec: every map of booleans, 32-bit unsigned integers, texts and maps with
  distinct text keys is encoded, and decoding the bytes gives the same map, entries in the same
  order, at every recursion limit \<open>d\<close> the nesting of the map respects.
\<close>

theorem cbor_round_trip:
  assumes "cbor_clean (PDict kvs)" "json_depth (PDict kvs) \<le> d"
  shows "\<exists>bs. encode_map kvs = Inr bs \<and> decode_map d bs = Inr kvs"
  using assms by (rule decode_map_encode_map)

theorem cbor_round_trip_witness:
  "\<exists>bs. encode_map [(''channel'', PInt 5), (''on'', PBool True), (''m'', PDict [(''n'', PInt 70000)])] = Inr bs
     \<and> decode_map 2 bs = Inr [(''channel'', PInt 5), (''on'', PBool True), (''m'', PDict [(''n'', PInt 70000)])]"
  by (rule cbor_round_trip) (simp_all add: ascii_utf8_valid)



end
