(* ===== verification/Constants.thy ===== *)
theory Constants
  imports Prelude
begin

text \<open>
  The protocol constants of host/rp2350_relay_6ch/constants.py and the state-threading
  results every component with I/O uses: a computation takes the state of its environment and
  returns a result and the next state.
\<close>

section \<open>constants.py\<close>

definition GROUP_RELAY :: int where [simp]: "GROUP_RELAY = 64"
definition PROTOCOL_VERSION :: int where [simp]: "PROTOCOL_VERSION = 9"
definition COMMAND_MODEL_VERSION :: int where [simp]: "COMMAND_MODEL_VERSION = 3"
definition HARDWARE_NAME :: string where [simp]: "HARDWARE_NAME = ''Waveshare RP2350-Relay-6CH''"

definition RELAY_COUNT :: int where [simp]: "RELAY_COUNT = 6"
definition RELAY_MASK :: int where "RELAY_MASK = push_bit (nat RELAY_COUNT) 1 - 1"
definition PULSE_MIN_MS :: int where [simp]: "PULSE_MIN_MS = 10"
definition PULSE_MAX_MS :: int where [simp]: "PULSE_MAX_MS = 60000"

definition OP_READ :: int where [simp]: "OP_READ = 0"
definition OP_READ_RSP :: int where [simp]: "OP_READ_RSP = 1"
definition OP_WRITE :: int where [simp]: "OP_WRITE = 2"
definition OP_WRITE_RSP :: int where [simp]: "OP_WRITE_RSP = 3"

definition CMD_IDENTITY :: int where [simp]: "CMD_IDENTITY = 0x00"
definition CMD_CAPABILITIES :: int where [simp]: "CMD_CAPABILITIES = 0x01"
definition CMD_BUILD_INFO :: int where [simp]: "CMD_BUILD_INFO = 0x02"
definition CMD_GET :: int where [simp]: "CMD_GET = 0x10"
definition CMD_GET_ALL :: int where [simp]: "CMD_GET_ALL = 0x11"
definition CMD_STATUS :: int where [simp]: "CMD_STATUS = 0x12"
definition CMD_HEALTH :: int where [simp]: "CMD_HEALTH = 0x13"
definition CMD_TRANSPORT :: int where [simp]: "CMD_TRANSPORT = 0x14"
definition CMD_SAFETY :: int where [simp]: "CMD_SAFETY = 0x15"
definition CMD_WATCHDOG :: int where [simp]: "CMD_WATCHDOG = 0x16"
definition CMD_SET :: int where [simp]: "CMD_SET = 0x20"
definition CMD_SET_ALL :: int where [simp]: "CMD_SET_ALL = 0x21"
definition CMD_PULSE :: int where [simp]: "CMD_PULSE = 0x22"
definition CMD_OFF_ALL :: int where [simp]: "CMD_OFF_ALL = 0x23"
definition CMD_HEARTBEAT :: int where [simp]: "CMD_HEARTBEAT = 0x30"
definition CMD_REBOOT :: int where [simp]: "CMD_REBOOT = 0x40"
definition CMD_BOOTSEL :: int where [simp]: "CMD_BOOTSEL = 0x41"

definition DEVICE_ERROR_NAMES :: "(int \<times> string) list" where
  "DEVICE_ERROR_NAMES =
     [(1, ''decode''), (2, ''invalid_argument''), (3, ''busy''), (4, ''relay_io''),
      (5, ''reboot_unavailable''), (6, ''reboot_failed'')]"

lemma RELAY_MASK_63 [simp]: "RELAY_MASK = 63"
  by (simp add: RELAY_MASK_def push_bit_eq_mult)

section \<open>Computations with state and exceptions\<close>

type_synonym ('s, 'a) sexc = "'s \<Rightarrow> 'a result \<times> 's"

definition sret :: "'a \<Rightarrow> ('s, 'a) sexc" where
  "sret x = (\<lambda>s. (Inr x, s))"

definition sraise :: "exc \<Rightarrow> ('s, 'a) sexc" where
  "sraise e = (\<lambda>s. (Inl e, s))"

definition sbind :: "('s, 'a) sexc \<Rightarrow> ('a \<Rightarrow> ('s, 'b) sexc) \<Rightarrow> ('s, 'b) sexc" where
  "sbind m f = (\<lambda>s. case m s of (Inl e, s') \<Rightarrow> (Inl e, s') | (Inr x, s') \<Rightarrow> f x s')"

definition lift_result :: "'a result \<Rightarrow> ('s, 'a) sexc" where
  "lift_result r = (\<lambda>s. (r, s))"

named_theorems sexc_simps \<open>running a computation\<close>

lemma sret_run [sexc_simps]: "sret x s = (Inr x, s)" by (simp add: sret_def)
lemma sraise_run [sexc_simps]: "sraise e s = (Inl e, s)" by (simp add: sraise_def)
lemma lift_result_run [sexc_simps]: "lift_result r s = (r, s)" by (simp add: lift_result_def)

lemma sbind_run [sexc_simps]:
  "m s = (Inr x, s') \<Longrightarrow> sbind m f s = f x s'"
  "m s = (Inl e, s') \<Longrightarrow> sbind m f s = (Inl e, s')"
  by (simp_all add: sbind_def)

lemma sbind_Inr:
  "sbind m f s = (Inr y, s'') \<longleftrightarrow> (\<exists>x s'. m s = (Inr x, s') \<and> f x s' = (Inr y, s''))"
  by (auto simp: sbind_def split: prod.splits sum.splits)

lemma sbind_assoc: "sbind (sbind m f) g = sbind m (\<lambda>x. sbind (f x) g)"
  by (rule ext) (auto simp: sbind_def split: prod.splits sum.splits)

text \<open>\<open>try: m finally: f\<close> and \<open>except\<close> clauses.\<close>

definition sfinally :: "('s, 'a) sexc \<Rightarrow> ('s, unit) sexc \<Rightarrow> ('s, 'a) sexc" where
  "sfinally m f = (\<lambda>s. case m s of (r, s') \<Rightarrow>
     (case f s' of (Inl e, s'') \<Rightarrow> (Inl e, s'') | (Inr _, s'') \<Rightarrow> (r, s'')))"

definition scatch :: "('s, 'a) sexc \<Rightarrow> (exc \<Rightarrow> ('s, 'a) sexc) \<Rightarrow> ('s, 'a) sexc" where
  "scatch m h = (\<lambda>s. case m s of (Inl e, s') \<Rightarrow> h e s' | (Inr x, s') \<Rightarrow> (Inr x, s'))"

lemma sbind_cases:
  assumes "sbind m f s = (r, s')"
  obtains e where "m s = (Inl e, s')" "r = Inl e"
  | x s1 where "m s = (Inr x, s1)" "f x s1 = (r, s')"
  using assms by (auto simp: sbind_def split: prod.splits sum.splits)

section \<open>What a computation keeps\<close>

text \<open>\<open>keeps P m\<close>: from a state with \<open>P\<close>, \<open>m\<close> ends in one, whether it returns or raises.\<close>

definition keeps :: "('s \<Rightarrow> bool) \<Rightarrow> ('s, 'a) sexc \<Rightarrow> bool" where
  "keeps P m \<longleftrightarrow> (\<forall>s r s'. P s \<longrightarrow> m s = (r, s') \<longrightarrow> P s')"

named_theorems keeps_intros \<open>computations that keep a predicate\<close>

lemma keepsI: "(\<And>s r s'. P s \<Longrightarrow> m s = (r, s') \<Longrightarrow> P s') \<Longrightarrow> keeps P m"
  by (auto simp: keeps_def)

lemma keepsD: "keeps P m \<Longrightarrow> m s = (r, s') \<Longrightarrow> P s \<Longrightarrow> P s'"
  by (auto simp: keeps_def)

lemma keeps_sret [keeps_intros]: "keeps P (sret x)"
  by (auto simp: keeps_def sret_def)

lemma keeps_sraise [keeps_intros]: "keeps P (sraise e)"
  by (auto simp: keeps_def sraise_def)

lemma keeps_lift_result [keeps_intros]: "keeps P (lift_result r)"
  by (auto simp: keeps_def lift_result_def)

lemma keeps_sbind [keeps_intros]:
  "keeps P m \<Longrightarrow> (\<And>x. keeps P (f x)) \<Longrightarrow> keeps P (sbind m f)"
  by (rule keepsI) (auto elim!: sbind_cases dest: keepsD)

lemma keeps_scatch [keeps_intros]:
  "keeps P m \<Longrightarrow> (\<And>e. keeps P (h e)) \<Longrightarrow> keeps P (scatch m h)"
  by (rule keepsI) (auto simp: scatch_def dest: keepsD split: prod.splits sum.splits)

lemma keeps_if [keeps_intros]: "keeps P m \<Longrightarrow> keeps P n \<Longrightarrow> keeps P (if b then m else n)"
  by simp

text \<open>A step after which \<open>Q\<close> holds, at the end of a computation that keeps \<open>P\<close>.\<close>

definition ensures :: "('s \<Rightarrow> bool) \<Rightarrow> ('s, 'a) sexc \<Rightarrow> ('s \<Rightarrow> bool) \<Rightarrow> bool" where
  "ensures P m Q \<longleftrightarrow> (\<forall>s x s'. P s \<longrightarrow> m s = (Inr x, s') \<longrightarrow> Q s')"

lemma ensuresD: "ensures P m Q \<Longrightarrow> m s = (Inr x, s') \<Longrightarrow> P s \<Longrightarrow> Q s'"
  by (auto simp: ensures_def)

lemma ensures_sbind:
  "keeps P m \<Longrightarrow> (\<And>x. ensures P (f x) Q) \<Longrightarrow> ensures P (sbind m f) Q"
  unfolding ensures_def sbind_Inr using keepsD by metis

lemma ensures_sbind_sret: "ensures P m Q \<Longrightarrow> ensures P (sbind m (\<lambda>x. sret (g x))) Q"
  unfolding ensures_def sbind_Inr sret_def by auto

end
