(* ===== verification/Usb_Smoke.thy ===== *)
theory Usb_Smoke
  imports Cbor Constants
begin

text \<open>
  The one-shot client of tools/usb_rpc_smoke.py on top of the framing of Wire and the CBOR
  of Cbor: the SMP header, \<open>call\<close>, \<open>run_one\<close> and the \<open>run_smoke\<close> sequence.
  The serial device is a parameter: given its state and the bytes written after the input
  buffer was reset, the lines pyserial's \<open>readline\<close> returns up to its time-out (or the
  exception of opening or writing the port) and its next state.
\<close>

definition SMP_VERSION_2 :: int where [simp]: "SMP_VERSION_2 = 1"

type_synonym 'd serial_device = "bytes \<Rightarrow> ('d, bytes list) sexc"

section \<open>The SMP header\<close>

definition encode_smp :: "int \<Rightarrow> int \<Rightarrow> int \<Rightarrow> int \<Rightarrow> bytes \<Rightarrow> bytes result" where
  "encode_smp op grp command sq payload =
     (let first = op OR push_bit 3 SMP_VERSION_2 in
      py_append (pack_B first) (py_append (pack_B 0)
        (py_append (pack_H (int (length payload))) (py_append (pack_H grp)
          (py_append (pack_B sq) (py_append (pack_B command) (Inr payload)))))))"

text \<open>\<open>struct.unpack(">BBHHBB", ...)\<close>: the six fields, in that order.\<close>

definition unpack_header :: "bytes \<Rightarrow> (int \<times> int \<times> int \<times> int \<times> int \<times> int) result" where
  "unpack_header h =
     (if length h = 8
      then Inr (uint (h ! 0), uint (h ! 1), unpack_be (take 2 (drop 2 h)),
                unpack_be (take 2 (drop 4 h)), uint (h ! 6), uint (h ! 7))
      else Inl (struct_error ''unpack requires a buffer of 8 bytes''))"

definition header_op :: "int \<Rightarrow> int" where "header_op first = first AND 0x07"
definition header_version :: "int \<Rightarrow> int" where "header_version first = drop_bit 3 first AND 0x03"

section \<open>call\<close>

text \<open>The checks of \<open>call\<close> on the packet received, and its decoded body.\<close>

definition check_response :: "int \<Rightarrow> int \<Rightarrow> int \<Rightarrow> nat \<Rightarrow> bytes \<Rightarrow> pydict result" where
  "check_response command expected_op sq d response =
     rbind (unpack_header (take 8 response)) (\<lambda>(first, flags, len, grp, rsq, rsp_command).
       (let body = drop 8 response; verr = (\<lambda>m. Inl (PyExc ''ValueError'' m)) in
        if header_version first \<noteq> SMP_VERSION_2
        then verr (''unexpected SMP version '' @ int_str (header_version first))
        else if header_op first \<noteq> expected_op
        then verr (''unexpected SMP response op '' @ int_str (header_op first)
                   @ '', expected '' @ int_str expected_op)
        else if len \<noteq> int (length body)
        then verr (''SMP length mismatch: header='' @ int_str len
                   @ '' actual='' @ int_str (int (length body)))
        else if grp \<noteq> GROUP_RELAY \<or> rsq \<noteq> sq \<or> rsp_command \<noteq> command
        then verr ''SMP response header does not match the request''
        else decode_map d body))"

definition call :: "'d serial_device \<Rightarrow> nat \<Rightarrow> int \<Rightarrow> int \<Rightarrow> pydict \<Rightarrow> ('d, pydict) sexc" where
  "call dev d command op payload =
     sbind (lift_result (rbind (encode_map payload) (encode_smp op GROUP_RELAY command 1)))
       (\<lambda>request.
          (let expected_op = (if op = OP_READ then OP_READ_RSP else OP_WRITE_RSP) in
           sbind (lift_result (serial_frame request)) (\<lambda>frame.
             sbind (dev frame) (\<lambda>lines.
               lift_result
                 (rbind (decoded_frames (takeWhile (\<lambda>l. l \<noteq> []) lines)
                           ''timed out waiting for SMP response'')
                   (check_response command expected_op 1 d))))))"

section \<open>run_one and run_smoke\<close>

record smoke_args =
  action :: string
  command_id :: int
  arg_channel :: int
  arg_on :: string
  arg_state :: int
  arg_duration_ms :: int

definition one_request :: "smoke_args \<Rightarrow> int \<times> int \<times> pydict" where
  "one_request args =
     (let a = action args; cmd = command_id args in
      if a = ''get'' then (cmd, OP_READ, [(''channel'', PInt (arg_channel args))])
      else if a = ''set'' then
        (cmd, OP_WRITE, [(''channel'', PInt (arg_channel args)), (''on'', PBool (arg_on args = ''on''))])
      else if a = ''set-all'' then (cmd, OP_WRITE, [(''state'', PInt (arg_state args))])
      else if a = ''pulse'' then
        (cmd, OP_WRITE, [(''channel'', PInt (arg_channel args)),
                         (''duration_ms'', PInt (arg_duration_ms args))])
      else if a = ''off-all'' then (cmd, OP_WRITE, [])
      else if a = ''invalid-channel'' then
        (CMD_SET, OP_WRITE, [(''channel'', PInt 6), (''on'', PBool True)])
      else if a = ''invalid-pulse'' then
        (CMD_PULSE, OP_WRITE, [(''channel'', PInt 0), (''duration_ms'', PInt 1)])
      else (cmd, OP_READ, []))"

definition run_one :: "'d serial_device \<Rightarrow> nat \<Rightarrow> smoke_args \<Rightarrow> ('d, pydict) sexc" where
  "run_one dev d args = (case one_request args of (command, op, payload) \<Rightarrow>
     call dev d command op payload)"

definition require :: "bool \<Rightarrow> string \<Rightarrow> ('d, unit) sexc" where
  "require c m = (if c then sret () else sraise (PyExc ''AssertionError'' m))"

text \<open>\<open>response.get("err", {}).get(key)\<close>; a value that is not a dict has no \<open>get\<close>.\<close>

definition err_get :: "pydict \<Rightarrow> string \<Rightarrow> ('d, pyval) sexc" where
  "err_get response key =
     (case dget_or response ''err'' (PDict []) of
        PDict e \<Rightarrow> sret (dget e key)
      | v \<Rightarrow> sraise (PyExc ''AttributeError'' ''object has no attribute get''))"

definition require_rejected :: "pydict \<Rightarrow> string \<Rightarrow> ('d, unit) sexc" where
  "require_rejected response m =
     sbind (err_get response ''group'') (\<lambda>g.
       sbind (require (py_eq_int g GROUP_RELAY) ''missing group error'') (\<lambda>_.
         sbind (err_get response ''rc'') (\<lambda>rc. require (py_eq_int rc 2) m)))"

definition run_smoke :: "'d serial_device \<Rightarrow> nat \<Rightarrow> ('d, unit) sexc" where
  "run_smoke dev d =
     sbind (call dev d CMD_IDENTITY OP_READ []) (\<lambda>identity.
     sbind (require (py_eq_int (dget identity ''protocol_version'') 8) ''protocol_version is not 8'') (\<lambda>_.
     sbind (require (py_eq_int (dget identity ''command_model_version'') 2)
       ''command_model_version is not 2'') (\<lambda>_.
     sbind (require (py_eq_int (dget identity ''relay_count'') 6) ''relay_count is not 6'') (\<lambda>_.
     sbind (require (dget identity ''hardware'' = PStr HARDWARE_NAME) ''unexpected hardware name'') (\<lambda>_.
     sbind (call dev d CMD_CAPABILITIES OP_READ []) (\<lambda>capabilities.
     sbind (require (dget capabilities ''capabilities'' \<noteq> PNone) ''missing capabilities'') (\<lambda>_.
     sbind (call dev d CMD_STATUS OP_READ []) (\<lambda>status.
     sbind (require (py_eq_int (dget status ''state'') 0) ''relays are not all off at start'') (\<lambda>_.
     sbind (call dev d CMD_SET OP_WRITE [(''channel'', PInt 0), (''on'', PBool True)]) (\<lambda>_.
     sbind (call dev d CMD_GET OP_READ [(''channel'', PInt 0)]) (\<lambda>_.
     sbind (call dev d CMD_SET OP_WRITE [(''channel'', PInt 0), (''on'', PBool False)]) (\<lambda>_.
     sbind (call dev d CMD_SET_ALL OP_WRITE [(''state'', PInt 0x21)]) (\<lambda>_.
     sbind (call dev d CMD_OFF_ALL OP_WRITE []) (\<lambda>_.
     sbind (call dev d CMD_PULSE OP_WRITE [(''channel'', PInt 0), (''duration_ms'', PInt 100)]) (\<lambda>_.
     sbind (call dev d CMD_GET OP_READ [(''channel'', PInt 0)]) (\<lambda>_.
     sbind (call dev d CMD_SET OP_WRITE [(''channel'', PInt 6), (''on'', PBool True)]) (\<lambda>r.
     sbind (require_rejected r ''invalid channel was not rejected'') (\<lambda>_.
     sbind (call dev d CMD_PULSE OP_WRITE [(''channel'', PInt 0), (''duration_ms'', PInt 1)]) (\<lambda>r.
     sbind (require_rejected r ''invalid pulse was not rejected'') (\<lambda>_.
     sbind (call dev d CMD_OFF_ALL OP_WRITE []) (\<lambda>final_state.
     require (py_eq_int (dget final_state ''state'') 0)
       ''off_all did not leave relays off'')))))))))))))))))))))"

text \<open>The exit code of a run.\<close>

definition usb_main :: "'d serial_device \<Rightarrow> nat \<Rightarrow> smoke_args \<Rightarrow> ('d, int) sexc" where
  "usb_main dev d args =
     scatch (sbind (if action args = ''smoke'' then run_smoke dev d else sbind (run_one dev d args) (\<lambda>_. sret ()))
               (\<lambda>_. sret 0))
       (\<lambda>e. if is_Exception e then sret 1 else sraise e)"

section \<open>The header is read back\<close>

lemma first_byte_fields:
  assumes "0 \<le> op" "op < 8"
  shows "header_op (op OR push_bit 3 SMP_VERSION_2) = op"
    and "header_version (op OR push_bit 3 SMP_VERSION_2) = SMP_VERSION_2"
    and "0 \<le> op OR push_bit 3 SMP_VERSION_2 \<and> op OR push_bit 3 SMP_VERSION_2 < 256"
proof -
  have "op = 0 \<or> op = 1 \<or> op = 2 \<or> op = 3 \<or> op = 4 \<or> op = 5 \<or> op = 6 \<or> op = 7"
    using assms by auto
  then show "header_op (op OR push_bit 3 SMP_VERSION_2) = op"
    "header_version (op OR push_bit 3 SMP_VERSION_2) = SMP_VERSION_2"
    "0 \<le> op OR push_bit 3 SMP_VERSION_2 \<and> op OR push_bit 3 SMP_VERSION_2 < 256"
    by (elim disjE; simp add: header_op_def header_version_def push_bit_eq_mult)+
qed

lemma pack_B_Inr: "pack_B n = Inr bs \<longleftrightarrow> 0 \<le> n \<and> n < 256 \<and> bs = [word_of_int n]"
  by (auto simp: pack_B_def)

lemma encode_smp_Inr:
  assumes "encode_smp op grp command sq payload = Inr p"
  obtains first lb gb where "first = op OR push_bit 3 SMP_VERSION_2" "0 \<le> first" "first < 256"
    "pack_H (int (length payload)) = Inr lb" "pack_H grp = Inr gb" "0 \<le> sq" "sq < 256"
    "0 \<le> command" "command < 256"
    "p = [word_of_int first, 0] @ lb @ gb @ [word_of_int sq, word_of_int command] @ payload"
proof -
  from assms have "0 \<le> op OR push_bit 3 SMP_VERSION_2 \<and> op OR push_bit 3 SMP_VERSION_2 < 256 \<and>
    0 \<le> sq \<and> sq < 256 \<and> 0 \<le> command \<and> command < 256 \<and>
    (\<exists>lb gb. pack_H (int (length payload)) = Inr lb \<and> pack_H grp = Inr gb
      \<and> p = [word_of_int (op OR push_bit 3 SMP_VERSION_2), 0] @ lb @ gb
            @ [word_of_int sq, word_of_int command] @ payload)"
    unfolding encode_smp_def Let_def py_append_Inr pack_B_Inr by auto
  then show ?thesis using that by blast
qed

lemma unpack_header_encode:
  assumes "encode_smp op grp command sq payload = Inr p"
  shows "unpack_header (take 8 p) =
      Inr (op OR push_bit 3 SMP_VERSION_2, 0, int (length payload), grp, sq, command)
    \<and> drop 8 p = payload"
proof -
  obtain first lb gb where f: "first = op OR push_bit 3 SMP_VERSION_2" "0 \<le> first" "first < 256"
    and h: "pack_H (int (length payload)) = Inr lb" "pack_H grp = Inr gb"
    and r: "0 \<le> sq" "sq < 256" "0 \<le> command" "command < 256"
    and p: "p = [word_of_int first, 0] @ lb @ gb @ [word_of_int sq, word_of_int command] @ payload"
    using assms by (rule encode_smp_Inr)
  from unpack_be_pack_H [OF h(1)] unpack_be_pack_H [OF h(2)]
  have l: "length lb = 2" "length gb = 2" "unpack_be lb = int (length payload)" "unpack_be gb = grp"
    by auto
  then obtain l0 l1 g0 g1 where q: "lb = [l0, l1]" "gb = [g0, g1]"
    by (auto simp: length_Suc_conv eval_nat_numeral)
  have u: "uint (word_of_int first :: byte) = first" "uint (word_of_int sq :: byte) = sq"
    "uint (word_of_int command :: byte) = command"
    using f r by (simp_all add: uint_byte_mod)
  have e: "take 8 p = [word_of_int first, 0, l0, l1, g0, g1, word_of_int sq, word_of_int command]"
    "drop 8 p = payload"
    by (simp_all add: p q eval_nat_numeral)
  have "unpack_header (take 8 p) = Inr (first, 0, unpack_be lb, unpack_be gb, sq, command)"
    unfolding e unpack_header_def by (simp add: u q eval_nat_numeral)
  then show ?thesis by (simp add: e f l)
qed

section \<open>call against a device that answers\<close>

lemma check_response_encode:
  assumes "encode_smp op GROUP_RELAY command sq body = Inr p" "0 \<le> op" "op < 8"
  shows "check_response command op sq d p = decode_map d body"
  using unpack_header_encode [OF assms(1)] first_byte_fields [OF assms(2,3)]
  by (simp add: check_response_def Let_def)

lemma check_response_accepts:
  assumes "check_response command op sq d p = Inr m"
  shows "\<exists>first flags. unpack_header (take 8 p) =
        Inr (first, flags, int (length (drop 8 p)), GROUP_RELAY, sq, command)
      \<and> header_op first = op \<and> header_version first = SMP_VERSION_2
      \<and> decode_map d (drop 8 p) = Inr m"
  using assms by (auto simp: check_response_def Let_def rbind_Inr split: if_splits)

definition response_op :: "int \<Rightarrow> int" where
  "response_op op = (if op = OP_READ then OP_READ_RSP else OP_WRITE_RSP)"

lemma encode_smp_total:
  assumes "0 \<le> op" "op < 8" "0 \<le> command" "command < 256" "0 \<le> sq" "sq < 256"
    "length body < 65536"
  shows "\<exists>p. encode_smp op GROUP_RELAY command sq body = Inr p"
  using first_byte_fields(3) [OF assms(1,2)] assms
  by (auto simp: encode_smp_def Let_def py_append_def pack_B_def pack_H_def)

lemma encode_smp_length:
  "encode_smp op grp command sq payload = Inr p \<Longrightarrow> length p = 8 + length payload"
  by (erule encode_smp_Inr) (auto dest!: unpack_be_pack_H)

lemma frames_loop_answer:
  assumes "\<forall>l \<in> set noise. noise_line l" "serial_frame p = Inr f"
  shows "decoded_frames (takeWhile (\<lambda>l. l \<noteq> []) (noise @ f # rest)) nt = Inr p"
proof -
  have f: "f \<noteq> []" using serial_frame_parts [OF assms(2)] by auto
  have "takeWhile (\<lambda>l. l \<noteq> []) (noise @ f # rest)
      = noise @ f # takeWhile (\<lambda>l. l \<noteq> []) rest"
    using assms(1) f by (induction noise) (auto simp: noise_line_def)
  then show ?thesis
    using frames_loop_serial_frame [OF assms(2)] unfolding decoded_frames_def
    by (simp only: frames_loop_noise [OF assms(1)])
qed

text \<open>The bytes on the wire for a packet of the relay group with a map as its body.\<close>

definition wire_packet :: "int \<Rightarrow> int \<Rightarrow> int \<Rightarrow> pydict \<Rightarrow> bytes result" where
  "wire_packet op command sq payload =
     rbind (encode_map payload) (encode_smp op GROUP_RELAY command sq)"

definition wire_frame :: "int \<Rightarrow> int \<Rightarrow> pydict \<Rightarrow> bytes result" where
  "wire_frame op command payload = rbind (wire_packet op command 1 payload) serial_frame"

lemma check_response_wire:
  assumes "wire_packet op command sq m = Inr p" "0 \<le> op" "op < 8"
    and "cbor_clean (PDict m)" "json_depth (PDict m) \<le> d"
  shows "check_response command op sq d p = Inr m"
proof -
  from assms(1) obtain body where b: "encode_map m = Inr body"
    "encode_smp op GROUP_RELAY command sq body = Inr p"
    by (auto simp: wire_packet_def rbind_Inr)
  with decode_map_encode_map [OF assms(4,5)] have "decode_map d body = Inr m" by simp
  with check_response_encode [OF b(2) assms(2,3)] show ?thesis by simp
qed

lemma call_answered:
  assumes req: "wire_frame op command payload = Inr f"
    and op: "op = OP_READ \<or> op = OP_WRITE"
    and rsp: "wire_frame (response_op op) command reply = Inr f'"
    and dev: "dev f s = (Inr (noise @ f' # rest), s')"
    and noise: "\<forall>l \<in> set noise. noise_line l"
    and m: "cbor_clean (PDict reply)" "json_depth (PDict reply) \<le> d"
  shows "call dev d command op payload s = (Inr reply, s')"
proof -
  from rsp obtain p' where p': "wire_packet (response_op op) command 1 reply = Inr p'"
    "serial_frame p' = Inr f'"
    by (auto simp: wire_frame_def rbind_Inr)
  have c: "check_response command (response_op op) 1 d p' = Inr reply"
    using p'(1) m op by (intro check_response_wire) (auto simp: response_op_def)
  from req obtain b r where "encode_map payload = Inr b"
    "encode_smp op GROUP_RELAY command 1 b = Inr r" "serial_frame r = Inr f"
    by (auto simp: wire_frame_def wire_packet_def rbind_Inr)
  with dev c show ?thesis
    by (simp add: call_def sbind_def lift_result_def Let_def response_op_def
        frames_loop_answer [OF noise p'(2)])
qed

lemma call_accepts:
  assumes "call dev d command op payload s = (Inr m, s')"
  shows "\<exists>f ls p tail. wire_frame op command payload = Inr f \<and> dev f s = (Inr ls, s')
    \<and> decoded_frames (takeWhile (\<lambda>l. l \<noteq> []) ls) ''timed out waiting for SMP response'' = Inr p
    \<and> crc16_itu_t (p @ tail) 0 = 0 \<and> length tail \<le> 2
    \<and> check_response command (response_op op) 1 d p = Inr m"
proof -
  from assms obtain b r f ls where r: "encode_map payload = Inr b"
    "encode_smp op GROUP_RELAY command 1 b = Inr r" "serial_frame r = Inr f"
    and d: "dev f s = (Inr ls, s')"
    and l: "rbind (decoded_frames (takeWhile (\<lambda>l. l \<noteq> []) ls)
        ''timed out waiting for SMP response'')
       (check_response command (response_op op) 1 d) = Inr m"
    by (auto simp: call_def sbind_Inr lift_result_def Let_def response_op_def rbind_Inr)
  from l obtain p where p: "decoded_frames (takeWhile (\<lambda>l. l \<noteq> []) ls)
      ''timed out waiting for SMP response'' = Inr p"
    "check_response command (response_op op) 1 d p = Inr m"
    unfolding rbind_Inr by blast
  from frames_loop_accepts [OF p(1) [unfolded decoded_frames_def]] obtain tail where
    "crc16_itu_t (p @ tail) 0 = 0" "length tail \<le> 2" by blast
  moreover have "wire_frame op command payload = Inr f"
    using r by (simp add: wire_frame_def wire_packet_def)
  ultimately show ?thesis using d p by blast
qed

lemma require_run [sexc_simps]:
  "c \<Longrightarrow> require c m s = (Inr (), s)"
  "\<not> c \<Longrightarrow> require c m s = (Inl (PyExc ''AssertionError'' m), s)"
  by (simp_all add: require_def sexc_simps)

lemma require_Inr: "require c m s = (Inr u, s') \<longleftrightarrow> c \<and> s' = s"
  by (simp add: require_def sret_def sraise_def eq_commute)

text \<open>
  A run that passes ended with an off-all call whose answer reports no relay on, and the
  device it passes against speaks protocol version 8.
\<close>

lemma run_smoke_passed:
  assumes "run_smoke dev d s = (Inr (), s')"
  shows "(\<exists>s1 m. call dev d CMD_OFF_ALL OP_WRITE [] s1 = (Inr m, s')
           \<and> py_eq_int (dget m ''state'') 0)
    \<and> (\<exists>identity. fst (call dev d CMD_IDENTITY OP_READ [] s) = Inr identity
           \<and> py_eq_int (dget identity ''protocol_version'') 8)"
proof -
  note [simp del] = CMD_IDENTITY_def CMD_OFF_ALL_def OP_READ_def OP_WRITE_def
  from assms show ?thesis
    unfolding run_smoke_def sbind_Inr require_Inr by (metis (no_types, lifting) fst_conv)
qed

lemma run_smoke_version:
  assumes "call dev d CMD_IDENTITY OP_READ [] s = (Inr identity, s')"
    and "dget identity ''protocol_version'' = PInt PROTOCOL_VERSION"
  shows "run_smoke dev d s = (Inl (PyExc ''AssertionError'' ''protocol_version is not 8''), s')"
  using assms by (simp add: run_smoke_def sexc_simps py_simps)

section \<open>Properties\<close>

text \<open>
  A call of the USB tool against a device that speaks the protocol: if the device
  answers the frame of the request with a frame of the response, possibly after console noise,
  \<open>call\<close> returns exactly the map the device sent.
\<close>

theorem call_returns_reply:
  assumes "wire_frame op command payload = Inr f" "op = OP_READ \<or> op = OP_WRITE"
    and "wire_frame (response_op op) command reply = Inr f'"
    and "dev f s = (Inr (noise @ f' # rest), s')" "\<forall>l \<in> set noise. noise_line l"
    and "cbor_clean (PDict reply)" "json_depth (PDict reply) \<le> d"
  shows "call dev d command op payload s = (Inr reply, s')"
  using assms by (rule call_answered)

lemma wire_frame_total:
  assumes "cbor_clean (PDict m)" "json_depth (PDict m) \<le> d" "0 \<le> op" "op < 8" "0 \<le> command" "command < 256"
    and "length (projr (encode_map m)) + 10 < 65536"
  shows "\<exists>f. wire_frame op command m = Inr f"
proof -
  obtain b where b: "encode_map m = Inr b" using decode_map_encode_map [OF assms(1,2)] by blast
  then obtain p where p: "encode_smp op GROUP_RELAY command 1 b = Inr p"
    using encode_smp_total [of op command 1 b] assms by auto
  then have "length p + 2 < 65536" using encode_smp_length [OF p] assms(7) b by simp
  then show ?thesis using serial_frame_total [of p] b p by (auto simp: wire_frame_def wire_packet_def)
qed

theorem call_returns_reply_witness:
  "\<exists>f f'. wire_frame OP_WRITE CMD_OFF_ALL [] = Inr f
     \<and> wire_frame OP_WRITE_RSP CMD_OFF_ALL [(''state'', PInt 0)] = Inr f'
     \<and> call (\<lambda>g. lift_result (if g = f then Inr ([[104, 105, 10]] @ f' # []) else Inr [])) 1
         CMD_OFF_ALL OP_WRITE [] () = (Inr [(''state'', PInt 0)], ())"
proof -
  have c: "cbor_clean (PDict [(''state'', PInt 0)])" "json_depth (PDict [(''state'', PInt 0)]) \<le> 1"
    "cbor_clean (PDict [])" "json_depth (PDict []) \<le> 1"
    by (simp_all add: ascii_utf8_valid)
  have l: "length (projr (encode_map [(''state'', PInt 0)])) + 10 < 65536"
    "length (projr (encode_map [])) + 10 < 65536"
    by (simp_all add: encode_map_def encode_type_len_def py_append_def encode_text_def encode_uint_def)
  obtain f where f: "wire_frame OP_WRITE CMD_OFF_ALL [] = Inr f"
    using wire_frame_total [OF c(3,4) _ _ _ _ l(2), of OP_WRITE CMD_OFF_ALL] by auto
  obtain f' where f': "wire_frame (response_op OP_WRITE) CMD_OFF_ALL [(''state'', PInt 0)] = Inr f'"
    using wire_frame_total [OF c(1,2) _ _ _ _ l(1), of "response_op OP_WRITE" CMD_OFF_ALL]
    by (auto simp: response_op_def)
  have n: "\<forall>l \<in> set [[104, 105, 10 :: byte]]. noise_line l" by code_simp
  have "call (\<lambda>g. lift_result (if g = f then Inr ([[104, 105, 10]] @ f' # []) else Inr [])) 1
      CMD_OFF_ALL OP_WRITE [] () = (Inr [(''state'', PInt 0)], ())"
    by (rule call_returns_reply [OF f _ f' _ n c(1,2)]) (auto simp: lift_result_def)
  with f f' show ?thesis by (auto simp: response_op_def)
qed

text \<open>
  What a call of the USB tool accepts: if it returns a map, the request's frame was
  sent, the frame received passed the checksum, and the header of its packet has the version,
  the response operation, the group, the sequence number, the command and the length the
  request asks for, the map being the decoded body.
\<close>

theorem call_accepts_matching:
  assumes "call dev d command op payload s = (Inr m, s')"
  shows "\<exists>f ls p tail first flags. wire_frame op command payload = Inr f \<and> dev f s = (Inr ls, s')
    \<and> decoded_frames (takeWhile (\<lambda>l. l \<noteq> []) ls) ''timed out waiting for SMP response'' = Inr p
    \<and> crc16_itu_t (p @ tail) 0 = 0 \<and> length tail \<le> 2
    \<and> unpack_header (take 8 p) = Inr (first, flags, int (length (drop 8 p)), GROUP_RELAY, 1, command)
    \<and> header_op first = response_op op \<and> header_version first = SMP_VERSION_2
    \<and> decode_map d (drop 8 p) = Inr m"
  using call_accepts [OF assms] check_response_accepts by meson

theorem call_accepts_matching_witness:
  "\<exists>(f :: bytes) dev (m :: pydict) (p :: bytes) first flags. call dev 1 CMD_OFF_ALL OP_WRITE [] () = (Inr m, ())
     \<and> unpack_header (take 8 p) = Inr (first, flags, int (length (drop 8 p)), GROUP_RELAY, 1, CMD_OFF_ALL)
     \<and> decode_map 1 (drop 8 p) = Inr m"
proof -
  have c: "cbor_clean (PDict [(''state'', PInt 0)])" "json_depth (PDict [(''state'', PInt 0)]) \<le> 1"
    "cbor_clean (PDict [])" "json_depth (PDict []) \<le> 1"
    by (simp_all add: ascii_utf8_valid)
  have l: "length (projr (encode_map [(''state'', PInt 0)])) + 10 < 65536"
    "length (projr (encode_map [])) + 10 < 65536"
    by (simp_all add: encode_map_def encode_type_len_def py_append_def encode_text_def encode_uint_def)
  obtain f where f: "wire_frame OP_WRITE CMD_OFF_ALL [] = Inr f"
    using wire_frame_total [OF c(3,4) _ _ _ _ l(2), of OP_WRITE CMD_OFF_ALL] by auto
  obtain f' where f': "wire_frame (response_op OP_WRITE) CMD_OFF_ALL [(''state'', PInt 0)] = Inr f'"
    using wire_frame_total [OF c(1,2) _ _ _ _ l(1), of "response_op OP_WRITE" CMD_OFF_ALL]
    by (auto simp: response_op_def)
  have "call (\<lambda>g. lift_result (Inr ([] @ f' # []))) 1 CMD_OFF_ALL OP_WRITE [] ()
      = (Inr [(''state'', PInt 0)], ())"
    by (rule call_answered [OF f _ f' _ _ c(1,2)]) (auto simp: lift_result_def)
  with call_accepts_matching [OF this] show ?thesis by blast
qed

text \<open>
  The smoke sequence: a run that passes has ended with an off-all call whose answer
  reports every relay off, and its device reported protocol version 8.
\<close>

theorem smoke_passed_means_off:
  assumes "run_smoke dev d s = (Inr (), s')"
  shows "(\<exists>s1 m. call dev d CMD_OFF_ALL OP_WRITE [] s1 = (Inr m, s')
           \<and> py_eq_int (dget m ''state'') 0)
    \<and> (\<exists>identity. fst (call dev d CMD_IDENTITY OP_READ [] s) = Inr identity
           \<and> py_eq_int (dget identity ''protocol_version'') 8)"
  using assms by (rule run_smoke_passed)

text \<open>A device that answers a script of (operation, command, reply) in order.\<close>

definition scripted_device :: "(int \<times> int \<times> pydict) list serial_device" where
  "scripted_device f = (\<lambda>s. case s of
     [] \<Rightarrow> (Inr [], [])
   | (op, command, reply) # rest \<Rightarrow>
       (case wire_frame (response_op op) command reply of
          Inl e \<Rightarrow> (Inl e, rest) | Inr g \<Rightarrow> (Inr [g], rest)))"

definition small_map :: "pydict \<Rightarrow> bool" where
  "small_map m \<longleftrightarrow> cbor_clean (PDict m) \<and> json_depth (PDict m) \<le> 2
     \<and> length (projr (encode_map m)) < 60000"

lemma call_scripted:
  assumes "op = OP_READ \<or> op = OP_WRITE" "0 \<le> command" "command < 256" "small_map payload" "small_map reply"
  shows "call scripted_device 2 command op payload ((op, command, reply) # rest) = (Inr reply, rest)"
proof -
  from assms have r: "cbor_clean (PDict reply)" "json_depth (PDict reply) \<le> 2"
    "length (projr (encode_map reply)) + 10 < 65536"
    and p: "cbor_clean (PDict payload)" "json_depth (PDict payload) \<le> 2"
      "length (projr (encode_map payload)) + 10 < 65536" by (auto simp: small_map_def)
  obtain f where f: "wire_frame op command payload = Inr f"
    using wire_frame_total [OF p(1,2) _ _ assms(2,3) p(3), of op] assms(1) by auto
  obtain g where g: "wire_frame (response_op op) command reply = Inr g"
    using wire_frame_total [OF r(1,2) _ _ assms(2,3) r(3), of "response_op op"]
    by (cases "op = 0") (auto simp: response_op_def)
  show ?thesis
    by (rule call_answered [where noise = "[]" and rest = "[]", OF f assms(1) g _ _ r(1,2)])
      (simp_all add: scripted_device_def g)
qed

lemmas small_map_simps = small_map_def encode_map_def encode_type_len_def py_append_def
  encode_text_def encode_uint_def ascii_utf8_valid pack_H_def

theorem smoke_passed_means_off_witness:
  "\<exists>s1 m. call scripted_device 2 CMD_OFF_ALL OP_WRITE [] s1 = (Inr m, [])
     \<and> py_eq_int (dget m ''state'') 0"
proof -
  let ?err = "[(''err'', PDict [(''group'', PInt 64), (''rc'', PInt 2)])]"
  let ?id = "[(''protocol_version'', PInt 8), (''command_model_version'', PInt 2),
              (''relay_count'', PInt 6), (''hardware'', PStr HARDWARE_NAME)]"
  let ?off = "[(''state'', PInt 0)]"
  let ?script = "[(OP_READ, CMD_IDENTITY, ?id), (OP_READ, CMD_CAPABILITIES, [(''capabilities'', PInt 1)]),
      (OP_READ, CMD_STATUS, ?off), (OP_WRITE, CMD_SET, []), (OP_READ, CMD_GET, []), (OP_WRITE, CMD_SET, []),
      (OP_WRITE, CMD_SET_ALL, []), (OP_WRITE, CMD_OFF_ALL, []), (OP_WRITE, CMD_PULSE, []),
      (OP_READ, CMD_GET, []), (OP_WRITE, CMD_SET, ?err), (OP_WRITE, CMD_PULSE, ?err),
      (OP_WRITE, CMD_OFF_ALL, ?off)]"
  have maps: "small_map []" "small_map ?id" "small_map ?err" "small_map ?off"
    "small_map [(''capabilities'', PInt 1)]" "small_map [(''channel'', PInt 0)]"
    "small_map [(''channel'', PInt 0), (''on'', PBool True)]"
    "small_map [(''channel'', PInt 0), (''on'', PBool False)]"
    "small_map [(''channel'', PInt 6), (''on'', PBool True)]" "small_map [(''state'', PInt 0x21)]"
    "small_map [(''channel'', PInt 0), (''duration_ms'', PInt 100)]"
    "small_map [(''channel'', PInt 0), (''duration_ms'', PInt 1)]"
    by (simp_all add: small_map_simps)
  have "run_smoke scripted_device 2 ?script = (Inr (), [])"
    unfolding run_smoke_def
    by (simp add: sexc_simps call_scripted maps [simplified] py_simps dget_def
        require_rejected_def err_get_def dget_or_def)
  from smoke_passed_means_off [OF this] show ?thesis by blast
qed

text \<open>
  The smoke sequence is out of date: against a device whose identity reports the
  protocol version of constants.py it always stops with an AssertionError, right after
  reading the identity and before any relay is switched.
\<close>

theorem smoke_refuses_current_firmware:
  assumes "call dev d CMD_IDENTITY OP_READ [] s = (Inr identity, s')"
    and "dget identity ''protocol_version'' = PInt PROTOCOL_VERSION"
  shows "run_smoke dev d s = (Inl (PyExc ''AssertionError'' ''protocol_version is not 8''), s')"
  using assms by (rule run_smoke_version)

theorem smoke_refuses_current_firmware_witness:
  "\<exists>dev. run_smoke dev 1 () = (Inl (PyExc ''AssertionError'' ''protocol_version is not 8''), ())"
proof -
  let ?m = "[(''protocol_version'', PInt PROTOCOL_VERSION)]"
  have c: "cbor_clean (PDict ?m)" "json_depth (PDict ?m) \<le> 1"
    "cbor_clean (PDict [])" "json_depth (PDict []) \<le> 1"
    by (simp_all add: ascii_utf8_valid)
  have l: "length (projr (encode_map ?m)) + 10 < 65536"
    "length (projr (encode_map [])) + 10 < 65536"
    by (simp_all add: encode_map_def encode_type_len_def py_append_def encode_text_def encode_uint_def)
  obtain f where f: "wire_frame OP_READ CMD_IDENTITY [] = Inr f"
    using wire_frame_total [OF c(3,4) _ _ _ _ l(2), of OP_READ CMD_IDENTITY] by auto
  obtain f' where f': "wire_frame (response_op OP_READ) CMD_IDENTITY ?m = Inr f'"
    using wire_frame_total [OF c(1,2) _ _ _ _ l(1), of "response_op OP_READ" CMD_IDENTITY]
    by (auto simp: response_op_def)
  have "call (\<lambda>g. lift_result (Inr ([] @ f' # []))) 1 CMD_IDENTITY OP_READ [] () = (Inr ?m, ())"
    by (rule call_answered [OF f _ f' _ _ c(1,2)]) (auto simp: lift_result_def)
  from smoke_refuses_current_firmware [OF this] show ?thesis by (auto simp: dget_def)
qed

end
