(* ===== verification/Smp.thy ===== *)
theory Smp
  imports Usb_Smoke
begin

text \<open>
  host/rp2350_relay_6ch/smp.py. The packages smp and cbor2 are parameters, gathered in the
  record \<open>smp_lib\<close>: the header's size, layout and parsing, the CBOR codec, and the serial
  framing, whose decoder is a generator fed with one line at a time. The locale
  \<open>smp_codec\<close> states what a client and a device need of a codec; the codec of
  tools/usb_rpc_smoke.py, which is source of the repository, interprets it.
\<close>

record SmpPacket =
  pk_op :: int
  pk_group :: int
  pk_command :: int
  pk_seq :: int
  pk_payload :: bytes
  pk_flags :: int
  pk_version :: int

record SmpHeader =
  h_op :: int
  h_version :: int
  h_flags :: int
  h_length :: int
  h_group :: int
  h_seq :: int
  h_command :: int

text \<open>What \<open>decoder.send(line)\<close> does: it waits for more, returns the packet, or raises.\<close>

datatype decoder_step = More | Packet bytes | Bad exc

record smp_lib =
  Header_SIZE :: nat
  Header_bytes :: "SmpHeader \<Rightarrow> bytes result"
  Header_loads :: "bytes \<Rightarrow> SmpHeader result"
  cbor2_dumps :: "pydict \<Rightarrow> bytes result"
  cbor2_loads :: "bytes \<Rightarrow> pyval result"
  packet_encode :: "bytes \<Rightarrow> bytes list"
  packet_decode :: "bytes list \<Rightarrow> decoder_step"

text \<open>\<open>packet_decode lib ls\<close> is the outcome of sending the last of the lines \<open>ls\<close>, the ones
  before it having asked for more.\<close>

section \<open>Packets\<close>

definition encode_packet :: "smp_lib \<Rightarrow> SmpPacket \<Rightarrow> bytes result" where
  "encode_packet lib packet =
     rbind (Header_bytes lib
              \<lparr>h_op = pk_op packet, h_version = pk_version packet, h_flags = pk_flags packet,
               h_length = int (length (pk_payload packet)), h_group = pk_group packet,
               h_seq = pk_seq packet, h_command = pk_command packet\<rparr>)
       (\<lambda>header. Inr (header @ pk_payload packet))"

definition header_exc :: "exc \<Rightarrow> exc" where
  "header_exc e = (if py_class e \<in> {''AssertionError'', ''ValueError''}
     then RelayProtocolError (exc_str e) else e)"

definition decode_packet :: "smp_lib \<Rightarrow> bytes \<Rightarrow> SmpPacket result" where
  "decode_packet lib data =
     (if length data < Header_SIZE lib
      then Inl (RelayProtocolError ''SMP packet is shorter than the header'')
      else (case Header_loads lib (take (Header_SIZE lib) data) of
              Inl e \<Rightarrow> Inl (header_exc e)
            | Inr header \<Rightarrow>
                (let payload = drop (Header_SIZE lib) data in
                 if h_length header \<noteq> int (length payload)
                 then Inl (RelayProtocolError (''SMP length mismatch: header=''
                        @ int_str (h_length header) @ '' actual='' @ int_str (int (length payload))))
                 else Inr \<lparr>pk_op = h_op header, pk_group = h_group header,
                           pk_command = h_command header, pk_seq = h_seq header,
                           pk_payload = payload, pk_flags = h_flags header,
                           pk_version = h_version header\<rparr>)))"

section \<open>Payloads\<close>

definition encode_payload :: "smp_lib \<Rightarrow> pydict \<Rightarrow> bytes result" where
  "encode_payload lib values = cbor2_dumps lib values"

definition decode_payload :: "smp_lib \<Rightarrow> bytes \<Rightarrow> pydict result" where
  "decode_payload lib data =
     (case cbor2_loads lib data of
        Inl e \<Rightarrow> Inl (RelayProtocolError (exc_str e))
      | Inr (PDict d) \<Rightarrow> Inr d
      | Inr v \<Rightarrow> Inl (RelayProtocolError ''CBOR payload is not a map''))"

lemma decode_payload_cases:
  "decode_payload lib data = Inr d \<longleftrightarrow> cbor2_loads lib data = Inr (PDict d)"
  "decode_payload lib data = Inl e \<Longrightarrow> is_RelayProtocolError e"
  by (auto simp: decode_payload_def split: sum.splits pyval.splits)

section \<open>Serial frames\<close>

definition serial_frames :: "smp_lib \<Rightarrow> bytes \<Rightarrow> bytes list" where
  "serial_frames lib packet = packet_encode lib packet"

definition smp_bad :: "string list" where
  "smp_bad = [''SMPBadContinueDelimiter'', ''SMPBadCRC'', ''SMPBadStartDelimiter'']"

text \<open>
  The loop over the lines: what was already sent, then the results the iterator still gives.
\<close>

fun feed_lines :: "smp_lib \<Rightarrow> string \<Rightarrow> bytes list \<Rightarrow> bytes result list \<Rightarrow> bytes result" where
  "feed_lines lib nt sent [] = Inl (RelayTimeoutError nt)"
| "feed_lines lib nt sent (Inl e # ls) = Inl e"
| "feed_lines lib nt sent (Inr line # ls) =
     (if line = [] then Inl (RelayTimeoutError nt)
      else (case packet_decode lib (sent @ [line]) of
              More \<Rightarrow> feed_lines lib nt (sent @ [line]) ls
            | Packet p \<Rightarrow> Inr p
            | Bad e \<Rightarrow> Inl (if py_class e \<in> set smp_bad then RelayProtocolError (exc_str e) else e)))"

definition decoded_serial_frames :: "smp_lib \<Rightarrow> bytes result list \<Rightarrow> string \<Rightarrow> bytes result" where
  "decoded_serial_frames lib ls timeout_note = feed_lines lib timeout_note [] ls"

text \<open>\<open>iter(f, b"")\<close> stops before the first empty line.\<close>

definition iter_lines :: "bytes result list \<Rightarrow> bytes result list" where
  "iter_lines ls = takeWhile (\<lambda>r. r \<noteq> Inr []) ls"

lemma feed_lines_outcome:
  "feed_lines lib nt sent ls = Inr p \<Longrightarrow>
   \<exists>pre line. map Inr (pre @ [line]) = take (Suc (length pre)) ls
     \<and> packet_decode lib (sent @ pre @ [line]) = Packet p
     \<and> (\<forall>k < length pre. packet_decode lib (sent @ take (Suc k) pre) = More)"
proof (induction lib nt sent ls rule: feed_lines.induct)
  case (3 lib nt sent line ls)
  show ?case
  proof (cases "packet_decode lib (sent @ [line])")
    case More
    with "3.prems" have "feed_lines lib nt (sent @ [line]) ls = Inr p" "line \<noteq> []"
      by (auto split: if_splits)
    with More "3.IH" obtain pre l where h: "map Inr (pre @ [l]) = take (Suc (length pre)) ls"
      "packet_decode lib ((sent @ [line]) @ pre @ [l]) = Packet p"
      "\<forall>k < length pre. packet_decode lib ((sent @ [line]) @ take (Suc k) pre) = More"
      by blast
    have "packet_decode lib (sent @ take (Suc k) (line # pre)) = More" if "k < length (line # pre)" for k
      using that More h(3) by (cases k) auto
    with h(1,2) show ?thesis by (intro exI [of _ "line # pre"] exI [of _ l]) simp
  next
    case (Packet q)
    with "3.prems" show ?thesis
      by (intro exI [of _ "[]"] exI [of _ line]) (auto split: if_splits)
  next
    case (Bad e)
    with "3.prems" show ?thesis by (auto split: if_splits)
  qed
qed simp_all

section \<open>What decode_packet accepts\<close>

lemma decode_packet_Inr:
  "decode_packet lib data = Inr p \<longleftrightarrow>
   (\<exists>h. Header_SIZE lib \<le> length data \<and> Header_loads lib (take (Header_SIZE lib) data) = Inr h
      \<and> h_length h = int (length (drop (Header_SIZE lib) data))
      \<and> p = \<lparr>pk_op = h_op h, pk_group = h_group h, pk_command = h_command h, pk_seq = h_seq h,
             pk_payload = drop (Header_SIZE lib) data, pk_flags = h_flags h,
             pk_version = h_version h\<rparr>)"
  by (auto simp: decode_packet_def Let_def split: sum.splits if_splits)

lemma decode_packet_errors:
  assumes "decode_packet lib data = Inl e"
    and "\<And>h x. Header_loads lib h = Inl x \<Longrightarrow> py_class x \<in> {''AssertionError'', ''ValueError''}"
  shows "is_RelayProtocolError e"
  using assms by (auto simp: decode_packet_def header_exc_def Let_def split: if_splits sum.splits)

section \<open>A codec and its contract\<close>

text \<open>
  The contract: a packet of the relay group is a request or response (\<open>ok\<close>), and what
  \<open>enc\<close> writes \<open>dec\<close> reads back, in whole.
\<close>

locale smp_codec =
  fixes enc :: "SmpPacket \<Rightarrow> bytes result"
    and dec :: "bytes \<Rightarrow> SmpPacket result"
    and dumps :: "pydict \<Rightarrow> bytes result"
    and loads :: "bytes \<Rightarrow> pydict result"
    and ok :: "SmpPacket \<Rightarrow> bool"
    and okd :: "pydict \<Rightarrow> bool"
  assumes enc_total: "ok p \<Longrightarrow> \<exists>bs. enc p = Inr bs"
    and dec_enc: "ok p \<Longrightarrow> enc p = Inr bs \<Longrightarrow> dec bs = Inr p"
    and dumps_total: "okd d \<Longrightarrow> \<exists>bs. dumps d = Inr bs"
    and loads_dumps: "okd d \<Longrightarrow> dumps d = Inr bs \<Longrightarrow> loads bs = Inr d"
begin

lemma enc_injective:
  "ok p \<Longrightarrow> ok q \<Longrightarrow> enc p = Inr bs \<Longrightarrow> enc q = Inr bs \<Longrightarrow> p = q"
  by (metis dec_enc sum.inject(2))

lemma dumps_injective:
  "okd d \<Longrightarrow> okd e \<Longrightarrow> dumps d = Inr bs \<Longrightarrow> dumps e = Inr bs \<Longrightarrow> d = e"
  by (metis loads_dumps sum.inject(2))

lemma message_read_back:
  assumes "okd d" "\<And>bs. dumps d = Inr bs \<Longrightarrow> ok (p\<lparr>pk_payload := bs\<rparr>)"
  shows "\<exists>bs data. dumps d = Inr bs \<and> enc (p\<lparr>pk_payload := bs\<rparr>) = Inr data
     \<and> dec data = Inr (p\<lparr>pk_payload := bs\<rparr>) \<and> loads bs = Inr d"
proof -
  obtain bs where bs: "dumps d = Inr bs" using dumps_total [OF assms(1)] by blast
  obtain data where "enc (p\<lparr>pk_payload := bs\<rparr>) = Inr data" using enc_total [OF assms(2) [OF bs]] by blast
  with bs dec_enc [OF assms(2) [OF bs]] loads_dumps [OF assms(1)] show ?thesis by blast
qed

end

section \<open>The codec of tools/usb_rpc_smoke.py as the library\<close>

definition smoke_header :: "SmpHeader \<Rightarrow> bytes result" where
  "smoke_header h =
     py_append (pack_B (h_op h OR push_bit 3 (h_version h))) (py_append (pack_B (h_flags h))
       (py_append (pack_H (h_length h)) (py_append (pack_H (h_group h))
         (py_append (pack_B (h_seq h)) (pack_B (h_command h))))))"

definition smoke_loads :: "bytes \<Rightarrow> SmpHeader result" where
  "smoke_loads b = rbind (unpack_header b) (\<lambda>(first, flags, len, grp, sq, command).
     Inr \<lparr>h_op = header_op first, h_version = header_version first, h_flags = flags,
          h_length = len, h_group = grp, h_seq = sq, h_command = command\<rparr>)"

definition smoke_decode :: "bytes list \<Rightarrow> decoder_step" where
  "smoke_decode ls =
     (case decoded_frames ls [] of
        Inr p \<Rightarrow> Packet p
      | Inl e \<Rightarrow> if py_class e = ''TimeoutError'' then More else Bad e)"

definition smoke_lib :: "nat \<Rightarrow> smp_lib" where
  "smoke_lib d =
     \<lparr>Header_SIZE = 8, Header_bytes = smoke_header, Header_loads = smoke_loads,
      cbor2_dumps = encode_map,
      cbor2_loads = (\<lambda>bs. rbind (decode_map d bs) (\<lambda>m. Inr (PDict m))),
      packet_encode = (\<lambda>p. case serial_frame p of Inl e \<Rightarrow> [] | Inr f \<Rightarrow> [f]),
      packet_decode = smoke_decode\<rparr>"

definition packet_ok :: "SmpPacket \<Rightarrow> bool" where
  "packet_ok p \<longleftrightarrow> 0 \<le> pk_op p \<and> pk_op p < 8 \<and> 0 \<le> pk_group p \<and> pk_group p < 65536
     \<and> 0 \<le> pk_command p \<and> pk_command p < 256 \<and> 0 \<le> pk_seq p \<and> pk_seq p < 256
     \<and> length (pk_payload p) < 65536 \<and> pk_flags p = 0 \<and> pk_version p = SMP_VERSION_2"

lemma pack_B_0: "pack_B 0 = Inr [0]"
  by (simp add: pack_B_def)

lemma encode_packet_smoke:
  assumes "pk_flags p = 0" "pk_version p = SMP_VERSION_2"
  shows "encode_packet (smoke_lib d) p =
    encode_smp (pk_op p) (pk_group p) (pk_command p) (pk_seq p) (pk_payload p)"
  using assms
  by (auto simp: encode_packet_def smoke_lib_def smoke_header_def encode_smp_def Let_def
      py_append_def rbind_def split: sum.splits)

lemma decode_packet_smoke:
  assumes "packet_ok p" "encode_packet (smoke_lib d) p = Inr bs"
  shows "decode_packet (smoke_lib d) bs = Inr p"
proof -
  from assms have e: "encode_smp (pk_op p) (pk_group p) (pk_command p) (pk_seq p) (pk_payload p) = Inr bs"
    by (simp add: encode_packet_smoke packet_ok_def)
  have o: "0 \<le> pk_op p" "pk_op p < 8" using assms(1) by (auto simp: packet_ok_def)
  from unpack_header_encode [OF e] first_byte_fields [OF o] encode_smp_length [OF e] assms(1)
  show ?thesis
    by (cases p) (simp add: decode_packet_def smoke_lib_def smoke_loads_def packet_ok_def Let_def)
qed

lemma encode_packet_smoke_total:
  assumes "packet_ok p"
  shows "\<exists>bs. encode_packet (smoke_lib d) p = Inr bs"
proof -
  have o: "0 \<le> pk_op p" "pk_op p < 8" using assms by (auto simp: packet_ok_def)
  have "\<exists>bs. encode_smp (pk_op p) (pk_group p) (pk_command p) (pk_seq p) (pk_payload p) = Inr bs"
    using first_byte_fields(3) [OF o] assms
    by (auto simp: encode_smp_def packet_ok_def Let_def py_append_def pack_B_def pack_H_def)
  with assms show ?thesis by (simp add: encode_packet_smoke packet_ok_def)
qed

definition payload_ok :: "nat \<Rightarrow> pydict \<Rightarrow> bool" where
  "payload_ok d m \<longleftrightarrow> cbor_clean (PDict m) \<and> json_depth (PDict m) \<le> d"

lemma decode_payload_smoke:
  assumes "payload_ok d m" "encode_payload (smoke_lib d) m = Inr bs"
  shows "decode_payload (smoke_lib d) bs = Inr m"
  using assms decode_map_encode_map [of m d]
  by (auto simp: payload_ok_def decode_payload_cases encode_payload_def smoke_lib_def)

interpretation smoke: smp_codec "encode_packet (smoke_lib d)" "decode_packet (smoke_lib d)"
  "encode_payload (smoke_lib d)" "decode_payload (smoke_lib d)" packet_ok "payload_ok d" for d
proof
  show "\<exists>bs. encode_payload (smoke_lib d) m = Inr bs" if "payload_ok d m" for m
    using that decode_map_encode_map [of m d]
    by (auto simp: payload_ok_def encode_payload_def smoke_lib_def)
qed (auto intro: encode_packet_smoke_total decode_packet_smoke decode_payload_smoke)

end
