(* ===== verification/Transport.thy ===== *)
theory Transport
  imports Smp "HOL-Library.Sublist"
begin

text \<open>
  host/rp2350_relay_6ch/transport.py: the \<open>PacketTransport\<close> protocol as a record of
  operations on a transport state, and its two implementations. pyserial is a parameter of
  \<open>SerialSmpTransport\<close>, a record of operations on a device state. The locale
  \<open>packet_transport\<close> is the contract RelayClient needs; both implementations provide it.
\<close>

record 't transport_ops =
  t_exchange :: "bytes \<Rightarrow> rat \<Rightarrow> ('t, bytes) sexc"
  t_close :: "('t, unit) sexc"

section \<open>SerialSmpTransport\<close>

text \<open>
  pyserial: \<open>ser_open\<close> imports it and opens the port, \<open>ser_setup\<close> sets both time-outs and
  resets the input buffer, \<open>ser_readlines\<close> gives the results of the successive \<open>readline\<close>
  calls up to the first that times out empty.
\<close>

record 'e pyserial =
  ser_open :: "string \<Rightarrow> int \<Rightarrow> rat \<Rightarrow> ('e, unit) sexc"
  ser_setup :: "rat \<Rightarrow> ('e, unit) sexc"
  ser_write :: "bytes \<Rightarrow> ('e, unit) sexc"
  ser_readlines :: "'e \<Rightarrow> bytes result list \<times> 'e"
  ser_close :: "('e, unit) sexc"

text \<open>\<open>written\<close> is a ghost: the frames passed to \<open>write\<close>, in order.\<close>

record 'e SerialSmpTransport =
  tp_port :: string
  tp_baudrate :: int
  is_open :: bool
  device :: 'e
  written :: "bytes list"

definition on_device :: "('e, 'a) sexc \<Rightarrow> ('e SerialSmpTransport, 'a) sexc" where
  "on_device m = (\<lambda>t. case m (device t) of (r, e) \<Rightarrow> (r, t\<lparr>device := e\<rparr>))"

definition new_SerialSmpTransport :: "string \<Rightarrow> int \<Rightarrow> 'e \<Rightarrow> 'e SerialSmpTransport" where
  "new_SerialSmpTransport prt baud e =
     \<lparr>tp_port = prt, tp_baudrate = baud, is_open = False, device = e, written = []\<rparr>"

definition serial_close :: "'e pyserial \<Rightarrow> ('e SerialSmpTransport, unit) sexc" where
  "serial_close lib = (\<lambda>t.
     (let t' = t\<lparr>is_open := False\<rparr> in
      if is_open t then on_device (ser_close lib) t' else (Inr (), t')))"

definition serial_open :: "'e pyserial \<Rightarrow> rat \<Rightarrow> ('e SerialSmpTransport, unit) sexc" where
  "serial_open lib timeout = (\<lambda>t.
     if is_open t then (Inr (), t)
     else (case on_device (ser_open lib (tp_port t) (tp_baudrate t) timeout) t of
             (Inl e, t') \<Rightarrow>
               (Inl (if py_class e = ''ImportError''
                     then RelayTransportError ''pyserial is required for serial transport'' else e), t')
           | (Inr _, t') \<Rightarrow> (Inr (), t'\<lparr>is_open := True\<rparr>)))"

fun write_frames :: "'e pyserial \<Rightarrow> bytes list \<Rightarrow> ('e SerialSmpTransport, unit) sexc" where
  "write_frames lib [] = sret ()"
| "write_frames lib (f # fs) =
     sbind (\<lambda>t. on_device (ser_write lib f) (t\<lparr>written := written t @ [f]\<rparr>))
       (\<lambda>_. write_frames lib fs)"

definition read_response :: "smp_lib \<Rightarrow> 'e pyserial \<Rightarrow> ('e SerialSmpTransport, bytes) sexc" where
  "read_response slib lib = (\<lambda>t. case ser_readlines lib (device t) of (ls, e) \<Rightarrow>
     (decoded_serial_frames slib (iter_lines ls) ''timed out waiting for SMP response'',
      t\<lparr>device := e\<rparr>))"

definition serial_try :: "smp_lib \<Rightarrow> 'e pyserial \<Rightarrow> bytes \<Rightarrow> rat \<Rightarrow> ('e SerialSmpTransport, bytes) sexc" where
  "serial_try slib lib packet timeout =
     sbind (serial_open lib timeout) (\<lambda>_.
       sbind (on_device (ser_setup lib timeout)) (\<lambda>_.
         sbind (write_frames lib (serial_frames slib packet)) (\<lambda>_. read_response slib lib)))"

definition serial_exchange :: "smp_lib \<Rightarrow> 'e pyserial \<Rightarrow> bytes \<Rightarrow> rat \<Rightarrow> ('e SerialSmpTransport, bytes) sexc" where
  "serial_exchange slib lib packet timeout =
     scatch (serial_try slib lib packet timeout) (\<lambda>e.
       if is_RelayTimeoutError e then sraise e
       else sbind (serial_close lib) (\<lambda>_. sraise (RelayTransportError (exc_str e))))"

definition serial_ops :: "smp_lib \<Rightarrow> 'e pyserial \<Rightarrow> 'e SerialSmpTransport transport_ops" where
  "serial_ops slib lib = \<lparr>t_exchange = serial_exchange slib lib, t_close = serial_close lib\<rparr>"

section \<open>SimulatedPacketTransport\<close>

record SimulatedPacketTransport =
  responses :: "bytes result list"
  requests :: "bytes list"

definition queue_response :: "bytes result \<Rightarrow> SimulatedPacketTransport \<Rightarrow> SimulatedPacketTransport" where
  "queue_response r t = t\<lparr>responses := responses t @ [r]\<rparr>"

definition sim_exchange :: "bytes \<Rightarrow> rat \<Rightarrow> (SimulatedPacketTransport, bytes) sexc" where
  "sim_exchange packet timeout = (\<lambda>t.
     (let t' = t\<lparr>requests := requests t @ [packet]\<rparr> in
      case responses t' of
        [] \<Rightarrow> (Inl (RelayTimeoutError ''simulated timeout''), t')
      | r # rs \<Rightarrow> (r, t'\<lparr>responses := rs\<rparr>)))"

definition sim_ops :: "SimulatedPacketTransport transport_ops" where
  "sim_ops = \<lparr>t_exchange = sim_exchange, t_close = sret ()\<rparr>"

section \<open>The contract of a packet transport\<close>

text \<open>
  \<open>inv\<close> is an invariant of the transport's states, \<open>tx\<close> the frames it has sent, and
  \<open>frames p\<close> the frames of a packet. An exchange sends a prefix of the frames of its packet, all
  of them unless it fails, keeps the invariant, and reports failure by a \<open>RelayError\<close>.
\<close>

locale packet_transport =
  fixes exch :: "bytes \<Rightarrow> rat \<Rightarrow> ('t, bytes) sexc"
    and close :: "('t, unit) sexc"
    and tx :: "'t \<Rightarrow> bytes list"
    and frames :: "bytes \<Rightarrow> bytes list"
    and inv :: "'t \<Rightarrow> bool"
  assumes exchange_inv: "inv t \<Longrightarrow> exch p s t = (r, t') \<Longrightarrow> inv t'"
    and exchange_sends: "inv t \<Longrightarrow> exch p s t = (r, t') \<Longrightarrow>
      \<exists>fs. prefix fs (frames p) \<and> tx t' = tx t @ fs"
    and exchange_sends_all: "inv t \<Longrightarrow> exch p s t = (Inr q, t') \<Longrightarrow> tx t' = tx t @ frames p"
    and exchange_timeout_sends: "inv t \<Longrightarrow> exch p s t = (Inl e, t') \<Longrightarrow> is_RelayTimeoutError e \<Longrightarrow>
      tx t' = tx t @ frames p"
    and exchange_error: "inv t \<Longrightarrow> exch p s t = (Inl e, t') \<Longrightarrow> is_RelayError e"
    and close_inv: "inv t \<Longrightarrow> close t = (u, t') \<Longrightarrow> inv t'"
    and close_silent: "close t = (u, t') \<Longrightarrow> tx t' = tx t"

section \<open>Serial exchanges\<close>

lemma on_device_run:
  "on_device m t = (r, t') \<longleftrightarrow> (\<exists>e. m (device t) = (r, e) \<and> t' = t\<lparr>device := e\<rparr>)"
  by (auto simp: on_device_def split: prod.splits)

lemma write_frames_sends:
  "write_frames lib fs t = (r, t') \<Longrightarrow>
   \<exists>gs. prefix gs fs \<and> written t' = written t @ gs \<and> (r = Inr () \<longrightarrow> gs = fs)"
proof (induction fs arbitrary: t)
  case Nil
  then show ?case by (auto simp: sret_def)
next
  case (Cons f fs)
  let ?t = "t\<lparr>written := written t @ [f]\<rparr>"
  obtain r1 e where w: "ser_write lib f (device t) = (r1, e)" by force
  show ?case
  proof (cases r1)
    case (Inl x)
    with Cons.prems w show ?thesis
      by (intro exI [of _ "[f]"]) (auto simp: sbind_def on_device_def)
  next
    case (Inr u)
    with Cons.prems w have "write_frames lib fs (?t\<lparr>device := e\<rparr>) = (r, t')"
      by (auto simp: sbind_def on_device_def)
    from Cons.IH [OF this] obtain gs where "prefix gs fs"
      "written t' = (written t @ [f]) @ gs" "r = Inr () \<longrightarrow> gs = fs" by auto
    then show ?thesis by (intro exI [of _ "f # gs"]) auto
  qed
qed

lemma serial_open_written: "serial_open lib s t = (r, t') \<Longrightarrow> written t' = written t"
  by (auto simp: serial_open_def on_device_def split: if_splits prod.splits sum.splits)

lemma serial_close_written: "serial_close lib t = (r, t') \<Longrightarrow> written t' = written t \<and> \<not> is_open t'"
  by (auto simp: serial_close_def on_device_def Let_def split: if_splits prod.splits)

lemma read_response_written: "read_response slib lib t = (r, t') \<Longrightarrow> written t' = written t"
  by (auto simp: read_response_def split: prod.splits)

lemma serial_try_sends:
  assumes "serial_try slib lib p s t = (r, t')"
  shows "\<exists>fs. prefix fs (serial_frames slib p) \<and> written t' = written t @ fs
    \<and> (\<forall>q. r = Inr q \<longrightarrow> fs = serial_frames slib p)"
  using assms unfolding serial_try_def
proof (cases rule: sbind_cases)
  case (1 e)
  then show ?thesis by (intro exI [of _ "[]"]) (auto dest: serial_open_written)
next
  case (2 x t1)
  from 2(2) show ?thesis
  proof (cases rule: sbind_cases)
    case (1 e)
    with 2(1) show ?thesis
      by (intro exI [of _ "[]"]) (auto simp: on_device_run dest: serial_open_written)
  next
    case (2 y t2)
    note t2 = this
    have w2: "written t2 = written t"
      using \<open>serial_open lib s t = (Inr x, t1)\<close> t2(1)
      by (auto simp: on_device_run dest: serial_open_written)
    from t2(2) show ?thesis
    proof (cases rule: sbind_cases)
      case (1 e)
      then show ?thesis using write_frames_sends [OF 1(1)] w2 by auto
    next
      case (2 z t3)
      then show ?thesis
        using write_frames_sends [OF 2(1)] w2 read_response_written [OF 2(2)] by auto
    qed
  qed
qed

text \<open>
  What the code relies on from pyserial and the smp package for the contract: closing the
  port does not raise, and none of them raises the package's own time-out error, so that a
  time-out comes from \<open>decoded_serial_frames\<close> after the whole packet is written.
\<close>

definition pyserial_sane :: "smp_lib \<Rightarrow> 'e pyserial \<Rightarrow> bool" where
  "pyserial_sane slib lib \<longleftrightarrow>
     (\<forall>e. fst (ser_close lib e) = Inr ())
     \<and> (\<forall>p b s e. \<forall>x. fst (ser_open lib p b s e) = Inl x \<longrightarrow> \<not> is_RelayTimeoutError x)
     \<and> (\<forall>s e x. fst (ser_setup lib s e) = Inl x \<longrightarrow> \<not> is_RelayTimeoutError x)
     \<and> (\<forall>f e x. fst (ser_write lib f e) = Inl x \<longrightarrow> \<not> is_RelayTimeoutError x)"

lemma serial_close_sane:
  assumes "pyserial_sane slib lib"
  shows "fst (serial_close lib t) = Inr ()"
  using assms
  by (auto simp: serial_close_def on_device_def pyserial_sane_def Let_def split: prod.splits)
     (metis fst_conv)

lemma write_frames_no_timeout:
  assumes "pyserial_sane slib lib" "write_frames lib fs t = (Inl e, t')"
  shows "\<not> is_RelayTimeoutError e"
  using assms(2)
proof (induction fs arbitrary: t)
  case Nil
  then show ?case by (simp add: sret_def)
next
  case (Cons f fs)
  from Cons.prems show ?case
    using assms(1) Cons.IH
    by (auto simp: on_device_def pyserial_sane_def split: prod.splits elim!: sbind_cases)
      (metis fst_conv)
qed

lemma serial_try_timeout_sends:
  assumes sane: "pyserial_sane slib lib" and run: "serial_try slib lib p s t = (Inl e, t')"
    and e: "is_RelayTimeoutError e"
  shows "written t' = written t @ serial_frames slib p"
  using run unfolding serial_try_def
proof (cases rule: sbind_cases)
  case (1 x)
  with sane e show ?thesis
    by (auto simp: serial_open_def on_device_def pyserial_sane_def split: if_splits prod.splits sum.splits)
      (metis fst_conv)
next
  case (2 x t1)
  note t1 = this
  from 2(2) show ?thesis
  proof (cases rule: sbind_cases)
    case (1 x)
    with sane e show ?thesis by (auto simp: on_device_run pyserial_sane_def) (metis fst_conv)
  next
    case (2 y t2)
    have w2: "written t2 = written t"
      using t1(1) 2(1) by (auto simp: on_device_run dest: serial_open_written)
    from 2(2) show ?thesis
    proof (cases rule: sbind_cases)
      case (1 x)
      with write_frames_no_timeout [OF sane 1(1)] e show ?thesis by simp
    next
      case (2 z t3)
      then show ?thesis
        using write_frames_sends [OF 2(1)] w2 read_response_written [OF 2(2)] by auto
    qed
  qed
qed

lemma serial_exchange_cases:
  assumes "pyserial_sane slib lib" "serial_exchange slib lib p s t = (r, t')"
  obtains q where "r = Inr q" "serial_try slib lib p s t = (Inr q, t')"
  | e where "r = Inl e" "is_RelayTimeoutError e" "serial_try slib lib p s t = (Inl e, t')"
  | e t1 where "r = Inl (RelayTransportError (exc_str e))" "\<not> is_RelayTimeoutError e"
      "serial_try slib lib p s t = (Inl e, t1)" "serial_close lib t1 = (Inr (), t')"
proof -
  obtain r1 t1 where tr: "serial_try slib lib p s t = (r1, t1)" by force
  obtain r2 t2 where c: "serial_close lib t1 = (r2, t2)" by force
  with serial_close_sane [OF assms(1), of t1] have "r2 = Inr ()" by simp
  with tr c assms(2) show ?thesis
    by (cases r1)
      (auto simp: serial_exchange_def scatch_def sraise_def sbind_def split: if_splits intro: that)
qed

lemma serial_exchange_sends:
  assumes "pyserial_sane slib lib" "serial_exchange slib lib p s t = (r, t')"
  shows "\<exists>fs. prefix fs (serial_frames slib p) \<and> written t' = written t @ fs"
  using assms
  by (cases rule: serial_exchange_cases) (auto dest!: serial_try_sends serial_close_written)

lemma serial_exchange_ok_sends:
  assumes "pyserial_sane slib lib" "serial_exchange slib lib p s t = (Inr q, t')"
  shows "written t' = written t @ serial_frames slib p"
  using assms
  by (cases rule: serial_exchange_cases) (auto dest!: serial_try_sends)

lemma serial_exchange_timeout:
  assumes "pyserial_sane slib lib" "serial_exchange slib lib p s t = (Inl e, t')"
    "is_RelayTimeoutError e"
  shows "written t' = written t @ serial_frames slib p"
  using assms
  by (cases rule: serial_exchange_cases) (auto dest!: serial_try_timeout_sends [OF assms(1)])

text \<open>A failed exchange is a transport error, and unless it timed out the port is closed.\<close>

lemma serial_exchange_error:
  assumes "pyserial_sane slib lib" "serial_exchange slib lib p s t = (Inl e, t')"
  shows "is_RelayTransportError e \<and> (\<not> is_RelayTimeoutError e \<longrightarrow> \<not> is_open t')"
  using assms
  by (cases rule: serial_exchange_cases) (auto simp: exc_simps dest: serial_close_written)

section \<open>Both implementations keep the contract\<close>

definition sim_inv :: "SimulatedPacketTransport \<Rightarrow> bool" where
  "sim_inv t \<longleftrightarrow> (\<forall>e. Inl e \<in> set (responses t) \<longrightarrow> is_RelayError e)"

interpretation sim: packet_transport sim_exchange "sret ()" requests "\<lambda>p. [p]" sim_inv
  by unfold_locales
    (auto simp: sim_exchange_def sim_inv_def sret_def Let_def split: list.splits)

text \<open>
  The serial transport provides the contract for every sane pyserial; the one interpreted
  here is a port that opens, whose write always succeeds and whose input is a list of lines per
  exchange.
\<close>

definition scripted_serial :: "bytes result list list pyserial" where
  "scripted_serial =
     \<lparr>ser_open = (\<lambda>_ _ _. sret ()), ser_setup = (\<lambda>_. sret ()), ser_write = (\<lambda>_. sret ()),
      ser_readlines = (\<lambda>e. case e of [] \<Rightarrow> ([], []) | ls # r \<Rightarrow> (ls, r)), ser_close = sret ()\<rparr>"

lemma scripted_serial_sane: "pyserial_sane slib scripted_serial"
  by (simp add: pyserial_sane_def scripted_serial_def sret_def)

lemma serial_transport_contract:
  assumes "pyserial_sane slib lib"
  shows "packet_transport (serial_exchange slib lib) (serial_close lib) written
    (serial_frames slib) (\<lambda>_. True)"
  using assms
  by unfold_locales
    (auto intro: serial_exchange_sends serial_exchange_ok_sends serial_exchange_timeout
      dest: serial_exchange_error serial_close_written transport_is_relay)

locale serial_port =
  fixes slib :: smp_lib and lib :: "'e pyserial"
  assumes sane: "pyserial_sane slib lib"

sublocale serial_port \<subseteq> packet_transport "serial_exchange slib lib" "serial_close lib" written
  "serial_frames slib" "\<lambda>_. True"
  by (rule serial_transport_contract [OF sane])

interpretation scripted: serial_port slib scripted_serial for slib
  by unfold_locales (rule scripted_serial_sane)

section \<open>Properties\<close>

text \<open>
  A serial exchange, for every pyserial that does not raise from close and raises no
  time-out error of its own: it writes a prefix of the frames of its packet, all of them if it
  returns a packet or times out; it fails only with a transport error; and after a failure
  other than a time-out the port is closed, so that the next exchange opens it again.
\<close>

theorem serial_exchange_contract:
  assumes "pyserial_sane slib lib" "serial_exchange slib lib p s t = (r, t')"
  shows "(\<exists>fs. prefix fs (serial_frames slib p) \<and> written t' = written t @ fs)
    \<and> ((\<exists>q. r = Inr q) \<or> (\<exists>m. r = Inl (RelayTimeoutError m)) \<longrightarrow>
         written t' = written t @ serial_frames slib p)
    \<and> (\<forall>e. r = Inl e \<longrightarrow> is_RelayTransportError e
         \<and> (is_RelayTimeoutError e \<or> \<not> is_open t'))"
  using assms serial_exchange_sends serial_exchange_ok_sends serial_exchange_timeout
    serial_exchange_error by (metis is_RelayTimeoutError.simps(1))

theorem serial_exchange_contract_witness:
  "serial_exchange (smoke_lib 1) scripted_serial [] 2 (new_SerialSmpTransport ''COM7'' 115200 []) =
     (Inl (RelayTimeoutError ''timed out waiting for SMP response''),
      snd (serial_exchange (smoke_lib 1) scripted_serial [] 2 (new_SerialSmpTransport ''COM7'' 115200 [])))
   \<and> written (snd (serial_exchange (smoke_lib 1) scripted_serial [] 2 (new_SerialSmpTransport ''COM7'' 115200 [])))
     = serial_frames (smoke_lib 1) []"
proof -
  let ?x = "serial_exchange (smoke_lib 1) scripted_serial [] 2 (new_SerialSmpTransport ''COM7'' 115200 [])"
  obtain f where f: "serial_frame [] = Inr f" using serial_frame_total [of "[]"] by auto
  have e: "fst ?x = Inl (RelayTimeoutError ''timed out waiting for SMP response'')"
    by (simp add: serial_exchange_def serial_try_def serial_open_def scatch_def sbind_def sret_def
        sraise_def on_device_def scripted_serial_def new_SerialSmpTransport_def serial_frames_def
        smoke_lib_def f read_response_def decoded_serial_frames_def iter_lines_def)
  have "?x = (fst ?x, snd ?x)" by simp
  from serial_exchange_contract [OF scripted_serial_sane this] e show ?thesis
    by (auto simp: prod_eq_iff new_SerialSmpTransport_def)
qed

end
