(* ===== verification/Client.thy ===== *)
theory Client
  imports Transport
begin

text \<open>
  host/rp2350_relay_6ch/client.py: RelayClient, generic in its transport, with its argument
  checks, its sequence numbers, the retry loop and the checks on a response. Arguments are
  Python values, because the checks are isinstance tests.
\<close>

record 't RelayClient =
  rc_transport :: 't
  rc_timeout_s :: rat
  rc_retries :: int
  rc_seq :: int

definition new_RelayClient :: "'t \<Rightarrow> rat \<Rightarrow> int \<Rightarrow> 't RelayClient result" where
  "new_RelayClient t timeout_s retries =
     (if timeout_s \<le> 0 then Inl (RelayValidationError ''timeout_s must be positive'')
      else if retries < 0 then Inl (RelayValidationError ''retries must be non-negative'')
      else Inr \<lparr>rc_transport = t, rc_timeout_s = timeout_s, rc_retries = retries, rc_seq = 0\<rparr>)"

definition connect_client :: "string \<Rightarrow> int \<Rightarrow> rat \<Rightarrow> int \<Rightarrow> 'e \<Rightarrow> 'e SerialSmpTransport RelayClient result" where
  "connect_client prt baud timeout_s retries e =
     new_RelayClient (new_SerialSmpTransport prt baud e) timeout_s retries"

definition on_transport :: "('t, 'a) sexc \<Rightarrow> ('t RelayClient, 'a) sexc" where
  "on_transport m = (\<lambda>c. case m (rc_transport c) of (r, t) \<Rightarrow> (r, c\<lparr>rc_transport := t\<rparr>))"

definition client_close :: "'t transport_ops \<Rightarrow> ('t RelayClient, unit) sexc" where
  "client_close T = on_transport (t_close T)"

section \<open>Responses\<close>

definition device_error_name :: "int \<Rightarrow> string" where
  "device_error_name rc = (case map_of DEVICE_ERROR_NAMES rc of Some n \<Rightarrow> n | None \<Rightarrow> ''unknown'')"

definition device_error :: "pydict \<Rightarrow> exc" where
  "device_error err =
     (case py_int (dget_or err ''group'' (PInt (-1))) of
        Inl e \<Rightarrow> e
      | Inr g \<Rightarrow>
          (case py_int (dget_or err ''rc'' (PInt (-1))) of
             Inl e \<Rightarrow> e
           | Inr rc \<Rightarrow> RelayDeviceError g rc
               (''device error '' @ device_error_name rc @ '' ('' @ int_str rc @ '')'')))"

definition decode_response :: "smp_lib \<Rightarrow> SmpPacket \<Rightarrow> int \<Rightarrow> int \<Rightarrow> int \<Rightarrow> pydict result" where
  "decode_response slib response expected_op command sq =
     (if pk_version response \<noteq> SMP_VERSION_2
      then Inl (RelayProtocolError (''unexpected SMP version '' @ int_str (pk_version response)))
      else if pk_op response \<noteq> expected_op
      then Inl (RelayProtocolError (''unexpected SMP response op '' @ int_str (pk_op response)
             @ '', expected '' @ int_str expected_op))
      else if pk_group response \<noteq> GROUP_RELAY
      then Inl (RelayProtocolError ''SMP response group does not match the request'')
      else if pk_command response \<noteq> command
      then Inl (RelayProtocolError ''SMP response command does not match the request'')
      else if pk_seq response \<noteq> sq
      then Inl (RelayProtocolError ''SMP response sequence does not match the request'')
      else rbind (decode_payload slib (pk_payload response)) (\<lambda>decoded.
             (case dget decoded ''err'' of
                PDict err \<Rightarrow> Inl (device_error err)
              | _ \<Rightarrow> Inr decoded)))"

section \<open>Requests\<close>

definition next_seq :: "('t RelayClient, int) sexc" where
  "next_seq = (\<lambda>c. (Inr (rc_seq c), c\<lparr>rc_seq := (rc_seq c + 1) AND 0xFF\<rparr>))"

definition request_packet :: "smp_lib \<Rightarrow> int \<Rightarrow> int \<Rightarrow> int \<Rightarrow> pydict \<Rightarrow> bytes result" where
  "request_packet slib command op sq payload =
     rbind (encode_payload slib payload) (\<lambda>body.
       encode_packet slib
         \<lparr>pk_op = op, pk_group = GROUP_RELAY, pk_command = command, pk_seq = sq,
          pk_payload = body, pk_flags = 0, pk_version = SMP_VERSION_2\<rparr>)"

text \<open>One attempt, and the loop over the attempts left, which keeps the last time-out.\<close>

definition attempt :: "smp_lib \<Rightarrow> 't transport_ops \<Rightarrow> bytes \<Rightarrow> int \<Rightarrow> int \<Rightarrow> int \<Rightarrow> ('t RelayClient, pydict) sexc" where
  "attempt slib T encoded expected_op command sq =
     sbind (\<lambda>c. on_transport (t_exchange T encoded (rc_timeout_s c)) c) (\<lambda>data.
       lift_result (rbind (decode_packet slib data) (\<lambda>response.
         decode_response slib response expected_op command sq)))"

primrec attempts :: "nat \<Rightarrow> ('s, 'a) sexc \<Rightarrow> exc option \<Rightarrow> ('s, 'a) sexc" where
  "attempts 0 m last_timeout =
     (case last_timeout of
        None \<Rightarrow> sraise (PyExc ''AssertionError'' [])
      | Some e \<Rightarrow> sraise e)"
| "attempts (Suc n) m last_timeout =
     scatch m (\<lambda>e. if is_RelayTimeoutError e then attempts n m (Some e) else sraise e)"

definition client_request :: "smp_lib \<Rightarrow> 't transport_ops \<Rightarrow> int \<Rightarrow> int \<Rightarrow> pydict \<Rightarrow> ('t RelayClient, pydict) sexc" where
  "client_request slib T command op payload =
     sbind next_seq (\<lambda>sq.
       sbind (lift_result (request_packet slib command op sq payload)) (\<lambda>encoded. \<lambda>c.
         (let expected_op = (if op = OP_READ then OP_READ_RSP else OP_WRITE_RSP) in
          attempts (nat (rc_retries c + 1)) (attempt slib T encoded expected_op command sq) None c)))"

section \<open>Argument checks\<close>

definition validate_channel :: "pyval \<Rightarrow> unit result" where
  "validate_channel channel =
     (case as_int channel of
        Some i \<Rightarrow> if i < 0 \<or> RELAY_COUNT \<le> i
                  then Inl (RelayValidationError (''channel must be 0..'' @ int_str (RELAY_COUNT - 1)))
                  else Inr ()
      | None \<Rightarrow> Inl (RelayValidationError (''channel must be 0..'' @ int_str (RELAY_COUNT - 1))))"

definition validate_state_mask :: "pyval \<Rightarrow> unit result" where
  "validate_state_mask st =
     (case as_int st of
        Some i \<Rightarrow> if i < 0 \<or> i AND NOT RELAY_MASK \<noteq> 0
                  then Inl (RelayValidationError ''state must be a six-bit mask 0..0x3f'')
                  else Inr ()
      | None \<Rightarrow> Inl (RelayValidationError ''state must be a six-bit mask 0..0x3f''))"

definition validate_duration :: "pyval \<Rightarrow> unit result" where
  "validate_duration duration_ms =
     (case as_int duration_ms of
        Some i \<Rightarrow> if i < PULSE_MIN_MS \<or> PULSE_MAX_MS < i
                  then Inl (RelayValidationError ''duration_ms must be 10..60000'')
                  else Inr ()
      | None \<Rightarrow> Inl (RelayValidationError ''duration_ms must be 10..60000''))"

section \<open>Commands\<close>

type_synonym 't command = "('t RelayClient, pydict) sexc"

definition identity :: "smp_lib \<Rightarrow> 't transport_ops \<Rightarrow> 't command" where
  "identity slib T = client_request slib T CMD_IDENTITY OP_READ []"
definition capabilities :: "smp_lib \<Rightarrow> 't transport_ops \<Rightarrow> 't command" where
  "capabilities slib T = client_request slib T CMD_CAPABILITIES OP_READ []"
definition build_info :: "smp_lib \<Rightarrow> 't transport_ops \<Rightarrow> 't command" where
  "build_info slib T = client_request slib T CMD_BUILD_INFO OP_READ []"

definition get_relay :: "smp_lib \<Rightarrow> 't transport_ops \<Rightarrow> pyval \<Rightarrow> 't command" where
  "get_relay slib T channel =
     sbind (lift_result (validate_channel channel)) (\<lambda>_.
       client_request slib T CMD_GET OP_READ [(''channel'', channel)])"

definition get_all_relays :: "smp_lib \<Rightarrow> 't transport_ops \<Rightarrow> 't command" where
  "get_all_relays slib T = client_request slib T CMD_GET_ALL OP_READ []"

definition set_relay :: "smp_lib \<Rightarrow> 't transport_ops \<Rightarrow> pyval \<Rightarrow> pyval \<Rightarrow> 't command" where
  "set_relay slib T channel on =
     sbind (lift_result (validate_channel channel)) (\<lambda>_.
       if \<not> is_bool on then sraise (RelayValidationError ''on must be a bool'')
       else client_request slib T CMD_SET OP_WRITE [(''channel'', channel), (''on'', on)])"

definition set_all_relays :: "smp_lib \<Rightarrow> 't transport_ops \<Rightarrow> pyval \<Rightarrow> 't command" where
  "set_all_relays slib T st =
     sbind (lift_result (validate_state_mask st)) (\<lambda>_.
       client_request slib T CMD_SET_ALL OP_WRITE [(''state'', st)])"

definition pulse_relay :: "smp_lib \<Rightarrow> 't transport_ops \<Rightarrow> pyval \<Rightarrow> pyval \<Rightarrow> 't command" where
  "pulse_relay slib T channel duration_ms =
     sbind (lift_result (validate_channel channel)) (\<lambda>_.
       sbind (lift_result (validate_duration duration_ms)) (\<lambda>_.
         client_request slib T CMD_PULSE OP_WRITE
           [(''channel'', channel), (''duration_ms'', duration_ms)]))"

definition off_all_relays :: "smp_lib \<Rightarrow> 't transport_ops \<Rightarrow> 't command" where
  "off_all_relays slib T = client_request slib T CMD_OFF_ALL OP_WRITE []"
definition status :: "smp_lib \<Rightarrow> 't transport_ops \<Rightarrow> 't command" where
  "status slib T = client_request slib T CMD_STATUS OP_READ []"
definition health :: "smp_lib \<Rightarrow> 't transport_ops \<Rightarrow> 't command" where
  "health slib T = client_request slib T CMD_HEALTH OP_READ []"
definition transport_status :: "smp_lib \<Rightarrow> 't transport_ops \<Rightarrow> 't command" where
  "transport_status slib T = client_request slib T CMD_TRANSPORT OP_READ []"
definition safety :: "smp_lib \<Rightarrow> 't transport_ops \<Rightarrow> 't command" where
  "safety slib T = client_request slib T CMD_SAFETY OP_READ []"
definition watchdog :: "smp_lib \<Rightarrow> 't transport_ops \<Rightarrow> 't command" where
  "watchdog slib T = client_request slib T CMD_WATCHDOG OP_READ []"
definition reboot :: "smp_lib \<Rightarrow> 't transport_ops \<Rightarrow> 't command" where
  "reboot slib T = client_request slib T CMD_REBOOT OP_WRITE []"
definition bootsel :: "smp_lib \<Rightarrow> 't transport_ops \<Rightarrow> 't command" where
  "bootsel slib T = client_request slib T CMD_BOOTSEL OP_WRITE []"
definition heartbeat :: "smp_lib \<Rightarrow> 't transport_ops \<Rightarrow> 't command" where
  "heartbeat slib T = client_request slib T CMD_HEARTBEAT OP_WRITE []"

section \<open>Sequence numbers\<close>

lemma and_255: "x AND 255 = x mod (256 :: int)"
  using take_bit_eq_mask [of 8 x] by (simp add: take_bit_eq_mod mask_eq_exp_minus_1)

lemma next_seq_run: "next_seq c = (Inr (rc_seq c), c\<lparr>rc_seq := (rc_seq c + 1) mod 256\<rparr>)"
  by (simp add: next_seq_def and_255)

text \<open>Only the transport of a client and its sequence number ever change.\<close>

definition same_client :: "'t RelayClient \<Rightarrow> 't RelayClient \<Rightarrow> bool" where
  "same_client c c' \<longleftrightarrow> rc_seq c' = rc_seq c \<and> rc_retries c' = rc_retries c
     \<and> rc_timeout_s c' = rc_timeout_s c"

lemma same_client_refl [simp]: "same_client c c"
  by (simp add: same_client_def)

lemma same_client_trans: "same_client a b \<Longrightarrow> same_client b c \<Longrightarrow> same_client a c"
  by (simp add: same_client_def)

lemma attempt_client: "attempt slib T enc eo cmd sq c = (r, c') \<Longrightarrow> same_client c c'"
  by (auto simp: attempt_def on_transport_def lift_result_def same_client_def
      elim!: sbind_cases split: prod.splits)

lemma attempts_client:
  "(\<And>c r c'. m c = (r, c') \<Longrightarrow> same_client c c') \<Longrightarrow> attempts n m l c = (r, c') \<Longrightarrow> same_client c c'"
proof (induction n arbitrary: l c)
  case 0
  then show ?case by (auto simp: sraise_def split: option.splits)
next
  case (Suc n)
  obtain r1 c1 where m: "m c = (r1, c1)" by force
  with Suc.prems(1) have "same_client c c1" by blast
  with m Suc.prems(2) same_client_trans [OF _ Suc.IH [OF Suc.prems(1)]] show ?case
    by (cases r1) (auto simp: scatch_def sraise_def split: if_splits)
qed

lemma client_request_seq:
  assumes "client_request slib T cmd op payload c = (r, c')"
  shows "rc_seq c' = (rc_seq c + 1) mod 256 \<and> rc_retries c' = rc_retries c
    \<and> rc_timeout_s c' = rc_timeout_s c"
  using assms unfolding client_request_def
  by (auto simp: next_seq_run lift_result_def same_client_def Let_def
      elim!: sbind_cases dest!: attempts_client [rotated] intro: attempt_client)

section \<open>What an attempt accepts\<close>

text \<open>The specification of an acceptable response: every field of the header matches the
  request, and the body is a map that does not carry an error.\<close>

definition matches :: "smp_lib \<Rightarrow> int \<Rightarrow> int \<Rightarrow> int \<Rightarrow> SmpPacket \<Rightarrow> pydict \<Rightarrow> bool" where
  "matches slib expected_op command sq p m \<longleftrightarrow>
     pk_version p = SMP_VERSION_2 \<and> pk_op p = expected_op \<and> pk_group p = GROUP_RELAY
     \<and> pk_command p = command \<and> pk_seq p = sq \<and> decode_payload slib (pk_payload p) = Inr m
     \<and> \<not> is_dict (dget m ''err'')"

lemma decode_response_Inr:
  "decode_response slib p eo cmd sq = Inr m \<longleftrightarrow> matches slib eo cmd sq p m"
  by (cases "decode_payload slib (pk_payload p)"; cases "dget m ''err''")
    (auto simp: decode_response_def matches_def is_dict_def split: pyval.splits)

lemma decode_response_no_timeout:
  assumes "decode_response slib p eo cmd sq = Inl e"
  shows "\<not> is_RelayTimeoutError e"
proof -
  have "\<not> is_RelayTimeoutError (device_error err)" for err
    by (auto simp: device_error_def py_int_def split: sum.splits pyval.splits option.splits)
  then show ?thesis
    using assms decode_payload_cases(2) [of slib "pk_payload p"]
    by (cases "decode_payload slib (pk_payload p)")
      (auto simp: decode_response_def split: if_splits pyval.splits
        elim!: is_RelayProtocolError.elims)
qed

text \<open>The errors of a response are relay errors when the error map carries integers.\<close>

lemma device_error_relay:
  assumes "py_int (dget_or err ''group'' (PInt (-1))) = Inr g"
    "py_int (dget_or err ''rc'' (PInt (-1))) = Inr rc"
  shows "device_error err = RelayDeviceError g rc
    (''device error '' @ device_error_name rc @ '' ('' @ int_str rc @ '')'')"
  using assms by (simp add: device_error_def)

section \<open>Requests over any packet transport\<close>

lemma attempts_unfold:
  "attempts (Suc n) m l c =
     (case m c of
        (Inr x, c') \<Rightarrow> (Inr x, c')
      | (Inl e, c') \<Rightarrow> if is_RelayTimeoutError e then attempts n m (Some e) c' else (Inl e, c'))"
  by (auto simp: scatch_def sraise_def split: prod.splits sum.splits)

context packet_transport
begin

abbreviation "ops \<equiv> \<lparr>t_exchange = exch, t_close = close\<rparr>"

lemma attempt_cases:
  assumes "attempt slib ops enc eo cmd sq c = (r, c')"
  obtains e t where "exch enc (rc_timeout_s c) (rc_transport c) = (Inl e, t)"
      "r = Inl e" "c' = c\<lparr>rc_transport := t\<rparr>"
  | data t where "exch enc (rc_timeout_s c) (rc_transport c) = (Inr data, t)"
      "c' = c\<lparr>rc_transport := t\<rparr>"
      "r = rbind (decode_packet slib data) (\<lambda>p. decode_response slib p eo cmd sq)"
  using assms
  by (auto simp: attempt_def on_transport_def lift_result_def elim!: sbind_cases split: prod.splits)

lemma attempt_inv:
  "inv (rc_transport c) \<Longrightarrow> attempt slib ops enc eo cmd sq c = (r, c') \<Longrightarrow> inv (rc_transport c')"
  by (erule attempt_cases) (auto dest: exchange_inv)

lemma attempt_sends:
  assumes "inv (rc_transport c)" "attempt slib ops enc eo cmd sq c = (r, c')"
  shows "\<exists>fs. prefix fs (frames enc) \<and> tx (rc_transport c') = tx (rc_transport c) @ fs
    \<and> (\<forall>m. r = Inr m \<longrightarrow> fs = frames enc)"
  using assms(2)
proof (cases rule: attempt_cases)
  case (1 e t)
  with exchange_sends [OF assms(1)] show ?thesis by fastforce
next
  case (2 data t)
  with exchange_sends_all [OF assms(1)] show ?thesis by fastforce
qed

lemma attempt_timeout_sends:
  assumes "inv (rc_transport c)" "attempt slib ops enc eo cmd sq c = (Inl e, c')"
    "is_RelayTimeoutError e"
  shows "tx (rc_transport c') = tx (rc_transport c) @ frames enc"
  using assms(2)
proof (cases rule: attempt_cases)
  case (1 x t)
  with exchange_timeout_sends [OF assms(1)] assms(3) show ?thesis by fastforce
next
  case (2 data t)
  with exchange_sends_all [OF assms(1)] show ?thesis by fastforce
qed

text \<open>
  The retry loop writes whole copies of the packet, one per time-out, and for the attempt
  that ends it a prefix of one more, all of it if the loop succeeds or runs out.
\<close>

lemma attempts_send:
  assumes "inv (rc_transport c)" "attempts n (attempt slib ops enc eo cmd sq) l c = (r, c')"
    "0 < n"
  shows "\<exists>k fs. k < n \<and> prefix fs (frames enc)
    \<and> tx (rc_transport c') = tx (rc_transport c) @ concat (replicate k (frames enc)) @ fs
    \<and> (\<forall>m. r = Inr m \<longrightarrow> fs = frames enc)
    \<and> (\<forall>e. r = Inl e \<longrightarrow> is_RelayTimeoutError e \<longrightarrow> fs = frames enc \<and> Suc k = n)"
  using assms
proof (induction n arbitrary: l c)
  case (Suc n)
  obtain r1 c1 where a: "attempt slib ops enc eo cmd sq c = (r1, c1)" by force
  from attempt_sends [OF Suc.prems(1) a] obtain fs where fs: "prefix fs (frames enc)"
    "tx (rc_transport c1) = tx (rc_transport c) @ fs" "\<forall>m. r1 = Inr m \<longrightarrow> fs = frames enc" by blast
  show ?case
  proof (cases "\<exists>e. r1 = Inl e \<and> is_RelayTimeoutError e")
    case False
    with a Suc.prems(2) have "r = r1" "c' = c1"
      by (auto simp: attempts_unfold simp del: attempts.simps split: sum.splits)
    with fs False show ?thesis by (intro exI [of _ 0] exI [of _ fs]) auto
  next
    case True
    then obtain e where e: "r1 = Inl e" "is_RelayTimeoutError e" by blast
    with a Suc.prems(2) have rest: "attempts n (attempt slib ops enc eo cmd sq) (Some e) c1 = (r, c')"
      by (simp add: attempts_unfold del: attempts.simps)
    have sent: "tx (rc_transport c1) = tx (rc_transport c) @ frames enc"
      using attempt_timeout_sends [OF Suc.prems(1)] a e by blast
    show ?thesis
    proof (cases "n = 0")
      case True
      with rest sent show ?thesis
        by (intro exI [of _ 0] exI [of _ "frames enc"]) (auto simp: sraise_def)
    next
      case False
      with Suc.IH [OF attempt_inv [OF Suc.prems(1) a] rest] obtain k gs where "k < n"
        "prefix gs (frames enc)"
        "tx (rc_transport c') = tx (rc_transport c1) @ concat (replicate k (frames enc)) @ gs"
        "\<forall>m. r = Inr m \<longrightarrow> gs = frames enc"
        "\<forall>e. r = Inl e \<longrightarrow> is_RelayTimeoutError e \<longrightarrow> gs = frames enc \<and> Suc k = n" by blast
      with sent show ?thesis by (intro exI [of _ "Suc k"] exI [of _ gs]) auto
    qed
  qed
qed simp

lemma attempts_accept:
  assumes "inv (rc_transport c)" "attempts n (attempt slib ops enc eo cmd sq) l c = (Inr m, c')"
  shows "\<exists>t data t' p. inv t \<and> exch enc (rc_timeout_s c) t = (Inr data, t')
    \<and> decode_packet slib data = Inr p \<and> matches slib eo cmd sq p m"
  using assms
proof (induction n arbitrary: l c)
  case 0
  then show ?case by (auto simp: sraise_def split: option.splits)
next
  case (Suc n)
  obtain r1 c1 where a: "attempt slib ops enc eo cmd sq c = (r1, c1)" by force
  have same: "rc_timeout_s c1 = rc_timeout_s c"
    using attempt_client [OF a] by (simp add: same_client_def)
  show ?case
  proof (cases r1)
    case (Inl e)
    with a Suc.prems(2) have "attempts n (attempt slib ops enc eo cmd sq) (Some e) c1 = (Inr m, c')"
      by (auto simp: attempts_unfold simp del: attempts.simps split: if_splits)
    from Suc.IH [OF attempt_inv [OF Suc.prems(1) a] this] same show ?thesis by simp
  next
    case (Inr x)
    with a Suc.prems(2) have "x = m" by (simp add: attempts_unfold del: attempts.simps)
    with a Inr have "attempt slib ops enc eo cmd sq c = (Inr m, c1)" by simp
    then show ?thesis
      by (cases rule: attempt_cases)
        (use Suc.prems(1) in \<open>auto simp: rbind_Inr decode_response_Inr dest!: sym [of "Inr m"]\<close>)
  qed
qed

lemma client_request_run:
  "client_request slib ops cmd op payload c =
     (let c1 = c\<lparr>rc_seq := (rc_seq c + 1) mod 256\<rparr> in
      case request_packet slib cmd op (rc_seq c) payload of
        Inl e \<Rightarrow> (Inl e, c1)
      | Inr enc \<Rightarrow>
          attempts (nat (rc_retries c + 1)) (attempt slib ops enc (response_op op) cmd (rc_seq c)) None c1)"
  by (simp add: client_request_def sbind_def next_seq_run lift_result_def Let_def response_op_def
      split: sum.splits)

lemma request_sends:
  assumes "inv (rc_transport c)" "0 \<le> rc_retries c"
    and "client_request slib ops cmd op payload c = (r, c')"
    and enc: "request_packet slib cmd op (rc_seq c) payload = Inr enc"
  shows "\<exists>k fs. int k \<le> rc_retries c \<and> prefix fs (frames enc)
    \<and> tx (rc_transport c') = tx (rc_transport c) @ concat (replicate k (frames enc)) @ fs
    \<and> (\<forall>m. r = Inr m \<longrightarrow> fs = frames enc)
    \<and> (\<forall>e. r = Inl e \<longrightarrow> is_RelayTimeoutError e \<longrightarrow> fs = frames enc \<and> int k = rc_retries c)"
proof -
  let ?c = "c\<lparr>rc_seq := (rc_seq c + 1) mod 256\<rparr>"
  have "attempts (nat (rc_retries c + 1)) (attempt slib ops enc (response_op op) cmd (rc_seq c)) None ?c
      = (r, c')"
    using assms(3) enc by (simp add: client_request_run Let_def)
  from attempts_send [OF _ this] assms(1,2) obtain k fs where "k < nat (rc_retries c + 1)"
    "prefix fs (frames enc)"
    "tx (rc_transport c') = tx (rc_transport c) @ concat (replicate k (frames enc)) @ fs"
    "\<forall>m. r = Inr m \<longrightarrow> fs = frames enc"
    "\<forall>e. r = Inl e \<longrightarrow> is_RelayTimeoutError e \<longrightarrow> fs = frames enc \<and> Suc k = nat (rc_retries c + 1)"
    by auto
  then show ?thesis by (intro exI [of _ k] exI [of _ fs]) auto
qed

lemma request_accepts:
  assumes "inv (rc_transport c)" "client_request slib ops cmd op payload c = (Inr m, c')"
  shows "\<exists>enc t data t' p. request_packet slib cmd op (rc_seq c) payload = Inr enc
    \<and> exch enc (rc_timeout_s c) t = (Inr data, t') \<and> decode_packet slib data = Inr p
    \<and> matches slib (response_op op) cmd (rc_seq c) p m"
proof -
  let ?c = "c\<lparr>rc_seq := (rc_seq c + 1) mod 256\<rparr>"
  obtain enc where enc: "request_packet slib cmd op (rc_seq c) payload = Inr enc"
    "attempts (nat (rc_retries c + 1)) (attempt slib ops enc (response_op op) cmd (rc_seq c)) None ?c
      = (Inr m, c')"
    using assms(2) by (auto simp: client_request_run Let_def split: sum.splits)
  from attempts_accept [OF _ enc(2)] assms(1) enc(1) show ?thesis by fastforce
qed

lemma attempts_inv:
  "inv (rc_transport c) \<Longrightarrow> attempts n (attempt slib ops enc eo cmd sq) l c = (r, c')
   \<Longrightarrow> inv (rc_transport c')"
proof (induction n arbitrary: l c)
  case 0
  then show ?case by (auto simp: sraise_def split: option.splits)
next
  case (Suc n)
  obtain r1 c1 where a: "attempt slib ops enc eo cmd sq c = (r1, c1)" by force
  from attempt_inv [OF Suc.prems(1) a] Suc.IH a Suc.prems(2) show ?case
    by (auto simp: attempts_unfold simp del: attempts.simps split: sum.splits if_splits)
qed

lemma request_inv:
  "inv (rc_transport c) \<Longrightarrow> client_request slib ops cmd op payload c = (r, c')
   \<Longrightarrow> inv (rc_transport c')"
  by (auto simp: client_request_run Let_def dest!: attempts_inv [rotated] split: sum.splits)

end

section \<open>Argument checks decide the documented ranges\<close>

lemma validate_channel_iff:
  "validate_channel v = Inr () \<longleftrightarrow> (\<exists>i. as_int v = Some i \<and> 0 \<le> i \<and> i < RELAY_COUNT)"
  by (auto simp: validate_channel_def split: option.splits)

lemma validate_channel_error:
  "validate_channel v \<noteq> Inr () \<Longrightarrow> \<exists>m. validate_channel v = Inl (RelayValidationError m)"
  by (auto simp: validate_channel_def split: option.splits)

lemma and_split: "(x AND m) + (x AND NOT m) = (x :: int)"
proof -
  have "(x AND m) + (x AND NOT m) = (x AND m) OR (x AND NOT m)"
    by (rule disjunctive_add) (auto simp: bit_simps)
  also have "\<dots> = x" by (rule bit_eqI) (auto simp: bit_simps)
  finally show ?thesis .
qed

lemma mask_test: "i AND (- 64) = 0 \<longleftrightarrow> i mod 64 = (i :: int)"
proof -
  have m: "i AND 63 = i mod 64"
    using take_bit_eq_mask [of 6 i] by (simp add: take_bit_eq_mod mask_eq_exp_minus_1)
  have "i AND 63 = i \<longleftrightarrow> i AND NOT 63 = 0" using and_split [of i 63] by linarith
  then show ?thesis by (simp add: m)
qed

lemma validate_state_mask_iff:
  "validate_state_mask v = Inr () \<longleftrightarrow> (\<exists>i. as_int v = Some i \<and> 0 \<le> i \<and> i < 2 ^ nat RELAY_COUNT)"
proof -
  have "i mod 64 = i \<longleftrightarrow> i < 64" if "0 \<le> i" for i :: int
    using that by (metis mod_pos_pos_trivial pos_mod_bound zero_less_numeral)
  then show ?thesis by (auto simp: validate_state_mask_def mask_test split: option.splits)
qed

lemma validate_state_mask_error:
  "validate_state_mask v \<noteq> Inr () \<Longrightarrow> \<exists>m. validate_state_mask v = Inl (RelayValidationError m)"
  by (auto simp: validate_state_mask_def split: option.splits)

lemma validate_duration_iff:
  "validate_duration v = Inr () \<longleftrightarrow>
   (\<exists>i. as_int v = Some i \<and> PULSE_MIN_MS \<le> i \<and> i \<le> PULSE_MAX_MS)"
  by (auto simp: validate_duration_def split: option.splits)

lemma validate_duration_error:
  "validate_duration v \<noteq> Inr () \<Longrightarrow> \<exists>m. validate_duration v = Inl (RelayValidationError m)"
  by (auto simp: validate_duration_def split: option.splits)

lemma checked_run:
  "sbind (lift_result (r :: unit result)) f c = (case r of Inl e \<Rightarrow> (Inl e, c) | Inr _ \<Rightarrow> f () c)"
  by (auto simp: sbind_def lift_result_def split: sum.splits)

definition command_args_ok :: "pyval option \<Rightarrow> pyval option \<Rightarrow> bool" where
  "command_args_ok ch dur \<longleftrightarrow>
     (\<forall>v. ch = Some v \<longrightarrow> (\<exists>i. as_int v = Some i \<and> 0 \<le> i \<and> i < RELAY_COUNT))
     \<and> (\<forall>v. dur = Some v \<longrightarrow> (\<exists>i. as_int v = Some i \<and> PULSE_MIN_MS \<le> i \<and> i \<le> PULSE_MAX_MS))"

text \<open>A command whose arguments are out of range leaves the client and its transport alone.\<close>

lemma pulse_relay_run:
  "pulse_relay slib T ch dur c =
     (if command_args_ok (Some ch) (Some dur)
      then client_request slib T CMD_PULSE OP_WRITE [(''channel'', ch), (''duration_ms'', dur)] c
      else (Inl (if validate_channel ch = Inr () then projl (validate_duration dur)
                 else projl (validate_channel ch)), c))"
proof -
  have v: "validate_channel ch = Inr () \<longleftrightarrow> command_args_ok (Some ch) None"
    "validate_duration dur = Inr () \<longleftrightarrow> command_args_ok None (Some dur)"
    "command_args_ok (Some ch) (Some dur) \<longleftrightarrow>
       command_args_ok (Some ch) None \<and> command_args_ok None (Some dur)"
    unfolding validate_channel_iff validate_duration_iff command_args_ok_def by auto
  show ?thesis
    unfolding pulse_relay_def checked_run v(3) v(1) [symmetric] v(2) [symmetric]
    by (auto simp: checked_run split: sum.splits)
qed

lemma rejected_command:
  assumes "validate_channel ch \<noteq> Inr ()"
  shows "\<exists>m. get_relay slib T ch c = (Inl (RelayValidationError m), c)
    \<and> set_relay slib T ch on c = (Inl (RelayValidationError m), c)
    \<and> pulse_relay slib T ch dur c = (Inl (RelayValidationError m), c)"
  using validate_channel_error [OF assms]
  by (auto simp: get_relay_def set_relay_def pulse_relay_def checked_run)

section \<open>Talking to a device that uses the same codec\<close>

lemma request_packet_smoke:
  assumes "payload_ok d m" "0 \<le> cmd" "cmd < 256" "0 \<le> sq" "sq < 256" "0 \<le> op" "op < 8"
    and "length (projr (encode_payload (smoke_lib d) m)) < 65536"
  shows "\<exists>data p. request_packet (smoke_lib d) cmd op sq m = Inr data
    \<and> decode_packet (smoke_lib d) data = Inr p \<and> pk_version p = SMP_VERSION_2 \<and> pk_op p = op
    \<and> pk_group p = GROUP_RELAY \<and> pk_command p = cmd \<and> pk_seq p = sq
    \<and> decode_payload (smoke_lib d) (pk_payload p) = Inr m"
proof -
  let ?p = "\<lparr>pk_op = op, pk_group = GROUP_RELAY, pk_command = cmd, pk_seq = sq,
            pk_payload = [], pk_flags = 0, pk_version = SMP_VERSION_2\<rparr>"
  have ok: "packet_ok (?p\<lparr>pk_payload := bs\<rparr>)" if "encode_payload (smoke_lib d) m = Inr bs" for bs
    using assms that by (simp add: packet_ok_def)
  show ?thesis
    using smoke.message_read_back [OF assms(1) ok] by (auto simp: request_packet_def)
qed

lemma matches_reply:
  assumes "payload_ok d m" "0 \<le> cmd" "cmd < 256" "0 \<le> sq" "sq < 256"
    and "length (projr (encode_payload (smoke_lib d) m)) < 65536"
    and "request_packet (smoke_lib d) cmd (response_op op) sq m = Inr data" "\<not> is_dict (dget m ''err'')"
  shows "\<exists>p. decode_packet (smoke_lib d) data = Inr p
    \<and> matches (smoke_lib d) (response_op op) cmd sq p m"
proof -
  have "0 \<le> response_op op" "response_op op < 8" by (simp_all add: response_op_def)
  from request_packet_smoke [OF assms(1-5) this assms(6)] assms(7,8) show ?thesis
    by (auto simp: matches_def)
qed

lemma sim_attempts_answer:
  assumes "decode_packet slib data = Inr p" "matches slib eo cmd sq p m"
  shows "k \<le> n \<Longrightarrow> responses (rc_transport c) = replicate k (Inl (RelayTimeoutError e)) @ Inr data # rest \<Longrightarrow>
    attempts (Suc n) (attempt slib sim_ops enc eo cmd sq) l c =
      (Inr m, c\<lparr>rc_transport := \<lparr>responses = rest,
         requests = requests (rc_transport c) @ replicate (Suc k) enc\<rparr>\<rparr>)"
proof (induction k arbitrary: n l c)
  case 0
  have "attempt slib sim_ops enc eo cmd sq c =
    (Inr m, c\<lparr>rc_transport := \<lparr>responses = rest, requests = requests (rc_transport c) @ [enc]\<rparr>\<rparr>)"
    using 0 assms
    by (simp add: attempt_def sbind_def on_transport_def sim_ops_def sim_exchange_def Let_def
        lift_result_def decode_response_Inr)
  then show ?case by (simp add: attempts_unfold del: attempts.simps)
next
  case (Suc k)
  let ?t = "\<lparr>responses = replicate k (Inl (RelayTimeoutError e)) @ Inr data # rest,
            requests = requests (rc_transport c) @ [enc]\<rparr>"
  obtain n' where n': "n = Suc n'" using Suc.prems(1) by (cases n) auto
  have "attempt slib sim_ops enc eo cmd sq c = (Inl (RelayTimeoutError e), c\<lparr>rc_transport := ?t\<rparr>)"
    using Suc.prems(2)
    by (simp add: attempt_def sbind_def on_transport_def sim_ops_def sim_exchange_def Let_def)
  moreover have "attempts (Suc n') (attempt slib sim_ops enc eo cmd sq) (Some (RelayTimeoutError e))
      (c\<lparr>rc_transport := ?t\<rparr>) =
      (Inr m, c\<lparr>rc_transport := \<lparr>responses = rest,
         requests = requests (rc_transport c) @ replicate (Suc (Suc k)) enc\<rparr>\<rparr>)"
    using Suc.IH [of n' "c\<lparr>rc_transport := ?t\<rparr>"] Suc.prems(1) n' by simp
  ultimately show ?case
    by (subst attempts_unfold) (simp add: n' del: attempts.simps)
qed

section \<open>Properties\<close>


definition demo_client :: "bytes result list list \<Rightarrow> bytes result list list SerialSmpTransport RelayClient" where
  "demo_client ls = \<lparr>rc_transport = new_SerialSmpTransport ''COM7'' 115200 ls, rc_timeout_s = 2,
     rc_retries = 2, rc_seq = 0\<rparr>"

lemma payload_ok_Nil: "payload_ok 1 []"
  by (simp add: payload_ok_def)

lemma encode_payload_Nil_short: "length (projr (encode_payload (smoke_lib 1) [])) < 65536"
  by (simp add: encode_payload_def smoke_lib_def encode_map_def encode_type_len_def py_append_def)


text \<open>
  C2. What a command accepts: over a serial port, a request returns a map only if some
  exchange of its packet returned data that decodes to a packet of version 1, of the response
  operation, group, command and sequence number of the request, whose payload is that map, and
  the map has no error entry.
\<close>

theorem client_request_accepts:
  assumes "pyserial_sane slib lib"
    and "client_request slib (serial_ops slib lib) cmd op payload c = (Inr m, c')"
  shows "\<exists>enc t data t' p. request_packet slib cmd op (rc_seq c) payload = Inr enc
    \<and> serial_exchange slib lib enc (rc_timeout_s c) t = (Inr data, t')
    \<and> decode_packet slib data = Inr p
    \<and> pk_version p = SMP_VERSION_2 \<and> pk_op p = response_op op \<and> pk_group p = GROUP_RELAY
    \<and> pk_command p = cmd \<and> pk_seq p = rc_seq c
    \<and> decode_payload slib (pk_payload p) = Inr m \<and> \<not> is_dict (dget m ''err'')"
  using packet_transport.request_accepts [OF serial_transport_contract [OF assms(1)] TrueI
      assms(2) [unfolded serial_ops_def]] unfolding matches_def by blast

lemma scripted_exchange:
  assumes "serial_frame q = Inr g" "serial_frame data = Inr f" "device t = [Inr f] # rest"
  shows "serial_exchange (smoke_lib d) scripted_serial q s t =
    (Inr data, t\<lparr>is_open := True, written := written t @ [g], device := rest\<rparr>)"
proof -
  have "f \<noteq> []" using serial_frame_parts [OF assms(2)] by auto
  moreover have "decoded_frames [f] [] = Inr data"
    using frames_loop_serial_frame [OF assms(2)] by (simp only: decoded_frames_def)
  ultimately show ?thesis
    using assms
    by (cases t) (simp add: serial_exchange_def serial_try_def serial_open_def scatch_def sbind_def
        sret_def on_device_def scripted_serial_def serial_frames_def smoke_lib_def read_response_def
        decoded_serial_frames_def iter_lines_def smoke_decode_def)
qed

lemma request_packet_Nil_length:
  assumes "request_packet (smoke_lib 1) cmd op sq [] = Inr enc"
  shows "length enc = 9"
proof -
  obtain bs where b: "encode_payload (smoke_lib 1) [] = Inr bs" "length bs = 1"
    by (simp add: encode_payload_def smoke_lib_def encode_map_def encode_type_len_def py_append_def)
  with assms have "encode_smp op GROUP_RELAY cmd sq bs = Inr enc"
    by (simp add: request_packet_def encode_packet_smoke)
  from encode_smp_length [OF this] b show ?thesis by simp
qed

theorem client_request_accepts_witness:
  "\<exists>ls c' enc t data t' p. status (smoke_lib 1) (serial_ops (smoke_lib 1) scripted_serial) (demo_client ls)
      = (Inr [], c')
     \<and> serial_exchange (smoke_lib 1) scripted_serial enc 2 t = (Inr data, t')
     \<and> decode_packet (smoke_lib 1) data = Inr p \<and> pk_op p = OP_READ_RSP \<and> pk_seq p = 0"
proof -
  note r = request_packet_smoke [OF payload_ok_Nil _ _ _ _ _ _ encode_payload_Nil_short]
  obtain enc where e: "request_packet (smoke_lib 1) CMD_STATUS OP_READ 0 [] = Inr enc"
    using r [of CMD_STATUS 0 OP_READ] by auto
  obtain data p where d: "request_packet (smoke_lib 1) CMD_STATUS OP_READ_RSP 0 [] = Inr data"
    "decode_packet (smoke_lib 1) data = Inr p"
    "matches (smoke_lib 1) (response_op OP_READ) CMD_STATUS 0 p []"
    using r [of CMD_STATUS 0 OP_READ_RSP] by (auto simp: matches_def response_op_def is_dict_def dget_def)
  obtain g f where f: "serial_frame enc = Inr g" "serial_frame data = Inr f"
    using serial_frame_total [of enc] serial_frame_total [of data]
      request_packet_Nil_length [OF e] request_packet_Nil_length [OF d(1)] by auto
  let ?c = "demo_client [[Inr f]]"
  have "attempt (smoke_lib 1) (serial_ops (smoke_lib 1) scripted_serial) enc (response_op OP_READ)
      CMD_STATUS 0 (?c\<lparr>rc_seq := 1\<rparr>) = (Inr [], ?c\<lparr>rc_seq := 1, rc_transport :=
        (rc_transport ?c)\<lparr>is_open := True, written := [g], device := []\<rparr>\<rparr>)"
    using d(2,3) scripted_exchange [OF f, of "rc_transport ?c" "[]" 1 2]
    by (simp add: attempt_def sbind_def on_transport_def serial_ops_def lift_result_def
        decode_response_Inr demo_client_def new_SerialSmpTransport_def)
  then obtain c' where "client_request (smoke_lib 1) (serial_ops (smoke_lib 1) scripted_serial)
      CMD_STATUS OP_READ [] ?c = (Inr [], c')"
    using e
    by (simp add: client_request_def sbind_def next_seq_run lift_result_def Let_def response_op_def
        demo_client_def numeral_eq_Suc attempts_unfold del: attempts.simps)
  from client_request_accepts [OF scripted_serial_sane this] this show ?thesis
    unfolding status_def by (auto simp: response_op_def demo_client_def)
qed

text \<open>
  Retrying: over the simulated transport, if the first \<open>k\<close> exchanges time out, with
  \<open>k\<close> at most the retries, and the next returns the device's encoding of a reply to this
  request, the request returns that reply; it has sent the same packet \<open>k + 1\<close> times, used up
  exactly those responses and advanced the sequence number by one.
\<close>

theorem client_retries_until_reply:
  assumes "request_packet (smoke_lib d) cmd op (rc_seq c) payload = Inr enc"
    and "request_packet (smoke_lib d) cmd (response_op op) (rc_seq c) reply = Inr data"
    and "payload_ok d reply" "length (projr (encode_payload (smoke_lib d) reply)) < 65536"
    and "\<not> is_dict (dget reply ''err'')"
    and "0 \<le> cmd" "cmd < 256" "0 \<le> rc_seq c" "rc_seq c < 256" "int k \<le> rc_retries c"
    and "responses (rc_transport c) = replicate k (Inl (RelayTimeoutError e)) @ Inr data # rest"
  shows "client_request (smoke_lib d) sim_ops cmd op payload c =
    (Inr reply, c\<lparr>rc_seq := (rc_seq c + 1) mod 256,
       rc_transport := \<lparr>responses = rest,
         requests = requests (rc_transport c) @ replicate (Suc k) enc\<rparr>\<rparr>)"
proof -
  from matches_reply [OF assms(3,6,7,8,9,4,2,5)] obtain p where
    p: "decode_packet (smoke_lib d) data = Inr p"
    "matches (smoke_lib d) (response_op op) cmd (rc_seq c) p reply" by blast
  let ?c = "c\<lparr>rc_seq := (rc_seq c + 1) mod 256\<rparr>"
  have "attempts (Suc (nat (rc_retries c))) (attempt (smoke_lib d) sim_ops enc (response_op op) cmd (rc_seq c)) None ?c
    = (Inr reply, ?c\<lparr>rc_transport := \<lparr>responses = rest,
         requests = requests (rc_transport ?c) @ replicate (Suc k) enc\<rparr>\<rparr>)"
    by (rule sim_attempts_answer [OF p]) (use assms(10,11) in auto)
  moreover have "nat (rc_retries c + 1) = Suc (nat (rc_retries c))" using assms(10) by simp
  moreover have "client_request (smoke_lib d) sim_ops cmd op payload c =
      attempts (nat (rc_retries c + 1)) (attempt (smoke_lib d) sim_ops enc (response_op op) cmd (rc_seq c)) None ?c"
    using assms(1)
    by (simp add: client_request_def sbind_def next_seq_run lift_result_def Let_def response_op_def)
  ultimately show ?thesis by (simp add: ac_simps)
qed

theorem client_retries_until_reply_witness:
  "\<exists>enc data. fst (client_request (smoke_lib 1) sim_ops CMD_STATUS OP_READ []
       \<lparr>rc_transport = \<lparr>responses = [Inl (RelayTimeoutError ''t''), Inr data], requests = []\<rparr>,
        rc_timeout_s = 2, rc_retries = 1, rc_seq = 7\<rparr>) = Inr []
     \<and> requests (rc_transport (snd (client_request (smoke_lib 1) sim_ops CMD_STATUS OP_READ []
       \<lparr>rc_transport = \<lparr>responses = [Inl (RelayTimeoutError ''t''), Inr data], requests = []\<rparr>,
        rc_timeout_s = 2, rc_retries = 1, rc_seq = 7\<rparr>))) = [enc, enc]"
proof -
  note r = request_packet_smoke [OF payload_ok_Nil _ _ _ _ _ _ encode_payload_Nil_short]
  obtain enc where e: "request_packet (smoke_lib 1) CMD_STATUS OP_READ 7 [] = Inr enc"
    using r [of CMD_STATUS 7 OP_READ] by auto
  obtain data where d: "request_packet (smoke_lib 1) CMD_STATUS (response_op OP_READ) 7 [] = Inr data"
    using r [of CMD_STATUS 7 OP_READ_RSP] by (auto simp: response_op_def)
  let ?c = "\<lparr>rc_transport = \<lparr>responses = [Inl (RelayTimeoutError ''t''), Inr data], requests = []\<rparr>,
        rc_timeout_s = 2, rc_retries = 1, rc_seq = 7\<rparr>"
  have "client_request (smoke_lib 1) sim_ops CMD_STATUS OP_READ [] ?c = (Inr [],
    ?c\<lparr>rc_seq := (rc_seq ?c + 1) mod 256, rc_transport := \<lparr>responses = [],
       requests = requests (rc_transport ?c) @ replicate (Suc 1) enc\<rparr>\<rparr>)"
    by (rule client_retries_until_reply [OF _ _ payload_ok_Nil encode_payload_Nil_short, of _ _ _ _ _ data _ "''t''"])
      (use e d in \<open>simp_all add: is_dict_def dget_def\<close>)
  then show ?thesis by (intro exI [of _ enc] exI [of _ data]) simp
qed

text \<open>
  Sequence numbers: every request, whatever its outcome, advances the sequence number
  by one modulo 256 and changes neither the retries nor the time-out.
\<close>

theorem client_sequence:
  assumes "client_request slib T cmd op payload c = (r, c')"
  shows "rc_seq c' = (rc_seq c + 1) mod 256 \<and> rc_retries c' = rc_retries c
    \<and> rc_timeout_s c' = rc_timeout_s c"
  using assms by (rule client_request_seq)

theorem client_sequence_witness:
  "rc_seq (snd (status (smoke_lib 1) sim_ops \<lparr>rc_transport = \<lparr>responses = [], requests = []\<rparr>,
     rc_timeout_s = 2, rc_retries = 0, rc_seq = 255\<rparr>)) = 0"
  using client_sequence [of "smoke_lib 1" sim_ops CMD_STATUS OP_READ "[]"
      "\<lparr>rc_transport = \<lparr>responses = [], requests = []\<rparr>,
     rc_timeout_s = 2, rc_retries = 0, rc_seq = 255\<rparr>"]
  by (cases "status (smoke_lib 1) sim_ops \<lparr>rc_transport = \<lparr>responses = [], requests = []\<rparr>,
     rc_timeout_s = 2, rc_retries = 0, rc_seq = 255\<rparr>") (simp add: status_def)

text \<open>
  C3. Argument checks: a channel is 0..5, a mask 0..63, a pulse 10..60000 ms (booleans count
  as the integers 0 and 1). With arguments in range the command sends exactly its request;
  otherwise it raises a validation error and neither the transport nor the client changes.
\<close>

theorem client_argument_gate:
  "(if \<exists>i. as_int ch = Some i \<and> 0 \<le> i \<and> i \<le> 5
    then get_relay slib T ch c = client_request slib T CMD_GET OP_READ [(''channel'', ch)] c
    else \<exists>m. get_relay slib T ch c = (Inl (RelayValidationError m), c))
   \<and> (if (\<exists>i. as_int ch = Some i \<and> 0 \<le> i \<and> i \<le> 5) \<and> is_bool on
      then set_relay slib T ch on c = client_request slib T CMD_SET OP_WRITE [(''channel'', ch), (''on'', on)] c
      else \<exists>m. set_relay slib T ch on c = (Inl (RelayValidationError m), c))
   \<and> (if \<exists>i. as_int st = Some i \<and> 0 \<le> i \<and> i \<le> 63
      then set_all_relays slib T st c = client_request slib T CMD_SET_ALL OP_WRITE [(''state'', st)] c
      else \<exists>m. set_all_relays slib T st c = (Inl (RelayValidationError m), c))
   \<and> (if (\<exists>i. as_int ch = Some i \<and> 0 \<le> i \<and> i \<le> 5) \<and> (\<exists>i. as_int ms = Some i \<and> 10 \<le> i \<and> i \<le> 60000)
      then pulse_relay slib T ch ms c =
        client_request slib T CMD_PULSE OP_WRITE [(''channel'', ch), (''duration_ms'', ms)] c
      else \<exists>m. pulse_relay slib T ch ms c = (Inl (RelayValidationError m), c))"
proof -
  have ch: "(\<exists>i. as_int ch = Some i \<and> 0 \<le> i \<and> i \<le> 5) \<longleftrightarrow> validate_channel ch = Inr ()"
    by (auto simp: validate_channel_iff)
  have st: "(\<exists>i. as_int st = Some i \<and> 0 \<le> i \<and> i \<le> 63) \<longleftrightarrow> validate_state_mask st = Inr ()"
    by (auto simp: validate_state_mask_iff)
  have ms: "(\<exists>i. as_int ms = Some i \<and> 10 \<le> i \<and> i \<le> 60000) \<longleftrightarrow> validate_duration ms = Inr ()"
    by (simp add: validate_duration_iff)
  show ?thesis
    unfolding ch st ms
    using validate_channel_error [of ch] validate_state_mask_error [of st] validate_duration_error [of ms]
    by (auto simp: get_relay_def set_relay_def set_all_relays_def pulse_relay_def checked_run sraise_def)
qed

text \<open>
  C4. Device errors: a matching response whose map has an error entry is never returned
  as a result. With integer fields it raises the device error of that group and code, named
  after DEVICE_ERROR_NAMES; but an error entry whose group is None escapes as a plain
  TypeError, which is not a RelayError.
\<close>

theorem client_device_error:
  assumes "pk_version p = SMP_VERSION_2" "pk_op p = eo" "pk_group p = GROUP_RELAY"
    and "pk_command p = cmd" "pk_seq p = sq" "decode_payload slib (pk_payload p) = Inr m"
    and "dget m ''err'' = PDict err"
  shows "(\<forall>r. decode_response slib p eo cmd sq \<noteq> Inr r)
    \<and> (\<forall>g rc. dget_or err ''group'' (PInt (-1)) = PInt g \<longrightarrow> dget_or err ''rc'' (PInt (-1)) = PInt rc \<longrightarrow>
        decode_response slib p eo cmd sq = Inl (RelayDeviceError g rc
          (''device error '' @ device_error_name rc @ '' ('' @ int_str rc @ '')'')))
    \<and> (dget_or err ''group'' (PInt (-1)) = PNone \<longrightarrow>
        (\<exists>e. decode_response slib p eo cmd sq = Inl e \<and> \<not> is_RelayError e))"
  using assms by (simp add: decode_response_def device_error_def py_int_def)

theorem client_device_error_witness:
  "decode_response (smoke_lib 2) \<lparr>pk_op = 3, pk_group = 64, pk_command = CMD_SET, pk_seq = 0,
     pk_payload = projr (encode_map [(''err'', PDict [(''group'', PInt 64), (''rc'', PInt 2)])]),
     pk_flags = 0, pk_version = 1\<rparr> 3 CMD_SET 0
   = Inl (RelayDeviceError 64 2 ''device error invalid_argument (2)'')"
proof -
  let ?m = "[(''err'', PDict [(''group'', PInt 64), (''rc'', PInt 2)])]"
  let ?p = "\<lparr>pk_op = 3, pk_group = 64, pk_command = CMD_SET, pk_seq = 0,
     pk_payload = projr (encode_map ?m), pk_flags = 0, pk_version = 1\<rparr>"
  have ok: "payload_ok 2 ?m" by (simp add: payload_ok_def ascii_utf8_valid)
  then obtain bs where "encode_map ?m = Inr bs" "decode_map 2 bs = Inr ?m"
    using decode_map_encode_map [of ?m 2] by (auto simp: payload_ok_def)
  then have "decode_payload (smoke_lib 2) (pk_payload ?p) = Inr ?m"
    by (simp add: decode_payload_cases smoke_lib_def)
  moreover have "device_error_name 2 = ''invalid_argument''" "int_str 2 = ''2''" by code_simp+
  ultimately show ?thesis
    using client_device_error [of ?p 3 CMD_SET 0 "smoke_lib 2" ?m "[(''group'', PInt 64), (''rc'', PInt 2)]"]
    by (simp add: dget_def dget_or_def)
qed

end
