(* ===== verification/Smoke.thy ===== *)
theory Smoke
  imports Client
begin

text \<open>
  host/rp2350_relay_6ch/smoke.py: the hardware smoke sequence over any client. The protocol
  class SmokeRelayClient is the record of its operations; the locale \<open>smoke_client\<close> states
  what the sequence needs of one, and RelayClient over the simulated transport provides it.
\<close>

record 's SmokeRelayClient =
  s_identity :: "('s, pydict) sexc"
  s_capabilities :: "('s, pydict) sexc"
  s_status :: "('s, pydict) sexc"
  s_pulse_relay :: "int \<Rightarrow> int \<Rightarrow> ('s, pydict) sexc"
  s_off_all_relays :: "('s, pydict) sexc"

definition entry :: "string \<Rightarrow> pydict \<Rightarrow> pyval" where
  "entry command response = PDict [(''command'', PStr command), (''response'', PDict response)]"

definition pulse_entry :: "int \<Rightarrow> pydict \<Rightarrow> pyval" where
  "pulse_entry channel response =
     PDict [(''command'', PStr ''pulse''), (''channel'', PStr (''CH'' @ int_str (channel + 1))),
            (''response'', PDict response)]"

text \<open>\<open>sleep ms\<close> is the result of \<open>sleep_fn(ms / 1000.0)\<close>, which may be interrupted.\<close>

fun pulse_channels :: "'s SmokeRelayClient \<Rightarrow> (int \<Rightarrow> unit result) \<Rightarrow> int \<Rightarrow> int list \<Rightarrow> ('s, pyval list) sexc" where
  "pulse_channels C sleep pulse_ms [] = sret []"
| "pulse_channels C sleep pulse_ms (channel # chs) =
     sbind (s_pulse_relay C channel pulse_ms) (\<lambda>response.
       sbind (lift_result (sleep pulse_ms)) (\<lambda>_.
         sbind (pulse_channels C sleep pulse_ms chs) (\<lambda>rest.
           sret (pulse_entry channel response # rest))))"

definition smoke_body :: "'s SmokeRelayClient \<Rightarrow> (int \<Rightarrow> unit result) \<Rightarrow> int \<Rightarrow> ('s, pydict) sexc" where
  "smoke_body C sleep pulse_ms =
     sbind (s_identity C) (\<lambda>i.
     sbind (s_capabilities C) (\<lambda>c.
     sbind (s_status C) (\<lambda>st.
     sbind (pulse_channels C sleep pulse_ms [0 .. RELAY_COUNT - 1]) (\<lambda>ps.
     sbind (s_off_all_relays C) (\<lambda>final.
     sret [(''ok'', PBool True),
           (''results'', PList ([entry ''identity'' i, entry ''capabilities'' c, entry ''status'' st] @ ps)),
           (''final'', PDict final)])))))"

text \<open>
  \<open>final\<close> is None in the finally clause exactly if the body raised; the off-all of that
  clause then runs, and if it raises, its exception takes the place of the body's.
\<close>

definition run_smoke_sequence :: "'s SmokeRelayClient \<Rightarrow> (int \<Rightarrow> unit result) \<Rightarrow> int \<Rightarrow> ('s, pydict) sexc" where
  "run_smoke_sequence C sleep pulse_ms =
     scatch (smoke_body C sleep pulse_ms) (\<lambda>e. sbind (s_off_all_relays C) (\<lambda>_. sraise e))"

section \<open>The contract of a client\<close>


section \<open>What a sequence that succeeds reports\<close>

lemma pulse_channels_results:
  "pulse_channels C sleep ms chs s = (Inr ps, s') \<Longrightarrow>
   \<exists>rs. length rs = length chs \<and> ps = map (\<lambda>(c, r). pulse_entry c r) (zip chs rs)"
proof (induction chs arbitrary: s ps s')
  case Nil
  then show ?case by (simp add: sret_def)
next
  case (Cons ch chs)
  from Cons.prems obtain r s2 qs s3 where q: "pulse_channels C sleep ms chs s2 = (Inr qs, s3)"
    "ps = pulse_entry ch r # qs"
    by (auto simp: sbind_Inr lift_result_def sret_def)
  from Cons.IH [OF q(1)] obtain rs where "length rs = length chs"
    "qs = map (\<lambda>(c, r). pulse_entry c r) (zip chs rs)" by blast
  then show ?case using q(2) by (intro exI [of _ "r # rs"]) simp
qed

lemma run_smoke_sequence_success:
  assumes "run_smoke_sequence C sleep ms s = (Inr m, s')"
  shows "smoke_body C sleep ms s = (Inr m, s')"
  using assms
  by (auto simp: run_smoke_sequence_def scatch_def sraise_def split: prod.splits sum.splits
      elim!: sbind_cases)

section \<open>RelayClient is such a client\<close>










section \<open>Properties\<close>



text \<open>
  The report: a sequence that succeeds lists the answers to identity, capabilities and
  status and then one pulse of each relay, CH1 to CH6 in order, and the answer of the final
  off-all; a sequence that fails raises the exception of its first failing step, unless the
  off-all of the teardown raises one, which takes its place.
\<close>

theorem smoke_report:
  "(run_smoke_sequence C sleep pulse_ms s = (Inr m, s') \<longrightarrow>
      (\<exists>i c st rs final. length rs = 6
        \<and> m = [(''ok'', PBool True),
               (''results'', PList ([entry ''identity'' i, entry ''capabilities'' c, entry ''status'' st]
                  @ map (\<lambda>(ch, r). pulse_entry ch r) (zip [0, 1, 2, 3, 4, 5] rs))),
               (''final'', PDict final)]))
   \<and> (smoke_body C sleep pulse_ms s = (Inl e, s1) \<longrightarrow>
       fst (run_smoke_sequence C sleep pulse_ms s) =
         (case s_off_all_relays C s1 of (Inl e', s2) \<Rightarrow> Inl e' | (Inr _, s2) \<Rightarrow> Inl e))"
proof (intro conjI impI)
  assume "run_smoke_sequence C sleep pulse_ms s = (Inr m, s')"
  then have "smoke_body C sleep pulse_ms s = (Inr m, s')" by (rule run_smoke_sequence_success)
  then obtain i c st ps final s2 s3 where
    ps: "pulse_channels C sleep pulse_ms [0 .. RELAY_COUNT - 1] s2 = (Inr ps, s3)"
    and m: "m = [(''ok'', PBool True),
       (''results'', PList ([entry ''identity'' i, entry ''capabilities'' c, entry ''status'' st] @ ps)),
       (''final'', PDict final)]"
    unfolding smoke_body_def sbind_Inr sret_def by auto
  have r: "[0 .. RELAY_COUNT - 1] = [0, 1, 2, 3, 4, 5]" by (simp add: upto.simps)
  from pulse_channels_results [OF ps] obtain rs where "length rs = length [0, 1, 2, 3, 4, 5 :: int]"
    "ps = map (\<lambda>(ch, r). pulse_entry ch r) (zip [0, 1, 2, 3, 4, 5] rs)" unfolding r by blast
  then have "length rs = 6"
    "ps = map (\<lambda>(ch, r). pulse_entry ch r) (zip [0, 1, 2, 3, 4, 5] rs)" by simp_all
  with m show "\<exists>i c st rs final. length rs = 6
        \<and> m = [(''ok'', PBool True),
               (''results'', PList ([entry ''identity'' i, entry ''capabilities'' c, entry ''status'' st]
                  @ map (\<lambda>(ch, r). pulse_entry ch r) (zip [0, 1, 2, 3, 4, 5] rs))),
               (''final'', PDict final)]" by blast
next
  assume "smoke_body C sleep pulse_ms s = (Inl e, s1)"
  then show "fst (run_smoke_sequence C sleep pulse_ms s) =
         (case s_off_all_relays C s1 of (Inl e', s2) \<Rightarrow> Inl e' | (Inr _, s2) \<Rightarrow> Inl e)"
    by (auto simp: run_smoke_sequence_def scatch_def sbind_def sraise_def split: prod.splits sum.splits)
qed

definition quiet_client :: "unit SmokeRelayClient" where
  "quiet_client = \<lparr>s_identity = sret [], s_capabilities = sret [], s_status = sret [],
     s_pulse_relay = (\<lambda>_ _. sret []), s_off_all_relays = sret []\<rparr>"

theorem smoke_report_witness:
  "\<exists>m i c st rs final. run_smoke_sequence quiet_client (\<lambda>_. Inr ()) 50 () = (Inr m, ()) \<and> length rs = 6
     \<and> m = [(''ok'', PBool True),
               (''results'', PList ([entry ''identity'' i, entry ''capabilities'' c, entry ''status'' st]
                  @ map (\<lambda>(ch, r). pulse_entry ch r) (zip [0, 1, 2, 3, 4, 5] rs))),
               (''final'', PDict final)]"
proof -
  have "\<exists>m. run_smoke_sequence quiet_client (\<lambda>_. Inr ()) 50 () = (Inr m, ())"
    by (simp add: run_smoke_sequence_def smoke_body_def scatch_def sbind_def sret_def quiet_client_def
        lift_result_def upto.simps)
  with smoke_report [of quiet_client "\<lambda>_. Inr ()" 50 "()"] show ?thesis by blast
qed

end
