(* ===== verification/Discovery.thy ===== *)
theory Discovery
  imports Constants
begin

text \<open>
  host/rp2350_relay_6ch/discovery.py: which USB serial ports are relay controllers, and the
  selection of one by its serial number. The list of ports pyserial reports is the argument.
\<close>

definition RELAY_USB_VID :: int where [simp]: "RELAY_USB_VID = 0x2E8A"
definition RELAY_USB_PID :: int where [simp]: "RELAY_USB_PID = 0x0009"
definition RELAY_USB_PRODUCT :: string where "RELAY_USB_PRODUCT = ''RP2350-Relay-6CH''"

record RelayUsbDevice =
  ud_port :: string
  ud_serial_number :: "string option"
  ud_product :: "string option"
  ud_verified_product :: bool

record PortInfo =
  pi_device :: string
  pi_vid :: "int option"
  pi_pid :: "int option"
  pi_product :: "string option"
  pi_serial_number :: "string option"

text \<open>\<open>sub in s\<close> on strings.\<close>

fun contains :: "string \<Rightarrow> string \<Rightarrow> bool" where
  "contains sub [] = (sub = [])"
| "contains sub (c # s) = (starts_with (c # s) sub \<or> contains sub s)"

definition candidate :: "PortInfo \<Rightarrow> RelayUsbDevice option" where
  "candidate p =
     (if pi_vid p \<noteq> Some RELAY_USB_VID then None
      else if pi_pid p \<noteq> Some RELAY_USB_PID then None
      else (case pi_product p of
              Some product \<Rightarrow>
                if contains RELAY_USB_PRODUCT product
                then Some \<lparr>ud_port = pi_device p, ud_serial_number = pi_serial_number p,
                           ud_product = Some product, ud_verified_product = True\<rparr>
                else None
            | None \<Rightarrow>
                (case pi_serial_number p of
                   None \<Rightarrow> None
                 | Some sn \<Rightarrow>
                     if sn = [] then None
                     else Some \<lparr>ud_port = pi_device p, ud_serial_number = Some sn,
                                ud_product = None, ud_verified_product = False\<rparr>)))"

definition list_relay_devices :: "PortInfo list \<Rightarrow> RelayUsbDevice list" where
  "list_relay_devices ports = List.map_filter candidate ports"

definition missing_message :: "string \<Rightarrow> string" where
  "missing_message usb_serial = ''no relay device found with USB serial '' @ usb_serial"

definition select_device_by_serial :: "string \<Rightarrow> PortInfo list \<Rightarrow> RelayUsbDevice result" where
  "select_device_by_serial usb_serial ports =
     (case filter (\<lambda>d. ud_serial_number d = Some usb_serial) (list_relay_devices ports) of
        [] \<Rightarrow> Inl (RelayValidationError (missing_message usb_serial))
      | [d] \<Rightarrow> Inr d
      | _ \<Rightarrow> Inl (RelayValidationError
                 (''multiple relay devices found with USB serial '' @ usb_serial)))"

lemma contains_iff: "contains sub s \<longleftrightarrow> (\<exists>a b. s = a @ sub @ b)"
proof (induction s)
  case (Cons c s)
  show ?case
  proof
    assume "contains sub (c # s)"
    then consider "starts_with (c # s) sub" | "contains sub s" by auto
    then show "\<exists>a b. c # s = a @ sub @ b"
    proof cases
      case 1
      then show ?thesis by (auto simp: starts_with_iff intro: exI [of _ "[]"])
    next
      case 2
      with Cons.IH obtain a b where "s = a @ sub @ b" by blast
      then show ?thesis by (intro exI [of _ "c # a"] exI [of _ b]) simp
    qed
  next
    assume "\<exists>a b. c # s = a @ sub @ b"
    then obtain a b where "c # s = a @ sub @ b" by blast
    then show "contains sub (c # s)"
    proof (cases a)
      case Nil
      with \<open>c # s = a @ sub @ b\<close> have "starts_with (c # s) sub" by (simp only: starts_with_iff) auto
      then show ?thesis by simp
    next
      case (Cons x a')
      with \<open>c # s = a @ sub @ b\<close> Cons.IH show ?thesis by auto
    qed
  qed
qed auto

lemma candidate_Some:
  "candidate p = Some d \<longleftrightarrow> pi_vid p = Some RELAY_USB_VID \<and> pi_pid p = Some RELAY_USB_PID
     \<and> d = \<lparr>ud_port = pi_device p, ud_serial_number = pi_serial_number p,
           ud_product = pi_product p, ud_verified_product = (pi_product p \<noteq> None)\<rparr>
     \<and> (case pi_product p of
          Some product \<Rightarrow> contains RELAY_USB_PRODUCT product
        | None \<Rightarrow> pi_serial_number p \<noteq> None \<and> pi_serial_number p \<noteq> Some [])"
  by (auto simp: candidate_def split: option.splits if_splits)

lemma filter_singleton:
  "filter P xs = [x] \<Longrightarrow> \<exists>a b. xs = a @ x # b \<and> P x \<and> (\<forall>y \<in> set (a @ b). \<not> P y)"
proof (induction xs)
  case (Cons y xs)
  show ?case
  proof (cases "P y")
    case True
    with Cons.prems have "y = x" "filter P xs = []" by auto
    with True show ?thesis by (intro exI [of _ "[]"] exI [of _ xs]) (auto simp: filter_empty_conv)
  next
    case False
    with Cons obtain a b where "xs = a @ x # b" "P x" "\<forall>y \<in> set (a @ b). \<not> P y" by auto
    with False show ?thesis by (intro exI [of _ "y # a"] exI [of _ b]) auto
  qed
qed simp

text \<open>The ports that are candidates with the serial number asked for.\<close>

definition serial_matches :: "string \<Rightarrow> PortInfo list \<Rightarrow> RelayUsbDevice list" where
  "serial_matches sn ports =
     filter (\<lambda>d. ud_serial_number d = Some sn) (list_relay_devices ports)"

lemma select_iff:
  "select_device_by_serial sn ports = Inr d \<longleftrightarrow> serial_matches sn ports = [d]"
  "select_device_by_serial sn ports = Inl (RelayValidationError (missing_message sn)) \<longleftrightarrow>
     serial_matches sn ports = []"
  by (auto simp: select_device_by_serial_def serial_matches_def missing_message_def split: list.splits)

section \<open>Properties\<close>

text \<open>
  Selection: a serial number selects a device exactly if it is the only relay candidate
  with that number. The device selected is at a port with the relay's USB ids whose product
  string contains the product name (or is absent, with a serial number), and every other port
  with the same ids, serial number and an acceptable product makes the selection fail instead.
\<close>

theorem select_device_unique:
  assumes "select_device_by_serial sn ports = Inr d"
  shows "\<exists>p. p \<in> set ports \<and> candidate p = Some d \<and> pi_serial_number p = Some sn
    \<and> ud_port d = pi_device p \<and> pi_vid p = Some RELAY_USB_VID \<and> pi_pid p = Some RELAY_USB_PID
    \<and> (pi_product p = None \<or> (\<exists>a b. pi_product p = Some (a @ RELAY_USB_PRODUCT @ b)))
    \<and> length (filter (\<lambda>q. candidate q \<noteq> None \<and> pi_serial_number q = Some sn) ports) = 1"
proof -
  have serial: "ud_serial_number e = pi_serial_number q" if "candidate q = Some e" for q e
    using that by (simp add: candidate_Some)
  have f: "filter (\<lambda>d. ud_serial_number d = Some sn) (List.map_filter candidate qs)
      = List.map_filter candidate (filter (\<lambda>q. candidate q \<noteq> None \<and> pi_serial_number q = Some sn) qs)" for qs
    by (induction qs) (auto simp: List.map_filter_simps dest: serial split: option.splits)
  have l: "length (List.map_filter candidate (filter (\<lambda>q. candidate q \<noteq> None \<and> pi_serial_number q = Some sn) qs))
      = length (filter (\<lambda>q. candidate q \<noteq> None \<and> pi_serial_number q = Some sn) qs)" for qs
    by (induction qs) (auto simp: List.map_filter_simps split: option.splits)
  let ?fs = "filter (\<lambda>q. candidate q \<noteq> None \<and> pi_serial_number q = Some sn) ports"
  have m: "List.map_filter candidate ?fs = [d]"
    using assms by (simp add: select_iff serial_matches_def list_relay_devices_def f)
  then have one: "length ?fs = 1" using l [of ports] by simp
  then obtain p where p: "?fs = [p]" by (auto simp: length_Suc_conv)
  then have "p \<in> set ports" "pi_serial_number p = Some sn" by (auto dest!: filter_singleton)
  moreover have "candidate p = Some d"
    using m p by (auto simp: List.map_filter_simps split: option.splits)
  ultimately show ?thesis using one
    by (intro exI [of _ p]) (auto simp: candidate_Some contains_iff split: option.splits)
qed

theorem select_device_unique_witness:
  "\<exists>p. pi_device p = ''/dev/ttyACM0'' \<and> pi_serial_number p = Some ''A1''
     \<and> candidate p = Some \<lparr>ud_port = ''/dev/ttyACM0'', ud_serial_number = Some ''A1'',
          ud_product = None, ud_verified_product = False\<rparr>"
proof -
  let ?d = "\<lparr>ud_port = ''/dev/ttyACM0'', ud_serial_number = Some ''A1'',
        ud_product = None, ud_verified_product = False\<rparr>"
  have "select_device_by_serial ''A1''
      [\<lparr>pi_device = ''/dev/ttyS0'', pi_vid = None, pi_pid = None, pi_product = None, pi_serial_number = None\<rparr>,
       \<lparr>pi_device = ''/dev/ttyACM0'', pi_vid = Some 0x2E8A, pi_pid = Some 9, pi_product = None,
        pi_serial_number = Some ''A1''\<rparr>] = Inr ?d"
    by (simp add: select_device_by_serial_def list_relay_devices_def List.map_filter_simps candidate_def)
  from select_device_unique [OF this] obtain p where "candidate p = Some ?d" "pi_serial_number p = Some ''A1''"
    "ud_port ?d = pi_device p" by blast
  then show ?thesis by (intro exI [of _ p]) simp
qed

end
