(* ===== verification/Protocol.thy ===== *)
theory Protocol
  imports Client Json "HOL-Library.List_Lexorder" "HOL-Library.Char_ord"
begin

text \<open>
  The request and response frames of the daemon, host/rp2350_relay_6ch/daemon.py: parsing
  and checking one JSON line, the error responses, the dispatch of a command to the client, and
  the checks on a device's identity and on its uptime after a reboot. A line is the string of
  its bytes; \<open>d\<close> bounds the nesting the interpreter's JSON scanner accepts.
\<close>

section \<open>Commands\<close>

definition DEVICE_COMMANDS :: "string list" where
  "DEVICE_COMMANDS =
     [''identity'', ''capabilities'', ''build-info'', ''get'', ''get-all'', ''set'', ''set-all'',
      ''pulse'', ''off-all'', ''status'', ''health'', ''transport'', ''safety'', ''watchdog'',
      ''reboot'', ''bootsel'']"

definition COMMANDS :: "string list" where
  "COMMANDS = DEVICE_COMMANDS @ [''daemon-status'']"

definition no_arg_commands :: "string list" where
  "no_arg_commands =
     [''identity'', ''capabilities'', ''build-info'', ''get-all'', ''off-all'', ''status'',
      ''health'', ''transport'', ''safety'', ''watchdog'', ''reboot'', ''bootsel'', ''daemon-status'']"

record Request =
  rq_id :: pyval
  rq_command :: string
  rq_args :: pydict
  rq_order :: int

section \<open>Responses\<close>

definition response_ok :: "pyval \<Rightarrow> pydict \<Rightarrow> pydict" where
  "response_ok request_id result =
     [(''id'', request_id), (''ok'', PBool True), (''result'', PDict result)]"

definition response_error :: "pyval \<Rightarrow> string \<Rightarrow> string \<Rightarrow> int option \<Rightarrow> int option \<Rightarrow> pydict" where
  "response_error request_id kind message grp rc =
     [(''id'', request_id), (''ok'', PBool False),
      (''error'', PDict ([(''kind'', PStr kind), (''message'', PStr message)]
         @ (case grp of None \<Rightarrow> [] | Some g \<Rightarrow> [(''group'', PInt g)])
         @ (case rc of None \<Rightarrow> [] | Some r \<Rightarrow> [(''rc'', PInt r)])))]"

definition error_response_for_exception :: "pyval \<Rightarrow> exc \<Rightarrow> pydict" where
  "error_response_for_exception request_id e =
     (if is_RelayValidationError e then response_error request_id ''validation'' (exc_str e) None None
      else if is_RelayTimeoutError e then response_error request_id ''timeout'' (exc_str e) None None
      else if is_RelayTransportError e then response_error request_id ''transport'' (exc_str e) None None
      else if is_RelayProtocolError e then response_error request_id ''protocol'' (exc_str e) None None
      else (case e of
              RelayDeviceError g rc m \<Rightarrow> response_error request_id ''device'' m (Some g) (Some rc)
            | _ \<Rightarrow> response_error request_id ''daemon'' (exc_str e) None None))"

text \<open>What \<open>_send_response\<close> hands to the socket: compact JSON and a line break.\<close>

definition newline :: string where "newline = [char_of (10 :: nat)]"

definition response_line :: "pydict \<Rightarrow> string result" where
  "response_line response = rbind (json_compact (PDict response)) (\<lambda>t. Inr (t @ newline))"

section \<open>Checking the arguments\<close>

definition require_keys :: "pydict \<Rightarrow> string list \<Rightarrow> string \<Rightarrow> unit result" where
  "require_keys args keys command =
     (let actual = map fst args in
      if set actual = set keys then Inr ()
      else
        (let missing = sort (filter (\<lambda>k. k \<notin> set actual) keys);
             extra = sort (remdups (filter (\<lambda>k. k \<notin> set keys) actual));
             parts = (if missing = [] then [] else [''missing '' @ join '', '' missing])
                   @ (if extra = [] then [] else [''unexpected '' @ join '', '' extra])
         in Inl (RelayValidationError (command @ '' args invalid: '' @ join ''; '' parts))))"

definition p_validate_channel :: "pyval \<Rightarrow> unit result" where
  "p_validate_channel channel =
     (case strict_int channel of
        Some i \<Rightarrow> if i < 0 \<or> RELAY_COUNT \<le> i
                  then Inl (RelayValidationError (''channel must be 0..'' @ int_str (RELAY_COUNT - 1)))
                  else Inr ()
      | None \<Rightarrow> Inl (RelayValidationError (''channel must be 0..'' @ int_str (RELAY_COUNT - 1))))"

definition p_validate_state :: "pyval \<Rightarrow> unit result" where
  "p_validate_state st =
     (case strict_int st of
        Some i \<Rightarrow> if i < 0 \<or> i AND NOT RELAY_MASK \<noteq> 0
                  then Inl (RelayValidationError ''state must be 0..0x3f'') else Inr ()
      | None \<Rightarrow> Inl (RelayValidationError ''state must be 0..0x3f''))"

definition p_validate_duration :: "pyval \<Rightarrow> unit result" where
  "p_validate_duration duration =
     (case strict_int duration of
        Some i \<Rightarrow> if i < PULSE_MIN_MS \<or> PULSE_MAX_MS < i
                  then Inl (RelayValidationError ''duration_ms must be 10..60000'') else Inr ()
      | None \<Rightarrow> Inl (RelayValidationError ''duration_ms must be 10..60000''))"

definition validate_args :: "string \<Rightarrow> pydict \<Rightarrow> unit result" where
  "validate_args command args =
     (if command \<in> set no_arg_commands then
        (if args \<noteq> [] then Inl (RelayValidationError (command @ '' does not accept args'')) else Inr ())
      else if command = ''get'' then
        rbind (require_keys args [''channel''] command) (\<lambda>_. p_validate_channel (dget args ''channel''))
      else if command = ''set'' then
        rbind (require_keys args [''channel'', ''on''] command) (\<lambda>_.
          rbind (p_validate_channel (dget args ''channel'')) (\<lambda>_.
            if is_bool (dget args ''on'') then Inr ()
            else Inl (RelayValidationError ''on must be a bool'')))
      else if command = ''set-all'' then
        rbind (require_keys args [''state''] command) (\<lambda>_. p_validate_state (dget args ''state''))
      else if command = ''pulse'' then
        rbind (require_keys args [''channel'', ''duration_ms''] command) (\<lambda>_.
          rbind (p_validate_channel (dget args ''channel'')) (\<lambda>_.
            p_validate_duration (dget args ''duration_ms'')))
      else Inr ())"

section \<open>Parsing a request line\<close>

definition id_ok :: "pyval \<Rightarrow> bool" where
  "id_ok v \<longleftrightarrow> (case v of PStr s \<Rightarrow> True | PInt i \<Rightarrow> True | _ \<Rightarrow> False)"

definition parse_payload :: "nat \<Rightarrow> string \<Rightarrow> pyval result" where
  "parse_payload d line =
     (case rbind (py_decode line) (json_loads d) of
        Inr v \<Rightarrow> Inr v
      | Inl e \<Rightarrow> Inl (if py_class e \<in> {''UnicodeDecodeError'', ''JSONDecodeError''}
                      then RelayProtocolError (''malformed JSON: '' @ exc_str e) else e))"

definition check_request :: "int \<Rightarrow> pyval \<Rightarrow> Request result" where
  "check_request accepted_order payload =
     (case payload of
        PDict p \<Rightarrow>
          (if \<not> id_ok (dget p ''id'')
           then Inl (RelayValidationError ''id is required and must be a string or integer'')
           else (case dget p ''command'' of
                   PStr command \<Rightarrow>
                     (if command \<notin> set COMMANDS
                      then Inl (RelayValidationError (''unknown command '' @ command))
                      else
                        (let args = (case dget_or p ''args'' (PDict []) of
                                       PNone \<Rightarrow> PDict [] | v \<Rightarrow> v) in
                         case args of
                           PDict a \<Rightarrow>
                             rbind (validate_args command a) (\<lambda>_.
                               Inr \<lparr>rq_id = dget p ''id'', rq_command = command, rq_args = a,
                                    rq_order = accepted_order\<rparr>)
                         | _ \<Rightarrow> Inl (RelayValidationError ''args must be an object'')))
                 | _ \<Rightarrow> Inl (RelayValidationError ''command is required'')))
      | _ \<Rightarrow> Inl (RelayValidationError ''request must be a JSON object''))"

definition parse_request_line :: "nat \<Rightarrow> string \<Rightarrow> int \<Rightarrow> Request result" where
  "parse_request_line d line accepted_order =
     rbind (parse_payload d line) (check_request accepted_order)"

definition request_id_from_line :: "nat \<Rightarrow> string \<Rightarrow> pyval result" where
  "request_id_from_line d line =
     (case rbind (py_decode line) (json_loads d) of
        Inl e \<Rightarrow> if py_class e \<in> {''UnicodeDecodeError'', ''JSONDecodeError''} then Inr PNone else Inl e
      | Inr (PDict p) \<Rightarrow> Inr (if id_ok (dget p ''id'') then dget p ''id'' else PNone)
      | Inr _ \<Rightarrow> Inr PNone)"

section \<open>Dispatch to the device client\<close>

text \<open>The operations of a RelayClient, on a client state \<open>'c\<close>.\<close>

record 'c relay_ops =
  o_identity :: "('c, pydict) sexc"
  o_capabilities :: "('c, pydict) sexc"
  o_build_info :: "('c, pydict) sexc"
  o_get_relay :: "pyval \<Rightarrow> ('c, pydict) sexc"
  o_get_all_relays :: "('c, pydict) sexc"
  o_set_relay :: "pyval \<Rightarrow> pyval \<Rightarrow> ('c, pydict) sexc"
  o_set_all_relays :: "pyval \<Rightarrow> ('c, pydict) sexc"
  o_pulse_relay :: "pyval \<Rightarrow> pyval \<Rightarrow> ('c, pydict) sexc"
  o_off_all_relays :: "('c, pydict) sexc"
  o_status :: "('c, pydict) sexc"
  o_health :: "('c, pydict) sexc"
  o_transport_status :: "('c, pydict) sexc"
  o_safety :: "('c, pydict) sexc"
  o_watchdog :: "('c, pydict) sexc"
  o_reboot :: "('c, pydict) sexc"
  o_bootsel :: "('c, pydict) sexc"
  o_heartbeat :: "('c, pydict) sexc"
  o_close :: "('c, unit) sexc"

definition relay_client_ops :: "smp_lib \<Rightarrow> 't transport_ops \<Rightarrow> 't RelayClient relay_ops" where
  "relay_client_ops slib T =
     \<lparr>o_identity = identity slib T, o_capabilities = capabilities slib T,
      o_build_info = build_info slib T, o_get_relay = get_relay slib T,
      o_get_all_relays = get_all_relays slib T, o_set_relay = set_relay slib T,
      o_set_all_relays = set_all_relays slib T, o_pulse_relay = pulse_relay slib T,
      o_off_all_relays = off_all_relays slib T, o_status = status slib T, o_health = health slib T,
      o_transport_status = transport_status slib T, o_safety = safety slib T,
      o_watchdog = watchdog slib T, o_reboot = reboot slib T, o_bootsel = bootsel slib T,
      o_heartbeat = heartbeat slib T, o_close = client_close T\<rparr>"

definition dispatch_device_command :: "'c relay_ops \<Rightarrow> string \<Rightarrow> pydict \<Rightarrow> ('c, pydict) sexc" where
  "dispatch_device_command C command args =
     (if command = ''identity'' then o_identity C
      else if command = ''capabilities'' then o_capabilities C
      else if command = ''build-info'' then o_build_info C
      else if command = ''get'' then o_get_relay C (dget args ''channel'')
      else if command = ''get-all'' then o_get_all_relays C
      else if command = ''set'' then o_set_relay C (dget args ''channel'') (dget args ''on'')
      else if command = ''set-all'' then o_set_all_relays C (dget args ''state'')
      else if command = ''pulse'' then o_pulse_relay C (dget args ''channel'') (dget args ''duration_ms'')
      else if command = ''off-all'' then o_off_all_relays C
      else if command = ''status'' then o_status C
      else if command = ''health'' then o_health C
      else if command = ''transport'' then o_transport_status C
      else if command = ''safety'' then o_safety C
      else if command = ''watchdog'' then o_watchdog C
      else if command = ''reboot'' then o_reboot C
      else if command = ''bootsel'' then o_bootsel C
      else sraise (RelayValidationError (''unknown command '' @ command)))"

section \<open>Identity and reboot checks\<close>

definition status_uptime_ms :: "pydict \<Rightarrow> int option" where
  "status_uptime_ms st = strict_int (dget st ''uptime_ms'')"

definition is_reboot_reconnect_fresh :: "pydict \<Rightarrow> pydict \<Rightarrow> bool" where
  "is_reboot_reconnect_fresh pre post =
     (case (status_uptime_ms pre, status_uptime_ms post) of
        (Some a, Some b) \<Rightarrow> b < a
      | _ \<Rightarrow> True)"

definition is_missing_selected_device :: "exc \<Rightarrow> bool" where
  "is_missing_selected_device e = starts_with (exc_str e) ''no relay device found with USB serial ''"

definition validate_readiness_identity :: "pydict \<Rightarrow> unit result" where
  "validate_readiness_identity idn =
     (if \<not> py_eq_int (dget idn ''protocol_version'') PROTOCOL_VERSION
      then Inl (RelayProtocolError (''unexpected relay protocol version ''
             @ py_str (dget idn ''protocol_version'')))
      else if \<not> py_eq_int (dget idn ''command_model_version'') COMMAND_MODEL_VERSION
      then Inl (RelayProtocolError (''unexpected relay command model version ''
             @ py_str (dget idn ''command_model_version'')))
      else if dget idn ''relay_count'' \<noteq> PNone \<and> \<not> py_eq_int (dget idn ''relay_count'') RELAY_COUNT
      then Inl (RelayProtocolError (''unexpected relay count '' @ py_str (dget idn ''relay_count'')))
      else (case dget idn ''hardware'' of
              PStr hardware \<Rightarrow>
                if hardware \<noteq> HARDWARE_NAME
                then Inl (RelayProtocolError (''unexpected relay hardware '' @ hardware)) else Inr ()
            | _ \<Rightarrow> Inr ()))"

section \<open>What a checked request looks like\<close>

text \<open>
  The specification of the arguments of a command: exactly the keys it takes, with values in
  range, booleans not counting as integers.
\<close>

definition int_in :: "pyval \<Rightarrow> int \<Rightarrow> int \<Rightarrow> bool" where
  "int_in v lo hi \<longleftrightarrow> (\<exists>i. v = PInt i \<and> lo \<le> i \<and> i \<le> hi)"

definition args_spec :: "string \<Rightarrow> pydict \<Rightarrow> bool" where
  "args_spec command args \<longleftrightarrow>
     (if command = ''get'' then set (map fst args) = {''channel''} \<and> int_in (dget args ''channel'') 0 5
      else if command = ''set'' then set (map fst args) = {''channel'', ''on''}
        \<and> int_in (dget args ''channel'') 0 5 \<and> is_bool (dget args ''on'')
      else if command = ''set-all'' then set (map fst args) = {''state''} \<and> int_in (dget args ''state'') 0 63
      else if command = ''pulse'' then set (map fst args) = {''channel'', ''duration_ms''}
        \<and> int_in (dget args ''channel'') 0 5 \<and> int_in (dget args ''duration_ms'') 10 60000
      else args = [])"

lemma int_in_PInt [simp]: "int_in (PInt i) lo hi \<longleftrightarrow> lo \<le> i \<and> i \<le> hi"
  by (auto simp: int_in_def)

lemma strict_int_cases:
  "(case strict_int v of Some i \<Rightarrow> f i | None \<Rightarrow> z) = (case v of PInt i \<Rightarrow> f i | _ \<Rightarrow> z)"
  by (cases v) (auto simp: strict_int_def is_bool_def as_int_def)

lemma require_keys_Inr: "require_keys args keys command = Inr () \<longleftrightarrow> set (map fst args) = set keys"
  by (simp add: require_keys_def Let_def)

lemma p_validate_channel_Inr: "p_validate_channel v = Inr () \<longleftrightarrow> int_in v 0 5"
  unfolding p_validate_channel_def strict_int_cases int_in_def by (cases v) auto

lemma p_validate_duration_Inr: "p_validate_duration v = Inr () \<longleftrightarrow> int_in v 10 60000"
  unfolding p_validate_duration_def strict_int_cases int_in_def by (cases v) auto

lemma p_validate_state_Inr: "p_validate_state v = Inr () \<longleftrightarrow> int_in v 0 63"
proof (cases "\<exists>i. v = PInt i")
  case True
  then obtain i where v: "v = PInt i" by blast
  have "p_validate_state (PInt i) = Inr () \<longleftrightarrow> validate_state_mask (PInt i) = Inr ()"
    by (simp add: p_validate_state_def strict_int_cases validate_state_mask_def as_int_def)
  then show ?thesis by (auto simp: v validate_state_mask_iff as_int_def)
next
  case False
  then show ?thesis
    unfolding p_validate_state_def strict_int_cases int_in_def by (cases v) auto
qed

lemmas validate_Inr = require_keys_Inr p_validate_channel_Inr p_validate_duration_Inr p_validate_state_Inr

lemma validate_args_Inr:
  assumes "command \<in> set COMMANDS"
  shows "validate_args command args = Inr () \<longleftrightarrow> args_spec command args"
  using assms
  by (auto simp: COMMANDS_def DEVICE_COMMANDS_def no_arg_commands_def validate_args_def args_spec_def
      rbind_Inr validate_Inr)

text \<open>A check that fails only with a validation error.\<close>

definition validates :: "'a result \<Rightarrow> bool" where
  "validates r \<longleftrightarrow> (\<forall>e. r = Inl e \<longrightarrow> is_RelayValidationError e)"

lemma validates_intros:
  "validates (Inr x)" "validates (Inl (RelayValidationError m))"
  "validates r \<Longrightarrow> (\<And>x. validates (f x)) \<Longrightarrow> validates (rbind r f)"
  "validates r \<Longrightarrow> validates r' \<Longrightarrow> validates (if b then r else r')"
  by (auto simp: validates_def rbind_Inl)

lemma p_validates:
  "validates (require_keys args keys command)" "validates (p_validate_channel v)"
  "validates (p_validate_duration v)" "validates (p_validate_state v)"
  unfolding require_keys_def p_validate_channel_def p_validate_duration_def p_validate_state_def
    strict_int_cases Let_def
  by (auto simp: validates_def split: pyval.splits)

lemma validate_args_validates: "validates (validate_args command args)"
  unfolding validate_args_def by (intro validates_intros p_validates)

lemma check_request_Inr:
  "check_request n payload = Inr r \<longleftrightarrow>
   (\<exists>p. payload = PDict p \<and> id_ok (dget p ''id'') \<and> dget p ''command'' = PStr (rq_command r)
     \<and> rq_command r \<in> set COMMANDS \<and> args_spec (rq_command r) (rq_args r)
     \<and> (dget_or p ''args'' (PDict []) = PDict (rq_args r)
        \<or> dget_or p ''args'' (PDict []) = PNone \<and> rq_args r = [])
     \<and> rq_id r = dget p ''id'' \<and> rq_order r = n)"
proof -
  have v: "validate_args c a = Inr u \<longleftrightarrow> args_spec c a" if "c \<in> set COMMANDS" for c a u
    using validate_args_Inr [OF that] by (cases u) simp
  show ?thesis
    by (cases r)
      (auto simp: check_request_def Let_def rbind_Inr v split: pyval.splits if_splits)
qed

lemma check_request_validates: "validates (check_request n payload)"
  unfolding check_request_def Let_def
  by (auto intro!: validates_intros validate_args_validates split: pyval.splits)

lemma parse_request_line_id:
  assumes "parse_request_line d line n = Inr r"
  shows "request_id_from_line d line = Inr (rq_id r)"
  using assms
  by (auto simp: parse_request_line_def parse_payload_def rbind_Inr request_id_from_line_def
      check_request_Inr split: sum.splits)

section \<open>Dispatch reaches the wire\<close>

definition command_request :: "string \<Rightarrow> int \<times> int" where
  "command_request c =
     (if c = ''identity'' then (CMD_IDENTITY, OP_READ)
      else if c = ''capabilities'' then (CMD_CAPABILITIES, OP_READ)
      else if c = ''build-info'' then (CMD_BUILD_INFO, OP_READ)
      else if c = ''get'' then (CMD_GET, OP_READ) else if c = ''get-all'' then (CMD_GET_ALL, OP_READ)
      else if c = ''set'' then (CMD_SET, OP_WRITE) else if c = ''set-all'' then (CMD_SET_ALL, OP_WRITE)
      else if c = ''pulse'' then (CMD_PULSE, OP_WRITE) else if c = ''off-all'' then (CMD_OFF_ALL, OP_WRITE)
      else if c = ''status'' then (CMD_STATUS, OP_READ) else if c = ''health'' then (CMD_HEALTH, OP_READ)
      else if c = ''transport'' then (CMD_TRANSPORT, OP_READ) else if c = ''safety'' then (CMD_SAFETY, OP_READ)
      else if c = ''watchdog'' then (CMD_WATCHDOG, OP_READ) else if c = ''reboot'' then (CMD_REBOOT, OP_WRITE)
      else (CMD_BOOTSEL, OP_WRITE))"

text \<open>The payload of the packet: the arguments, in the order the client writes them.\<close>

definition command_payload :: "string \<Rightarrow> pydict \<Rightarrow> pydict" where
  "command_payload c args =
     (if c = ''get'' then [(''channel'', dget args ''channel'')]
      else if c = ''set'' then [(''channel'', dget args ''channel''), (''on'', dget args ''on'')]
      else if c = ''set-all'' then [(''state'', dget args ''state'')]
      else if c = ''pulse'' then [(''channel'', dget args ''channel''), (''duration_ms'', dget args ''duration_ms'')]
      else [])"

lemma int_in_checks:
  "int_in v 0 5 \<Longrightarrow> validate_channel v = Inr ()"
  "int_in v 0 63 \<Longrightarrow> validate_state_mask v = Inr ()"
  "int_in v 10 60000 \<Longrightarrow> validate_duration v = Inr ()"
  unfolding int_in_def validate_channel_iff validate_state_mask_iff validate_duration_iff
  by (auto simp: as_int_def)

lemma dispatch_sends:
  assumes "command \<in> set DEVICE_COMMANDS" "args_spec command args"
  shows "dispatch_device_command (relay_client_ops slib T) command args c =
    client_request slib T (fst (command_request command)) (snd (command_request command))
      (command_payload command args) c"
proof -
  note defs = identity_def capabilities_def build_info_def get_all_relays_def off_all_relays_def
    status_def health_def transport_status_def safety_def watchdog_def reboot_def bootsel_def
  show ?thesis
    using assms
    unfolding DEVICE_COMMANDS_def
    by (auto simp: args_spec_def dispatch_device_command_def relay_client_ops_def command_request_def
        command_payload_def defs get_relay_def set_relay_def set_all_relays_def pulse_relay_def
        checked_run int_in_checks
        simp del: CMD_IDENTITY_def CMD_CAPABILITIES_def CMD_BUILD_INFO_def)
qed

end
