(* ===== verification/Daemon.thy ===== *)
theory Daemon
  imports Protocol Discovery
begin

text \<open>
  class RelayDaemon of host/rp2350_relay_6ch/daemon.py: the state it shares between its
  threads, one definition per method, and the bodies of the reconnect, heartbeat and worker
  loops. Clients are values of a type \<open>'c\<close> with the operations of a \<open>relay_ops\<close> record. What
  the methods read of the world when they run (the clock, the USB ports, the factory of clients,
  the USB instance ids) is an \<open>env\<close> argument.
\<close>

section \<open>Configuration, environment, state\<close>

record DaemonConfig =
  selector_type :: string
  selector_value :: string
  socket_path :: string
  cfg_baud :: int
  cfg_timeout :: pyfloat
  cfg_retries :: int
  reconnect_interval :: pyfloat
  heartbeat_interval :: pyfloat
  wait_device :: bool

definition REBOOT_RECOVERY_MIN_S :: rat where "REBOOT_RECOVERY_MIN_S = 3 / 2"

record 'c env =
  monotonic :: rat
  usb_ports :: "PortInfo list"
  client_factory :: "string \<Rightarrow> 'c result"
  usb_instance_id :: "string \<Rightarrow> string option"

text \<open>\<open>d_opened\<close> and \<open>d_closed\<close> are ghosts: how many clients the factory made, and the clients
  \<open>close\<close> was called on, in order, as they were then.\<close>

record 'c daemon =
  d_client :: "'c option"
  d_connected :: bool
  d_current_port :: "string option"
  d_reconnect_attempts :: int
  d_last_error :: "string option"
  d_reboot_recovery :: bool
  d_reboot_started_at :: "rat option"
  d_reboot_pre_status :: "pydict option"
  d_reboot_usb_instance_id :: "string option"
  d_reboot_instance_missing_seen :: bool
  d_stop :: bool
  d_fatal_error :: "exc option"
  d_opened :: nat
  d_closed :: "'c list"

definition new_daemon :: "'c daemon" where
  "new_daemon =
     \<lparr>d_client = None, d_connected = False, d_current_port = None, d_reconnect_attempts = 0,
      d_last_error = None, d_reboot_recovery = False, d_reboot_started_at = None,
      d_reboot_pre_status = None, d_reboot_usb_instance_id = None,
      d_reboot_instance_missing_seen = False, d_stop = False, d_fatal_error = None,
      d_opened = 0, d_closed = []\<rparr>"

record 'c probe =
  pb_client :: 'c
  pb_port :: string
  pb_status :: pydict

definition daemon_status :: "DaemonConfig \<Rightarrow> string \<Rightarrow> 'c daemon \<Rightarrow> pydict" where
  "daemon_status cfg version s =
     (let opt = (\<lambda>x. case x of None \<Rightarrow> PNone | Some t \<Rightarrow> PStr t) in
      [(''connected'', PBool (d_connected s)), (''selector_type'', PStr (selector_type cfg)),
       (''selector_value'', PStr (selector_value cfg)), (''current_port'', opt (d_current_port s)),
       (''socket_path'', PStr (socket_path cfg)),
       (''reconnect_attempts'', PInt (d_reconnect_attempts s)),
       (''last_error'', opt (d_last_error s)), (''daemon_version'', PStr version)])"

section \<open>Connecting\<close>

text \<open>Closing a client: its result, and the count.\<close>

definition close_client :: "'c relay_ops \<Rightarrow> 'c \<Rightarrow> ('c daemon, unit) sexc" where
  "close_client C c = (\<lambda>s. (fst (o_close C c), s\<lparr>d_closed := d_closed s @ [c]\<rparr>))"

definition selected_port :: "DaemonConfig \<Rightarrow> 'c env \<Rightarrow> string result" where
  "selected_port cfg env =
     (if selector_type cfg = ''port'' then Inr (selector_value cfg)
      else rbind (select_device_by_serial (selector_value cfg) (usb_ports env)) (\<lambda>dev. Inr (ud_port dev)))"

definition readiness :: "'c relay_ops \<Rightarrow> ('c, pydict) sexc" where
  "readiness C =
     sbind (o_identity C) (\<lambda>idn. sbind (lift_result (validate_readiness_identity idn)) (\<lambda>_. o_status C))"

definition probe_ready :: "'c relay_ops \<Rightarrow> 'c env \<Rightarrow> string \<Rightarrow> ('c daemon, 'c probe) sexc" where
  "probe_ready C env port = (\<lambda>s.
     case client_factory env port of
       Inl e \<Rightarrow> (Inl e, s)
     | Inr c \<Rightarrow>
         (let s1 = s\<lparr>d_opened := Suc (d_opened s)\<rparr> in
          case readiness C c of
            (Inr st, c') \<Rightarrow> (Inr \<lparr>pb_client = c', pb_port = port, pb_status = st\<rparr>, s1)
          | (Inl e, c') \<Rightarrow> sbind (close_client C c') (\<lambda>_. sraise e) s1))"

definition clear_reboot :: "'c daemon \<Rightarrow> 'c daemon" where
  "clear_reboot s = s\<lparr>d_reboot_recovery := False, d_reboot_started_at := None,
     d_reboot_pre_status := None, d_reboot_usb_instance_id := None,
     d_reboot_instance_missing_seen := False\<rparr>"

definition adopt_probe :: "'c relay_ops \<Rightarrow> 'c probe \<Rightarrow> ('c daemon, unit) sexc" where
  "adopt_probe C probe = (\<lambda>s.
     (let s1 = clear_reboot (s\<lparr>d_client := Some (pb_client probe), d_connected := True,
                 d_current_port := Some (pb_port probe), d_reconnect_attempts := 0,
                 d_last_error := None\<rparr>)
      in case d_client s of
           None \<Rightarrow> (Inr (), s1)
         | Some old \<Rightarrow> close_client C old s1))"

definition connect_ready :: "'c relay_ops \<Rightarrow> DaemonConfig \<Rightarrow> 'c env \<Rightarrow> ('c daemon, unit) sexc" where
  "connect_ready C cfg env =
     sbind (lift_result (selected_port cfg env)) (\<lambda>port.
       sbind (probe_ready C env port) (\<lambda>probe. adopt_probe C probe))"

definition drop_client :: "'c daemon \<Rightarrow> 'c daemon" where
  "drop_client s = s\<lparr>d_client := None, d_connected := False, d_current_port := None\<rparr>"

text \<open>An exception of closing is swallowed.\<close>

definition close_quietly :: "'c relay_ops \<Rightarrow> 'c option \<Rightarrow> 'c daemon \<Rightarrow> 'c daemon" where
  "close_quietly C c s = (case c of None \<Rightarrow> s | Some c \<Rightarrow> snd (close_client C c s))"

definition mark_disconnected :: "'c relay_ops \<Rightarrow> string \<Rightarrow> bool \<Rightarrow> 'c daemon \<Rightarrow> 'c daemon" where
  "mark_disconnected C message count_attempt s =
     (let s1 = drop_client s;
          s2 = (if count_attempt then s1\<lparr>d_reconnect_attempts := d_reconnect_attempts s1 + 1\<rparr> else s1)
      in close_quietly C (d_client s) (clear_reboot (s2\<lparr>d_last_error := Some message\<rparr>)))"

definition reboot_message :: string where
  "reboot_message = ''firmware reboot accepted; waiting for USB re-enumeration''"

definition enter_reboot_recovery ::
    "'c relay_ops \<Rightarrow> 'c env \<Rightarrow> pydict \<Rightarrow> string option \<Rightarrow> 'c \<Rightarrow> 'c daemon \<Rightarrow> 'c daemon" where
  "enter_reboot_recovery C env pre_reboot_status port c s =
     close_quietly C (Some c) ((drop_client s)
       \<lparr>d_last_error := Some reboot_message, d_reboot_recovery := True,
        d_reboot_started_at := Some (monotonic env), d_reboot_pre_status := Some pre_reboot_status,
        d_reboot_usb_instance_id := usb_instance_id env (case port of None \<Rightarrow> [] | Some p \<Rightarrow> p),
        d_reboot_instance_missing_seen := False\<rparr>)"

definition initial_connect :: "'c relay_ops \<Rightarrow> DaemonConfig \<Rightarrow> 'c env \<Rightarrow> ('c daemon, unit) sexc" where
  "initial_connect C cfg env =
     scatch (connect_ready C cfg env) (\<lambda>e s.
       if is_RelayValidationError e then
         (if wait_device cfg \<and> is_missing_selected_device e
          then (Inr (), mark_disconnected C (exc_str e) True s) else (Inl e, s))
       else if is_RelayProtocolError e then (Inl e, s)
       else if is_RelayTransportError e then
         (if \<not> wait_device cfg then (Inl e, s)
          else (Inr (), mark_disconnected C (exc_str e) True s))
       else if is_RelayError e then
         (if \<not> wait_device cfg then (Inl (RelayTransportError (exc_str e)), s)
          else (Inr (), mark_disconnected C (exc_str e) True s))
       else (Inl e, s))"

section \<open>Reconnecting\<close>

definition fail_reconnect :: "exc \<Rightarrow> 'c daemon \<Rightarrow> 'c daemon" where
  "fail_reconnect e s = s\<lparr>d_fatal_error := Some e, d_stop := True\<rparr>"

definition record_reboot_reconnect_failure :: "string \<Rightarrow> 'c daemon \<Rightarrow> 'c daemon" where
  "record_reboot_reconnect_failure message s =
     s\<lparr>d_reconnect_attempts := d_reconnect_attempts s + 1, d_last_error := Some message\<rparr>"

text \<open>The \<open>record_failure\<close> callback: after a reboot, or else a disconnection that counts.\<close>

definition record_failure :: "'c relay_ops \<Rightarrow> bool \<Rightarrow> string \<Rightarrow> 'c daemon \<Rightarrow> 'c daemon" where
  "record_failure C after_reboot message s =
     (if after_reboot then record_reboot_reconnect_failure message s
      else mark_disconnected C message True s)"

definition reconnect_candidate_port ::
    "'c relay_ops \<Rightarrow> DaemonConfig \<Rightarrow> 'c env \<Rightarrow> bool \<Rightarrow> ('c daemon, string option) sexc" where
  "reconnect_candidate_port C cfg env after_reboot = (\<lambda>s.
     case selected_port cfg env of
       Inr port \<Rightarrow> (Inr (Some port), s)
     | Inl e \<Rightarrow>
         (if is_RelayValidationError e then
            (if is_missing_selected_device e then (Inr None, record_failure C after_reboot (exc_str e) s)
             else (Inr None, fail_reconnect e s))
          else (Inl e, s)))"

definition reconnect_probe ::
    "'c relay_ops \<Rightarrow> 'c env \<Rightarrow> string \<Rightarrow> bool \<Rightarrow> ('c daemon, 'c probe option) sexc" where
  "reconnect_probe C env port after_reboot =
     scatch (sbind (probe_ready C env port) (\<lambda>p. sret (Some p))) (\<lambda>e s.
       if is_RelayValidationError e then
         (if is_missing_selected_device e then (Inr None, record_failure C after_reboot (exc_str e) s)
          else (Inr None, fail_reconnect e s))
       else if is_RelayProtocolError e then (Inr None, fail_reconnect e s)
       else if is_RelayError e then (Inr None, record_failure C after_reboot (exc_str e) s)
       else (Inl e, s))"

definition reconnect_once :: "'c relay_ops \<Rightarrow> DaemonConfig \<Rightarrow> 'c env \<Rightarrow> ('c daemon, unit) sexc" where
  "reconnect_once C cfg env =
     sbind (reconnect_candidate_port C cfg env False) (\<lambda>port.
       case port of
         None \<Rightarrow> sret ()
       | Some port \<Rightarrow>
           sbind (reconnect_probe C env port False) (\<lambda>probe.
             case probe of None \<Rightarrow> sret () | Some probe \<Rightarrow> adopt_probe C probe))"

definition stale_message :: string where
  "stale_message = ''firmware reboot reconnect returned stale uptime''"

text \<open>Once the cand may be another instance: probe it, and adopt it if its uptime is fresh.\<close>

definition probe_after_reboot :: "'c relay_ops \<Rightarrow> 'c env \<Rightarrow> string \<Rightarrow> ('c daemon, unit) sexc" where
  "probe_after_reboot C env port =
     sbind (reconnect_probe C env port True) (\<lambda>probe.
       case probe of
         None \<Rightarrow> sret ()
       | Some probe \<Rightarrow> (\<lambda>s.
           if \<not> is_reboot_reconnect_fresh
                (case d_reboot_pre_status s of None \<Rightarrow> [] | Some p \<Rightarrow> p) (pb_status probe)
           then (case close_client C (pb_client probe) s of
                   (Inl e, s1) \<Rightarrow> (Inl e, s1)
                 | (Inr _, s1) \<Rightarrow> (Inr (), record_reboot_reconnect_failure stale_message s1))
           else adopt_probe C probe s))"

text \<open>The old instance is still there: it has an id, and the id was never seen missing or changed.\<close>

definition note_instance :: "string option \<Rightarrow> 'c daemon \<Rightarrow> 'c daemon" where
  "note_instance cand s =
     (if cand = None then s\<lparr>d_reboot_instance_missing_seen := True\<rparr> else s)"

definition old_instance_present :: "string option \<Rightarrow> 'c daemon \<Rightarrow> bool" where
  "old_instance_present cand s \<longleftrightarrow>
     d_reboot_usb_instance_id s \<noteq> None \<and> cand = d_reboot_usb_instance_id s
     \<and> \<not> d_reboot_instance_missing_seen s"

definition reconnect_after_reboot_once :: "'c relay_ops \<Rightarrow> DaemonConfig \<Rightarrow> 'c env \<Rightarrow> ('c daemon, unit) sexc" where
  "reconnect_after_reboot_once C cfg env = (\<lambda>s.
     case d_reboot_started_at s of
       None \<Rightarrow> (Inr (), mark_disconnected C ''firmware reboot recovery state is incomplete'' False s)
     | Some started_at \<Rightarrow>
         (if monotonic env - started_at < REBOOT_RECOVERY_MIN_S then (Inr (), s)
          else sbind (reconnect_candidate_port C cfg env True) (\<lambda>port.
                 case port of
                   None \<Rightarrow> sret ()
                 | Some port \<Rightarrow> (\<lambda>s1.
                     (let cand = usb_instance_id env port; s2 = note_instance cand s1 in
                      if old_instance_present cand s2 then (Inr (), s2)
                      else probe_after_reboot C env port s2))) s))"

text \<open>The body of \<open>_reconnect_loop\<close>.\<close>

definition reconnect_step :: "'c relay_ops \<Rightarrow> DaemonConfig \<Rightarrow> 'c env \<Rightarrow> ('c daemon, unit) sexc" where
  "reconnect_step C cfg env = (\<lambda>s.
     if d_connected s then (Inr (), s)
     else if d_reboot_recovery s then reconnect_after_reboot_once C cfg env s
     else reconnect_once C cfg env s)"

section \<open>Heartbeats and requests\<close>

definition on_client :: "('c, 'a) sexc \<Rightarrow> 'c \<Rightarrow> ('c daemon, 'a) sexc" where
  "on_client m c = (\<lambda>s. case m c of (r, c') \<Rightarrow> (r, s\<lparr>d_client := Some c'\<rparr>))"

definition heartbeat_once :: "'c relay_ops \<Rightarrow> ('c daemon, unit) sexc" where
  "heartbeat_once C = (\<lambda>s.
     case d_client s of
       None \<Rightarrow> (Inr (), s)
     | Some c \<Rightarrow>
         (if \<not> d_connected s then (Inr (), s)
          else (case on_client (o_heartbeat C) c s of
                  (Inr _, s1) \<Rightarrow> (Inr (), s1)
                | (Inl e, s1) \<Rightarrow> if is_RelayError e then (Inr (), mark_disconnected C (exc_str e) False s1)
                                 else (Inl e, s1))))"

definition disconnected_message :: string where
  "disconnected_message = ''relay controller is disconnected''"

definition bootsel_message :: string where
  "bootsel_message = ''BOOTSEL accepted; relay app left USB serial transport''"

text \<open>\<open>except RelayTransportError: self._mark_disconnected(str(exc)); raise\<close>.\<close>

definition transport_guard :: "'c relay_ops \<Rightarrow> ('c daemon, 'a) sexc \<Rightarrow> ('c daemon, 'a) sexc" where
  "transport_guard C m = scatch m (\<lambda>e s.
     (Inl e, if is_RelayTransportError e then mark_disconnected C (exc_str e) False s else s))"

definition reboot_command :: "'c relay_ops \<Rightarrow> string \<Rightarrow> ('c, pydict \<times> pydict) sexc" where
  "reboot_command C command =
     sbind (o_status C) (\<lambda>pre.
       sbind (if command = ''bootsel'' then o_bootsel C else o_reboot C) (\<lambda>result. sret (pre, result)))"

definition handle_request ::
    "'c relay_ops \<Rightarrow> DaemonConfig \<Rightarrow> string \<Rightarrow> 'c env \<Rightarrow> Request \<Rightarrow> ('c daemon, pydict) sexc" where
  "handle_request C cfg version env request = (\<lambda>s.
     if rq_command request = ''daemon-status'' then (Inr (daemon_status cfg version s), s)
     else (case d_client s of
             None \<Rightarrow> (Inl (RelayTransportError disconnected_message), s)
           | Some c \<Rightarrow>
               (if \<not> d_connected s then (Inl (RelayTransportError disconnected_message), s)
                else if rq_command request \<in> {''reboot'', ''bootsel''} then
                  (case transport_guard C (on_client (reboot_command C (rq_command request)) c) s of
                     (Inl e, s1) \<Rightarrow> (Inl e, s1)
                   | (Inr (pre, result), s1) \<Rightarrow>
                       (Inr result,
                        if rq_command request = ''bootsel''
                        then mark_disconnected C bootsel_message False s1
                        else enter_reboot_recovery C env pre (d_current_port s)
                               (case d_client s1 of None \<Rightarrow> c | Some c1 \<Rightarrow> c1) s1))
                else transport_guard C
                       (on_client (dispatch_device_command C (rq_command request) (rq_args request)) c) s)))"

section \<open>The worker and parser loops, and shutdown\<close>

text \<open>
  One turn of \<open>_worker_loop\<close>: the line sent back. A result that is not serialisable raises in
  the responder, and the loop answers that exception like any other.
\<close>

definition worker_turn ::
    "'c relay_ops \<Rightarrow> DaemonConfig \<Rightarrow> string \<Rightarrow> 'c env \<Rightarrow> Request \<Rightarrow> 'c daemon \<Rightarrow> string result \<times> 'c daemon" where
  "worker_turn C cfg version env request s =
     (case handle_request C cfg version env request s of
        (Inr result, s') \<Rightarrow>
          (case response_line (response_ok (rq_id request) result) of
             Inr t \<Rightarrow> (Inr t, s')
           | Inl e \<Rightarrow> (response_line (error_response_for_exception (rq_id request) e), s'))
      | (Inl e, s') \<Rightarrow> (response_line (error_response_for_exception (rq_id request) e), s'))"

text \<open>One turn of \<open>_parser_loop\<close>: a request for the worker, or a response; an exception of any
  other class leaves the loop.\<close>

definition parser_turn :: "nat \<Rightarrow> string \<Rightarrow> int \<Rightarrow> (Request + pydict) result" where
  "parser_turn d line order =
     (case parse_request_line d line order of
        Inr request \<Rightarrow> Inr (Inl request)
      | Inl e \<Rightarrow>
          (if is_RelayValidationError e
           then rbind (request_id_from_line d line) (\<lambda>rid. Inr (Inr (error_response_for_exception rid e)))
           else if is_RelayProtocolError e then Inr (Inr (error_response_for_exception PNone e))
           else Inl e))"

definition shutdown :: "'c relay_ops \<Rightarrow> ('c daemon, unit) sexc" where
  "shutdown C = (\<lambda>s.
     (let s1 = s\<lparr>d_stop := True\<rparr> in
      case d_client s1 of
        None \<Rightarrow> (Inr (), drop_client s1)
      | Some c \<Rightarrow>
          (case o_off_all_relays C c of
             (r, c') \<Rightarrow>
               (case r of
                  Inl e \<Rightarrow> if is_RelayError e then (Inr (), drop_client (close_quietly C (Some c') s1))
                           else (Inl e, s1\<lparr>d_client := Some c'\<rparr>)
                | Inr _ \<Rightarrow> (Inr (), drop_client (close_quietly C (Some c') s1))))))"

section \<open>The invariant\<close>

text \<open>
  What holds between the turns of the threads: the daemon is connected exactly if it has a
  client and a port, the fields of the recovery from a reboot are set exactly during one, a
  connected daemon has no recorded error, a fatal error stops the daemon; and, with \<open>k\<close> clients
  made and not yet adopted, every other client the factory made was closed once or is the
  current one.
\<close>

definition daemon_shape :: "'c daemon \<Rightarrow> bool" where
  "daemon_shape s \<longleftrightarrow>
     (d_connected s \<longleftrightarrow> d_client s \<noteq> None) \<and> (d_connected s \<longleftrightarrow> d_current_port s \<noteq> None)
     \<and> (d_reboot_recovery s \<longrightarrow> \<not> d_connected s)
     \<and> (d_reboot_recovery s \<longleftrightarrow> d_reboot_started_at s \<noteq> None)
     \<and> (d_reboot_recovery s \<longleftrightarrow> d_reboot_pre_status s \<noteq> None)
     \<and> (\<not> d_reboot_recovery s \<longrightarrow> d_reboot_usb_instance_id s = None \<and> \<not> d_reboot_instance_missing_seen s)
     \<and> (d_connected s \<longrightarrow> d_last_error s = None \<and> d_reconnect_attempts s = 0)
     \<and> 0 \<le> d_reconnect_attempts s \<and> (d_fatal_error s \<noteq> None \<longrightarrow> d_stop s)"

definition inv_loan :: "nat \<Rightarrow> 'c daemon \<Rightarrow> bool" where
  "inv_loan k s \<longleftrightarrow> daemon_shape s \<and> d_opened s = length (d_closed s) + of_bool (d_connected s) + k"

abbreviation daemon_inv :: "'c daemon \<Rightarrow> bool" where "daemon_inv \<equiv> inv_loan 0"

lemma new_daemon_inv: "daemon_inv new_daemon"
  by (simp add: new_daemon_def inv_loan_def daemon_shape_def)

lemma close_client_run: "close_client C c s = (fst (o_close C c), s\<lparr>d_closed := d_closed s @ [c]\<rparr>)"
  by (simp add: close_client_def)

lemma close_quietly_run:
  "close_quietly C None s = s" "close_quietly C (Some c) s = s\<lparr>d_closed := d_closed s @ [c]\<rparr>"
  by (simp_all add: close_quietly_def close_client_def)

definition opt_list :: "'a option \<Rightarrow> 'a list" where
  "opt_list x = (case x of None \<Rightarrow> [] | Some c \<Rightarrow> [c])"

lemma opt_list_simps [simp]:
  "opt_list None = []" "opt_list (Some c) = [c]" "length (opt_list x) = of_bool (x \<noteq> None)"
  by (auto simp: opt_list_def split: option.splits)

lemma mark_disconnected_run:
  "mark_disconnected C m b s = s\<lparr>d_client := None, d_connected := False, d_current_port := None,
     d_reconnect_attempts := d_reconnect_attempts s + of_bool b, d_last_error := Some m,
     d_reboot_recovery := False, d_reboot_started_at := None, d_reboot_pre_status := None,
     d_reboot_usb_instance_id := None, d_reboot_instance_missing_seen := False,
     d_closed := d_closed s @ opt_list (d_client s)\<rparr>"
  by (cases "d_client s")
    (simp_all add: mark_disconnected_def drop_client_def clear_reboot_def close_quietly_run Let_def)

lemma mark_disconnected_inv: "inv_loan k s \<Longrightarrow> inv_loan k (mark_disconnected C m b s)"
  by (auto simp: mark_disconnected_run inv_loan_def daemon_shape_def)

lemma adopt_probe_run:
  "snd (adopt_probe C pb s) = s\<lparr>d_client := Some (pb_client pb), d_connected := True,
     d_current_port := Some (pb_port pb), d_reconnect_attempts := 0, d_last_error := None,
     d_reboot_recovery := False, d_reboot_started_at := None, d_reboot_pre_status := None,
     d_reboot_usb_instance_id := None, d_reboot_instance_missing_seen := False,
     d_closed := d_closed s @ opt_list (d_client s)\<rparr>"
  by (cases "d_client s")
    (simp_all add: adopt_probe_def clear_reboot_def close_client_run Let_def)

lemma adopt_probe_inv: "inv_loan (Suc k) s \<Longrightarrow> adopt_probe C pb s = (r, s') \<Longrightarrow> inv_loan k s'"
  using adopt_probe_run [of C pb s] by (auto simp: inv_loan_def daemon_shape_def)

lemma probe_ready_cases:
  assumes "probe_ready C env port s = (r, s')"
  obtains e where "client_factory env port = Inl e" "r = Inl e" "s' = s"
  | c st c' where "client_factory env port = Inr c" "readiness C c = (Inr st, c')"
      "r = Inr \<lparr>pb_client = c', pb_port = port, pb_status = st\<rparr>"
      "s' = s\<lparr>d_opened := Suc (d_opened s)\<rparr>"
  | c e c' e' where "client_factory env port = Inr c" "readiness C c = (Inl e, c')" "r = Inl e'"
      "s' = s\<lparr>d_opened := Suc (d_opened s), d_closed := d_closed s @ [c']\<rparr>"
      "e' = (case fst (o_close C c') of Inl x \<Rightarrow> x | Inr _ \<Rightarrow> e)"
  using assms
  by (auto simp: probe_ready_def close_client_def sbind_def sraise_def Let_def
      split: sum.splits prod.splits)

lemma probe_ready_inv:
  assumes "inv_loan k s" "probe_ready C env port s = (r, s')"
  shows "inv_loan (case r of Inl e \<Rightarrow> k | Inr p \<Rightarrow> Suc k) s'"
  using assms(2,1) by (cases rule: probe_ready_cases) (auto simp: inv_loan_def daemon_shape_def)

lemma fail_reconnect_inv: "inv_loan k s \<Longrightarrow> inv_loan k (fail_reconnect e s)"
  by (auto simp: fail_reconnect_def inv_loan_def daemon_shape_def)

text \<open>Recording a failed reconnection keeps the invariant of a daemon that is not connected.\<close>

definition offline_inv :: "nat \<Rightarrow> 'c daemon \<Rightarrow> bool" where
  "offline_inv k s \<longleftrightarrow> inv_loan k s \<and> \<not> d_connected s"

lemma record_failure_offline: "offline_inv k s \<Longrightarrow> offline_inv k (record_failure C b m s)"
  by (auto simp: offline_inv_def record_failure_def record_reboot_reconnect_failure_def
      mark_disconnected_run inv_loan_def daemon_shape_def)

lemma fail_reconnect_offline: "offline_inv k s \<Longrightarrow> offline_inv k (fail_reconnect e s)"
  by (auto simp: offline_inv_def fail_reconnect_inv) (simp add: fail_reconnect_def)

lemma note_instance_offline:
  "offline_inv k s \<Longrightarrow> d_reboot_recovery s \<Longrightarrow> offline_inv k (note_instance cand s)"
  by (auto simp: offline_inv_def note_instance_def inv_loan_def daemon_shape_def)

lemma reconnect_candidate_port_offline:
  assumes "offline_inv k s" "reconnect_candidate_port C cfg env b s = (r, s')"
  shows "offline_inv k s' \<and> (\<forall>p. r = Inr (Some p) \<longrightarrow> s' = s \<and> selected_port cfg env = Inr p)"
  using assms
  by (auto simp: reconnect_candidate_port_def record_failure_offline fail_reconnect_offline
      split: sum.splits if_splits)

lemma probe_ready_offline:
  assumes "offline_inv k s" "probe_ready C env port s = (r, s')"
  shows "offline_inv (case r of Inl e \<Rightarrow> k | Inr p \<Rightarrow> Suc k) s'"
proof -
  have "inv_loan k s" using assms(1) by (simp add: offline_inv_def)
  from probe_ready_inv [OF this assms(2)] have "inv_loan (case r of Inl e \<Rightarrow> k | Inr p \<Rightarrow> Suc k) s'" .
  moreover have "d_connected s' = d_connected s"
    using assms(2) by (cases rule: probe_ready_cases) auto
  ultimately show ?thesis using assms(1) by (simp add: offline_inv_def)
qed

lemma reconnect_probe_cases:
  assumes "reconnect_probe C env port b s = (r, s')"
  obtains p where "probe_ready C env port s = (Inr p, s')" "r = Inr (Some p)"
  | e s1 where "probe_ready C env port s = (Inl e, s1)" "r \<in> {Inr None, Inl e}"
      "s' \<in> {s1, record_failure C b (exc_str e) s1, fail_reconnect e s1}"
  using assms
  by (auto simp: reconnect_probe_def scatch_def sbind_def sret_def split: prod.splits sum.splits if_splits)

lemma reconnect_probe_offline:
  assumes "offline_inv k s" "reconnect_probe C env port b s = (r, s')"
  shows "case r of Inr (Some p) \<Rightarrow> offline_inv (Suc k) s' | _ \<Rightarrow> offline_inv k s'"
  using assms(2)
proof (cases rule: reconnect_probe_cases)
  case (1 p)
  with probe_ready_offline [OF assms(1) 1(1)] show ?thesis by simp
next
  case (2 e s1)
  from probe_ready_offline [OF assms(1) 2(1)] have "offline_inv k s1" by simp
  then have "offline_inv k s'" using 2(3) record_failure_offline fail_reconnect_offline by blast
  then show ?thesis using 2(2) by auto
qed

lemma adopt_probe_offline: "offline_inv (Suc k) s \<Longrightarrow> adopt_probe C pb s = (r, s') \<Longrightarrow> inv_loan k s'"
  by (auto simp: offline_inv_def intro: adopt_probe_inv)

lemma offline_is_inv: "offline_inv k s \<Longrightarrow> inv_loan k s"
  by (simp add: offline_inv_def)

text \<open>A reconnection either leaves the daemon offline or adopts a probe that passed.\<close>

definition adopts :: "'c relay_ops \<Rightarrow> 'c env \<Rightarrow> string \<Rightarrow> 'c daemon \<Rightarrow> 'c probe \<Rightarrow> 'c daemon \<Rightarrow> bool" where
  "adopts C env port s pb s' \<longleftrightarrow>
     (\<exists>s1. probe_ready C env port s = (Inr pb, s1) \<and> snd (adopt_probe C pb s1) = s')"

lemma adopts_inv: "offline_inv k s \<Longrightarrow> adopts C env port s pb s' \<Longrightarrow> inv_loan k s'"
  unfolding adopts_def
  by (metis adopt_probe_offline prod.collapse probe_ready_offline sum.case(2))

text \<open>The recovery from a reboot goes on as it was.\<close>

definition same_recovery :: "'c daemon \<Rightarrow> 'c daemon \<Rightarrow> bool" where
  "same_recovery s s' \<longleftrightarrow> d_reboot_recovery s' = d_reboot_recovery s
     \<and> d_reboot_started_at s' = d_reboot_started_at s \<and> d_reboot_pre_status s' = d_reboot_pre_status s
     \<and> d_reboot_usb_instance_id s' = d_reboot_usb_instance_id s"

lemma same_recovery_refl [simp]: "same_recovery s s"
  by (simp add: same_recovery_def)

lemma same_recovery_trans: "same_recovery a b \<Longrightarrow> same_recovery b c \<Longrightarrow> same_recovery a c"
  by (simp add: same_recovery_def)

lemma same_recovery_ops:
  "same_recovery s (record_failure C True m s)" "same_recovery s (fail_reconnect e s)"
  "same_recovery s (note_instance cand s)" "same_recovery s (snd (close_client C c s))"
  by (simp_all add: same_recovery_def record_failure_def record_reboot_reconnect_failure_def
      fail_reconnect_def note_instance_def close_client_run)

lemma candidate_port_recovery:
  "reconnect_candidate_port C cfg env True s = (r, s') \<Longrightarrow> same_recovery s s'"
  by (auto simp: reconnect_candidate_port_def same_recovery_ops split: sum.splits if_splits)

lemma probe_ready_recovery: "probe_ready C env port s = (r, s') \<Longrightarrow> same_recovery s s'"
  by (erule probe_ready_cases) (simp_all add: same_recovery_def)

lemma reconnect_probe_recovery:
  assumes "reconnect_probe C env port True s = (r, s')"
  shows "same_recovery s s'"
  using assms
proof (cases rule: reconnect_probe_cases)
  case (1 p)
  then show ?thesis by (auto dest: probe_ready_recovery)
next
  case (2 e s1)
  then show ?thesis
    using probe_ready_recovery [OF 2(1)] same_recovery_ops(1,2) same_recovery_trans by blast
qed

lemma reconnect_once_outcome:
  assumes "offline_inv 0 s" "reconnect_once C cfg env s = (r, s')"
  shows "offline_inv 0 s' \<or> (\<exists>port pb. selected_port cfg env = Inr port \<and> adopts C env port s pb s')"
  using assms(2) unfolding reconnect_once_def
proof (cases rule: sbind_cases)
  case (1 e)
  then show ?thesis using reconnect_candidate_port_offline [OF assms(1)] by blast
next
  case (2 q s1)
  note c = reconnect_candidate_port_offline [OF assms(1) 2(1)]
  show ?thesis
  proof (cases q)
    case None
    with 2(2) c show ?thesis by (auto simp: sret_def)
  next
    case (Some p)
    then have s1: "s1 = s" "selected_port cfg env = Inr p" using c by auto
    from Some 2(2) have "sbind (reconnect_probe C env p False) (case_option (sret ()) (adopt_probe C)) s1 = (r, s')"
      by simp
    then show ?thesis
    proof (cases rule: sbind_cases)
      case (1 e)
      then show ?thesis using reconnect_probe_offline [OF _ 1(1)] c by auto
    next
      case (2 pb s2)
      note o = reconnect_probe_offline [OF conjunct1 [OF c] 2(1)]
      show ?thesis
      proof (cases pb)
        case None
        with 2(2) o show ?thesis by (simp add: sret_def)
      next
        case (Some pr)
        with 2(1) have "probe_ready C env p s = (Inr pr, s2)" unfolding s1
          by (elim reconnect_probe_cases) auto
        moreover have "snd (adopt_probe C pr s2) = s'" using 2(2) Some by simp
        ultimately show ?thesis using s1 by (auto simp: adopts_def)
      qed
    qed
  qed
qed

lemma close_client_offline: "offline_inv (Suc k) s \<Longrightarrow> close_client C c s = (r, s') \<Longrightarrow> offline_inv k s'"
  by (auto simp: close_client_run offline_inv_def inv_loan_def daemon_shape_def)

lemma probe_after_reboot_outcome:
  assumes "offline_inv 0 s" "probe_after_reboot C env port s = (r, s')"
  shows "offline_inv 0 s' \<and> same_recovery s s' \<or>
    (\<exists>pb. adopts C env port s pb s'
      \<and> is_reboot_reconnect_fresh (case d_reboot_pre_status s of None \<Rightarrow> [] | Some p \<Rightarrow> p) (pb_status pb))"
  using assms(2) unfolding probe_after_reboot_def
proof (cases rule: sbind_cases)
  case (1 e)
  then show ?thesis using reconnect_probe_offline [OF assms(1) 1(1)] reconnect_probe_recovery [OF 1(1)]
    by auto
next
  case (2 pb s1)
  note o = reconnect_probe_offline [OF assms(1) 2(1)] and rec = reconnect_probe_recovery [OF 2(1)]
  show ?thesis
  proof (cases pb)
    case None
    with 2(2) o rec show ?thesis by (simp add: sret_def)
  next
    case (Some p)
    obtain r2 s2 where c: "close_client C (pb_client p) s1 = (r2, s2)" by force
    have o2: "offline_inv 0 s2" by (rule close_client_offline [OF _ c]) (use o Some in simp)
    have rec2: "same_recovery s s2"
      using rec same_recovery_ops(4) [of s1 C "pb_client p"] same_recovery_trans c by fastforce
    have o3: "offline_inv 0 (record_reboot_reconnect_failure stale_message s2)"
      "same_recovery s2 (record_reboot_reconnect_failure stale_message s2)"
      using record_failure_offline [OF o2, of C True stale_message] same_recovery_ops(1) [of s2 C stale_message]
      by (simp_all add: record_failure_def)
    have pr: "probe_ready C env port s = (Inr p, s1)"
      using 2(1) Some by (elim reconnect_probe_cases) auto
    let ?pre = "case d_reboot_pre_status s of None \<Rightarrow> [] | Some p \<Rightarrow> p"
    have pre: "(case d_reboot_pre_status s1 of None \<Rightarrow> [] | Some p \<Rightarrow> p) = ?pre"
      using rec by (simp add: same_recovery_def)
    show ?thesis
    proof (cases "is_reboot_reconnect_fresh ?pre (pb_status p)")
      case True
      with 2(2) Some pre have "adopt_probe C p s1 = (r, s')" by simp
      then have "adopts C env port s p s'" using pr by (auto simp: adopts_def)
      with True show ?thesis by blast
    next
      case False
      with 2(2) Some pre c have "s' = s2 \<or> s' = record_reboot_reconnect_failure stale_message s2"
        by (auto split: sum.splits)
      then show ?thesis using o2 o3 rec2 same_recovery_trans by metis
    qed
  qed
qed

lemma reconnect_after_reboot_once_outcome:
  assumes "offline_inv 0 s" "d_reboot_started_at s = Some t"
    and "reconnect_after_reboot_once C cfg env s = (r, s')"
  shows "offline_inv 0 s' \<and> same_recovery s s' \<or>
    (\<exists>port pb. REBOOT_RECOVERY_MIN_S \<le> monotonic env - t \<and> selected_port cfg env = Inr port
      \<and> \<not> old_instance_present (usb_instance_id env port) (note_instance (usb_instance_id env port) s)
      \<and> adopts C env port (note_instance (usb_instance_id env port) s) pb s'
      \<and> is_reboot_reconnect_fresh (case d_reboot_pre_status s of None \<Rightarrow> [] | Some p \<Rightarrow> p) (pb_status pb))"
proof (cases "monotonic env - t < REBOOT_RECOVERY_MIN_S")
  case True
  with assms show ?thesis by (auto simp: reconnect_after_reboot_once_def)
next
  case late: False
  have rec: "d_reboot_recovery s" using assms(1,2) by (auto simp: offline_inv_def inv_loan_def daemon_shape_def)
  from late assms(2,3) have "sbind (reconnect_candidate_port C cfg env True) (\<lambda>port.
      case port of None \<Rightarrow> sret ()
      | Some port \<Rightarrow> (\<lambda>s1. (let cand = usb_instance_id env port; s2 = note_instance cand s1 in
            if old_instance_present cand s2 then (Inr (), s2)
            else probe_after_reboot C env port s2))) s = (r, s')"
    by (simp add: reconnect_after_reboot_once_def)
  then show ?thesis
  proof (cases rule: sbind_cases)
    case (1 e)
    then show ?thesis
      using reconnect_candidate_port_offline [OF assms(1) 1(1)] candidate_port_recovery [OF 1(1)] by blast
  next
    case (2 q s1)
    note c = reconnect_candidate_port_offline [OF assms(1) 2(1)] and cr = candidate_port_recovery [OF 2(1)]
    show ?thesis
    proof (cases q)
      case None
      with 2(2) c cr show ?thesis by (auto simp: sret_def)
    next
      case (Some p)
      then have s1: "s1 = s" "selected_port cfg env = Inr p" using c by auto
      let ?n = "note_instance (usb_instance_id env p) s"
      have n: "offline_inv 0 ?n" "same_recovery s ?n"
        by (simp_all add: note_instance_offline assms(1) rec same_recovery_ops(3))
      show ?thesis
      proof (cases "old_instance_present (usb_instance_id env p) ?n")
        case True
        with 2(2) Some s1 n show ?thesis by (simp add: Let_def)
      next
        case False
        with 2(2) Some s1 have "probe_after_reboot C env p ?n = (r, s')" by (simp add: Let_def)
        from probe_after_reboot_outcome [OF n(1) this] show ?thesis
        proof (elim disjE exE conjE)
          assume "offline_inv 0 s'" "same_recovery ?n s'"
          then show ?thesis using n same_recovery_trans by blast
        next
          fix pb assume "adopts C env p ?n pb s'" and "is_reboot_reconnect_fresh
            (case d_reboot_pre_status ?n of None \<Rightarrow> [] | Some p \<Rightarrow> p) (pb_status pb)"
          moreover have "d_reboot_pre_status ?n = d_reboot_pre_status s"
            using n by (simp add: same_recovery_def)
          ultimately show ?thesis using late s1 False by (auto simp: not_less)
        qed
      qed
    qed
  qed
qed

lemma offline_note: "offline_inv 0 s \<Longrightarrow> d_reboot_started_at s = Some t \<Longrightarrow> offline_inv 0 (note_instance cand s)"
  by (rule note_instance_offline) (auto simp: offline_inv_def inv_loan_def daemon_shape_def)

lemma reconnect_step_inv: "keeps daemon_inv (reconnect_step C cfg env)"
proof (rule keepsI)
  fix s r s' assume i: "daemon_inv s" and run: "reconnect_step C cfg env s = (r, s')"
  show "daemon_inv s'"
  proof (cases "d_connected s")
    case True
    with run i show ?thesis by (simp add: reconnect_step_def)
  next
    case False
    with i have o: "offline_inv 0 s" by (simp add: offline_inv_def)
    show ?thesis
    proof (cases "d_reboot_started_at s")
      case None
      then have "\<not> d_reboot_recovery s" using i by (auto simp: inv_loan_def daemon_shape_def)
      with run False have "reconnect_once C cfg env s = (r, s')" by (simp add: reconnect_step_def)
      from reconnect_once_outcome [OF o this] o show ?thesis by (auto intro: offline_is_inv adopts_inv)
    next
      case (Some t)
      then have "d_reboot_recovery s" using i by (auto simp: inv_loan_def daemon_shape_def)
      with run False have "reconnect_after_reboot_once C cfg env s = (r, s')" by (simp add: reconnect_step_def)
      from reconnect_after_reboot_once_outcome [OF o Some this] offline_note [OF o Some] show ?thesis
        by (auto intro: offline_is_inv adopts_inv)
    qed
  qed
qed

end
