(* ===== verification/Daemon_Steps.thy ===== *)
theory Daemon_Steps
  imports Daemon
begin

text \<open>
  The behaviour of the daemon's turns: what a request, a heartbeat and a reconnection do to
  the connection, the relation of its turns and the states they reach, and the abstract link
  the turns implement.
\<close>

section \<open>Turns on a connected client\<close>

lemma on_client_run:
  "on_client m c s = (r, s') \<longleftrightarrow> (\<exists>c'. m c = (r, c') \<and> s' = s\<lparr>d_client := Some c'\<rparr>)"
  by (auto simp: on_client_def split: prod.splits)

lemma on_client_inv: "inv_loan k s \<Longrightarrow> d_connected s \<Longrightarrow> inv_loan k (s\<lparr>d_client := Some c\<rparr>)"
  by (auto simp: inv_loan_def daemon_shape_def)

lemma transport_guard_cases:
  assumes "transport_guard C (on_client m c) s = (r, s')"
  obtains x c' where "m c = (Inr x, c')" "r = Inr x" "s' = s\<lparr>d_client := Some c'\<rparr>"
  | e c' where "m c = (Inl e, c')" "r = Inl e" "is_RelayTransportError e"
      "s' = mark_disconnected C (exc_str e) False (s\<lparr>d_client := Some c'\<rparr>)"
  | e c' where "m c = (Inl e, c')" "r = Inl e" "\<not> is_RelayTransportError e"
      "s' = s\<lparr>d_client := Some c'\<rparr>"
  using assms
  by (auto simp: transport_guard_def scatch_def on_client_def split: prod.splits sum.splits if_splits)

lemma transport_guard_inv:
  assumes "inv_loan k s" "d_connected s" "transport_guard C (on_client m c) s = (r, s')"
  shows "inv_loan k s'"
  using assms(3)
  by (cases rule: transport_guard_cases)
    (auto intro: on_client_inv [OF assms(1,2)] mark_disconnected_inv)

lemma enter_reboot_recovery_run:
  "enter_reboot_recovery C env pre prt c s = s\<lparr>d_client := None, d_connected := False,
     d_current_port := None, d_last_error := Some reboot_message, d_reboot_recovery := True,
     d_reboot_started_at := Some (monotonic env), d_reboot_pre_status := Some pre,
     d_reboot_usb_instance_id := usb_instance_id env (case prt of None \<Rightarrow> [] | Some p \<Rightarrow> p),
     d_reboot_instance_missing_seen := False, d_closed := d_closed s @ [c]\<rparr>"
  by (simp add: enter_reboot_recovery_def drop_client_def close_quietly_run)

lemma enter_reboot_recovery_inv:
  "inv_loan k s \<Longrightarrow> d_connected s \<Longrightarrow> inv_loan k (enter_reboot_recovery C env pre prt c s)"
  by (auto simp: enter_reboot_recovery_run inv_loan_def daemon_shape_def)

text \<open>The cases of a request.\<close>

lemma handle_request_cases:
  assumes "handle_request C cfg v env q s = (r, s')" "daemon_inv s"
  obtains (Status) "rq_command q = ''daemon-status''" "r = Inr (daemon_status cfg v s)" "s' = s"
  | (Off) "rq_command q \<noteq> ''daemon-status''" "\<not> d_connected s"
      "r = Inl (RelayTransportError disconnected_message)" "s' = s"
  | (Reboot_Err) c e where "d_connected s" "d_client s = Some c" "rq_command q \<in> {''reboot'', ''bootsel''}"
      "transport_guard C (on_client (reboot_command C (rq_command q)) c) s = (Inl e, s')" "r = Inl e"
  | (Reboot) c pre result c1 where "d_connected s" "d_client s = Some c" "rq_command q = ''reboot''"
      "reboot_command C ''reboot'' c = (Inr (pre, result), c1)" "r = Inr result"
      "s' = enter_reboot_recovery C env pre (d_current_port s) c1 (s\<lparr>d_client := Some c1\<rparr>)"
  | (Bootsel) c pre result c1 where "d_connected s" "d_client s = Some c" "rq_command q = ''bootsel''"
      "reboot_command C ''bootsel'' c = (Inr (pre, result), c1)" "r = Inr result"
      "s' = mark_disconnected C bootsel_message False (s\<lparr>d_client := Some c1\<rparr>)"
  | (Command) c where "d_connected s" "d_client s = Some c"
      "rq_command q \<notin> {''daemon-status'', ''reboot'', ''bootsel''}"
      "transport_guard C (on_client (dispatch_device_command C (rq_command q) (rq_args q)) c) s = (r, s')"
proof (cases "rq_command q = ''daemon-status''")
  case True
  with assms(1) have "r = Inr (daemon_status cfg v s)" "s' = s" by (auto simp: handle_request_def)
  with True show ?thesis by (rule Status)
next
  case ds: False
  show ?thesis
  proof (cases "d_connected s")
    case False
    then have "d_client s = None" using assms(2) by (auto simp: inv_loan_def daemon_shape_def)
    with ds assms(1) have "r = Inl (RelayTransportError disconnected_message)" "s' = s"
      by (simp_all add: handle_request_def)
    with ds False show ?thesis by (rule Off)
  next
    case True
    then obtain c where c: "d_client s = Some c"
      using assms(2) by (auto simp: inv_loan_def daemon_shape_def)
    show ?thesis
    proof (cases "rq_command q \<in> {''reboot'', ''bootsel''}")
      case False
      with ds True c assms(1) show ?thesis by (intro Command [OF True c]) (simp_all add: handle_request_def)
    next
      case rb: True
      obtain r1 s1 where g:
        "transport_guard C (on_client (reboot_command C (rq_command q)) c) s = (r1, s1)" by force
      show ?thesis
      proof (cases r1)
        case (Inl e)
        with g ds True c rb assms(1) show ?thesis
          by (intro Reboot_Err [OF True c rb]) (auto simp: handle_request_def)
      next
        case (Inr x)
        obtain pre result where x: "x = (pre, result)" by force
        from g Inr x obtain c1 where c1: "reboot_command C (rq_command q) c = (Inr (pre, result), c1)"
          "s1 = s\<lparr>d_client := Some c1\<rparr>"
          by (elim transport_guard_cases) auto
        show ?thesis
        proof (cases "rq_command q = ''bootsel''")
          case b: True
          with g Inr x ds True c c1 assms(1) show ?thesis
            by (intro Bootsel [OF True c, of pre result c1]) (simp_all add: handle_request_def)
        next
          case False
          then have b: "rq_command q = ''reboot''" using rb by simp
          with g Inr x ds True c c1 assms(1) show ?thesis
            by (intro Reboot [OF True c, of pre result c1]) (simp_all add: handle_request_def)
        qed
      qed
    qed
  qed
qed

lemma handle_request_inv: "keeps daemon_inv (handle_request C cfg v env q)"
proof (rule keepsI)
  fix s r s' assume i: "daemon_inv s" and run: "handle_request C cfg v env q s = (r, s')"
  from run i show "daemon_inv s'"
    by (cases rule: handle_request_cases)
      (auto intro: i transport_guard_inv [OF i] enter_reboot_recovery_inv mark_disconnected_inv on_client_inv [OF i])
qed

lemma heartbeat_once_cases:
  assumes "heartbeat_once C s = (r, s')" "daemon_inv s"
  obtains (Off) "\<not> d_connected s" "r = Inr ()" "s' = s"
  | (Ok) c x c' where "d_client s = Some c" "d_connected s" "o_heartbeat C c = (Inr x, c')" "r = Inr ()"
      "s' = s\<lparr>d_client := Some c'\<rparr>"
  | (Lost) c e c' where "d_client s = Some c" "d_connected s" "o_heartbeat C c = (Inl e, c')"
      "is_RelayError e" "r = Inr ()"
      "s' = mark_disconnected C (exc_str e) False (s\<lparr>d_client := Some c'\<rparr>)"
  | (Dead) c e c' where "d_client s = Some c" "d_connected s" "o_heartbeat C c = (Inl e, c')"
      "\<not> is_RelayError e" "r = Inl e" "s' = s\<lparr>d_client := Some c'\<rparr>"
proof (cases "d_connected s")
  case False
  then have "d_client s = None" using assms(2) by (auto simp: inv_loan_def daemon_shape_def)
  with assms(1) have "r = Inr ()" "s' = s" by (simp_all add: heartbeat_once_def)
  with False show ?thesis by (rule Off)
next
  case True
  then obtain c where c: "d_client s = Some c" using assms(2) by (auto simp: inv_loan_def daemon_shape_def)
  obtain r1 c' where h: "o_heartbeat C c = (r1, c')" by force
  show ?thesis
  proof (cases r1)
    case (Inl e)
    show ?thesis
    proof (cases "is_RelayError e")
      case rel: True
      with True c h Inl assms(1) show ?thesis
        by (intro Lost [OF c True]) (auto simp: heartbeat_once_def on_client_def)
    next
      case False
      with True c h Inl assms(1) show ?thesis
        by (intro Dead [OF c True]) (auto simp: heartbeat_once_def on_client_def)
    qed
  next
    case (Inr x)
    with True c h assms(1) show ?thesis
      by (intro Ok [OF c True]) (auto simp: heartbeat_once_def on_client_def)
  qed
qed

lemma heartbeat_once_inv: "keeps daemon_inv (heartbeat_once C)"
proof (rule keepsI)
  fix s r s' assume i: "daemon_inv s" and run: "heartbeat_once C s = (r, s')"
  from run i show "daemon_inv s'"
    by (cases rule: heartbeat_once_cases) (auto intro: i mark_disconnected_inv on_client_inv [OF i])
qed

lemma connect_ready_inv: "keeps daemon_inv (connect_ready C cfg env)"
proof (rule keepsI)
  fix s r s' assume i: "daemon_inv s" and run: "connect_ready C cfg env s = (r, s')"
  show "daemon_inv s'"
  proof (cases "selected_port cfg env")
    case (Inl e)
    with run i show ?thesis by (simp add: connect_ready_def sbind_def lift_result_def)
  next
    case (Inr p)
    with run have "sbind (probe_ready C env p) (adopt_probe C) s = (r, s')"
      by (simp add: connect_ready_def sbind_def lift_result_def)
    then show ?thesis
    proof (cases rule: sbind_cases)
      case (1 e)
      with probe_ready_inv [OF i 1(1)] show ?thesis by simp
    next
      case (2 pb s1)
      with probe_ready_inv [OF i 2(1)] show ?thesis by (auto intro: adopt_probe_inv)
    qed
  qed
qed

lemma initial_connect_inv: "keeps daemon_inv (initial_connect C cfg env)"
  unfolding initial_connect_def
  by (intro keeps_scatch connect_ready_inv) (auto simp: keeps_def mark_disconnected_inv split: if_splits)

section \<open>The relation of the turns\<close>

text \<open>
  One turn of a thread: the worker takes a request, the heartbeat or the reconnection timer
  fires (both loops end once the daemon is stopping), or a signal asks it to stop. The turns are
  atomic: the worker and the heartbeat hold \<open>_command_lock\<close>, and the reconnection acts only
  while the daemon is not connected, when the other two change nothing.
\<close>

datatype 'c turn = Request_Turn "'c env" Request | Heartbeat_Turn | Reconnect_Turn "'c env" | Signal_Turn

fun turn_enabled :: "'c turn \<Rightarrow> 'c daemon \<Rightarrow> bool" where
  "turn_enabled (Request_Turn env q) s = True"
| "turn_enabled Heartbeat_Turn s = (\<not> d_stop s)"
| "turn_enabled (Reconnect_Turn env) s = (\<not> d_stop s)"
| "turn_enabled Signal_Turn s = True"

fun take_turn :: "'c relay_ops \<Rightarrow> DaemonConfig \<Rightarrow> string \<Rightarrow> 'c turn \<Rightarrow> 'c daemon \<Rightarrow> 'c daemon" where
  "take_turn C cfg v (Request_Turn env q) s = snd (worker_turn C cfg v env q s)"
| "take_turn C cfg v Heartbeat_Turn s = snd (heartbeat_once C s)"
| "take_turn C cfg v (Reconnect_Turn env) s = snd (reconnect_step C cfg env s)"
| "take_turn C cfg v Signal_Turn s = s\<lparr>d_stop := True\<rparr>"

inductive dstep :: "'c relay_ops \<Rightarrow> DaemonConfig \<Rightarrow> string \<Rightarrow> 'c daemon \<Rightarrow> 'c turn \<Rightarrow> 'c daemon \<Rightarrow> bool"
  for C cfg v where
  turn: "turn_enabled a s \<Longrightarrow> dstep C cfg v s a (take_turn C cfg v a s)"

inductive_simps dstep_simps: "dstep C cfg v s a s'"

inductive reachable :: "'c relay_ops \<Rightarrow> DaemonConfig \<Rightarrow> string \<Rightarrow> 'c daemon \<Rightarrow> bool"
  for C cfg v where
  started: "initial_connect C cfg env new_daemon = (Inr (), s) \<Longrightarrow> reachable C cfg v s"
| step: "reachable C cfg v s \<Longrightarrow> dstep C cfg v s a s' \<Longrightarrow> reachable C cfg v s'"

inductive_cases reachableE: "reachable C cfg v s"

lemma worker_turn_state: "snd (worker_turn C cfg v env q s) = snd (handle_request C cfg v env q s)"
  by (auto simp: worker_turn_def split: prod.splits sum.splits)

lemma keeps_snd: "keeps P m \<Longrightarrow> P s \<Longrightarrow> P (snd (m s))"
  by (cases "m s") (auto dest: keepsD)

lemma take_turn_inv: "daemon_inv s \<Longrightarrow> daemon_inv (take_turn C cfg v a s)"
proof (cases a)
  case (Request_Turn env q)
  then show "daemon_inv s \<Longrightarrow> ?thesis"
    by (simp add: worker_turn_state keeps_snd [OF handle_request_inv])
next
  case Heartbeat_Turn
  then show "daemon_inv s \<Longrightarrow> ?thesis" by (simp add: keeps_snd [OF heartbeat_once_inv])
next
  case (Reconnect_Turn env)
  then show "daemon_inv s \<Longrightarrow> ?thesis" by (simp add: keeps_snd [OF reconnect_step_inv])
next
  case Signal_Turn
  then show "daemon_inv s \<Longrightarrow> ?thesis" by (auto simp: inv_loan_def daemon_shape_def)
qed

lemma reachable_inv: "reachable C cfg v s \<Longrightarrow> daemon_inv s"
proof (induction rule: reachable.induct)
  case (started env s)
  then show ?case using keepsD [OF initial_connect_inv started new_daemon_inv] by simp
next
  case (step s a s')
  then show ?case by (auto simp: dstep_simps intro: take_turn_inv)
qed

end
