(* ===== verification/Daemon_Client.thy ===== *)
theory Daemon_Client
  imports Protocol Smoke
begin

text \<open>
  host/rp2350_relay_6ch/daemon_client.py: the client of the daemon's Unix socket. The socket
  is a parameter: a record of \<open>sendall\<close>, \<open>readline\<close> of its buffered reader (the empty string
  at end of file) and \<open>close\<close> on a socket state.
\<close>

record 'k stream_socket =
  k_sendall :: "string \<Rightarrow> ('k, unit) sexc"
  k_readline :: "('k, string) sexc"
  k_close :: "('k, unit) sexc"

record 'k RelayDaemonClient =
  dc_sock :: 'k
  dc_timeout_s :: rat
  dc_next_id :: int

definition new_RelayDaemonClient :: "'k \<Rightarrow> rat \<Rightarrow> 'k RelayDaemonClient result" where
  "new_RelayDaemonClient sock timeout_s =
     (if timeout_s \<le> 0 then Inl (RelayValidationError ''timeout_s must be positive'')
      else Inr \<lparr>dc_sock = sock, dc_timeout_s = timeout_s, dc_next_id = 1\<rparr>)"

text \<open>\<open>isinstance(exc, OSError)\<close>, for the classes a socket raises; \<open>socket.timeout\<close> is
  \<open>TimeoutError\<close>, caught first.\<close>

definition is_OSError :: "exc \<Rightarrow> bool" where
  "is_OSError e \<longleftrightarrow> py_class e \<in>
     {''OSError'', ''TimeoutError'', ''BlockingIOError'', ''ConnectionError'', ''BrokenPipeError'',
      ''ConnectionResetError'', ''ConnectionRefusedError'', ''FileNotFoundError'', ''PermissionError''}"

text \<open>\<open>RelayDaemonClient.connect\<close>; connecting a socket with a time-out is a parameter. A time-out
  while connecting is an OSError like any other.\<close>

definition dc_connect :: "(string \<Rightarrow> rat \<Rightarrow> 'k result) \<Rightarrow> string \<Rightarrow> rat \<Rightarrow> 'k RelayDaemonClient result" where
  "dc_connect open_socket path timeout_s =
     (if path = [] then Inl (RelayValidationError ''socket_path is required'')
      else if timeout_s \<le> 0 then Inl (RelayValidationError ''timeout_s must be positive'')
      else (case open_socket path timeout_s of
              Inl e \<Rightarrow> if is_OSError e then Inl (RelayTransportError (exc_str e)) else Inl e
            | Inr k \<Rightarrow> new_RelayDaemonClient k timeout_s))"

definition socket_exc :: "exc \<Rightarrow> exc" where
  "socket_exc e =
     (if py_class e = ''TimeoutError'' then RelayTimeoutError ''timed out waiting for daemon response''
      else if is_OSError e then RelayTransportError (exc_str e) else e)"

definition on_sock :: "('k, 'a) sexc \<Rightarrow> ('k RelayDaemonClient, 'a) sexc" where
  "on_sock m = (\<lambda>c. case m (dc_sock c) of (r, k) \<Rightarrow> (r, c\<lparr>dc_sock := k\<rparr>))"

section \<open>_request\<close>

definition raise_error :: "pydict \<Rightarrow> exc" where
  "raise_error error =
     (case (dget error ''kind'', dget error ''message'') of
        (PStr kind, PStr message) \<Rightarrow>
          (if kind = ''validation'' then RelayValidationError message
           else if kind = ''transport'' then RelayTransportError message
           else if kind = ''timeout'' then RelayTimeoutError message
           else if kind = ''protocol'' then RelayProtocolError message
           else if kind = ''device'' then
             (case rbind (py_int (dget_or error ''group'' (PInt (-1)))) (\<lambda>g.
                     rbind (py_int (dget_or error ''rc'' (PInt (-1)))) (\<lambda>rc. Inr (g, rc))) of
                Inl e \<Rightarrow> e
              | Inr (g, rc) \<Rightarrow>
                  RelayDeviceError g rc
                    (if message = [] then ''device error group='' @ int_str g @ '' rc='' @ int_str rc
                     else message))
           else if kind = ''daemon'' then RelayTransportError message
           else RelayProtocolError (''unknown daemon error kind '' @ kind))
      | _ \<Rightarrow> RelayProtocolError ''daemon error object missing kind or message'')"

definition request_frame :: "int \<Rightarrow> string \<Rightarrow> pydict option \<Rightarrow> pydict" where
  "request_frame request_id command args =
     [(''id'', PInt request_id), (''command'', PStr command)]
     @ (case args of None \<Rightarrow> [] | Some a \<Rightarrow> [(''args'', PDict a)])"

definition decode_reply :: "nat \<Rightarrow> int \<Rightarrow> string \<Rightarrow> pydict result" where
  "decode_reply d request_id raw =
     (if raw = [] then Inl (RelayTransportError ''daemon closed the connection'')
      else (case rbind (py_decode raw) (json_loads d) of
              Inl e \<Rightarrow> Inl (if py_class e \<in> {''UnicodeDecodeError'', ''JSONDecodeError''}
                            then RelayProtocolError ''daemon returned malformed JSON'' else e)
            | Inr (PDict response) \<Rightarrow>
                (if \<not> py_eq_int (dget response ''id'') request_id
                 then Inl (RelayProtocolError ''daemon response id does not match the request'')
                 else if dget response ''ok'' = PBool True
                 then (case dget response ''result'' of
                         PDict r \<Rightarrow> Inr r
                       | _ \<Rightarrow> Inl (RelayProtocolError ''daemon success response result must be an object''))
                 else if dget response ''ok'' = PBool False
                 then (case dget response ''error'' of
                         PDict error \<Rightarrow> Inl (raise_error error)
                       | _ \<Rightarrow> Inl (RelayProtocolError ''daemon error response must include an error object''))
                 else Inl (RelayProtocolError ''daemon response missing ok status''))
            | Inr _ \<Rightarrow> Inl (RelayProtocolError ''daemon response must be a JSON object'')))"

definition exchange_line :: "'k stream_socket \<Rightarrow> string \<Rightarrow> ('k RelayDaemonClient, string) sexc" where
  "exchange_line K encoded =
     scatch (sbind (on_sock (k_sendall K encoded)) (\<lambda>_. on_sock (k_readline K)))
       (\<lambda>e. sraise (socket_exc e))"

definition daemon_request :: "nat \<Rightarrow> 'k stream_socket \<Rightarrow> string \<Rightarrow> pydict option \<Rightarrow> ('k RelayDaemonClient, pydict) sexc" where
  "daemon_request d K command args = (\<lambda>c.
     (let request_id = dc_next_id c; c1 = c\<lparr>dc_next_id := request_id + 1\<rparr> in
      sbind (lift_result (json_compact (PDict (request_frame request_id command args)))) (\<lambda>text.
        sbind (exchange_line K (text @ newline)) (\<lambda>raw.
          lift_result (decode_reply d request_id raw))) c1))"

section \<open>Argument checks and commands\<close>

definition dc_validate_channel :: "pyval \<Rightarrow> unit result" where
  "dc_validate_channel channel =
     (case strict_int channel of
        Some i \<Rightarrow> if i < 0 \<or> RELAY_COUNT \<le> i
                  then Inl (RelayValidationError (''channel must be 0..'' @ int_str (RELAY_COUNT - 1)))
                  else Inr ()
      | None \<Rightarrow> Inl (RelayValidationError (''channel must be 0..'' @ int_str (RELAY_COUNT - 1))))"

definition dc_validate_state_mask :: "pyval \<Rightarrow> unit result" where
  "dc_validate_state_mask st =
     (case strict_int st of
        Some i \<Rightarrow> if i < 0 \<or> i AND NOT RELAY_MASK \<noteq> 0
                  then Inl (RelayValidationError ''state must be a six-bit mask 0..0x3f'') else Inr ()
      | None \<Rightarrow> Inl (RelayValidationError ''state must be a six-bit mask 0..0x3f''))"

definition dc_validate_duration :: "pyval \<Rightarrow> unit result" where
  "dc_validate_duration duration =
     (case strict_int duration of
        Some i \<Rightarrow> if i < PULSE_MIN_MS \<or> PULSE_MAX_MS < i
                  then Inl (RelayValidationError ''duration_ms must be 10..60000'') else Inr ()
      | None \<Rightarrow> Inl (RelayValidationError ''duration_ms must be 10..60000''))"

definition dc_get_relay :: "nat \<Rightarrow> 'k stream_socket \<Rightarrow> pyval \<Rightarrow> ('k RelayDaemonClient, pydict) sexc" where
  "dc_get_relay d K channel =
     sbind (lift_result (dc_validate_channel channel)) (\<lambda>_.
       daemon_request d K ''get'' (Some [(''channel'', channel)]))"

definition dc_set_relay :: "nat \<Rightarrow> 'k stream_socket \<Rightarrow> pyval \<Rightarrow> pyval \<Rightarrow> ('k RelayDaemonClient, pydict) sexc" where
  "dc_set_relay d K channel on =
     sbind (lift_result (dc_validate_channel channel)) (\<lambda>_.
       if \<not> is_bool on then sraise (RelayValidationError ''on must be a bool'')
       else daemon_request d K ''set'' (Some [(''channel'', channel), (''on'', on)]))"

definition dc_set_all_relays :: "nat \<Rightarrow> 'k stream_socket \<Rightarrow> pyval \<Rightarrow> ('k RelayDaemonClient, pydict) sexc" where
  "dc_set_all_relays d K st =
     sbind (lift_result (dc_validate_state_mask st)) (\<lambda>_.
       daemon_request d K ''set-all'' (Some [(''state'', st)]))"

definition dc_pulse_relay :: "nat \<Rightarrow> 'k stream_socket \<Rightarrow> pyval \<Rightarrow> pyval \<Rightarrow> ('k RelayDaemonClient, pydict) sexc" where
  "dc_pulse_relay d K channel duration_ms =
     sbind (lift_result (dc_validate_channel channel)) (\<lambda>_.
       sbind (lift_result (dc_validate_duration duration_ms)) (\<lambda>_.
         daemon_request d K ''pulse'' (Some [(''channel'', channel), (''duration_ms'', duration_ms)])))"

text \<open>The commands without arguments: identity, status and the others.\<close>

definition dc_command :: "nat \<Rightarrow> 'k stream_socket \<Rightarrow> string \<Rightarrow> ('k RelayDaemonClient, pydict) sexc" where
  "dc_command d K command = daemon_request d K command None"

definition dc_identity :: "nat \<Rightarrow> 'k stream_socket \<Rightarrow> ('k RelayDaemonClient, pydict) sexc" where
  "dc_identity d K = dc_command d K ''identity''"
definition dc_capabilities :: "nat \<Rightarrow> 'k stream_socket \<Rightarrow> ('k RelayDaemonClient, pydict) sexc" where
  "dc_capabilities d K = dc_command d K ''capabilities''"
definition dc_build_info :: "nat \<Rightarrow> 'k stream_socket \<Rightarrow> ('k RelayDaemonClient, pydict) sexc" where
  "dc_build_info d K = dc_command d K ''build-info''"
definition dc_get_all_relays :: "nat \<Rightarrow> 'k stream_socket \<Rightarrow> ('k RelayDaemonClient, pydict) sexc" where
  "dc_get_all_relays d K = dc_command d K ''get-all''"
definition dc_off_all_relays :: "nat \<Rightarrow> 'k stream_socket \<Rightarrow> ('k RelayDaemonClient, pydict) sexc" where
  "dc_off_all_relays d K = dc_command d K ''off-all''"
definition dc_status :: "nat \<Rightarrow> 'k stream_socket \<Rightarrow> ('k RelayDaemonClient, pydict) sexc" where
  "dc_status d K = dc_command d K ''status''"
definition dc_health :: "nat \<Rightarrow> 'k stream_socket \<Rightarrow> ('k RelayDaemonClient, pydict) sexc" where
  "dc_health d K = dc_command d K ''health''"
definition dc_transport_status :: "nat \<Rightarrow> 'k stream_socket \<Rightarrow> ('k RelayDaemonClient, pydict) sexc" where
  "dc_transport_status d K = dc_command d K ''transport''"
definition dc_safety :: "nat \<Rightarrow> 'k stream_socket \<Rightarrow> ('k RelayDaemonClient, pydict) sexc" where
  "dc_safety d K = dc_command d K ''safety''"
definition dc_watchdog :: "nat \<Rightarrow> 'k stream_socket \<Rightarrow> ('k RelayDaemonClient, pydict) sexc" where
  "dc_watchdog d K = dc_command d K ''watchdog''"
definition dc_reboot :: "nat \<Rightarrow> 'k stream_socket \<Rightarrow> ('k RelayDaemonClient, pydict) sexc" where
  "dc_reboot d K = dc_command d K ''reboot''"
definition dc_bootsel :: "nat \<Rightarrow> 'k stream_socket \<Rightarrow> ('k RelayDaemonClient, pydict) sexc" where
  "dc_bootsel d K = dc_command d K ''bootsel''"
definition dc_daemon_status :: "nat \<Rightarrow> 'k stream_socket \<Rightarrow> ('k RelayDaemonClient, pydict) sexc" where
  "dc_daemon_status d K = dc_command d K ''daemon-status''"

text \<open>The reader is closed first, and the socket even if that raises.\<close>

definition dc_close :: "('k, unit) sexc \<Rightarrow> 'k stream_socket \<Rightarrow> ('k RelayDaemonClient, unit) sexc" where
  "dc_close reader_close K = on_sock (sfinally reader_close (k_close K))"

section \<open>The daemon understands the client's frames\<close>

lemma newline_ws: "\<forall>c \<in> set newline. json_ws c"
  by (simp add: newline_def json_ws_def)

lemma commands_utf8: "command \<in> set COMMANDS \<Longrightarrow> utf8_valid command"
  by (auto simp: COMMANDS_def DEVICE_COMMANDS_def ascii_utf8_valid)

definition opt_args :: "pydict option \<Rightarrow> pydict" where
  "opt_args args = (case args of None \<Rightarrow> [] | Some a \<Rightarrow> a)"

text \<open>Arguments as a client may give them: JSON values nested at most two deep.\<close>

definition frame_args_ok :: "pydict option \<Rightarrow> bool" where
  "frame_args_ok args \<longleftrightarrow> json_clean (PDict (opt_args args)) \<and> json_depth (PDict (opt_args args)) \<le> 2"

lemma utf8_keys [simp]:
  "utf8_valid ''id''" "utf8_valid ''command''" "utf8_valid ''args''" "utf8_valid ''ok''"
  "utf8_valid ''result''" "utf8_valid ''error''" "utf8_valid ''kind''" "utf8_valid ''message''"
  "utf8_valid ''group''" "utf8_valid ''rc''" "utf8_valid ''channel''" "utf8_valid ''on''"
  "utf8_valid ''state''" "utf8_valid ''duration_ms''"
  by (simp_all add: ascii_utf8_valid)

lemma json_depth_mono_Suc: "json_depth v \<le> d \<Longrightarrow> json_depth v \<le> Suc d"
  by simp

lemma request_frame_clean:
  assumes "command \<in> set COMMANDS" "frame_args_ok args"
  shows "json_clean (PDict (request_frame n command args))"
    and "json_depth (PDict (request_frame n command args)) \<le> 3"
proof -
  from assms show "json_clean (PDict (request_frame n command args))"
    by (cases args) (auto simp: request_frame_def frame_args_ok_def opt_args_def commands_utf8)
  from assms(2) show "json_depth (PDict (request_frame n command args)) \<le> 3"
    unfolding json_depth_dict
    by (cases args) (auto simp: request_frame_def frame_args_ok_def opt_args_def
        simp del: json_depth.simps(2) intro: order_trans)
qed

lemma check_request_frame:
  assumes "command \<in> set COMMANDS" "args_spec command (opt_args args)"
  shows "check_request order (PDict (request_frame n command args)) =
    Inr \<lparr>rq_id = PInt n, rq_command = command, rq_args = opt_args args, rq_order = order\<rparr>"
  using assms unfolding check_request_Inr
  by (cases args) (auto simp: request_frame_def dget_def dget_or_def id_ok_def opt_args_def)

text \<open>The line the client writes, which the daemon reads back as the request itself.\<close>

lemma request_line_parsed:
  assumes "command \<in> set COMMANDS" "args_spec command (opt_args args)" "frame_args_ok args" "3 \<le> d"
  shows "\<exists>text. json_compact (PDict (request_frame n command args)) = Inr text
    \<and> char_of (10 :: nat) \<notin> set text
    \<and> parse_request_line d text order =
        Inr \<lparr>rq_id = PInt n, rq_command = command, rq_args = opt_args args, rq_order = order\<rparr>"
proof -
  let ?v = "PDict (request_frame n command args)"
  have depth: "json_depth ?v \<le> d"
    using request_frame_clean(2) [OF assms(1,3), of n] assms(4) by simp
  from json_compact_read_back [OF request_frame_clean(1) [OF assms(1,3)] depth] obtain t where
    t: "json_compact ?v = Inr t" "all_printable t"
    "\<forall>w. (\<forall>c \<in> set w. json_ws c) \<longrightarrow> rbind (py_decode (t @ w)) (json_loads d) = Inr ?v" by blast
  from t(3) have "rbind (py_decode t) (json_loads d) = Inr ?v" by (metis append_Nil2 empty_iff empty_set)
  then have "parse_request_line d t order = check_request order ?v"
    by (simp add: parse_request_line_def parse_payload_def)
  moreover have "char_of (10 :: nat) \<notin> set t" using t(2) by (auto simp: all_printable_def printable_def)
  ultimately show ?thesis using t(1) check_request_frame [OF assms(1,2)] by auto
qed

section \<open>The client understands the daemon's frames\<close>

text \<open>The exception a client sees for an exception of the daemon.\<close>

definition client_exc :: "exc \<Rightarrow> exc" where
  "client_exc e = (if is_RelayError e \<and> (\<forall>m. e \<noteq> RelayErrorBase m) then e
     else RelayTransportError (exc_str e))"

lemma raise_error_of_exception:
  assumes "\<forall>g rc. e \<noteq> RelayDeviceError g rc []"
  shows "\<exists>error. dget (error_response_for_exception rid e) ''error'' = PDict error
    \<and> raise_error error = client_exc e"
  using assms
  by (cases e) (auto simp: error_response_for_exception_def response_error_def dget_def raise_error_def
      client_exc_def dget_or_def py_int_def)

lemma error_response_clean:
  assumes "utf8_valid (exc_str e)"
  shows "json_clean (PDict (error_response_for_exception (PInt n) e))"
    and "json_depth (PDict (error_response_for_exception (PInt n) e)) \<le> 3"
proof -
  have k: "utf8_valid ''validation''" "utf8_valid ''timeout''" "utf8_valid ''transport''"
    "utf8_valid ''protocol''" "utf8_valid ''device''" "utf8_valid ''daemon''"
    by (simp_all add: ascii_utf8_valid)
  show "json_clean (PDict (error_response_for_exception (PInt n) e))"
    using assms k by (cases e) (simp_all add: error_response_for_exception_def response_error_def)
  show "json_depth (PDict (error_response_for_exception (PInt n) e)) \<le> 3"
    by (cases e) (simp_all add: error_response_for_exception_def response_error_def)
qed

lemma error_response_fields:
  "dget (error_response_for_exception rid e) ''id'' = rid"
  "dget (error_response_for_exception rid e) ''ok'' = PBool False"
  by (cases e; simp add: error_response_for_exception_def response_error_def dget_def)+

lemma decode_reply_line:
  assumes "json_clean (PDict response)" "json_depth (PDict response) \<le> d"
  shows "\<exists>raw. response_line response = Inr raw \<and> raw \<noteq> []
    \<and> rbind (py_decode raw) (json_loads d) = Inr (PDict response)"
  using json_compact_read_back [OF assms] newline_ws
  by (fastforce simp: response_line_def)

lemma decode_reply_error:
  assumes "utf8_valid (exc_str e)" "\<forall>g rc. e \<noteq> RelayDeviceError g rc []" "3 \<le> d"
  shows "\<exists>raw. response_line (error_response_for_exception (PInt n) e) = Inr raw
    \<and> decode_reply d n raw = Inl (client_exc e)"
proof -
  let ?r = "error_response_for_exception (PInt n) e"
  have depth: "json_depth (PDict ?r) \<le> d" using error_response_clean(2) [OF assms(1), of n] assms(3) by simp
  obtain raw where raw: "response_line ?r = Inr raw" "raw \<noteq> []"
    "rbind (py_decode raw) (json_loads d) = Inr (PDict ?r)"
    using decode_reply_line [OF error_response_clean(1) [OF assms(1)] depth] by blast
  obtain error where "dget ?r ''error'' = PDict error" "raise_error error = client_exc e"
    using raise_error_of_exception [OF assms(2)] by blast
  with raw have "decode_reply d n raw = Inl (client_exc e)"
    by (simp add: decode_reply_def error_response_fields py_simps)
  with raw(1) show ?thesis by blast
qed

lemma decode_reply_ok:
  assumes "json_clean (PDict r)" "json_depth (PDict r) < d"
  shows "\<exists>raw. response_line (response_ok (PInt n) r) = Inr raw \<and> decode_reply d n raw = Inr r"
proof -
  have c: "json_clean (PDict (response_ok (PInt n) r))" using assms(1) by (simp add: response_ok_def)
  have "json_depth (PDict r) \<le> d - 1" "0 < d" using assms(2) by auto
  then have depth: "json_depth (PDict (response_ok (PInt n) r)) \<le> d"
    unfolding json_depth_dict [of "response_ok _ _"] by (simp add: response_ok_def del: json_depth.simps(2))
  obtain raw where raw: "response_line (response_ok (PInt n) r) = Inr raw" "raw \<noteq> []"
    "rbind (py_decode raw) (json_loads d) = Inr (PDict (response_ok (PInt n) r))"
    using decode_reply_line [OF c depth] by blast
  then have "decode_reply d n raw = Inr r"
    by (simp add: decode_reply_def response_ok_def dget_def py_simps)
  with raw(1) show ?thesis by blast
qed

end
