(* ===== verification/Daemon_Socket.thy ===== *)
theory Daemon_Socket
  imports Daemon_Steps Daemon_Client
begin

text \<open>
  The socket side of the daemon: \<open>_accept_client\<close>, \<open>_read_client\<close>, \<open>_close_client\<close> and
  \<open>_send_response\<close> of RelayDaemon, and its two queues between the acceptor, the parser and the
  worker. A connection is a number; the selector's map from a connection to its buffer is
  \<open>so_data\<close>. Two records are kept that the code does not have: \<open>so_sent\<close>, the responses with the
  order of the line they answer, and \<open>so_accepted\<close>, the lines that were given an order.
\<close>

section \<open>The acceptor\<close>

definition MAX_FRAME_BYTES :: nat where [simp]: "MAX_FRAME_BYTES = 4096"

record socket_state =
  so_data :: "nat \<Rightarrow> string option"
  so_order :: int
  so_pending :: "(nat \<times> string \<times> int) list"
  so_sent :: "(nat \<times> int option \<times> string) list"
  so_accepted :: "(nat \<times> string \<times> int) list"

definition new_socket_state :: socket_state where
  "new_socket_state = \<lparr>so_data = (\<lambda>_. None), so_order = 0, so_pending = [], so_sent = [], so_accepted = []\<rparr>"

definition accept_client :: "nat result \<Rightarrow> (socket_state, unit) sexc" where
  "accept_client accepted = (\<lambda>s.
     case accepted of
       Inl e \<Rightarrow> (if is_OSError e then Inr () else Inl e, s)
     | Inr conn \<Rightarrow> (Inr (), s\<lparr>so_data := (so_data s)(conn \<mapsto> [])\<rparr>))"

definition close_conn :: "nat \<Rightarrow> socket_state \<Rightarrow> socket_state" where
  "close_conn conn s = s\<lparr>so_data := (so_data s)(conn := None)\<rparr>"

text \<open>A response that cannot be delivered is lost; the record is of what was handed over.\<close>

definition send_line :: "nat \<Rightarrow> int option \<Rightarrow> string \<Rightarrow> socket_state \<Rightarrow> socket_state" where
  "send_line conn order line s = s\<lparr>so_sent := so_sent s @ [(conn, order, line)]\<rparr>"

definition send_response :: "nat \<Rightarrow> int option \<Rightarrow> pydict \<Rightarrow> (socket_state, unit) sexc" where
  "send_response conn order response = (\<lambda>s.
     case response_line response of
       Inl e \<Rightarrow> (Inl e, s)
     | Inr line \<Rightarrow> (Inr (), send_line conn order line s))"

definition too_long :: pydict where
  "too_long = response_error PNone ''protocol'' ''request line exceeds 4096 bytes'' None None"

abbreviation nl :: char where "nl \<equiv> char_of (10 :: nat)"

text \<open>\<open>buffer.partition(b"\\n")\<close>: the bytes before the first line break, and after it.\<close>

definition line_head :: "string \<Rightarrow> string" where
  "line_head buf = takeWhile (\<lambda>c. c \<noteq> nl) buf"

definition line_rest :: "string \<Rightarrow> string" where
  "line_rest buf = tl (dropWhile (\<lambda>c. c \<noteq> nl) buf)"

lemma length_line_rest: "nl \<in> set buf \<Longrightarrow> length (line_rest buf) < length buf"
  by (induction buf) (auto simp: line_rest_def)

text \<open>The loop over the complete lines of the buffer; its result is the buffer that is left.\<close>

definition take_line :: "nat \<Rightarrow> string \<Rightarrow> (socket_state, unit) sexc" where
  "take_line conn raw = (\<lambda>s.
     (let s1 = s\<lparr>so_order := so_order s + 1, so_accepted := so_accepted s @ [(conn, raw, so_order s + 1)]\<rparr> in
      if MAX_FRAME_BYTES < length raw then send_response conn (Some (so_order s1)) too_long s1
      else (Inr (), s1\<lparr>so_pending := so_pending s1 @ [(conn, raw, so_order s1)]\<rparr>)))"

function (sequential) drain_lines :: "nat \<Rightarrow> string \<Rightarrow> (socket_state, string) sexc" where
  "drain_lines conn buf =
     (if nl \<in> set buf
      then sbind (take_line conn (line_head buf)) (\<lambda>_. drain_lines conn (line_rest buf))
      else sret buf)"
  by pat_completeness auto

termination
  by (relation "measure (\<lambda>(conn, buf). length buf)") (simp_all add: length_line_rest)

declare drain_lines.simps [simp del]

definition read_client :: "nat \<Rightarrow> string result \<Rightarrow> (socket_state, unit) sexc" where
  "read_client conn received = (\<lambda>s.
     case received of
       Inl e \<Rightarrow> if is_OSError e then (Inr (), close_conn conn s) else (Inl e, s)
     | Inr chunk \<Rightarrow>
         if chunk = [] then (Inr (), close_conn conn s)
         else (case so_data s conn of
                 None \<Rightarrow> (Inl (PyExc ''KeyError'' []), s)
               | Some buffer \<Rightarrow>
                   sbind (drain_lines conn (buffer @ chunk)) (\<lambda>left.
                     \<lambda>s1. let s2 = s1\<lparr>so_data := (so_data s1)(conn \<mapsto> left)\<rparr> in
                       if MAX_FRAME_BYTES < length left
                       then sbind (send_response conn None too_long) (\<lambda>_ s3. (Inr (), close_conn conn s3)) s2
                       else (Inr (), s2)) s))"

section \<open>Lines of a stream\<close>

text \<open>The reference: the lines of a byte stream, and what follows its last line break.\<close>

fun split_lines :: "string \<Rightarrow> string list \<times> string" where
  "split_lines [] = ([], [])"
| "split_lines (c # s) =
     (case split_lines s of
        (ls, t) \<Rightarrow> if c = nl then ([] # ls, t)
                   else (case ls of [] \<Rightarrow> ([], c # t) | l # ls' \<Rightarrow> ((c # l) # ls', t)))"

fun numbered :: "nat \<Rightarrow> int \<Rightarrow> string list \<Rightarrow> (nat \<times> string \<times> int) list" where
  "numbered conn n [] = []"
| "numbered conn n (l # ls) = (conn, l, n + 1) # numbered conn (n + 1) ls"

lemma split_lines_unfold:
  "split_lines buf =
     (if nl \<in> set buf
      then (line_head buf # fst (split_lines (line_rest buf)), snd (split_lines (line_rest buf)))
      else ([], buf))"
  by (induction buf) (auto simp: line_head_def line_rest_def split: prod.splits list.splits)

lemma split_lines_append:
  "split_lines (a @ b) =
     (fst (split_lines a) @ fst (split_lines (snd (split_lines a) @ b)),
      snd (split_lines (snd (split_lines a) @ b)))"
  by (induction a) (auto split: prod.splits list.splits simp: Cons_eq_append_conv)

definition short :: "string \<Rightarrow> bool" where
  "short l \<longleftrightarrow> length l \<le> MAX_FRAME_BYTES"

lemma error_response_sent: "id_ok rid \<or> rid = PNone \<Longrightarrow> \<exists>t. response_line (error_response_for_exception rid e) = Inr t"
  by (cases e; cases rid)
    (auto simp: response_line_def error_response_for_exception_def response_error_def json_compact_def
      json_dumps_def id_ok_def)

lemma too_long_sent:
  "\<exists>t. response_line too_long = Inr t \<and> send_response conn k too_long s = (Inr (), send_line conn k t s)"
proof -
  let ?e = "RelayProtocolError ''request line exceeds 4096 bytes''"
  obtain t where "response_line (error_response_for_exception PNone ?e) = Inr t"
    using error_response_sent [of PNone] by blast
  moreover have "too_long = error_response_for_exception PNone ?e"
    by (simp add: too_long_def error_response_for_exception_def)
  ultimately have "response_line too_long = Inr t" by (simp only:)
  then show ?thesis by (intro exI [of _ t]) (simp add: send_response_def)
qed

lemma take_line_short:
  "short l \<Longrightarrow> take_line conn l s =
    (Inr (), s\<lparr>so_order := so_order s + 1, so_pending := so_pending s @ [(conn, l, so_order s + 1)],
       so_accepted := so_accepted s @ [(conn, l, so_order s + 1)]\<rparr>)"
  by (simp add: take_line_def short_def Let_def)

lemma take_line_long:
  "\<not> short l \<Longrightarrow> \<exists>t. response_line too_long = Inr t \<and> take_line conn l s =
    (Inr (), send_line conn (Some (so_order s + 1)) t (s\<lparr>so_order := so_order s + 1,
       so_accepted := so_accepted s @ [(conn, l, so_order s + 1)]\<rparr>))"
  using too_long_sent by (simp add: take_line_def short_def Let_def)

lemma drain_lines_short:
  "\<forall>l \<in> set (fst (split_lines buf)). short l \<Longrightarrow>
   drain_lines conn buf s =
     (Inr (snd (split_lines buf)),
      s\<lparr>so_order := so_order s + int (length (fst (split_lines buf))),
        so_pending := so_pending s @ numbered conn (so_order s) (fst (split_lines buf)),
        so_accepted := so_accepted s @ numbered conn (so_order s) (fst (split_lines buf))\<rparr>)"
proof (induction conn buf arbitrary: s rule: drain_lines.induct)
  case (1 conn buf)
  show ?case
  proof (cases "nl \<in> set buf")
    case True
    with 1(2) have l: "short (line_head buf)"
      and r: "\<forall>l \<in> set (fst (split_lines (line_rest buf))). short l"
      by (auto simp: split_lines_unfold [of buf])
    from 1(1) [OF True r] l True show ?thesis
      by (simp add: drain_lines.simps [of conn buf] split_lines_unfold [of buf] sbind_def take_line_short)
  next
    case False
    then show ?thesis by (simp add: drain_lines.simps [of conn buf] split_lines_unfold [of buf] sret_def)
  qed
qed

section \<open>Connections do not interfere\<close>

definition conn_view :: "nat \<Rightarrow> socket_state \<Rightarrow> string option \<times> string list \<times> string list \<times> string list" where
  "conn_view conn s =
     (so_data s conn,
      map (\<lambda>(c, l, n). l) (filter (\<lambda>(c, l, n). c = conn) (so_pending s)),
      map (\<lambda>(c, l, n). l) (filter (\<lambda>(c, l, n). c = conn) (so_accepted s)),
      map (\<lambda>(c, k, t). t) (filter (\<lambda>(c, k, t). c = conn) (so_sent s)))"

lemma send_response_view [keeps_intros]:
  "c \<noteq> conn \<Longrightarrow> keeps (\<lambda>s. conn_view conn s = v) (send_response c k r)"
  by (auto simp: keeps_def send_response_def send_line_def conn_view_def split: sum.splits)

lemma take_line_view:
  assumes "c \<noteq> conn"
  shows "keeps (\<lambda>s. conn_view conn s = v) (take_line c l)"
proof (cases "short l")
  case True
  then show ?thesis using assms by (auto simp: keeps_def take_line_short conn_view_def)
next
  case False
  show ?thesis
  proof (rule keepsI)
    fix s r s'
    assume v: "conn_view conn s = v" and t: "take_line c l s = (r, s')"
    from take_line_long [OF False, of c s] t obtain k t' where
      "s' = send_line c k t' (s\<lparr>so_order := so_order s + 1, so_accepted := so_accepted s @ [(c, l, so_order s + 1)]\<rparr>)"
      by auto
    with v assms show "conn_view conn s' = v" by (simp add: send_line_def conn_view_def)
  qed
qed

lemma drain_lines_view:
  assumes "c \<noteq> conn"
  shows "keeps (\<lambda>s. conn_view conn s = v) (drain_lines c buf)"
  using assms
proof (induction c buf rule: drain_lines.induct)
  case (1 c buf)
  then show ?case
    by (subst drain_lines.simps) (auto intro!: keeps_intros take_line_view)
qed

lemma read_client_view:
  assumes "c \<noteq> conn" "read_client c received s = (r, s')"
  shows "conn_view conn s' = conn_view conn s"
proof -
  have upd: "conn_view conn (s\<lparr>so_data := (so_data s)(c := x)\<rparr>) = conn_view conn s" for s x
    using assms(1) by (simp add: conn_view_def)
  have d: "conn_view conn s1 = conn_view conn s" if "drain_lines c buf s = (r1, s1)" for buf r1 s1
    using keepsD [OF drain_lines_view [OF assms(1), of "conn_view conn s"] that] by simp
  have t: "conn_view conn s2 = conn_view conn s1" if "send_response c k too_long s1 = (r1, s2)" for k s1 r1 s2
    using keepsD [OF send_response_view [OF assms(1), of "conn_view conn s1"] that] by simp
  from assms(2) show ?thesis
    by (auto simp: read_client_def close_conn_def Let_def upd d split: sum.splits if_splits option.splits
        elim!: sbind_cases dest!: t)
qed

section \<open>A stream in chunks\<close>

fun read_all :: "(nat \<times> string) list \<Rightarrow> socket_state \<Rightarrow> socket_state" where
  "read_all [] s = s"
| "read_all ((conn, chunk) # evs) s = read_all evs (snd (read_client conn (Inr chunk) s))"

definition stream_of :: "nat \<Rightarrow> (nat \<times> string) list \<Rightarrow> string" where
  "stream_of conn evs = concat (map snd (filter (\<lambda>(c, ch). c = conn) evs))"

definition short_lines :: "string \<Rightarrow> bool" where
  "short_lines s \<longleftrightarrow> (\<forall>l \<in> set (fst (split_lines s)). short l) \<and> short (snd (split_lines s))"

lemma split_lines_no_nl: "nl \<notin> set (snd (split_lines s))"
  by (induction s) (auto split: prod.splits list.splits)

lemma split_lines_self: "nl \<notin> set b \<Longrightarrow> split_lines b = ([], b)"
  by (simp add: split_lines_unfold [of b])

lemma split_lines_tail_append:
  assumes "nl \<notin> set t"
  shows "\<exists>x. case fst (split_lines (t @ b)) of [] \<Rightarrow> snd (split_lines (t @ b)) = t @ x
     | l # ls \<Rightarrow> l = t @ x"
  using assms
proof (induction t)
  case Nil
  then show ?case by (cases "fst (split_lines b)") simp_all
next
  case (Cons c t)
  then show ?case by (auto split: prod.splits list.splits)
qed

lemma short_lines_prefix:
  assumes "short_lines (a @ b)"
  shows "short_lines a"
proof -
  let ?t = "snd (split_lines a)"
  have "short ?t"
    using split_lines_tail_append [OF split_lines_no_nl, of a b] assms
    by (cases "fst (split_lines (?t @ b))")
      (auto simp: short_lines_def short_def split_lines_append [of a b])
  with assms show ?thesis by (auto simp: short_lines_def split_lines_append [of a b])
qed

lemma numbered_lines:
  "map (\<lambda>(c, l, n). l) (filter (\<lambda>(c, l, n). c = conn) (numbered conn n ls)) = ls"
  by (induction ls arbitrary: n) auto

lemma read_client_short:
  assumes "so_data s conn = Some b" "nl \<notin> set b" "chunk \<noteq> []" "short_lines (b @ chunk)"
    "conn_view conn s = (Some b, ps, as, ts)"
  shows "conn_view conn (snd (read_client conn (Inr chunk) s)) =
    (Some (snd (split_lines (b @ chunk))), ps @ fst (split_lines (b @ chunk)),
     as @ fst (split_lines (b @ chunk)), ts)"
  using assms drain_lines_short [of "b @ chunk" conn s]
  by (auto simp: read_client_def sbind_def short_lines_def short_def conn_view_def Let_def numbered_lines)

lemma read_all_stream:
  assumes "conn_view conn s = (Some b, ps, as, ts)" "nl \<notin> set b"
    and "short_lines (b @ stream_of conn evs)" "\<forall>(c, ch) \<in> set evs. ch \<noteq> []"
  shows "conn_view conn (read_all evs s) =
    (Some (snd (split_lines (b @ stream_of conn evs))), ps @ fst (split_lines (b @ stream_of conn evs)),
     as @ fst (split_lines (b @ stream_of conn evs)), ts)"
  using assms
proof (induction evs arbitrary: s b ps as)
  case Nil
  then show ?case by (simp add: stream_of_def split_lines_self)
next
  case (Cons ev evs)
  obtain c chunk where ev: "ev = (c, chunk)" by force
  let ?s = "snd (read_client c (Inr chunk) s)"
  show ?case
  proof (cases "c = conn")
    case True
    let ?b = "snd (split_lines (b @ chunk))" and ?ls = "fst (split_lines (b @ chunk))"
    have bytes: "b @ stream_of conn (ev # evs) = (b @ chunk) @ stream_of conn evs"
      using True by (simp add: stream_of_def ev)
    have sp: "split_lines (b @ stream_of conn (ev # evs)) =
      (?ls @ fst (split_lines (?b @ stream_of conn evs)), snd (split_lines (?b @ stream_of conn evs)))"
      unfolding bytes by (rule split_lines_append)
    have s: "short_lines (b @ chunk)" using Cons.prems(3) unfolding bytes by (rule short_lines_prefix)
    have d: "so_data s conn = Some b" using Cons.prems(1) by (simp add: conn_view_def)
    from read_client_short [OF d Cons.prems(2) _ s Cons.prems(1)] Cons.prems(4)
    have v: "conn_view conn ?s = (Some ?b, ps @ ?ls, as @ ?ls, ts)" by (simp add: ev True)
    have s': "short_lines (?b @ stream_of conn evs)"
      using Cons.prems(3) by (auto simp: short_lines_def sp)
    from Cons.IH [OF v split_lines_no_nl s'] Cons.prems(4) show ?thesis
      unfolding sp by (simp add: ev)
  next
    case False
    then have "stream_of conn (ev # evs) = stream_of conn evs" by (simp add: stream_of_def ev)
    moreover have "conn_view conn ?s = conn_view conn s"
      by (rule read_client_view [OF False prod.collapse [symmetric]])
    ultimately show ?thesis using Cons.IH [of ?s b ps as] Cons.prems by (simp add: ev)
  qed
qed

end
