(* ===== verification/Daemon_Link.thy ===== *)
theory Daemon_Link
  imports Daemon_Steps Daemon_Client
begin

text \<open>
  The properties of the daemon: its link to the board as an abstract machine that the turns
  of its threads refine, when a client is adopted, what a request and a heartbeat do, what
  shutting down leaves, and the daemon and its socket client composed.
\<close>

section \<open>The link\<close>

datatype link = Offline | Online string | Rebooting rat

definition link_of :: "'c daemon \<Rightarrow> link" where
  "link_of s =
     (case d_current_port s of
        Some p \<Rightarrow> Online p
      | None \<Rightarrow> (case d_reboot_started_at s of Some t \<Rightarrow> Rebooting t | None \<Rightarrow> Offline))"

datatype cause = By_Request | By_Heartbeat | By_Timer | By_Signal

text \<open>
  The abstract machine: a request or a failed heartbeat may lose the link, a reboot command
  starts a recovery, and only the reconnection timer brings the link up, after a reboot not
  before its minimal recovery time. A recovery never turns into a plain loss of the link.
\<close>

inductive link_step :: "cause \<Rightarrow> rat \<Rightarrow> link \<Rightarrow> link \<Rightarrow> bool" where
  stay: "link_step k now l l"
| lose: "k = By_Request \<or> k = By_Heartbeat \<Longrightarrow> link_step k now (Online p) Offline"
| reboot: "link_step By_Request now (Online p) (Rebooting now)"
| connect: "link_step By_Timer now Offline (Online p)"
| resume: "t + REBOOT_RECOVERY_MIN_S \<le> now \<Longrightarrow> link_step By_Timer now (Rebooting t) (Online p)"

inductive_cases link_step_Online: "link_step k now l (Online p)"

fun turn_cause :: "'c turn \<Rightarrow> cause" where
  "turn_cause (Request_Turn env q) = By_Request"
| "turn_cause Heartbeat_Turn = By_Heartbeat"
| "turn_cause (Reconnect_Turn env) = By_Timer"
| "turn_cause Signal_Turn = By_Signal"

fun turn_now :: "'c turn \<Rightarrow> rat" where
  "turn_now (Request_Turn env q) = monotonic env"
| "turn_now (Reconnect_Turn env) = monotonic env"
| "turn_now a = 0"

lemma link_connected:
  assumes "daemon_inv s"
  shows "d_connected s \<longleftrightarrow> (\<exists>p. link_of s = Online p)"
  using assms by (auto simp: link_of_def inv_loan_def daemon_shape_def split: option.splits)

lemma link_same: "d_current_port s' = d_current_port s \<Longrightarrow>
    d_reboot_started_at s' = d_reboot_started_at s \<Longrightarrow> link_of s' = link_of s"
  by (auto simp: link_of_def split: option.splits)

lemma link_disconnected: "link_of (mark_disconnected C m b s) = Offline"
  by (simp add: link_of_def mark_disconnected_run)

lemma link_adopt: "link_of (snd (adopt_probe C pb s)) = Online (pb_port pb)"
  by (simp add: link_of_def adopt_probe_run)

lemma connected_port:
  assumes "daemon_inv s" "d_connected s"
  obtains p where "d_current_port s = Some p" "link_of s = Online p"
  using assms by (auto simp: link_of_def inv_loan_def daemon_shape_def)

lemma guard_link:
  assumes "daemon_inv s" "d_connected s" "transport_guard C (on_client m c) s = (r, s')"
  shows "link_of s' = link_of s \<or> link_of s' = Offline"
  using assms(3)
  by (cases rule: transport_guard_cases) (auto simp: link_disconnected intro!: disjI1 link_same)

lemma handle_request_link:
  assumes "daemon_inv s" "handle_request C cfg v env q s = (r, s')"
  shows "link_step By_Request (monotonic env) (link_of s) (link_of s')"
  using assms(2,1)
proof (cases rule: handle_request_cases)
  case (Reboot_Err c e)
  obtain p where "link_of s = Online p" using connected_port [OF assms(1) Reboot_Err(1)] by blast
  with guard_link [OF assms(1) Reboot_Err(1,4)] show ?thesis by (auto intro: link_step.intros)
next
  case (Reboot c pre result c1)
  obtain p where "link_of s = Online p" using connected_port [OF assms(1) Reboot(1)] by blast
  then show ?thesis
    unfolding Reboot(6)
    by (simp only:) (simp add: link_of_def enter_reboot_recovery_run link_step.reboot)
next
  case (Bootsel c pre result c1)
  obtain p where "link_of s = Online p" using connected_port [OF assms(1) Bootsel(1)] by blast
  then show ?thesis
    unfolding Bootsel(6) by (auto simp: link_disconnected intro: link_step.intros)
next
  case (Command c)
  obtain p where "link_of s = Online p" using connected_port [OF assms(1) Command(1)] by blast
  with guard_link [OF assms(1) Command(1,4)] show ?thesis by (auto intro: link_step.intros)
qed (auto intro: link_step.intros)

lemma heartbeat_link:
  assumes "daemon_inv s" "heartbeat_once C s = (r, s')"
  shows "link_step By_Heartbeat now (link_of s) (link_of s')"
  using assms(2,1)
proof (cases rule: heartbeat_once_cases)
  case (Ok c x c')
  then have "link_of s' = link_of s" by (intro link_same) auto
  then show ?thesis by (auto intro: link_step.intros)
next
  case (Lost c e c')
  obtain p where "link_of s = Online p" using connected_port [OF assms(1) Lost(2)] by blast
  with Lost(6) show ?thesis
    by (auto simp: link_disconnected intro: link_step.intros)
next
  case (Dead c e c')
  then have "link_of s' = link_of s" by (intro link_same) auto
  then show ?thesis by (auto intro: link_step.intros)
qed (auto intro: link_step.intros)

lemma offline_link: "offline_inv k s \<Longrightarrow> link_of s = (case d_reboot_started_at s of Some t \<Rightarrow> Rebooting t | None \<Rightarrow> Offline)"
  by (auto simp: offline_inv_def inv_loan_def daemon_shape_def link_of_def split: option.splits)

lemma adopts_link: "adopts C env port s pb s' \<Longrightarrow> link_of s' = Online (pb_port pb)"
  by (auto simp: adopts_def link_adopt)

lemma record_failure_fields:
  "d_reboot_started_at s = None \<Longrightarrow> d_reboot_started_at (record_failure C b m s) = None"
  by (simp add: record_failure_def record_reboot_reconnect_failure_def mark_disconnected_run)

lemma candidate_port_fields:
  "reconnect_candidate_port C cfg env b s = (r, s') \<Longrightarrow> d_reboot_started_at s = None \<Longrightarrow>
   d_reboot_started_at s' = None"
  by (auto simp: reconnect_candidate_port_def record_failure_fields fail_reconnect_def
      split: sum.splits if_splits)

lemma reconnect_probe_fields:
  assumes "reconnect_probe C env port b s = (r, s')" "d_reboot_started_at s = None"
  shows "d_reboot_started_at s' = None"
  using assms(1)
proof (cases rule: reconnect_probe_cases)
  case (1 p)
  with probe_ready_recovery [OF 1(1)] assms(2) show ?thesis by (simp add: same_recovery_def)
next
  case (2 e s1)
  have "d_reboot_started_at s1 = None"
    using probe_ready_recovery [OF 2(1)] assms(2) by (simp add: same_recovery_def)
  then show ?thesis using 2(3) by (auto simp: record_failure_fields fail_reconnect_def)
qed

lemma reconnect_once_fields:
  assumes "reconnect_once C cfg env s = (r, s')" "d_reboot_started_at s = None"
  shows "d_reboot_started_at s' = None"
  using assms(1) unfolding reconnect_once_def
proof (cases rule: sbind_cases)
  case (1 e)
  then show ?thesis using candidate_port_fields assms(2) by blast
next
  case (2 q s1)
  note s1 = candidate_port_fields [OF 2(1) assms(2)]
  show ?thesis
  proof (cases q)
    case None
    with 2(2) s1 show ?thesis by (simp add: sret_def)
  next
    case (Some p)
    with 2(2) have "sbind (reconnect_probe C env p False) (case_option (sret ()) (adopt_probe C)) s1 = (r, s')"
      by simp
    then show ?thesis
    proof (cases rule: sbind_cases)
      case (1 e)
      then show ?thesis using reconnect_probe_fields s1 by blast
    next
      case (2 pb s2)
      from reconnect_probe_fields [OF 2(1) s1] 2(2) show ?thesis
      proof (cases pb)
        case (Some pr)
        with 2(2) have "s' = snd (adopt_probe C pr s2)" by simp
        then show ?thesis by (simp add: adopt_probe_run)
      qed (simp add: sret_def)
    qed
  qed
qed

lemma reconnect_step_link:
  assumes "daemon_inv s" "reconnect_step C cfg env s = (r, s')"
  shows "link_step By_Timer (monotonic env) (link_of s) (link_of s')"
proof (cases "d_connected s")
  case True
  with assms show ?thesis by (auto simp: reconnect_step_def intro: link_step.intros)
next
  case False
  then have o: "offline_inv 0 s" using assms(1) by (simp add: offline_inv_def)
  show ?thesis
  proof (cases "d_reboot_started_at s")
    case None
    then have "\<not> d_reboot_recovery s" using assms(1) by (auto simp: inv_loan_def daemon_shape_def)
    with assms(2) False have run: "reconnect_once C cfg env s = (r, s')" by (simp add: reconnect_step_def)
    have off: "link_of s = Offline" using offline_link [OF o] None by simp
    from reconnect_once_outcome [OF o run] show ?thesis
    proof (elim disjE exE conjE)
      assume "offline_inv 0 s'"
      then have "link_of s' = Offline"
        using offline_link [of 0 s'] reconnect_once_fields [OF run None] by simp
      then show ?thesis by (auto simp: off intro: link_step.intros)
    next
      fix prt pb assume "adopts C env prt s pb s'"
      then show ?thesis by (auto simp: off adopts_link intro: link_step.intros)
    qed
  next
    case (Some t)
    then have "d_reboot_recovery s" using assms(1) by (auto simp: inv_loan_def daemon_shape_def)
    with assms(2) False have "reconnect_after_reboot_once C cfg env s = (r, s')"
      by (simp add: reconnect_step_def)
    from reconnect_after_reboot_once_outcome [OF o Some this] offline_link [OF o] Some
    show ?thesis
    proof (elim disjE exE conjE)
      assume "offline_inv 0 s'" "same_recovery s s'"
      then have "link_of s' = link_of s" using offline_link [OF o] offline_link [of 0 s']
        by (simp add: same_recovery_def)
      then show ?thesis by (auto intro: link_step.intros)
    next
      fix port pb assume "REBOOT_RECOVERY_MIN_S \<le> monotonic env - t"
        "adopts C env port (note_instance (usb_instance_id env port) s) pb s'"
      then show ?thesis using offline_link [OF o] Some
        by (auto simp: adopts_link intro!: link_step.resume)
    qed
  qed
qed

section \<open>Adoption\<close>

definition ready_identity :: "pydict \<Rightarrow> bool" where
  "ready_identity idn \<longleftrightarrow> py_eq_int (dget idn ''protocol_version'') PROTOCOL_VERSION
     \<and> py_eq_int (dget idn ''command_model_version'') COMMAND_MODEL_VERSION
     \<and> (dget idn ''relay_count'' = PNone \<or> py_eq_int (dget idn ''relay_count'') RELAY_COUNT)
     \<and> (\<forall>h. dget idn ''hardware'' = PStr h \<longrightarrow> h = HARDWARE_NAME)"

lemma validate_readiness_identity_Inr: "validate_readiness_identity idn = Inr u \<longleftrightarrow> ready_identity idn"
  by (auto simp: validate_readiness_identity_def ready_identity_def split: pyval.splits)

lemma readiness_Inr:
  "readiness C c = (Inr st, c') \<longleftrightarrow>
   (\<exists>idn c1. o_identity C c = (Inr idn, c1) \<and> ready_identity idn \<and> o_status C c1 = (Inr st, c'))"
  by (auto simp: readiness_def sbind_Inr lift_result_def validate_readiness_identity_Inr)

lemma adopts_ready:
  assumes "adopts C env port s pb s'"
  shows "\<exists>c. client_factory env port = Inr c \<and> readiness C c = (Inr (pb_status pb), pb_client pb)
    \<and> d_client s' = Some (pb_client pb) \<and> d_current_port s' = Some port"
proof -
  obtain s1 where p: "probe_ready C env port s = (Inr pb, s1)" "snd (adopt_probe C pb s1) = s'"
    using assms by (auto simp: adopts_def)
  from p(1) show ?thesis
    by (cases rule: probe_ready_cases) (use p(2) in \<open>auto simp: adopt_probe_run\<close>)
qed

lemma reconnect_adopts:
  assumes "daemon_inv s" "\<not> d_connected s" "reconnect_step C cfg env s = (r, s')" "d_connected s'"
  shows "\<exists>port pb sn. selected_port cfg env = Inr port \<and> adopts C env port sn pb s'
    \<and> (case d_reboot_started_at s of
         None \<Rightarrow> True
       | Some t \<Rightarrow> t + REBOOT_RECOVERY_MIN_S \<le> monotonic env
           \<and> \<not> old_instance_present (usb_instance_id env port) (note_instance (usb_instance_id env port) s)
           \<and> is_reboot_reconnect_fresh (case d_reboot_pre_status s of None \<Rightarrow> [] | Some p \<Rightarrow> p) (pb_status pb))"
proof -
  have o: "offline_inv 0 s" using assms(1,2) by (simp add: offline_inv_def)
  show ?thesis
  proof (cases "d_reboot_started_at s")
    case None
    then have "\<not> d_reboot_recovery s" using assms(1) by (auto simp: inv_loan_def daemon_shape_def)
    with assms(2,3) have "reconnect_once C cfg env s = (r, s')" by (simp add: reconnect_step_def)
    from reconnect_once_outcome [OF o this] None assms(4) show ?thesis by (auto simp: offline_inv_def)
  next
    case (Some t)
    then have "d_reboot_recovery s" using assms(1) by (auto simp: inv_loan_def daemon_shape_def)
    with assms(2,3) have "reconnect_after_reboot_once C cfg env s = (r, s')"
      by (simp add: reconnect_step_def)
    from reconnect_after_reboot_once_outcome [OF o Some this] Some assms(4) show ?thesis
      by (fastforce simp: offline_inv_def)
  qed
qed

section \<open>Making progress\<close>

lemma probe_ready_ok:
  assumes "client_factory env prt = Inr c" "readiness C c = (Inr st, c')"
  shows "probe_ready C env prt s =
    (Inr \<lparr>pb_client = c', pb_port = prt, pb_status = st\<rparr>, s\<lparr>d_opened := Suc (d_opened s)\<rparr>)"
  using assms by (simp add: probe_ready_def Let_def)

lemma reconnect_probe_ok:
  assumes "client_factory env prt = Inr c" "readiness C c = (Inr st, c')"
  shows "reconnect_probe C env prt b s =
    (Inr (Some \<lparr>pb_client = c', pb_port = prt, pb_status = st\<rparr>), s\<lparr>d_opened := Suc (d_opened s)\<rparr>)"
  by (simp add: reconnect_probe_def scatch_def sbind_def sret_def probe_ready_ok [OF assms])

lemma adopt_probe_none:
  "d_client s = None \<Longrightarrow> adopt_probe C pb s = (Inr (), snd (adopt_probe C pb s))"
  by (simp add: adopt_probe_def Let_def)

lemma reconnect_step_progress:
  assumes inv: "daemon_inv s" and off: "\<not> d_connected s"
    and p: "selected_port cfg env = Inr prt" and c: "client_factory env prt = Inr c"
      "readiness C c = (Inr st, c')"
    and reboot: "\<And>t. d_reboot_started_at s = Some t \<Longrightarrow> t + REBOOT_RECOVERY_MIN_S \<le> monotonic env
      \<and> \<not> old_instance_present (usb_instance_id env prt) (note_instance (usb_instance_id env prt) s)
      \<and> is_reboot_reconnect_fresh (case d_reboot_pre_status s of None \<Rightarrow> [] | Some q \<Rightarrow> q) st"
  shows "\<exists>s'. reconnect_step C cfg env s = (Inr (), s') \<and> d_client s' = Some c'
    \<and> d_current_port s' = Some prt \<and> link_of s' = Online prt"
proof -
  let ?pb = "\<lparr>pb_client = c', pb_port = prt, pb_status = st\<rparr>"
  have none: "d_client s = None" using inv off by (auto simp: inv_loan_def daemon_shape_def)
  show ?thesis
  proof (cases "d_reboot_started_at s")
    case None
    then have "\<not> d_reboot_recovery s" using inv by (auto simp: inv_loan_def daemon_shape_def)
    then have "reconnect_step C cfg env s = adopt_probe C ?pb (s\<lparr>d_opened := Suc (d_opened s)\<rparr>)"
      using off p by (simp add: reconnect_step_def reconnect_once_def sbind_def
          reconnect_candidate_port_def reconnect_probe_ok [OF c])
    then show ?thesis
      using adopt_probe_none [of "s\<lparr>d_opened := Suc (d_opened s)\<rparr>" C ?pb] none
      by (auto simp: adopt_probe_run link_of_def)
  next
    case (Some t)
    then have rec: "d_reboot_recovery s" using inv by (auto simp: inv_loan_def daemon_shape_def)
    let ?n = "note_instance (usb_instance_id env prt) s"
    let ?s1 = "?n\<lparr>d_opened := Suc (d_opened ?n)\<rparr>"
    have n: "d_reboot_pre_status ?n = d_reboot_pre_status s" "d_client ?n = None"
      using none by (simp_all add: note_instance_def)
    have "reconnect_step C cfg env s = adopt_probe C ?pb ?s1"
      using off rec Some p reboot [OF Some] n
      by (simp add: reconnect_step_def reconnect_after_reboot_once_def sbind_def Let_def
          reconnect_candidate_port_def probe_after_reboot_def reconnect_probe_ok [OF c])
    then show ?thesis
      using adopt_probe_none [of ?s1 C ?pb] n by (auto simp: adopt_probe_run link_of_def)
  qed
qed

section \<open>The daemon behind its socket\<close>

text \<open>
  A socket whose peer is the daemon: a line sent goes through the parser's and the worker's turn,
  and the answer is the next line to read.
\<close>

definition serve_line ::
    "nat \<Rightarrow> 'c relay_ops \<Rightarrow> DaemonConfig \<Rightarrow> string \<Rightarrow> 'c env \<Rightarrow> int \<Rightarrow> string \<Rightarrow> 'c daemon \<Rightarrow> string result \<times> 'c daemon" where
  "serve_line d C cfg v env order line s =
     (case parser_turn d line order of
        Inl e \<Rightarrow> (Inl e, s)
      | Inr (Inr response) \<Rightarrow> (response_line response, s)
      | Inr (Inl request) \<Rightarrow> worker_turn C cfg v env request s)"

definition served :: "nat \<Rightarrow> 'c relay_ops \<Rightarrow> DaemonConfig \<Rightarrow> string \<Rightarrow> 'c env \<Rightarrow> int \<Rightarrow> ('c daemon \<times> string list) stream_socket" where
  "served d C cfg v env order =
     \<lparr>k_sendall = (\<lambda>text (s, buf).
        case serve_line d C cfg v env order (butlast text) s of
          (Inr t, s') \<Rightarrow> (Inr (), (s', buf @ [t])) | (Inl e, s') \<Rightarrow> (Inr (), (s', buf))),
      k_readline = (\<lambda>(s, buf). case buf of
          [] \<Rightarrow> (Inl (PyExc ''TimeoutError'' ''timed out''), (s, buf)) | t # ts \<Rightarrow> (Inr t, (s, ts))),
      k_close = sret ()\<rparr>"

lemma serve_request_line:
  assumes "command \<in> set COMMANDS" "args_spec command (opt_args args)" "frame_args_ok args" "3 \<le> d"
  shows "\<exists>text. json_compact (PDict (request_frame n command args)) = Inr text
    \<and> serve_line d C cfg v env order text s = worker_turn C cfg v env
        \<lparr>rq_id = PInt n, rq_command = command, rq_args = opt_args args, rq_order = order\<rparr> s"
  using request_line_parsed [OF assms, of n order]
  by (auto simp: serve_line_def parser_turn_def)

text \<open>A result that survives the trip: JSON, or an exception whose text is valid.\<close>

definition portable :: "nat \<Rightarrow> pydict result \<Rightarrow> bool" where
  "portable d r = (case r of
      Inr m \<Rightarrow> json_clean (PDict m) \<and> json_depth (PDict m) < d
    | Inl e \<Rightarrow> utf8_valid (exc_str e) \<and> (\<forall>g rc. e \<noteq> RelayDeviceError g rc []))"

lemma worker_turn_line:
  assumes "handle_request C cfg v env q s = (r, s')" "portable d r" "rq_id q = PInt n" "3 \<le> d"
  shows "\<exists>raw. worker_turn C cfg v env q s = (Inr raw, s')
    \<and> decode_reply d n raw = (case r of Inr m \<Rightarrow> Inr m | Inl e \<Rightarrow> Inl (client_exc e))"
proof (cases r)
  case (Inl e)
  then obtain raw where "response_line (error_response_for_exception (PInt n) e) = Inr raw"
    "decode_reply d n raw = Inl (client_exc e)"
    using decode_reply_error [of e d n] assms(2,4) by (auto simp: portable_def)
  with Inl assms(1,3) show ?thesis by (simp add: worker_turn_def)
next
  case (Inr m)
  then obtain raw where "response_line (response_ok (PInt n) m) = Inr raw" "decode_reply d n raw = Inr m"
    using decode_reply_ok [of m d n] assms(2) by (auto simp: portable_def)
  with Inr assms(1,3) show ?thesis by (simp add: worker_turn_def)
qed

lemma daemon_request_served:
  assumes "command \<in> set COMMANDS" "args_spec command (opt_args args)" "frame_args_ok args" "3 \<le> d"
    and h: "handle_request C cfg v env
      \<lparr>rq_id = PInt n, rq_command = command, rq_args = opt_args args, rq_order = order\<rparr> s = (r, s')"
    and p: "portable d r"
  shows "daemon_request d (served d C cfg v env order) command args
      \<lparr>dc_sock = (s, []), dc_timeout_s = t, dc_next_id = n\<rparr> =
    ((case r of Inr m \<Rightarrow> Inr m | Inl e \<Rightarrow> Inl (client_exc e)),
     \<lparr>dc_sock = (s', []), dc_timeout_s = t, dc_next_id = n + 1\<rparr>)"
proof -
  obtain enc where enc: "json_compact (PDict (request_frame n command args)) = Inr enc"
    "serve_line d C cfg v env order enc s = worker_turn C cfg v env
        \<lparr>rq_id = PInt n, rq_command = command, rq_args = opt_args args, rq_order = order\<rparr> s"
    using serve_request_line [OF assms(1-4)] by blast
  obtain raw where raw: "worker_turn C cfg v env
      \<lparr>rq_id = PInt n, rq_command = command, rq_args = opt_args args, rq_order = order\<rparr> s = (Inr raw, s')"
    "decode_reply d n raw = (case r of Inr m \<Rightarrow> Inr m | Inl e \<Rightarrow> Inl (client_exc e))"
    using worker_turn_line [OF h p _ assms(4), of n] by auto
  have "butlast (enc @ newline) = enc" by (simp add: newline_def)
  with enc raw show ?thesis
    by (simp add: daemon_request_def Let_def sbind_def lift_result_def exchange_line_def scatch_def
        on_sock_def served_def)
qed

end
