(* ===== verification/Daemon_Service.thy ===== *)
theory Daemon_Service
  imports Daemon_Socket Daemon_Link
begin

text \<open>
  The daemon at work: the acceptor, the parser and the worker threads of RelayDaemon with the
  two queues between them, interleaved in any order with the turns of the heartbeat and the
  reconnection threads. \<open>sv_ran\<close> records the orders of the requests the worker has run.
\<close>

section \<open>Threads and queues\<close>

record 'c service =
  sv_sock :: socket_state
  sv_requests :: "(nat \<times> Request) list"
  sv_daemon :: "'c daemon"
  sv_parser_alive :: bool
  sv_worker_alive :: bool
  sv_ran :: "int list"

definition new_service :: "'c daemon \<Rightarrow> 'c service" where
  "new_service dm = \<lparr>sv_sock = new_socket_state, sv_requests = [], sv_daemon = dm,
     sv_parser_alive = True, sv_worker_alive = True, sv_ran = []\<rparr>"

text \<open>The parser takes the oldest pending line; an exception it does not catch ends it.\<close>

definition parse_next :: "nat \<Rightarrow> 'c service \<Rightarrow> 'c service" where
  "parse_next d v =
     (case so_pending (sv_sock v) of
        [] \<Rightarrow> v
      | (conn, line, order) # ps \<Rightarrow>
          (let s1 = (sv_sock v)\<lparr>so_pending := ps\<rparr> in
           case parser_turn d line order of
             Inl e \<Rightarrow> v\<lparr>sv_sock := s1, sv_parser_alive := False\<rparr>
           | Inr (Inl request) \<Rightarrow> v\<lparr>sv_sock := s1, sv_requests := sv_requests v @ [(conn, request)]\<rparr>
           | Inr (Inr response) \<Rightarrow>
               (case send_response conn (Some order) response s1 of
                  (Inl e, s2) \<Rightarrow> v\<lparr>sv_sock := s2, sv_parser_alive := False\<rparr>
                | (Inr _, s2) \<Rightarrow> v\<lparr>sv_sock := s2\<rparr>)))"

text \<open>The worker takes the oldest request, runs it and answers its connection.\<close>

definition work_next :: "'c relay_ops \<Rightarrow> DaemonConfig \<Rightarrow> string \<Rightarrow> 'c env \<Rightarrow> 'c service \<Rightarrow> 'c service" where
  "work_next C cfg version env v =
     (case sv_requests v of
        [] \<Rightarrow> v
      | (conn, request) # rs \<Rightarrow>
          (let v1 = v\<lparr>sv_requests := rs, sv_ran := sv_ran v @ [rq_order request]\<rparr> in
           case worker_turn C cfg version env request (sv_daemon v) of
             (Inl e, dm) \<Rightarrow> v1\<lparr>sv_daemon := dm, sv_worker_alive := False\<rparr>
           | (Inr line, dm) \<Rightarrow>
               v1\<lparr>sv_daemon := dm, sv_sock := send_line conn (Some (rq_order request)) line (sv_sock v)\<rparr>))"

datatype 'c act = Accept "nat result" | Read nat "string result" | Parse | Work "'c env" | Turn "'c turn"

fun service_act :: "nat \<Rightarrow> 'c relay_ops \<Rightarrow> DaemonConfig \<Rightarrow> string \<Rightarrow> 'c act \<Rightarrow> 'c service \<Rightarrow> 'c service" where
  "service_act d C cfg ver (Accept r) v = v\<lparr>sv_sock := snd (accept_client r (sv_sock v))\<rparr>"
| "service_act d C cfg ver (Read conn r) v = v\<lparr>sv_sock := snd (read_client conn r (sv_sock v))\<rparr>"
| "service_act d C cfg ver Parse v = (if sv_parser_alive v then parse_next d v else v)"
| "service_act d C cfg ver (Work env) v = (if sv_worker_alive v then work_next C cfg ver env v else v)"
| "service_act d C cfg ver (Turn t) v =
     (case t of
        Request_Turn env q \<Rightarrow> v
      | _ \<Rightarrow> if turn_enabled t (sv_daemon v) then v\<lparr>sv_daemon := take_turn C cfg ver t (sv_daemon v)\<rparr> else v)"

fun service_run :: "nat \<Rightarrow> 'c relay_ops \<Rightarrow> DaemonConfig \<Rightarrow> string \<Rightarrow> 'c act list \<Rightarrow> 'c service \<Rightarrow> 'c service" where
  "service_run d C cfg ver [] v = v"
| "service_run d C cfg ver (a # as) v = service_run d C cfg ver as (service_act d C cfg ver a v)"

section \<open>One turn of the parser or the worker answers its line\<close>

text \<open>\<open>answers d l t\<close>: \<open>t\<close> is a response to the line \<open>l\<close>, with its id if it has a readable one.\<close>

definition answers :: "nat \<Rightarrow> string \<Rightarrow> string \<Rightarrow> bool" where
  "answers d l t \<longleftrightarrow> (\<exists>response rid. response_line response = Inr t \<and> dget response ''id'' = rid
     \<and> (if short l then request_id_from_line d l = Inr rid else rid = PNone))"

lemma request_id_ok: "request_id_from_line d l = Inr rid \<Longrightarrow> id_ok rid \<or> rid = PNone"
  by (auto simp: request_id_from_line_def split: sum.splits pyval.splits if_splits)

lemma parser_turn_cases:
  assumes "parser_turn d l n = r"
  obtains e where "r = Inl e" "py_class e = ''RecursionError''" "d < length l"
  | q where "r = Inr (Inl q)" "parse_request_line d l n = Inr q" "request_id_from_line d l = Inr (rq_id q)"
      "rq_order q = n" "id_ok (rq_id q)"
  | e rid where "r = Inr (Inr (error_response_for_exception rid e))" "is_RelayError e"
      "request_id_from_line d l = Inr rid"
proof (cases "rbind (py_decode l) (json_loads d)")
  case (Inl e)
  have cl: "py_class e = ''UnicodeDecodeError'' \<or> py_class e = ''JSONDecodeError''
      \<or> py_class e = ''RecursionError'' \<and> d < length l"
    using Inl json_loads_error [of d l] by (auto simp: rbind_Inl py_decode_def split: if_splits)
  then have nr: "\<not> is_RelayError e" by (cases e) auto
  show ?thesis
  proof (cases "py_class e = ''RecursionError''")
    case True
    then have "r = Inl e" using assms Inl nr
      by (cases e) (auto simp: parser_turn_def parse_request_line_def parse_payload_def)
    with True cl that(1) show ?thesis by auto
  next
    case False
    then have "r = Inr (Inr (error_response_for_exception PNone (RelayProtocolError (''malformed JSON: '' @ exc_str e))))"
      "request_id_from_line d l = Inr PNone"
      using cl assms Inl by (auto simp: parser_turn_def parse_request_line_def parse_payload_def request_id_from_line_def)
    with that(3) show ?thesis by auto
  qed
next
  case (Inr v)
  have p: "parse_request_line d l n = check_request n v"
    using Inr by (simp add: parse_request_line_def parse_payload_def)
  have "\<exists>rid. request_id_from_line d l = Inr rid"
    using Inr by (cases v) (simp_all add: request_id_from_line_def)
  then obtain rid where rid: "request_id_from_line d l = Inr rid" ..
  show ?thesis
  proof (cases "check_request n v")
    case (Inl e)
    then have "is_RelayValidationError e" using check_request_validates by (auto simp: validates_def)
    with Inl p rid assms that(3) show ?thesis by (auto simp: parser_turn_def intro: validation_is_relay)
  next
    case (Inr q)
    with p assms that(2) parse_request_line_id [of d l n q] show ?thesis
      by (auto simp: parser_turn_def check_request_Inr)
  qed
qed

lemma response_ok_or_error:
  assumes "id_ok (rq_id q)"
  shows "\<exists>line s' response. worker_turn C cfg v env q s = (Inr line, s') \<and> response_line response = Inr line
    \<and> dget response ''id'' = rq_id q \<and> s' = snd (handle_request C cfg v env q s)"
proof -
  have err: "\<exists>line. response_line (error_response_for_exception (rq_id q) e) = Inr line" for e
    using error_response_sent assms by blast
  have id: "dget (error_response_for_exception (rq_id q) e) ''id'' = rq_id q"
    "dget (response_ok (rq_id q) m) ''id'' = rq_id q" for e m
    by (simp_all add: error_response_fields) (simp add: response_ok_def dget_def)
  show ?thesis
    using err id by (fastforce simp: worker_turn_def split: prod.splits sum.splits)
qed

section \<open>The invariant of the queues\<close>

definition answered :: "socket_state \<Rightarrow> int list" where
  "answered s = List.map_filter (\<lambda>(conn, k, t). k) (so_sent s)"

definition pending_orders :: "socket_state \<Rightarrow> int list" where
  "pending_orders s = map (\<lambda>(conn, l, n). n) (so_pending s)"

text \<open>
  The orders given so far, \<open>1 .. n\<close>: each answered, queued for the worker or pending, and only
  once; what the worker has run, has queued and the parser has pending is increasing.
\<close>

definition orders_ok :: "int list \<Rightarrow> int list \<Rightarrow> int list \<Rightarrow> int list \<Rightarrow> int \<Rightarrow> bool" where
  "orders_ok runs queued pend ans n \<longleftrightarrow>
     0 \<le> n \<and> distinct (ans @ queued @ pend) \<and> set (ans @ queued @ pend) = {1 .. n}
     \<and> sorted_wrt (<) (runs @ queued @ pend) \<and> set runs \<subseteq> set ans"

definition orders_inv :: "int list \<Rightarrow> int list \<Rightarrow> socket_state \<Rightarrow> bool" where
  "orders_inv runs queued s \<longleftrightarrow>
     orders_ok runs queued (pending_orders s) (answered s) (so_order s)
     \<and> map (\<lambda>(conn, l, n). n) (so_accepted s) = [1 .. so_order s]"

definition lines_inv :: "nat \<Rightarrow> socket_state \<Rightarrow> bool" where
  "lines_inv d s \<longleftrightarrow>
     (\<forall>(conn, l, n) \<in> set (so_pending s). (conn, l, n) \<in> set (so_accepted s) \<and> short l)
     \<and> (\<forall>(conn, l, n) \<in> set (so_accepted s). nl \<notin> set l)
     \<and> (\<forall>(conn, k, t) \<in> set (so_sent s).
          \<forall>n. k = Some n \<longrightarrow> (\<exists>l. (conn, l, n) \<in> set (so_accepted s) \<and> answers d l t))"

definition buffers_inv :: "socket_state \<Rightarrow> bool" where
  "buffers_inv s \<longleftrightarrow> (\<forall>conn b. so_data s conn = Some b \<longrightarrow> short b \<and> nl \<notin> set b)"

lemma answered_send [simp]:
  "answered (send_line conn k t s) = answered s @ (case k of None \<Rightarrow> [] | Some n \<Rightarrow> [n])"
  by (simp add: answered_def send_line_def List.map_filter_def split: option.splits)

lemma send_line_fields [simp]:
  "so_data (send_line conn k t s) = so_data s" "so_order (send_line conn k t s) = so_order s"
  "so_pending (send_line conn k t s) = so_pending s" "so_accepted (send_line conn k t s) = so_accepted s"
  "so_sent (send_line conn k t s) = so_sent s @ [(conn, k, t)]"
  "pending_orders (send_line conn k t s) = pending_orders s"
  by (simp_all add: send_line_def pending_orders_def)

lemma upto_Suc: "0 \<le> n \<Longrightarrow> [1 .. n + 1 :: int] = [1 .. n] @ [n + 1]"
  using upto_rec2 [of 1 "n + 1"] by simp

lemma interval_Suc: "0 \<le> (n :: int) \<Longrightarrow> {1 .. n + 1} = insert (n + 1) {1 .. n}"
  by auto

lemma orders_ok_below:
  assumes "orders_ok runs queued pend ans n" "x \<in> set runs \<union> set queued \<union> set pend \<union> set ans"
  shows "x < n + 1"
proof -
  have "x \<in> set (ans @ queued @ pend)" using assms by (auto simp: orders_ok_def)
  then have "x \<in> {1 .. n}" using assms(1) by (simp only: orders_ok_def)
  then show ?thesis by simp
qed

lemma orders_ok_grow:
  assumes "orders_ok runs queued pend ans n"
  shows "orders_ok runs queued (pend @ [n + 1]) ans (n + 1)"
    and "orders_ok runs queued pend (ans @ [n + 1]) (n + 1)"
proof -
  note b = orders_ok_below [OF assms]
  have new: "n + 1 \<notin> set runs \<union> set queued \<union> set pend \<union> set ans" using b by blast
  have s: "set (ans @ queued @ pend) = {1 .. n}" and pos: "0 \<le> n"
    and d: "distinct (ans @ queued @ pend)" and o: "sorted_wrt (<) (runs @ queued @ pend)"
    and r: "set runs \<subseteq> set ans"
    using assms by (simp_all add: orders_ok_def)
  have s': "insert (n + 1) (set ans \<union> (set queued \<union> set pend)) = {1 .. n + 1}"
    using s interval_Suc [OF pos] by simp
  have new': "\<forall>x \<in> set runs \<union> (set queued \<union> set pend). x \<le> n" using b by auto
  have "sorted_wrt (<) ((runs @ queued @ pend) @ [n + 1])"
    unfolding sorted_wrt_append [of _ "runs @ queued @ pend" "[n + 1]"] using o new' by simp
  then show "orders_ok runs queued (pend @ [n + 1]) ans (n + 1)"
    unfolding orders_ok_def using pos d new r s' by auto
  show "orders_ok runs queued pend (ans @ [n + 1]) (n + 1)"
    unfolding orders_ok_def using pos d new r s' o by auto
qed

text \<open>A pending line becomes a request, a pending line or a request is answered.\<close>

lemma orders_ok_move:
  assumes "orders_ok runs queued (p # pend) ans n"
  shows "orders_ok runs (queued @ [p]) pend ans n" "orders_ok runs queued pend (ans @ [p]) n"
proof -
  have "set (ans @ (queued @ [p]) @ pend) = set (ans @ queued @ p # pend)"
    "set ((ans @ [p]) @ queued @ pend) = set (ans @ queued @ p # pend)" by auto
  moreover have "distinct ((ans @ [p]) @ queued @ pend) = distinct (ans @ queued @ p # pend)" by auto
  ultimately show "orders_ok runs (queued @ [p]) pend ans n" "orders_ok runs queued pend (ans @ [p]) n"
    using assms by (simp_all only: orders_ok_def) (auto simp: sorted_wrt_append)
qed

lemma orders_ok_run:
  assumes "orders_ok runs (q # queued) pend ans n"
  shows "orders_ok (runs @ [q]) queued pend (ans @ [q]) n"
proof -
  have "set ((ans @ [q]) @ queued @ pend) = set (ans @ (q # queued) @ pend)" by auto
  moreover have "distinct ((ans @ [q]) @ queued @ pend) = distinct (ans @ (q # queued) @ pend)" by auto
  ultimately show ?thesis using assms by (simp only: orders_ok_def) auto
qed

lemma take_line_orders:
  assumes "orders_inv runs queued s" "take_line conn l s = (r, s')"
  shows "orders_inv runs queued s'"
proof -
  let ?n = "so_order s"
  have ok: "orders_ok runs queued (pending_orders s) (answered s) ?n"
    and acc: "map (\<lambda>(conn, l, n). n) (so_accepted s) = [1 .. ?n]"
    using assms(1) by (simp_all add: orders_inv_def)
  have pos: "0 \<le> ?n" using ok by (simp add: orders_ok_def)
  show ?thesis
  proof (cases "short l")
    case True
    with assms(2) have s': "s' = s\<lparr>so_order := ?n + 1, so_pending := so_pending s @ [(conn, l, ?n + 1)],
        so_accepted := so_accepted s @ [(conn, l, ?n + 1)]\<rparr>" by (simp add: take_line_short)
    have "pending_orders s' = pending_orders s @ [?n + 1]" "answered s' = answered s"
      by (simp_all add: s' pending_orders_def answered_def)
    with orders_ok_grow(1) [OF ok] acc upto_Suc [OF pos] show ?thesis by (simp add: orders_inv_def s')
  next
    case False
    from take_line_long [OF this, of conn s] assms(2) obtain t where
      s': "s' = send_line conn (Some (?n + 1)) t (s\<lparr>so_order := ?n + 1, so_accepted := so_accepted s @ [(conn, l, ?n + 1)]\<rparr>)"
      by auto
    have "pending_orders s' = pending_orders s" "answered s' = answered s @ [?n + 1]"
      by (simp_all add: s' pending_orders_def) (simp add: answered_def)
    with orders_ok_grow(2) [OF ok] acc upto_Suc [OF pos] show ?thesis by (simp add: orders_inv_def s')
  qed
qed

lemma too_long_answers:
  assumes "response_line too_long = Inr t" "\<not> short l"
  shows "answers d l t"
proof -
  have "dget too_long ''id'' = PNone" by (simp add: too_long_def response_error_def dget_def)
  with assms show ?thesis unfolding answers_def by metis
qed

lemma take_line_lines:
  assumes "lines_inv d s" "take_line conn l s = (r, s')" "nl \<notin> set l"
  shows "lines_inv d s'"
proof (cases "short l")
  case True
  with assms(2) have "s' = s\<lparr>so_order := so_order s + 1, so_pending := so_pending s @ [(conn, l, so_order s + 1)],
      so_accepted := so_accepted s @ [(conn, l, so_order s + 1)]\<rparr>" by (simp add: take_line_short)
  with assms(1,3) True show ?thesis by (fastforce simp: lines_inv_def)
next
  case False
  from take_line_long [OF this, of conn s] assms(2) obtain t where
    t: "response_line too_long = Inr t" and
    s': "s' = send_line conn (Some (so_order s + 1)) t (s\<lparr>so_order := so_order s + 1,
        so_accepted := so_accepted s @ [(conn, l, so_order s + 1)]\<rparr>)"
    by auto
  with assms(1,3) too_long_answers [OF t False, of d] show ?thesis by (fastforce simp: lines_inv_def)
qed

lemma take_line_data: "take_line conn l s = (r, s') \<Longrightarrow> so_data s' = so_data s"
  by (cases "short l") (use take_line_long [of l conn s] in \<open>auto simp: take_line_short\<close>)

definition sock_inv :: "nat \<Rightarrow> int list \<Rightarrow> int list \<Rightarrow> socket_state \<Rightarrow> bool" where
  "sock_inv d runs queued s \<longleftrightarrow> orders_inv runs queued s \<and> lines_inv d s \<and> buffers_inv s"

lemma take_line_inv:
  "nl \<notin> set l \<Longrightarrow> keeps (sock_inv d runs queued) (take_line conn l)"
  by (rule keepsI)
    (auto simp: sock_inv_def buffers_inv_def intro: take_line_orders take_line_lines dest: take_line_data)

lemma line_head_no_nl: "nl \<notin> set (line_head buf)"
  by (auto simp: line_head_def dest: set_takeWhileD)

lemma drain_lines_inv:
  "keeps (sock_inv d runs queued) (drain_lines conn buf)
   \<and> (\<forall>s left s'. drain_lines conn buf s = (Inr left, s') \<longrightarrow> nl \<notin> set left)"
proof (induction conn buf rule: drain_lines.induct)
  case (1 conn buf)
  show ?case
  proof (cases "nl \<in> set buf")
    case True
    then have "drain_lines conn buf = sbind (take_line conn (line_head buf)) (\<lambda>_. drain_lines conn (line_rest buf))"
      by (simp add: drain_lines.simps [of conn buf])
    with 1(1) [OF True] line_head_no_nl show ?thesis
      by (auto intro!: keeps_intros take_line_inv simp: sbind_Inr)
  next
    case False
    then have "drain_lines conn buf = sret buf" by (simp add: drain_lines.simps [of conn buf])
    with False show ?thesis by (auto simp: sret_def keeps_def)
  qed
qed

lemma sock_inv_data:
  assumes "sock_inv d runs queued s" "\<And>conn b. f conn = Some b \<Longrightarrow> so_data s conn = Some b \<or> short b \<and> nl \<notin> set b"
  shows "sock_inv d runs queued (s\<lparr>so_data := f\<rparr>)"
  using assms
  by (fastforce simp: sock_inv_def buffers_inv_def lines_inv_def orders_inv_def answered_def pending_orders_def)

lemma sock_inv_notice:
  "sock_inv d runs queued s \<Longrightarrow> sock_inv d runs queued (send_line conn None t s)"
  by (auto simp: sock_inv_def buffers_inv_def lines_inv_def orders_inv_def)

lemma read_client_inv:
  assumes "sock_inv d runs queued s"
  shows "sock_inv d runs queued (snd (read_client conn received s))"
proof -
  have close: "sock_inv d runs queued (close_conn conn s)" if "sock_inv d runs queued s" for s
    unfolding close_conn_def by (rule sock_inv_data [OF that]) (auto split: if_splits)
  have reg: "sock_inv d runs queued (s\<lparr>so_data := (so_data s)(conn \<mapsto> b)\<rparr>)"
    if "sock_inv d runs queued s" "short b" "nl \<notin> set b" for s b
    by (rule sock_inv_data [OF that(1)]) (use that(2,3) in \<open>auto split: if_splits\<close>)
  show ?thesis
  proof (cases "\<exists>chunk b. received = Inr chunk \<and> chunk \<noteq> [] \<and> so_data s conn = Some b")
    case False
    with assms close [OF assms] show ?thesis
      by (auto simp: read_client_def split: sum.splits option.splits)
  next
    case True
    then obtain chunk b where c: "received = Inr chunk" "chunk \<noteq> []" "so_data s conn = Some b" by blast
    obtain r1 s1 where dr: "drain_lines conn (b @ chunk) s = (r1, s1)" by force
    have i: "sock_inv d runs queued s1" by (rule keepsD [OF drain_lines_inv [THEN conjunct1] dr assms])
    show ?thesis
    proof (cases r1)
      case (Inl e)
      with c dr i show ?thesis by (simp add: read_client_def sbind_def)
    next
      case (Inr left)
      then have l: "nl \<notin> set left" using drain_lines_inv dr by blast
      show ?thesis
      proof (cases "short left")
        case True
        with c dr Inr reg [OF i True l] show ?thesis by (simp add: read_client_def sbind_def short_def Let_def)
      next
        case False
        let ?s2 = "s1\<lparr>so_data := (so_data s1)(conn \<mapsto> left)\<rparr>"
        obtain t where "send_response conn None too_long ?s2 = (Inr (), send_line conn None t ?s2)"
          using too_long_sent by blast
        moreover have "close_conn conn (send_line conn None t ?s2) = close_conn conn (send_line conn None t s1)"
          by (simp add: close_conn_def send_line_def)
        ultimately show ?thesis using c dr Inr False close [OF sock_inv_notice [OF i, of conn t]]
          by (simp add: read_client_def sbind_def short_def Let_def)
      qed
    qed
  qed
qed

section \<open>The invariant of the service\<close>

definition request_of :: "nat \<Rightarrow> socket_state \<Rightarrow> nat \<times> Request \<Rightarrow> bool" where
  "request_of d s = (\<lambda>(conn, q). \<exists>l. (conn, l, rq_order q) \<in> set (so_accepted s) \<and> short l
     \<and> parse_request_line d l (rq_order q) = Inr q)"

definition service_inv :: "nat \<Rightarrow> 'c service \<Rightarrow> bool" where
  "service_inv d v \<longleftrightarrow>
     sv_parser_alive v \<and> sv_worker_alive v
     \<and> sock_inv d (sv_ran v) (map (\<lambda>(conn, q). rq_order q) (sv_requests v)) (sv_sock v)
     \<and> (\<forall>cq \<in> set (sv_requests v). request_of d (sv_sock v) cq)
     \<and> daemon_inv (sv_daemon v)"

lemma service_inv_new: "daemon_inv dm \<Longrightarrow> service_inv d (new_service dm)"
  by (simp add: service_inv_def new_service_def sock_inv_def orders_inv_def orders_ok_def lines_inv_def
      buffers_inv_def new_socket_state_def answered_def pending_orders_def List.map_filter_simps)

lemma read_client_accepted:
  "\<exists>more. so_accepted (snd (read_client conn received s)) = so_accepted s @ more"
proof -
  have drain: "\<exists>more. so_accepted s' = so_accepted s @ more" if "drain_lines conn buf s = (r, s')" for buf s r s'
    using that
  proof (induction conn buf arbitrary: s rule: drain_lines.induct)
    case (1 conn buf)
    show ?case
    proof (cases "nl \<in> set buf")
      case True
      obtain r1 s1 where t: "take_line conn (line_head buf) s = (r1, s1)" by force
      then have "\<exists>m. so_accepted s1 = so_accepted s @ m"
        by (cases "short (line_head buf)")
          (use take_line_long [of "line_head buf" conn s] in \<open>auto simp: take_line_short\<close>)
      with 1 True t show ?thesis
        by (fastforce simp: drain_lines.simps [of conn buf] sbind_def split: sum.splits)
    next
      case False
      with 1(2) show ?thesis by (simp add: drain_lines.simps [of conn buf] sret_def)
    qed
  qed
  have send: "so_accepted s' = so_accepted s" if "send_response c k x s = (r, s')" for c k x s r s'
    using that by (auto simp: send_response_def split: sum.splits)
  show ?thesis
    by (cases "read_client conn received s")
      (auto simp: read_client_def close_conn_def Let_def split: sum.splits option.splits if_splits
        elim!: sbind_cases dest!: drain send)
qed

lemma request_of_mono:
  "request_of d s cq \<Longrightarrow> set (so_accepted s) \<subseteq> set (so_accepted s') \<Longrightarrow> request_of d s' cq"
  by (cases cq) (auto simp: request_of_def)

lemma sock_inv_answer:
  assumes "lines_inv d s" "buffers_inv s" "(conn, l, n) \<in> set (so_accepted s)" "answers d l t"
  shows "lines_inv d (send_line conn (Some n) t s)" "buffers_inv (send_line conn (Some n) t s)"
  using assms by (fastforce simp: lines_inv_def buffers_inv_def)+

lemma parse_next_inv:
  assumes inv: "service_inv d v" and d: "MAX_FRAME_BYTES \<le> d"
  shows "service_inv d (parse_next d v)"
proof (cases "so_pending (sv_sock v)")
  case Nil
  with inv show ?thesis by (simp add: parse_next_def)
next
  case (Cons p ps)
  obtain conn l n where p: "p = (conn, l, n)" using prod_cases3 by blast
  let ?s = "sv_sock v" and ?q = "map (\<lambda>(conn, q). rq_order q) (sv_requests v)"
  let ?s1 = "?s\<lparr>so_pending := ps\<rparr>"
  have si: "orders_ok (sv_ran v) ?q (n # pending_orders ?s1) (answered ?s) (so_order ?s)"
    "map (\<lambda>(conn, l, n). n) (so_accepted ?s) = [1 .. so_order ?s]" "lines_inv d ?s" "buffers_inv ?s"
    using inv Cons p by (simp_all add: service_inv_def sock_inv_def orders_inv_def pending_orders_def)
  have l1: "lines_inv d ?s1" "buffers_inv ?s1" and acc: "(conn, l, n) \<in> set (so_accepted ?s)" and sh: "short l"
    using si(3,4) Cons p by (auto simp: lines_inv_def buffers_inv_def)
  have ans: "answered ?s1 = answered ?s" by (simp add: answered_def)
  show ?thesis
  proof (rule parser_turn_cases [OF refl, of d l n])
    fix e assume "d < length l"
    with sh d show ?thesis by (simp add: short_def)
  next
    fix q assume t: "parser_turn d l n = Inr (Inl q)" "parse_request_line d l n = Inr q" "rq_order q = n"
    have "service_inv d (v\<lparr>sv_sock := ?s1, sv_requests := sv_requests v @ [(conn, q)]\<rparr>)"
      using inv orders_ok_move(1) [OF si(1)] si(2) l1 acc sh t(2,3)
      by (auto simp: service_inv_def sock_inv_def orders_inv_def ans request_of_def)
    with Cons p t(1) show ?thesis by (simp add: parse_next_def)
  next
    fix e rid assume t: "parser_turn d l n = Inr (Inr (error_response_for_exception rid e))"
      "request_id_from_line d l = Inr rid"
    obtain u where u: "response_line (error_response_for_exception rid e) = Inr u"
      using error_response_sent request_id_ok [OF t(2)] by blast
    then have "answers d l u"
      using t(2) sh error_response_fields(1) [of rid e] unfolding answers_def by metis
    with l1 acc have l2: "lines_inv d (send_line conn (Some n) u ?s1)" "buffers_inv (send_line conn (Some n) u ?s1)"
      by (simp_all add: sock_inv_answer)
    have "service_inv d (v\<lparr>sv_sock := send_line conn (Some n) u ?s1\<rparr>)"
      using inv orders_ok_move(2) [OF si(1)] si(2) l2
      by (auto simp: service_inv_def sock_inv_def orders_inv_def ans request_of_def)
    with Cons p t(1) u show ?thesis by (simp add: parse_next_def send_response_def)
  qed
qed

lemma work_next_inv:
  assumes inv: "service_inv d v"
  shows "service_inv d (work_next C cfg ver env v)"
proof (cases "sv_requests v")
  case Nil
  with inv show ?thesis by (simp add: work_next_def)
next
  case (Cons cq rs)
  obtain conn q where cq: "cq = (conn, q)" by force
  let ?s = "sv_sock v" and ?n = "rq_order q"
  have si: "orders_ok (sv_ran v) (?n # map (\<lambda>(conn, q). rq_order q) rs) (pending_orders ?s) (answered ?s) (so_order ?s)"
    "map (\<lambda>(conn, l, n). n) (so_accepted ?s) = [1 .. so_order ?s]" "lines_inv d ?s" "buffers_inv ?s"
    and q: "request_of d ?s (conn, q)"
    using inv Cons cq by (simp_all add: service_inv_def sock_inv_def orders_inv_def)
  from q obtain l where l: "(conn, l, ?n) \<in> set (so_accepted ?s)" "short l" "parse_request_line d l ?n = Inr q"
    by (auto simp: request_of_def)
  then have ok: "id_ok (rq_id q)" and id: "request_id_from_line d l = Inr (rq_id q)"
    by (auto simp: parse_request_line_def rbind_Inr check_request_Inr intro: parse_request_line_id)
  obtain line dm response where w: "worker_turn C cfg ver env q (sv_daemon v) = (Inr line, dm)"
    "response_line response = Inr line" "dget response ''id'' = rq_id q"
    "dm = snd (handle_request C cfg ver env q (sv_daemon v))"
    using response_ok_or_error [OF ok] by blast
  then have "answers d l line" using id l(2) unfolding answers_def by metis
  then have l2: "lines_inv d (send_line conn (Some ?n) line ?s)" "buffers_inv (send_line conn (Some ?n) line ?s)"
    using si(3,4) l(1) by (simp_all add: sock_inv_answer)
  have "daemon_inv dm" unfolding w(4) by (rule keeps_snd [OF handle_request_inv]) (use inv in \<open>simp add: service_inv_def\<close>)
  then have "service_inv d (v\<lparr>sv_requests := rs, sv_ran := sv_ran v @ [?n], sv_daemon := dm,
      sv_sock := send_line conn (Some ?n) line ?s\<rparr>)"
    using inv Cons orders_ok_run [OF si(1)] si(2) l2
    by (auto simp: service_inv_def sock_inv_def orders_inv_def request_of_def)
  with Cons cq w(1) show ?thesis by (simp add: work_next_def Let_def)
qed

lemma service_act_inv:
  assumes inv: "service_inv d v" and d: "MAX_FRAME_BYTES \<le> d"
  shows "service_inv d (service_act d C cfg ver a v)"
proof (cases a)
  case (Accept r)
  have "sock_inv d (sv_ran v) (map (\<lambda>(conn, q). rq_order q) (sv_requests v)) (snd (accept_client r (sv_sock v)))"
    if "sock_inv d (sv_ran v) (map (\<lambda>(conn, q). rq_order q) (sv_requests v)) (sv_sock v)"
    using that by (auto simp: accept_client_def short_def split: sum.splits if_splits intro!: sock_inv_data)
  moreover have "so_accepted (snd (accept_client r (sv_sock v))) = so_accepted (sv_sock v)"
    by (simp add: accept_client_def split: sum.splits)
  ultimately show ?thesis using inv Accept by (auto simp: service_inv_def request_of_def)
next
  case (Read conn r)
  have "set (so_accepted (sv_sock v)) \<subseteq> set (so_accepted (snd (read_client conn r (sv_sock v))))"
    using read_client_accepted [of conn r "sv_sock v"] by auto
  with inv Read show ?thesis
    by (auto simp: service_inv_def intro: read_client_inv request_of_mono)
next
  case Parse
  with parse_next_inv [OF assms] inv show ?thesis by simp
next
  case (Work env)
  with work_next_inv [OF inv] inv show ?thesis by simp
next
  case (Turn t)
  with inv show ?thesis
    by (cases t) (auto simp: service_inv_def intro: take_turn_inv simp del: take_turn.simps)
qed

lemma service_run_inv:
  "service_inv d v \<Longrightarrow> MAX_FRAME_BYTES \<le> d \<Longrightarrow> service_inv d (service_run d C cfg ver acts v)"
  by (induction acts arbitrary: v) (simp_all add: service_act_inv del: service_act.simps)

section \<open>Emptying the queues\<close>

lemma service_run_append:
  "service_run d C cfg ver (xs @ ys) v = service_run d C cfg ver ys (service_run d C cfg ver xs v)"
  by (induction xs arbitrary: v) simp_all

lemma parse_next_pending:
  "so_pending (sv_sock (parse_next d v)) = tl (so_pending (sv_sock v))"
  "so_order (sv_sock (parse_next d v)) = so_order (sv_sock v)"
  "length (sv_requests (parse_next d v)) \<le> length (sv_requests v) + (if so_pending (sv_sock v) = [] then 0 else 1)"
  by (auto simp: parse_next_def send_response_def Let_def split: list.splits sum.splits prod.splits)

lemma work_next_requests:
  "sv_requests (work_next C cfg ver env v) = tl (sv_requests v)"
  "so_pending (sv_sock (work_next C cfg ver env v)) = so_pending (sv_sock v)"
  "so_order (sv_sock (work_next C cfg ver env v)) = so_order (sv_sock v)"
  by (auto simp: work_next_def Let_def split: list.splits sum.splits prod.splits)

lemma parse_run:
  assumes "service_inv d v" "MAX_FRAME_BYTES \<le> d"
  shows "let v' = service_run d C cfg ver (replicate (length (so_pending (sv_sock v))) Parse) v in
    so_pending (sv_sock v') = [] \<and> so_order (sv_sock v') = so_order (sv_sock v)
    \<and> length (sv_requests v') \<le> length (sv_requests v) + length (so_pending (sv_sock v))"
  using assms
proof (induction "length (so_pending (sv_sock v))" arbitrary: v)
  case 0
  then show ?case by simp
next
  case (Suc n)
  let ?v = "parse_next d v"
  have n: "n = length (so_pending (sv_sock ?v))" using Suc(2) by (simp add: parse_next_pending)
  have alive: "sv_parser_alive v" using Suc.prems(1) by (simp add: service_inv_def)
  from Suc(1) [OF n parse_next_inv [OF Suc.prems] Suc.prems(2)] show ?case
    using Suc(2) parse_next_pending [of d v] alive
    unfolding Suc(2) [symmetric] n [symmetric] by (auto simp: Let_def split: if_splits)
qed

lemma work_run:
  assumes "service_inv d v" "length (sv_requests v) \<le> length envs" "MAX_FRAME_BYTES \<le> d"
  shows "let v' = service_run d C cfg ver (map Work envs) v in
    sv_requests v' = [] \<and> so_pending (sv_sock v') = so_pending (sv_sock v)
    \<and> so_order (sv_sock v') = so_order (sv_sock v)"
  using assms
proof (induction envs arbitrary: v)
  case Nil
  then show ?case by simp
next
  case (Cons env envs)
  have alive: "sv_worker_alive v" using Cons.prems(1) by (simp add: service_inv_def)
  have "length (sv_requests (work_next C cfg ver env v)) \<le> length envs"
    using Cons.prems(2) by (simp add: work_next_requests)
  from Cons.IH [OF work_next_inv [OF Cons.prems(1)] this Cons.prems(3)] alive show ?case
    by (simp add: Let_def work_next_requests)
qed

end
