(* ===== verification/Daemon_Properties.thy ===== *)
theory Daemon_Properties
  imports Daemon_Link
begin

text \<open>
  The statements about the daemon, each with a run of a daemon whose client is a script of
  answers, as the fake clients of the repository's tests are.
\<close>

section \<open>A scripted client\<close>

type_synonym script = "pydict result list"

definition next_answer :: "(script, pydict) sexc" where
  "next_answer = (\<lambda>c. case c of
     [] \<Rightarrow> (Inl (RelayTimeoutError ''timed out waiting for SMP response''), []) | r # rs \<Rightarrow> (r, rs))"

definition script_ops :: "script relay_ops" where
  "script_ops =
     \<lparr>o_identity = next_answer, o_capabilities = next_answer, o_build_info = next_answer,
      o_get_relay = (\<lambda>_. next_answer), o_get_all_relays = next_answer,
      o_set_relay = (\<lambda>_ _. next_answer), o_set_all_relays = (\<lambda>_. next_answer),
      o_pulse_relay = (\<lambda>_ _. next_answer), o_off_all_relays = next_answer, o_status = next_answer,
      o_health = next_answer, o_transport_status = next_answer, o_safety = next_answer,
      o_watchdog = next_answer, o_reboot = next_answer, o_bootsel = next_answer,
      o_heartbeat = next_answer, o_close = sret ()\<rparr>"

definition demo_cfg :: DaemonConfig where
  "demo_cfg = \<lparr>selector_type = ''port'', selector_value = ''/dev/ttyACM0'', socket_path = ''/run/relay.sock'',
     cfg_baud = 115200, cfg_timeout = Finite 2, cfg_retries = 1, reconnect_interval = Finite 1, heartbeat_interval = Finite (5 / 2),
     wait_device = True\<rparr>"

definition good_identity :: pydict where
  "good_identity = [(''protocol_version'', PInt 9), (''command_model_version'', PInt 3)]"

definition demo_env :: "rat \<Rightarrow> script \<Rightarrow> script env" where
  "demo_env now c = \<lparr>monotonic = now, usb_ports = [], client_factory = (\<lambda>_. Inr c), usb_instance_id = (\<lambda>_. None)\<rparr>"

lemma demo_initial:
  "initial_connect script_ops demo_cfg (demo_env now (Inr good_identity # Inr st # c)) new_daemon =
    (Inr (), new_daemon\<lparr>d_client := Some c, d_connected := True, d_current_port := Some ''/dev/ttyACM0'',
       d_opened := 1\<rparr>)"
  by (simp add: initial_connect_def scatch_def connect_ready_def sbind_def lift_result_def selected_port_def
      demo_cfg_def probe_ready_def demo_env_def readiness_def script_ops_def next_answer_def
      good_identity_def validate_readiness_identity_def dget_def py_simps Let_def adopt_probe_def
      new_daemon_def clear_reboot_def)

definition demo_daemon :: "script \<Rightarrow> script daemon" where
  "demo_daemon c = new_daemon\<lparr>d_client := Some c, d_connected := True,
     d_current_port := Some ''/dev/ttyACM0'', d_opened := 1\<rparr>"

lemma demo_reachable: "reachable script_ops demo_cfg v (demo_daemon c)"
  unfolding demo_daemon_def by (rule started) (rule demo_initial [of 0 "[]"])

lemma demo_inv: "daemon_inv (demo_daemon c)"
  using reachable_inv [OF demo_reachable] .

definition demo_request :: "string \<Rightarrow> Request" where
  "demo_request command = \<lparr>rq_id = PInt 1, rq_command = command, rq_args = [], rq_order = 1\<rparr>"

section \<open>Properties\<close>

text \<open>
  C9. The daemon's state: in every state its threads reach, it is connected exactly if it
  holds a client and a port; the fields of a reboot recovery are set exactly during one, and
  never while connected; a connected daemon reports no error and no attempts; a fatal error has
  stopped it; and every client the factory ever made has been closed exactly once, save the
  one in use: no serial port is leaked.
\<close>

theorem daemon_state_invariant:
  assumes "reachable C cfg v s"
  shows "(d_connected s \<longleftrightarrow> d_client s \<noteq> None) \<and> (d_connected s \<longleftrightarrow> d_current_port s \<noteq> None)
    \<and> (d_reboot_recovery s \<longleftrightarrow> d_reboot_started_at s \<noteq> None)
    \<and> (d_reboot_recovery s \<longleftrightarrow> d_reboot_pre_status s \<noteq> None)
    \<and> \<not> (d_reboot_recovery s \<and> d_connected s)
    \<and> (d_connected s \<longrightarrow> d_last_error s = None \<and> d_reconnect_attempts s = 0)
    \<and> (d_fatal_error s \<noteq> None \<longrightarrow> d_stop s)
    \<and> d_opened s = length (d_closed s) + (if d_connected s then 1 else 0)"
  using reachable_inv [OF assms] by (auto simp: inv_loan_def daemon_shape_def)

theorem daemon_state_invariant_witness:
  "d_opened (demo_daemon [] :: script daemon) = length (d_closed (demo_daemon [] :: script daemon)) + 1"
  using daemon_state_invariant [OF demo_reachable [of "''1''" "[]"]]
  by (simp add: demo_daemon_def)

text \<open>
  C10. Refinement: every turn of a thread, from a state that satisfies the invariant, is a
  step of the abstract link: a request or a heartbeat may take the link from a port to offline, a
  request may start a reboot at the time it runs, and only the reconnection timer brings the
  link up, after a reboot no earlier than 1.5 s after it started.
\<close>

theorem daemon_refines_link:
  assumes "daemon_inv s" "dstep C cfg v s a s'"
  shows "link_step (turn_cause a) (turn_now a) (link_of s) (link_of s')"
proof (cases a)
  case (Request_Turn env q)
  have "link_step By_Request (monotonic env) (link_of s) (link_of (snd (handle_request C cfg v env q s)))"
    by (rule handle_request_link [OF assms(1) prod.collapse [symmetric]])
  with Request_Turn assms(2) show ?thesis by (simp add: dstep_simps worker_turn_state)
next
  case Heartbeat_Turn
  have "link_step By_Heartbeat 0 (link_of s) (link_of (snd (heartbeat_once C s)))"
    by (rule heartbeat_link [OF assms(1) prod.collapse [symmetric]])
  with Heartbeat_Turn assms(2) show ?thesis by (simp add: dstep_simps)
next
  case (Reconnect_Turn env)
  have "link_step By_Timer (monotonic env) (link_of s) (link_of (snd (reconnect_step C cfg env s)))"
    by (rule reconnect_step_link [OF assms(1) prod.collapse [symmetric]])
  with Reconnect_Turn assms(2) show ?thesis by (simp add: dstep_simps)
next
  case Signal_Turn
  have "link_of (s\<lparr>d_stop := True\<rparr>) = link_of s" by (rule link_same) simp_all
  with Signal_Turn assms(2) show ?thesis by (simp add: dstep_simps link_step.stay)
qed

theorem daemon_refines_link_witness:
  "link_step By_Heartbeat 0 (Online ''/dev/ttyACM0'') Offline"
proof -
  have "dstep script_ops demo_cfg ''1'' (demo_daemon []) Heartbeat_Turn
      (take_turn script_ops demo_cfg ''1'' Heartbeat_Turn (demo_daemon []))"
    by (rule turn) (simp add: demo_daemon_def new_daemon_def)
  from daemon_refines_link [OF demo_inv this] show ?thesis
    by (simp add: heartbeat_once_def demo_daemon_def on_client_def script_ops_def next_answer_def
        link_disconnected) (simp add: link_of_def)
qed




text \<open>
  C12. Requests: while disconnected, every device command is refused with the transport error
  \<open>relay controller is disconnected\<close> and nothing changes. While connected, a transport error
  (a time-out included) closes the client and disconnects, and is reported to the requester;
  any other error is reported and keeps the connection; a command that succeeds keeps the
  connection, except that reboot starts the recovery with the status read before it and
  bootsel disconnects.
\<close>

theorem daemon_request_effect:
  assumes "daemon_inv s" "handle_request C cfg v env q s = (r, s')"
  shows "(rq_command q \<noteq> ''daemon-status'' \<and> \<not> d_connected s \<longrightarrow>
            r = Inl (RelayTransportError ''relay controller is disconnected'') \<and> s' = s)
    \<and> (\<forall>e. d_connected s \<longrightarrow> r = Inl e \<longrightarrow>
          (if is_RelayTransportError e
           then \<not> d_connected s' \<and> d_last_error s' = Some (exc_str e) \<and> \<not> d_reboot_recovery s'
             \<and> (\<exists>c. d_closed s' = d_closed s @ [c])
           else d_connected s' \<and> d_current_port s' = d_current_port s \<and> d_closed s' = d_closed s))
    \<and> (\<forall>m. d_connected s \<longrightarrow> r = Inr m \<longrightarrow>
          (if rq_command q = ''reboot''
           then \<not> d_connected s' \<and> d_reboot_started_at s' = Some (monotonic env)
             \<and> (\<exists>c c1 pre. d_client s = Some c \<and> o_status C c = (Inr pre, c1) \<and> d_reboot_pre_status s' = Some pre)
           else if rq_command q = ''bootsel'' then \<not> d_connected s' \<and> \<not> d_reboot_recovery s'
           else d_connected s' \<and> d_current_port s' = d_current_port s))"
  using assms(2,1)
proof (cases rule: handle_request_cases)
  case Status
  then show ?thesis by auto
next
  case Off
  then show ?thesis by (simp add: disconnected_message_def)
next
  case (Reboot_Err c e)
  from Reboot_Err(4) show ?thesis
    by (cases rule: transport_guard_cases) (use Reboot_Err in \<open>auto simp: mark_disconnected_run\<close>)
next
  case (Reboot c pre result c1)
  then show ?thesis by (auto simp: enter_reboot_recovery_run reboot_command_def sbind_Inr sret_def)
next
  case (Bootsel c pre result c1)
  then show ?thesis by (simp add: mark_disconnected_run)
next
  case (Command c)
  from Command(4) show ?thesis
    by (cases rule: transport_guard_cases) (use Command in \<open>auto simp: mark_disconnected_run\<close>)
qed

theorem daemon_request_effect_witness:
  "let s' = snd (handle_request script_ops demo_cfg ''1'' (demo_env 7 []) (demo_request ''reboot'')
       (demo_daemon [Inr [(''uptime_ms'', PInt 5000)], Inr []]))
   in \<not> d_connected s' \<and> d_reboot_started_at s' = Some 7"
proof -
  let ?h = "handle_request script_ops demo_cfg ''1'' (demo_env 7 []) (demo_request ''reboot'')
       (demo_daemon [Inr [(''uptime_ms'', PInt 5000)], Inr []])"
  have "fst ?h = Inr []" "d_connected (demo_daemon [Inr [(''uptime_ms'', PInt 5000)], Inr []])"
    by (simp_all add: handle_request_def demo_request_def demo_daemon_def transport_guard_def scatch_def
        on_client_def reboot_command_def sbind_def sret_def script_ops_def next_answer_def)
  moreover have "?h = (fst ?h, snd ?h)" by simp
  ultimately show ?thesis using daemon_request_effect [OF demo_inv \<open>?h = (fst ?h, snd ?h)\<close>]
    by (simp add: Let_def demo_request_def demo_env_def)
qed

text \<open>
  Heartbeats: without a connection a heartbeat does nothing. With one, an answer keeps
  the connection, a relay error closes the client and disconnects with that error recorded; and
  an exception that is not a relay error leaves the loop while the daemon still counts as
  connected.
\<close>

theorem daemon_heartbeat_effect:
  assumes "daemon_inv s" "heartbeat_once C s = (r, s')"
  shows "if \<not> d_connected s then r = Inr () \<and> s' = s
    else (\<exists>c. d_client s = Some c \<and>
      (case o_heartbeat C c of
         (Inr x, c') \<Rightarrow> r = Inr () \<and> s' = s\<lparr>d_client := Some c'\<rparr>
       | (Inl e, c') \<Rightarrow>
           if is_RelayError e
           then r = Inr () \<and> \<not> d_connected s' \<and> d_client s' = None \<and> d_last_error s' = Some (exc_str e)
             \<and> d_closed s' = d_closed s @ [c']
           else r = Inl e \<and> d_connected s'))"
  using assms(2,1)
  by (cases rule: heartbeat_once_cases) (auto simp: mark_disconnected_run)

theorem daemon_heartbeat_effect_witness:
  "\<not> d_connected (snd (heartbeat_once script_ops (demo_daemon [Inl (RelayProtocolError ''x'')])))
   \<and> fst (heartbeat_once script_ops (demo_daemon [Inl (PyExc ''TypeError'' ''x'')])) = Inl (PyExc ''TypeError'' ''x'')
   \<and> d_connected (snd (heartbeat_once script_ops (demo_daemon [Inl (PyExc ''TypeError'' ''x'')])))"
proof -
  have run: "heartbeat_once script_ops (demo_daemon c) =
    (fst (heartbeat_once script_ops (demo_daemon c)), snd (heartbeat_once script_ops (demo_daemon c)))" for c
    by simp
  have con: "d_connected (demo_daemon c) \<and> d_client (demo_daemon c) = Some c" for c :: script
    by (simp add: demo_daemon_def)
  show ?thesis
    using daemon_heartbeat_effect [OF demo_inv run [of "[Inl (RelayProtocolError ''x'')]"]]
      daemon_heartbeat_effect [OF demo_inv run [of "[Inl (PyExc ''TypeError'' ''x'')]"]]
    by (simp add: con script_ops_def next_answer_def)
qed

text \<open>
  C13. Progress: from every state that is not connected, if the selector finds a port, the
  factory makes a client there and the board answers as required (and, after a reboot, the
  recovery time has passed, the USB instance is a new one and the uptime is fresh), then the
  next turn of the reconnection timer connects the daemon to that port.
\<close>

theorem daemon_reconnects:
  assumes "daemon_inv s" "\<not> d_connected s" "selected_port cfg env = Inr prt"
    and "client_factory env prt = Inr c" "o_identity C c = (Inr idn, c1)" "ready_identity idn"
    and "o_status C c1 = (Inr st, c2)"
    and "\<And>t. d_reboot_started_at s = Some t \<Longrightarrow> t + REBOOT_RECOVERY_MIN_S \<le> monotonic env
      \<and> \<not> old_instance_present (usb_instance_id env prt) (note_instance (usb_instance_id env prt) s)
      \<and> is_reboot_reconnect_fresh (case d_reboot_pre_status s of None \<Rightarrow> [] | Some q \<Rightarrow> q) st"
  shows "\<exists>s'. reconnect_step C cfg env s = (Inr (), s') \<and> d_client s' = Some c2
    \<and> d_current_port s' = Some prt \<and> link_of s' = Online prt"
proof -
  have "readiness C c = (Inr st, c2)" using assms(5-7) by (auto simp: readiness_Inr)
  from reconnect_step_progress [OF assms(1-4) this assms(8)] show ?thesis by blast
qed

lemma script_answers:
  "o_identity script_ops (r # c) = (r, c)" "o_status script_ops (r # c) = (r, c)"
  "o_off_all_relays script_ops (r # c) = (r, c)" "o_heartbeat script_ops (r # c) = (r, c)"
  "o_close script_ops c = (Inr (), c)"
  by (simp_all add: script_ops_def next_answer_def sret_def)

theorem daemon_reconnects_witness:
  "\<exists>s'. reconnect_step script_ops demo_cfg (demo_env 0 [Inr good_identity, Inr []]) new_daemon = (Inr (), s')
     \<and> link_of s' = Online ''/dev/ttyACM0''"
proof -
  have "ready_identity good_identity"
    by (simp add: ready_identity_def good_identity_def dget_def py_simps)
  then have "\<exists>s'. reconnect_step script_ops demo_cfg (demo_env 0 [Inr good_identity, Inr []]) new_daemon = (Inr (), s')
     \<and> d_client s' = Some [] \<and> d_current_port s' = Some ''/dev/ttyACM0'' \<and> link_of s' = Online ''/dev/ttyACM0''"
    by (intro daemon_reconnects [OF new_daemon_inv _ _ _ script_answers(1) _ script_answers(2)])
      (simp_all add: new_daemon_def selected_port_def demo_cfg_def demo_env_def)
  then show ?thesis by blast
qed

text \<open>
  Fatal errors: a board of another protocol version, command model, relay count or
  hardware met on a reconnection stops the daemon with that protocol error, without adopting
  the client, which is closed; and a stopped daemon takes no further heartbeat or reconnection
  turn.
\<close>

theorem daemon_fatal_identity:
  assumes "\<not> d_connected s" "\<not> d_reboot_recovery s" "selected_port cfg env = Inr prt"
    and "client_factory env prt = Inr c" "o_identity C c = (Inr idn, c1)" "\<not> ready_identity idn"
    and "fst (o_close C c1) = Inr ()"
  shows "\<exists>m s'. reconnect_step C cfg env s = (Inr (), s') \<and> d_fatal_error s' = Some (RelayProtocolError m)
    \<and> d_stop s' \<and> \<not> d_connected s' \<and> d_closed s' = d_closed s @ [c1]
    \<and> \<not> turn_enabled Heartbeat_Turn s' \<and> \<not> turn_enabled (Reconnect_Turn env) s'"
proof -
  obtain e where e: "validate_readiness_identity idn = Inl e"
    using assms(6) by (cases "validate_readiness_identity idn") (auto simp: validate_readiness_identity_Inr)
  obtain m where m: "e = RelayProtocolError m"
    using e by (auto simp: validate_readiness_identity_def split: if_splits pyval.splits)
  have "readiness C c = (Inl e, c1)" using assms(5) e by (simp add: readiness_def sbind_def lift_result_def)
  with assms m show ?thesis
    by (auto simp: reconnect_step_def reconnect_once_def sbind_def reconnect_candidate_port_def
        reconnect_probe_def scatch_def probe_ready_def Let_def close_client_def sraise_def sret_def
        fail_reconnect_def)
qed

theorem daemon_fatal_identity_witness:
  "\<exists>m s'. reconnect_step script_ops demo_cfg (demo_env 0 [Inr []]) new_daemon = (Inr (), s')
     \<and> d_fatal_error s' = Some (RelayProtocolError m) \<and> d_stop s'"
proof -
  have "\<not> ready_identity []" by (simp add: ready_identity_def dget_def py_simps)
  then have "\<exists>m s'. reconnect_step script_ops demo_cfg (demo_env 0 [Inr []]) new_daemon = (Inr (), s')
    \<and> d_fatal_error s' = Some (RelayProtocolError m)
    \<and> d_stop s' \<and> \<not> d_connected s' \<and> d_closed s' = d_closed new_daemon @ [[]]
    \<and> \<not> turn_enabled Heartbeat_Turn s' \<and> \<not> turn_enabled (Reconnect_Turn (demo_env 0 [Inr []])) s'"
    by (intro daemon_fatal_identity [where c = "[Inr []]", OF _ _ _ _ script_answers(1)])
      (simp_all add: new_daemon_def selected_port_def demo_cfg_def demo_env_def script_answers)
  then show ?thesis by blast
qed

text \<open>
  Starting up: without \<open>wait_device\<close> every failure to connect is reported (a bare relay
  error as a transport error) and leaves the daemon disconnected. With it, a missing device, a
  transport error or a device error starts the daemon disconnected with the error recorded and
  one attempt counted, while a wrong identity and any other validation error are still
  reported.
\<close>

theorem daemon_start_failures:
  assumes "connect_ready C cfg env s = (Inl e, s1)" "daemon_inv s" "\<not> d_connected s"
  shows "(if is_RelayError e \<and> wait_device cfg \<and> \<not> is_RelayProtocolError e
             \<and> (is_RelayValidationError e \<longrightarrow> is_missing_selected_device e)
          then fst (initial_connect C cfg env s) = Inr ()
            \<and> d_last_error (snd (initial_connect C cfg env s)) = Some (exc_str e)
            \<and> d_reconnect_attempts (snd (initial_connect C cfg env s)) = d_reconnect_attempts s1 + 1
            \<and> \<not> d_connected (snd (initial_connect C cfg env s))
          else \<exists>e'. fst (initial_connect C cfg env s) = Inl e' \<and> exc_str e' = exc_str e
            \<and> (is_RelayError e \<longrightarrow> is_RelayError e'))"
  using assms(1)
  by (cases e)
    (auto simp: initial_connect_def scatch_def mark_disconnected_run)

theorem daemon_start_failures_witness:
  "fst (initial_connect script_ops demo_cfg (demo_env 0 []) new_daemon) = Inr ()
   \<and> d_reconnect_attempts (snd (initial_connect script_ops demo_cfg (demo_env 0 []) new_daemon)) = 1"
proof -
  have c: "connect_ready script_ops demo_cfg (demo_env 0 []) new_daemon =
    (Inl (RelayTimeoutError ''timed out waiting for SMP response''),
     new_daemon\<lparr>d_opened := 1, d_closed := [[]]\<rparr>)"
    by (simp add: connect_ready_def sbind_def lift_result_def selected_port_def demo_cfg_def
        probe_ready_def demo_env_def readiness_def script_ops_def next_answer_def Let_def close_client_def
        sret_def sraise_def new_daemon_def)
  from daemon_start_failures [OF c new_daemon_inv] show ?thesis
    by (simp add: new_daemon_def demo_cfg_def)
qed

text \<open>
  C14. Shutting down: from every reachable state, the daemon is asked to stop; the client in use,
  if any, gets off-all as its last command, and unless that raises something that is not a relay
  error, the daemon ends with neither client nor port, that client is closed, and with it every
  client the factory ever made. An exception that is not a relay error leaves shutdown with
  the client open.
\<close>

theorem daemon_shutdown:
  assumes "reachable C cfg v s" "shutdown C s = (r, s')"
  shows "d_stop s' \<and>
    (case d_client s of
       None \<Rightarrow> r = Inr () \<and> d_closed s' = d_closed s
     | Some c \<Rightarrow>
        (case o_off_all_relays C c of
           (Inl e, c') \<Rightarrow> if is_RelayError e then r = Inr () \<and> d_closed s' = d_closed s @ [c'] else r = Inl e
         | (Inr x, c') \<Rightarrow> r = Inr () \<and> d_closed s' = d_closed s @ [c'])) \<and>
    (if r = Inr () then \<not> d_connected s' \<and> d_client s' = None \<and> d_current_port s' = None
       \<and> d_opened s' = length (d_closed s')
     else d_connected s' \<and> d_closed s' = d_closed s)"
  using reachable_inv [OF assms(1)] assms(2)
  by (auto simp: shutdown_def drop_client_def close_quietly_def close_client_def Let_def inv_loan_def daemon_shape_def
      split: option.splits prod.splits sum.splits if_splits)

theorem daemon_shutdown_witness:
  "let s' = snd (shutdown script_ops (demo_daemon [Inl (RelayTimeoutError ''timed out''), Inr []]))
   in \<not> d_connected s' \<and> d_closed s' = [[Inr []]] \<and> d_opened s' = 1"
proof -
  let ?h = "shutdown script_ops (demo_daemon [Inl (RelayTimeoutError ''timed out''), Inr []])"
  have "?h = (fst ?h, snd ?h)" by simp
  moreover have "d_client (demo_daemon c) = Some c" "d_closed (demo_daemon c) = []" "d_opened (demo_daemon c) = 1"
    for c :: script by (simp_all add: demo_daemon_def new_daemon_def)
  moreover have "d_opened (snd ?h) = d_opened (demo_daemon [Inl (RelayTimeoutError ''timed out''), Inr []])"
    by (simp add: shutdown_def demo_daemon_def script_answers drop_client_def close_quietly_run)
  ultimately show ?thesis
    using daemon_shutdown [OF demo_reachable [of "''1''"] \<open>?h = (fst ?h, snd ?h)\<close>]
    by (simp add: Let_def script_answers split: if_splits)
qed

end
