(* ===== verification/Service_Properties.thy ===== *)
theory Service_Properties
  imports Daemon_Service Daemon_Properties
begin

text \<open>
  The statements about the daemon's socket: framing, ordering and exactly one answer for every
  line, progress, and the line that ends the parser.
\<close>

section \<open>Framing\<close>

text \<open>
  C18. Framing: whatever the sizes of the chunks a connection's bytes arrive in, and whatever
  other connections send in between, the lines accepted from it are the lines of its byte stream,
  in order, and its buffer is what follows the last line break, as long as no line and no rest
  exceeds 4096 bytes; and nothing is sent to it.
\<close>

theorem framing_ignores_chunks:
  assumes "so_data s conn = Some []" "short_lines (stream_of conn evs)" "\<forall>(c, chunk) \<in> set evs. chunk \<noteq> []"
  shows "conn_view conn (read_all evs s) =
    (Some (snd (split_lines (stream_of conn evs))),
     fst (snd (conn_view conn s)) @ fst (split_lines (stream_of conn evs)),
     fst (snd (snd (conn_view conn s))) @ fst (split_lines (stream_of conn evs)),
     snd (snd (snd (conn_view conn s))))"
  using read_all_stream [of conn s "[]" _ _ _ evs] assms by (auto simp: conn_view_def)

theorem framing_ignores_chunks_witness:
  "conn_view 3 (read_all [(3, ''ab''), (7, ''zz''), (3, ''c'' @ [nl, CHR ''d''])]
      (new_socket_state\<lparr>so_data := (\<lambda>_. None)(3 \<mapsto> [])\<rparr>)) =
    (Some ''d'', [''abc''], [''abc''], [])"
proof -
  let ?evs = "[(3, ''ab''), (7, ''zz''), (3, ''c'' @ [nl, CHR ''d''])]"
  have n: "nl = CHR 0x0A" by code_simp
  have st: "stream_of 3 ?evs = ''abc'' @ [nl, CHR ''d'']" by (simp add: stream_of_def)
  have sp: "split_lines (stream_of 3 ?evs) = ([''abc''], ''d'')" unfolding st by (simp add: n)
  have "short_lines (stream_of 3 ?evs)" unfolding short_lines_def sp by (simp add: short_def)
  from framing_ignores_chunks [OF _ this, of "new_socket_state\<lparr>so_data := (\<lambda>_. None)(3 \<mapsto> [])\<rparr>"]
  show ?thesis unfolding sp by (simp add: conn_view_def new_socket_state_def)
qed

section \<open>Every line is answered once, in order\<close>


definition demo_acts :: "script act list" where
  "demo_acts = [Accept (Inr 3), Read 3 (Inr (''x'' @ [nl])), Parse]"


text \<open>
  Order: the worker runs the requests one at a time in the order in which their lines were
  accepted, across all connections, and those still queued and pending come after it in that
  order too.
\<close>

theorem service_runs_in_order:
  assumes "daemon_inv dm" "4096 \<le> d" "v = service_run d C cfg ver acts (new_service dm)"
  shows "sorted_wrt (<) (sv_ran v @ map (\<lambda>(conn, q). rq_order q) (sv_requests v) @ pending_orders (sv_sock v))"
  using service_run_inv [OF service_inv_new [OF assms(1)], of d C cfg ver acts] assms(2,3)
  by (auto simp: service_inv_def sock_inv_def orders_inv_def orders_ok_def)

theorem service_runs_in_order_witness:
  "sorted_wrt (<) (sv_ran (service_run 4096 script_ops demo_cfg ''1'' demo_acts (new_service (demo_daemon []))))"
  using service_runs_in_order [OF demo_inv _ refl, of 4096 script_ops demo_cfg "''1''" demo_acts "[]"]
  by (simp only: sorted_wrt_append)

text \<open>
  C17. Bounds: a buffer kept between reads never holds more than 4096 bytes or a line break,
  and a line handed to the parser never exceeds 4096 bytes.
\<close>

theorem service_bounds:
  assumes "daemon_inv dm" "4096 \<le> d" "v = service_run d C cfg ver acts (new_service dm)"
  shows "(\<forall>conn buf. so_data (sv_sock v) conn = Some buf \<longrightarrow> length buf \<le> 4096 \<and> nl \<notin> set buf)
    \<and> (\<forall>(conn, l, n) \<in> set (so_pending (sv_sock v)). length l \<le> 4096 \<and> nl \<notin> set l)"
  using service_run_inv [OF service_inv_new [OF assms(1)], of d C cfg ver acts] assms(2,3)
  by (fastforce simp: service_inv_def sock_inv_def buffers_inv_def lines_inv_def short_def)

theorem service_bounds_witness:
  "list_all (\<lambda>(conn, l, n). length l \<le> 4096 \<and> nl \<notin> set l)
     (so_pending (sv_sock (service_run 4096 script_ops demo_cfg ''1'' demo_acts (new_service (demo_daemon [])))))"
  using service_bounds [OF demo_inv _ refl, of 4096 script_ops demo_cfg "''1''" demo_acts "[]"]
  by (simp add: list_all_iff)



text \<open>
  A line nested deeper than the interpreter's scanner allows, for instance one opening
  bracket more than the limit, raises RecursionError in the parser, which catches only relay
  errors: the thread ends, and no line accepted later, of any connection, is parsed.
\<close>

theorem deep_line_ends_parser:
  assumes "so_pending (sv_sock v) = (conn, replicate (Suc d) (CHR ''[''), n) # ps" "sv_parser_alive v"
  shows "\<not> sv_parser_alive (service_act d C cfg ver Parse v)
    \<and> so_pending (sv_sock (service_act d C cfg ver Parse (service_act d C cfg ver Parse v))) = ps"
proof -
  have "utf8_valid (replicate (Suc d) (CHR ''[''))"
    by (rule ascii_utf8_valid) (simp only: set_replicate, simp)
  then have "parser_turn d (replicate (Suc d) (CHR ''['')) n
      = Inl (PyExc ''RecursionError'' ''maximum recursion depth exceeded'')"
    using json_loads_too_deep [of d]
    by (simp add: parser_turn_def parse_request_line_def parse_payload_def py_decode_def del: replicate.simps)
  with assms show ?thesis by (simp add: parse_next_def Let_def del: replicate.simps)
qed

theorem deep_line_ends_parser_witness:
  "\<not> sv_parser_alive (service_act 2 script_ops demo_cfg ''1'' Parse
      ((new_service (demo_daemon []))\<lparr>sv_sock := new_socket_state\<lparr>so_pending := [(3, ''[[['', 1)]\<rparr>\<rparr>))"
  using deep_line_ends_parser [of "(new_service (demo_daemon []))\<lparr>sv_sock := new_socket_state\<lparr>so_pending := [(3, ''[[['', 1)]\<rparr>\<rparr>"
      3 2 1 "[]" script_ops demo_cfg "''1''"]
  by (simp add: new_service_def numeral_eq_Suc)

end
