(* ===== verification/Protocol_Properties.thy ===== *)
theory Protocol_Properties
  imports Daemon_Properties
begin

text \<open>
  The statements about the protocol between the daemon and its clients: which lines are
  requests, what a request sends to the board, what a client refuses to send, and the round
  trip of a command through the socket.
\<close>

text \<open>
  C20. Acceptance: a line is a request exactly if it decodes as UTF-8 and as a JSON object with
  a string or integer id, the name of a known command, and the arguments of that command: the
  keys it takes and no others, channels 0 to 5, masks 0 to 63, durations 10 to 60000 and a
  boolean for on, where booleans do not pass for integers; absent or null arguments count as
  none.
\<close>

theorem request_accepted_iff:
  "parse_request_line d line n = Inr q \<longleftrightarrow>
     (\<exists>p. rbind (py_decode line) (json_loads d) = Inr (PDict p)
       \<and> id_ok (dget p ''id'') \<and> rq_id q = dget p ''id'' \<and> rq_order q = n
       \<and> dget p ''command'' = PStr (rq_command q) \<and> rq_command q \<in> set COMMANDS
       \<and> args_spec (rq_command q) (rq_args q)
       \<and> dget_or p ''args'' (PDict []) \<in> {PDict (rq_args q)} \<union> (if rq_args q = [] then {PNone} else {}))"
  by (auto simp: parse_request_line_def parse_payload_def rbind_Inr check_request_Inr
      split: sum.splits if_splits)

text \<open>
  Refusals: a line that is not a request is answered with a validation or a protocol
  error and nothing else, unless its nesting exceeds what the scanner allows.
\<close>

theorem request_refused:
  assumes "parse_request_line d line n = Inl e"
  shows "is_RelayValidationError e \<or> is_RelayProtocolError e
    \<or> (py_class e = ''RecursionError'' \<and> d < length line)"
proof (cases "rbind (py_decode line) (json_loads d)")
  case (Inl e')
  then have "py_class e' \<in> {''UnicodeDecodeError'', ''JSONDecodeError''}
      \<or> py_class e' = ''RecursionError'' \<and> d < length line"
    using json_loads_error [of d line] by (auto simp: rbind_Inl py_decode_def split: if_splits)
  then show ?thesis using assms Inl
    by (auto simp: parse_request_line_def parse_payload_def)
next
  case (Inr v)
  then show ?thesis using assms check_request_validates [of n v]
    by (auto simp: parse_request_line_def parse_payload_def validates_def)
qed

theorem request_refused_witness:
  "is_RelayValidationError (RelayValidationError ''request must be a JSON object'')
     \<or> is_RelayProtocolError (RelayValidationError ''request must be a JSON object'')"
proof -
  have "parse_request_line 2 ''[]'' 1 = Inl (RelayValidationError ''request must be a JSON object'')"
    by (simp add: parse_request_line_def parse_payload_def py_decode_def ascii_utf8_valid json_loads_def skip_ws_def
        json_ws_def parse_value.simps check_request_def)
  from request_refused [OF this] show ?thesis by simp
qed

text \<open>
  C21. Dispatch: a request that was accepted reaches the board as exactly the SMP request of
  its command: the management command and the read or write operation of the table, with the
  arguments as payload and no further check failing.
\<close>

theorem dispatch_reaches_wire:
  assumes "parse_request_line d line n = Inr q" "rq_command q \<noteq> ''daemon-status''"
  shows "dispatch_device_command (relay_client_ops slib T) (rq_command q) (rq_args q) c =
    client_request slib T (fst (command_request (rq_command q))) (snd (command_request (rq_command q)))
      (command_payload (rq_command q) (rq_args q)) c"
proof -
  have "rq_command q \<in> set DEVICE_COMMANDS" "args_spec (rq_command q) (rq_args q)"
    using assms by (auto simp: parse_request_line_def rbind_Inr check_request_Inr COMMANDS_def)
  then show ?thesis by (rule dispatch_sends)
qed

theorem dispatch_reaches_wire_witness:
  "let c = \<lparr>rc_transport = \<lparr>responses = [], requests = []\<rparr>, rc_timeout_s = 2, rc_retries = 1, rc_seq = 0\<rparr>
   in dispatch_device_command (relay_client_ops (smoke_lib 1) sim_ops) ''off-all'' [] c =
      client_request (smoke_lib 1) sim_ops CMD_OFF_ALL OP_WRITE [] c"
proof -
  obtain line where t: "parse_request_line 3 line 1 =
      Inr \<lparr>rq_id = PInt 1, rq_command = ''off-all'', rq_args = opt_args None, rq_order = 1\<rparr>"
    using request_line_parsed [of "''off-all''" None 3 1 1]
    by (auto simp: COMMANDS_def DEVICE_COMMANDS_def args_spec_def opt_args_def frame_args_ok_def)
  from dispatch_reaches_wire [OF t, of "smoke_lib 1" sim_ops] show ?thesis
    by (simp add: Let_def opt_args_def command_request_def command_payload_def del: CMD_OFF_ALL_def)
qed

text \<open>
  The client's gates: the commands with arguments are sent exactly if the arguments are
  ones the daemon accepts; otherwise they raise a validation error, the socket is not used and
  no request id is consumed.
\<close>

theorem daemon_client_gate:
  "dc_get_relay d K ch c =
     (if args_spec ''get'' [(''channel'', ch)] then daemon_request d K ''get'' (Some [(''channel'', ch)]) c
      else (Inl (RelayValidationError ''channel must be 0..5''), c))
   \<and> dc_set_relay d K ch on c =
     (if args_spec ''set'' [(''channel'', ch), (''on'', on)]
      then daemon_request d K ''set'' (Some [(''channel'', ch), (''on'', on)]) c
      else (Inl (RelayValidationError (if int_in ch 0 5 then ''on must be a bool'' else ''channel must be 0..5'')), c))
   \<and> dc_set_all_relays d K st c =
     (if args_spec ''set-all'' [(''state'', st)] then daemon_request d K ''set-all'' (Some [(''state'', st)]) c
      else (Inl (RelayValidationError ''state must be a six-bit mask 0..0x3f''), c))
   \<and> dc_pulse_relay d K ch ms c =
     (if args_spec ''pulse'' [(''channel'', ch), (''duration_ms'', ms)]
      then daemon_request d K ''pulse'' (Some [(''channel'', ch), (''duration_ms'', ms)]) c
      else (Inl (RelayValidationError (if int_in ch 0 5 then ''duration_ms must be 10..60000''
                                       else ''channel must be 0..5'')), c))"
proof -
  have "int_str 5 = ''5''" by code_simp
  then have ch: "dc_validate_channel v = (if int_in v 0 5 then Inr () else Inl (RelayValidationError ''channel must be 0..5''))" for v
    unfolding dc_validate_channel_def strict_int_cases int_in_def by (cases v) auto
  have ms: "dc_validate_duration v = (if int_in v 10 60000 then Inr ()
      else Inl (RelayValidationError ''duration_ms must be 10..60000''))" for v
    unfolding dc_validate_duration_def strict_int_cases int_in_def by (cases v) auto
  have "(i :: int) AND NOT RELAY_MASK = 0 \<longleftrightarrow> i \<le> 63" if "0 \<le> i" for i
    using p_validate_state_Inr [of "PInt i"] that by (auto simp: p_validate_state_def strict_int_cases split: if_splits)
  then have st: "dc_validate_state_mask v = (if int_in v 0 63 then Inr ()
      else Inl (RelayValidationError ''state must be a six-bit mask 0..0x3f''))" for v
    unfolding dc_validate_state_mask_def strict_int_cases int_in_def by (cases v) auto
  show ?thesis
    by (auto simp: dc_get_relay_def dc_set_relay_def dc_set_all_relays_def dc_pulse_relay_def ch ms st
        sbind_def lift_result_def sraise_def args_spec_def dget_def)
qed



end
