(* ===== verification/Text.thy ===== *)
theory Text
  imports Json "HOL-Library.List_Lexorder" "HOL-Library.Char_ord"
begin

text \<open>
  What the command-line tools use of Python's string formatting: hexadecimal with a width,
  padding to a number of code points, \<open>str.splitlines\<close>, \<open>d[k]\<close> and sorted JSON. Strings are
  UTF-8, so a length in Python is a number of code points here.
\<close>

definition py_len :: "string \<Rightarrow> nat" where
  "py_len s = length (codepoints s)"

definition pad_right :: "nat \<Rightarrow> string \<Rightarrow> string" where
  "pad_right w s = s @ replicate (w - py_len s) (CHR '' '')"

text \<open>\<open>format(i, "x")\<close> and \<open>format(i, "0<w>x")\<close>: the zeros come after the sign.\<close>

fun hex_nat :: "nat \<Rightarrow> string" where
  "hex_nat n = (if n < 16 then [hex_char n] else hex_nat (n div 16) @ [hex_char (n mod 16)])"

declare hex_nat.simps [simp del]

definition format_hex :: "nat \<Rightarrow> int \<Rightarrow> string" where
  "format_hex w i =
     (let sg = (if i < 0 then ''-'' else []); ds = hex_nat (nat \<bar>i\<bar>)
      in sg @ replicate (w - length sg - length ds) (CHR ''0'') @ ds)"

text \<open>The line boundaries of \<open>str.splitlines\<close>: how many bytes of one the text starts with.\<close>

definition line_break :: "string \<Rightarrow> nat" where
  "line_break s =
     (case map of_char s of
        [] \<Rightarrow> 0
      | (c :: nat) # cs \<Rightarrow>
          if c = 13 then (if take 1 cs = [10] then 2 else 1)
          else if c \<in> {10, 11, 12, 28, 29, 30} then 1
          else if c = 194 \<and> take 1 cs = [133] then 2
          else if c = 226 \<and> (take 2 cs = [128, 168] \<or> take 2 cs = [128, 169]) then 3
          else 0)"

lemma line_break_Nil [simp]: "line_break [] = 0"
  by (simp add: line_break_def)

function splitlines_from :: "string \<Rightarrow> string \<Rightarrow> string list" where
  "splitlines_from acc s =
     (if s = [] then (if acc = [] then [] else [acc])
      else if line_break s = 0 then splitlines_from (acc @ [hd s]) (tl s)
      else acc # splitlines_from [] (drop (line_break s) s))"
  by auto

termination
  by (relation "measure (\<lambda>(acc, s). length s)") auto

declare splitlines_from.simps [simp del]

definition splitlines :: "string \<Rightarrow> string list" where
  "splitlines s = splitlines_from [] s"

text \<open>\<open>d[k]\<close>.\<close>

definition ditem :: "pydict \<Rightarrow> string \<Rightarrow> pyval result" where
  "ditem d k = (case map_of d k of Some v \<Rightarrow> Inr v | None \<Rightarrow> Inl (PyExc ''KeyError'' (repr_str k)))"

text \<open>\<open>json.dumps(v, sort_keys=True)\<close>, with the default separators.\<close>

fun sort_keys :: "pyval \<Rightarrow> pyval"
  and sort_values :: "pydict \<Rightarrow> pydict" where
  "sort_keys (PList vs) = PList (map sort_keys vs)"
| "sort_keys (PDict kvs) = PDict (sort_key fst (sort_values kvs))"
| "sort_keys v = v"
| "sort_values [] = []"
| "sort_values ((k, v) # kvs) = (k, sort_keys v) # sort_values kvs"

definition json_sorted :: "pyval \<Rightarrow> string result" where
  "json_sorted v = json_dumps '', '' '': '' (sort_keys v)"

text \<open>\<open>min\<close>, \<open>max\<close> of an empty iterable raise.\<close>

definition py_max :: "nat list \<Rightarrow> nat result" where
  "py_max ns = (if ns = [] then Inl (PyExc ''ValueError'' ''max() iterable argument is empty'')
                else Inr (foldr max ns 0))"

fun rmap :: "('a \<Rightarrow> 'b result) \<Rightarrow> 'a list \<Rightarrow> 'b list result" where
  "rmap f [] = Inr []"
| "rmap f (x # xs) = rbind (f x) (\<lambda>y. rbind (rmap f xs) (\<lambda>ys. Inr (y # ys)))"

lemma rmap_Inr: "(\<And>x. x \<in> set xs \<Longrightarrow> f x = Inr (g x)) \<Longrightarrow> rmap f xs = Inr (map g xs)"
  by (induction xs) auto

lemma sort_values_map: "sort_values kvs = map (\<lambda>(k, v). (k, sort_keys v)) kvs"
  by (induction kvs) auto

text \<open>Sorting changes the order of the keys and nothing else: a dictionary reads the same.\<close>

lemma map_of_sort_keys:
  assumes "distinct (map fst kvs)"
  shows "map_of (sort_key fst (sort_values kvs)) k = map_option sort_keys (map_of kvs k)"
proof -
  have "map_of (sort_values kvs) k = map_option sort_keys (map_of kvs k)"
    by (induction kvs) auto
  moreover have d: "distinct (map fst (sort_values kvs))"
    using assms by (simp add: sort_values_map comp_def case_prod_beta)
  then have "distinct (map fst (sort_key fst (sort_values kvs)))"
    by (simp add: distinct_map)
  with d have "map_of (sort_key fst (sort_values kvs)) k = Some v \<longleftrightarrow> map_of (sort_values kvs) k = Some v" for v
    by (simp add: map_of_eq_Some_iff)
  then have "map_of (sort_key fst (sort_values kvs)) k = map_of (sort_values kvs) k"
    by (metis not_Some_eq)
  ultimately show ?thesis by simp
qed

end
