(* ===== verification/Cli.thy ===== *)
theory Cli
  imports Text Protocol Smoke
begin

text \<open>
  host/rp2350_relay_6ch/cli.py: the conversions of the command line's values, the rendering
  of payloads, the commands on a RelayClient and the exit codes. What argparse makes of the
  command line is the record \<open>cli_args\<close>; the client is a record of operations.
\<close>

section \<open>Values of the command line\<close>

definition arg_type_error :: "string \<Rightarrow> exc" where
  "arg_type_error m = PyExc ''ArgumentTypeError'' m"

definition parse_state :: "string \<Rightarrow> int result" where
  "parse_state value =
     (case py_int_of_str0 value of
        None \<Rightarrow> Inl (arg_type_error ''state must be an integer mask'')
      | Some st \<Rightarrow>
          if st < 0 \<or> st AND NOT RELAY_MASK \<noteq> 0
          then Inl (arg_type_error (''state must be 0..0x'' @ format_hex 0 RELAY_MASK)) else Inr st)"

definition parse_channel :: "string \<Rightarrow> int result" where
  "parse_channel value =
     (case py_int_of_str0 value of
        None \<Rightarrow> Inl (arg_type_error ''channel must be an integer'')
      | Some channel \<Rightarrow>
          if channel < 1 \<or> RELAY_COUNT < channel
          then Inl (arg_type_error (''channel must be 1..'' @ int_str RELAY_COUNT)) else Inr (channel - 1))"

definition parse_on_off :: "string \<Rightarrow> bool result" where
  "parse_on_off value =
     (let normalized = lower value in
      if normalized \<in> {''on'', ''1'', ''true'', ''yes''} then Inr True
      else if normalized \<in> {''off'', ''0'', ''false'', ''no''} then Inr False
      else Inl (arg_type_error ''state must be on or off''))"

section \<open>Rendering\<close>

type_synonym rows = "(string \<times> pyval) list"

definition state_channels :: "int \<Rightarrow> string list" where
  "state_channels st =
     map (\<lambda>channel. ''CH'' @ int_str (channel + 1))
       (filter (\<lambda>channel. st AND push_bit (nat channel) 1 \<noteq> 0) [0 .. RELAY_COUNT - 1])"

definition format_row :: "nat \<Rightarrow> string \<times> pyval \<Rightarrow> string" where
  "format_row key_width = (\<lambda>(key, value). pad_right (key_width + 1) (key @ '':'') @ ''  '' @ py_str value)"

definition rows_width :: "rows \<Rightarrow> nat result" where
  "rows_width rs = py_max (map (\<lambda>(key, v). py_len key) rs)"

definition format_key_value_rows :: "rows \<Rightarrow> nat option \<Rightarrow> string result" where
  "format_key_value_rows rs key_width =
     rbind (case key_width of Some w \<Rightarrow> Inr w | None \<Rightarrow> rows_width rs) (\<lambda>w.
       Inr (join newline (map (format_row w) rs)))"

definition py_bool_text :: "bool \<Rightarrow> pyval" where
  "py_bool_text b = PStr (if b then ''true'' else ''false'')"

definition format_single_channel :: "pydict \<Rightarrow> string result" where
  "format_single_channel payload =
     rbind (rbind (ditem payload ''channel'') py_int) (\<lambda>channel.
       format_key_value_rows
         ([(''channel'', PStr (''CH'' @ int_str (channel + 1))),
           (''on'', py_bool_text (py_truthy (dget_or payload ''on'' (PBool False))))]
          @ (if dhas payload ''pulsing''
             then [(''pulsing'', py_bool_text (py_truthy (dget payload ''pulsing'')))] else [])) None)"

definition or_none :: "string list \<Rightarrow> pyval" where
  "or_none channels = PStr (if channels \<noteq> [] then join '', '' channels else ''none'')"

definition relay_mask_rows :: "pydict \<Rightarrow> rows result" where
  "relay_mask_rows payload =
     rbind (py_int (dget_or payload ''state'' (PInt 0))) (\<lambda>st.
       rbind (py_int (dget_or payload ''pulsing'' (PInt 0))) (\<lambda>pulsing.
         Inr ([(''state'', PStr (''0x'' @ format_hex 2 st)), (''on'', or_none (state_channels st))]
              @ (if dhas payload ''pulsing'' then [(''pulsing'', or_none (state_channels pulsing))] else []))))"

definition format_relay_masks :: "pydict \<Rightarrow> string result" where
  "format_relay_masks payload = rbind (relay_mask_rows payload) (\<lambda>rs. format_key_value_rows rs None)"

definition format_human_value :: "pyval \<Rightarrow> pyval" where
  "format_human_value v =
     (case v of PNone \<Rightarrow> PStr ''none'' | PBool b \<Rightarrow> py_bool_text b | _ \<Rightarrow> v)"

definition sorted_rows :: "pydict \<Rightarrow> rows" where
  "sorted_rows payload = map (\<lambda>key. (key, dget payload key)) (sort (map fst payload))"

definition status_hidden :: "string list" where
  "status_hidden =
     [''state'', ''pulsing'', ''health'', ''health_primary_reason'', ''health_reasons'',
      ''health_transitions'', ''smp_uart'', ''usb_cdc_acm'']"

definition format_status :: "pydict \<Rightarrow> string result" where
  "format_status payload =
     (let transport = filter (\<lambda>(key, v). key \<notin> set status_hidden) (sorted_rows payload) in
      rbind (relay_mask_rows payload) (\<lambda>relay_rows.
        (let health_rows =
               [(''state'', format_human_value (dget payload ''health'')),
                (''primary_reason'', format_human_value (dget payload ''health_primary_reason'')),
                (''reasons'', format_human_value (dget payload ''health_reasons'')),
                (''transitions'', format_human_value (dget payload ''health_transitions''))] in
         rbind (rows_width (relay_rows @ health_rows @ transport)) (\<lambda>w.
           rbind (format_key_value_rows relay_rows (Some w)) (\<lambda>relays.
           rbind (format_key_value_rows health_rows (Some w)) (\<lambda>health.
           rbind (format_key_value_rows transport (Some w)) (\<lambda>trans.
             Inr (join newline
               (''[relays]'' # splitlines relays
                @ (if dhas payload ''health'' then [] # ''[health]'' # splitlines health else [])
                @ (if transport \<noteq> [] then [] # ''[transport]'' # splitlines trans else []))))))))))"

definition format_daemon_status :: "pydict \<Rightarrow> string result" where
  "format_daemon_status payload =
     format_key_value_rows
       (map (\<lambda>key. (key, format_human_value (dget payload key)))
          [''connected'', ''selector_type'', ''selector_value'', ''current_port'', ''socket_path'',
           ''reconnect_attempts'', ''last_error'', ''daemon_version'']) None"

definition CAPABILITY_BITS :: "(string \<times> nat) list" where
  "CAPABILITY_BITS = [(''get'', 0), (''get_all'', 1), (''set'', 2), (''set_all'', 3), (''pulse'', 4), (''off_all'', 5)]"

definition format_capabilities :: "pydict \<Rightarrow> string result" where
  "format_capabilities payload =
     rbind (py_int (dget_or payload ''capabilities'' (PInt 0))) (\<lambda>caps.
     rbind (format_key_value_rows [(''capabilities'', PStr (''0x'' @ format_hex 0 caps))] None) (\<lambda>first.
     rbind (py_max (map (\<lambda>(name, b). py_len name) CAPABILITY_BITS)) (\<lambda>w.
       (let bits = map (\<lambda>(name, b). ''  '' @ pad_right (w + 1) (name @ '':'') @ '' ''
                 @ py_str (py_bool_text (caps AND push_bit b 1 \<noteq> 0))) CAPABILITY_BITS;
            remaining = filter (\<lambda>(key, v). key \<noteq> ''capabilities'') (sorted_rows payload) in
        rbind (if remaining = [] then Inr [] else format_key_value_rows remaining None) (\<lambda>rest.
          Inr (join newline (splitlines first @ bits @ splitlines rest)))))))"

definition format_key_values :: "pydict \<Rightarrow> string result" where
  "format_key_values payload = format_key_value_rows (sorted_rows payload) None"

definition format_json :: "pydict \<Rightarrow> string result" where
  "format_json payload = json_sorted (PDict payload)"

definition format_human :: "string \<Rightarrow> pydict \<Rightarrow> string result" where
  "format_human command payload =
     (if command = ''capabilities'' then format_capabilities payload
      else if command \<in> {''identity'', ''health'', ''transport'', ''safety'', ''watchdog''} then format_key_values payload
      else if command = ''get'' then format_single_channel payload
      else if command \<in> {''get-all'', ''set'', ''set-all'', ''pulse'', ''off-all''} then format_relay_masks payload
      else if command = ''status'' then format_status payload
      else if command = ''daemon-status'' then format_daemon_status payload
      else if command = ''build-info'' then format_key_values payload
      else if command = ''reboot'' then Inr ''reboot requested''
      else if command = ''bootsel'' then Inr ''bootsel requested''
      else if command = ''smoke'' then Inr ''smoke test passed''
      else format_json payload)"

section \<open>Commands\<close>

text \<open>
  The namespace of argparse: the selectors and settings, and the values of the command's own
  arguments, as converted by the functions above.
\<close>

record cli_args =
  a_command :: string
  a_port :: "string option"
  a_serial :: "string option"
  a_baud :: int
  a_timeout :: rat
  a_retries :: int
  a_output :: string
  a_channel :: int
  a_state :: pyval
  a_duration_ms :: int
  a_pulse_ms :: int

text \<open>\<open>_client\<close>: the factory is RelayClient.connect, a parameter with its result.\<close>

type_synonym 'c connect = "string \<Rightarrow> int \<Rightarrow> rat \<Rightarrow> int \<Rightarrow> 'c result"

text \<open>What a command leaves: its result, and the clients it opened, as they were left.\<close>

type_synonym ('c, 'a) cmd = "'a result \<times> 'c option"

definition cli_client :: "'c connect \<Rightarrow> cli_args \<Rightarrow> 'c result" where
  "cli_client connect args =
     connect (case a_port args of None \<Rightarrow> [] | Some p \<Rightarrow> p) (a_baud args) (a_timeout args) (a_retries args)"

definition validate_identity :: "pydict \<Rightarrow> unit result" where
  "validate_identity idn =
     (if \<not> py_eq_int (dget idn ''protocol_version'') PROTOCOL_VERSION
      then Inl (RelayProtocolError (''unexpected relay protocol version '' @ py_str (dget idn ''protocol_version'')))
      else if \<not> py_eq_int (dget idn ''command_model_version'') COMMAND_MODEL_VERSION
      then Inl (RelayProtocolError (''unexpected relay command model version ''
             @ py_str (dget idn ''command_model_version'')))
      else Inr ())"

definition validate_protocol :: "'c relay_ops \<Rightarrow> ('c, unit) sexc" where
  "validate_protocol C = sbind (o_identity C) (\<lambda>idn. lift_result (validate_identity idn))"

text \<open>\<open>_ready_client\<close>: every exception closes the client and is raised again.\<close>

definition ready_client :: "'c relay_ops \<Rightarrow> ('c, unit) sexc" where
  "ready_client C = scatch (validate_protocol C) (\<lambda>e. sbind (o_close C) (\<lambda>_. sraise e))"

text \<open>\<open>with _ready_client(args) as client: return use(client)\<close>.\<close>

definition with_ready :: "'c relay_ops \<Rightarrow> 'c connect \<Rightarrow> cli_args \<Rightarrow> ('c, 'a) sexc \<Rightarrow> ('c, 'a) cmd" where
  "with_ready C connect args act =
     (case cli_client connect args of
        Inl e \<Rightarrow> (Inl e, None)
      | Inr c \<Rightarrow>
          (case sbind (ready_client C) (\<lambda>_. sfinally act (o_close C)) c of (r, c') \<Rightarrow> (r, Some c')))"

definition require_port :: "cli_args \<Rightarrow> unit result" where
  "require_port args =
     (if a_port args = None \<or> a_port args = Some [] then Inl (RelayValidationError ''--port is required'') else Inr ())"

text \<open>identity and capabilities use a client that is neither checked nor closed.\<close>

definition with_unchecked :: "'c connect \<Rightarrow> cli_args \<Rightarrow> ('c, 'a) sexc \<Rightarrow> ('c, 'a) cmd" where
  "with_unchecked connect args act =
     (case cli_client connect args of
        Inl e \<Rightarrow> (Inl e, None)
      | Inr c \<Rightarrow> (case act c of (r, c') \<Rightarrow> (r, Some c')))"

definition smoke_ops :: "'c relay_ops \<Rightarrow> 'c SmokeRelayClient" where
  "smoke_ops C =
     \<lparr>s_identity = o_identity C, s_capabilities = o_capabilities C, s_status = o_status C,
      s_pulse_relay = (\<lambda>ch ms. o_pulse_relay C (PInt ch) (PInt ms)), s_off_all_relays = o_off_all_relays C\<rparr>"

definition cli_actions :: "'c relay_ops \<Rightarrow> (int \<Rightarrow> unit result) \<Rightarrow> cli_args \<Rightarrow> (string \<times> ('c, pydict) sexc) list" where
  "cli_actions C sleep args =
     [(''build-info'', o_build_info C), (''get'', o_get_relay C (PInt (a_channel args))),
      (''get-all'', o_get_all_relays C), (''set'', o_set_relay C (PInt (a_channel args)) (a_state args)),
      (''set-all'', o_set_all_relays C (a_state args)),
      (''pulse'', o_pulse_relay C (PInt (a_channel args)) (PInt (a_duration_ms args))),
      (''off-all'', o_off_all_relays C), (''status'', o_status C), (''health'', o_health C),
      (''transport'', o_transport_status C), (''safety'', o_safety C), (''watchdog'', o_watchdog C),
      (''reboot'', o_reboot C), (''bootsel'', o_bootsel C),
      (''smoke'', run_smoke_sequence (smoke_ops C) sleep (a_pulse_ms args))]"

text \<open>\<open>COMMANDS[args.command](args)\<close>.\<close>

definition run_command :: "'c relay_ops \<Rightarrow> 'c connect \<Rightarrow> (int \<Rightarrow> unit result) \<Rightarrow> cli_args \<Rightarrow> ('c, pydict) cmd" where
  "run_command C connect sleep args =
     (let command = a_command args in
      case require_port args of
        Inl e \<Rightarrow> (Inl e, None)
      | Inr _ \<Rightarrow>
          if command = ''identity'' then with_unchecked connect args (o_identity C)
          else if command = ''capabilities'' then with_unchecked connect args (o_capabilities C)
          else (case map_of (cli_actions C sleep args) command of
                  Some act \<Rightarrow> with_ready C connect args act
                | None \<Rightarrow> (Inl (PyExc ''KeyError'' (repr_str command)), None)))"

section \<open>Exit codes\<close>

definition EXIT_OK :: int where [simp]: "EXIT_OK = 0"
definition EXIT_ARGUMENT :: int where [simp]: "EXIT_ARGUMENT = 2"
definition EXIT_TRANSPORT :: int where [simp]: "EXIT_TRANSPORT = 3"
definition EXIT_TIMEOUT :: int where [simp]: "EXIT_TIMEOUT = 4"
definition EXIT_PROTOCOL :: int where [simp]: "EXIT_PROTOCOL = 5"
definition EXIT_DEVICE :: int where [simp]: "EXIT_DEVICE = 6"

text \<open>The except clauses of \<open>run\<close>: the line on the error stream and the exit code; None for an
  exception that none of them catches.\<close>

definition cli_failure :: "exc \<Rightarrow> (string \<times> int) option" where
  "cli_failure e =
     (if is_RelayValidationError e then Some (''argument error: '' @ exc_str e, EXIT_ARGUMENT)
      else if is_RelayTimeoutError e then Some (''timeout error: '' @ exc_str e, EXIT_TIMEOUT)
      else if is_RelayTransportError e then Some (''transport error: '' @ exc_str e, EXIT_TRANSPORT)
      else if is_RelayProtocolError e then Some (''protocol error: '' @ exc_str e, EXIT_PROTOCOL)
      else (case e of
              RelayDeviceError g rc m \<Rightarrow>
                Some (''device error: group='' @ int_str g @ '' rc='' @ int_str rc @ '': '' @ m, EXIT_DEVICE)
            | _ \<Rightarrow> if is_RelayError e then Some (''relay error: '' @ exc_str e, EXIT_PROTOCOL) else None))"

definition cli_emit :: "string \<Rightarrow> string \<Rightarrow> pydict \<Rightarrow> string result" where
  "cli_emit output command payload =
     (if output = ''json'' then format_json payload else format_human command payload)"

record cli_outcome =
  out_lines :: "string list"
  err_lines :: "string list"
  out_exit :: "int result"

definition cli_finish :: "string \<Rightarrow> string \<Rightarrow> pydict result \<Rightarrow> cli_outcome" where
  "cli_finish output command r =
     (case r of
        Inl e \<Rightarrow> (case cli_failure e of
                    Some (line, code) \<Rightarrow> \<lparr>out_lines = [], err_lines = [line], out_exit = Inr code\<rparr>
                  | None \<Rightarrow> \<lparr>out_lines = [], err_lines = [], out_exit = Inl e\<rparr>)
      | Inr payload \<Rightarrow>
          (case cli_emit output command payload of
             Inr line \<Rightarrow> \<lparr>out_lines = [line], err_lines = [], out_exit = Inr EXIT_OK\<rparr>
           | Inl e \<Rightarrow> \<lparr>out_lines = [], err_lines = [], out_exit = Inl e\<rparr>))"

definition cli_run :: "'c relay_ops \<Rightarrow> 'c connect \<Rightarrow> (int \<Rightarrow> unit result) \<Rightarrow> cli_args \<Rightarrow> cli_outcome \<times> 'c option" where
  "cli_run C connect sleep args =
     (case run_command C connect sleep args of (r, c) \<Rightarrow> (cli_finish (a_output args) (a_command args) r, c))"

text \<open>\<open>_apply_session_overrides\<close>: the options after the word session take precedence.\<close>

record session_args = cli_args +
  sa_port :: "string option"
  sa_serial :: "string option"
  sa_baud :: "int option"
  sa_timeout :: "rat option"
  sa_retries :: "int option"

definition opt_or :: "'a option \<Rightarrow> 'a \<Rightarrow> 'a" where
  "opt_or x d = (case x of None \<Rightarrow> d | Some v \<Rightarrow> v)"

definition apply_session_overrides :: "session_args \<Rightarrow> session_args" where
  "apply_session_overrides args =
     (let a1 = (if sa_port args \<noteq> None then args\<lparr>a_port := sa_port args, a_serial := None\<rparr> else args);
          a2 = (if sa_serial args \<noteq> None then a1\<lparr>a_serial := sa_serial args, a_port := None\<rparr> else a1)
      in a2\<lparr>a_baud := opt_or (sa_baud args) (a_baud a2), a_timeout := opt_or (sa_timeout args) (a_timeout a2),
            a_retries := opt_or (sa_retries args) (a_retries a2)\<rparr>)"

end
