(* ===== verification/Shell.thy ===== *)
theory Shell
  imports Text
begin

text \<open>
  What the interactive session uses of shlex and argparse: \<open>shlex.split\<close>, and parsing words
  against a few long options (no positional arguments). Both end in a list or in the message of
  the error the code turns into an argument error.
\<close>

section \<open>shlex.split\<close>

text \<open>The state of the lexer between two characters; \<open>Escaped q\<close> is after a backslash, with the
  quote it stands in, if any.\<close>

datatype lex_state = Blank | Word | Quoted char | Escaped "char option"

definition lex_space :: "char \<Rightarrow> bool" where
  "lex_space c \<longleftrightarrow> c \<in> {CHR '' '', CHR 0x09, CHR 0x0D, CHR 0x0A}"

definition lex_quote :: "char \<Rightarrow> bool" where
  "lex_quote c \<longleftrightarrow> c = CHR 0x22 \<or> c = CHR 0x27"

definition emit_word :: "string \<Rightarrow> bool \<Rightarrow> string list \<Rightarrow> string list" where
  "emit_word tok quoted ws = (if tok \<noteq> [] \<or> quoted then tok # ws else ws)"

fun lex_words :: "lex_state \<Rightarrow> string \<Rightarrow> bool \<Rightarrow> string \<Rightarrow> string list result" where
  "lex_words Blank tok quoted [] = Inr []"
| "lex_words Word tok quoted [] = Inr (emit_word tok quoted [])"
| "lex_words (Quoted q) tok quoted [] = Inl (PyExc ''ValueError'' ''No closing quotation'')"
| "lex_words (Escaped q) tok quoted [] = Inl (PyExc ''ValueError'' ''No escaped character'')"
| "lex_words Blank tok quoted (c # cs) =
     (if lex_space c then lex_words Blank [] False cs
      else if c = bslash then lex_words (Escaped None) [] False cs
      else if lex_quote c then lex_words (Quoted c) [] False cs
      else lex_words Word [c] False cs)"
| "lex_words (Quoted q) tok quoted (c # cs) =
     (if c = q then lex_words Word tok True cs
      else if c = bslash \<and> q = dquote then lex_words (Escaped (Some q)) tok True cs
      else lex_words (Quoted q) (tok @ [c]) True cs)"
| "lex_words (Escaped None) tok quoted (c # cs) = lex_words Word (tok @ [c]) quoted cs"
| "lex_words (Escaped (Some q)) tok quoted (c # cs) =
     (if c \<noteq> bslash \<and> c \<noteq> q then lex_words (Quoted q) (tok @ [bslash, c]) quoted cs
      else lex_words (Quoted q) (tok @ [c]) quoted cs)"
| "lex_words Word tok quoted (c # cs) =
     (if lex_space c then map_sum id (emit_word tok quoted) (lex_words Blank [] False cs)
      else if lex_quote c then lex_words (Quoted c) tok quoted cs
      else if c = bslash then lex_words (Escaped None) tok quoted cs
      else lex_words Word (tok @ [c]) quoted cs)"

definition shlex_split :: "string \<Rightarrow> string list result" where
  "shlex_split s = lex_words Blank [] False s"

definition plain_char :: "char \<Rightarrow> bool" where
  "plain_char c \<longleftrightarrow> \<not> lex_space c \<and> \<not> lex_quote c \<and> c \<noteq> bslash"

lemma lex_plain_word:
  "\<forall>c \<in> set w. plain_char c \<Longrightarrow> lex_words Word tok q (w @ r) = lex_words Word (tok @ w) q r"
  by (induction w arbitrary: tok) (auto simp: plain_char_def)

text \<open>Words of plain characters joined by spaces are read back.\<close>

lemma shlex_split_join:
  assumes "\<forall>w \<in> set ws. w \<noteq> [] \<and> (\<forall>c \<in> set w. plain_char c)"
  shows "shlex_split (join '' '' ws) = Inr ws"
proof -
  have word: "lex_words Blank t q (w @ r) = lex_words Word w False r"
    if "w \<noteq> []" "\<forall>c \<in> set w. plain_char c" for w r t q
    using that lex_plain_word [of "tl w" "[hd w]" False r] by (cases w) (auto simp: plain_char_def)
  have "lex_words Blank t q (join '' '' ws) = Inr ws" for t q
    using assms
  proof (induction "'' ''" ws arbitrary: t q rule: join.induct)
    case (2 x)
    then show ?case using word [of x t q "[]"] by (simp add: emit_word_def)
  next
    case (3 x y xs)
    have "lex_space (CHR '' '')" by (simp add: lex_space_def)
    with 3 show ?case by (simp add: word emit_word_def)
  qed simp
  then show ?thesis by (simp add: shlex_split_def)
qed

section \<open>argparse with long options only\<close>

datatype opt_kind = Flag | Value | Int_Value

type_synonym options = "(string \<times> opt_kind) list"

text \<open>What \<open>_parse_optional\<close> makes of a word: a plain argument, an option with the value after
  its equals sign, an unknown option, or an abbreviation of several.\<close>

datatype arg_word = Plain | Option string "string option" | Unknown | Ambiguous "string list"

definition split_eq :: "string \<Rightarrow> string \<times> string option" where
  "split_eq w = (takeWhile (\<lambda>c. c \<noteq> CHR ''='') w,
     (case dropWhile (\<lambda>c. c \<noteq> CHR ''='') w of [] \<Rightarrow> None | _ # v \<Rightarrow> Some v))"

text \<open>\<open>^-\\d+$|^-\\d*\\.\\d+$\<close>\<close>

definition negative_number :: "string \<Rightarrow> bool" where
  "negative_number w \<longleftrightarrow>
     (case w of
        [] \<Rightarrow> False
      | c # ds \<Rightarrow> c = CHR ''-'' \<and>
          (let ip = takeWhile is_digit ds; r = dropWhile is_digit ds in
           if r = [] then ip \<noteq> []
           else hd r = CHR ''.'' \<and> tl r \<noteq> [] \<and> list_all is_digit (tl r)))"

definition classify :: "options \<Rightarrow> string \<Rightarrow> arg_word" where
  "classify opts w =
     (if w = [] \<or> hd w \<noteq> CHR ''-'' then Plain
      else if map_of opts w \<noteq> None then Option w None
      else if length w = 1 then Plain
      else if snd (split_eq w) \<noteq> None \<and> map_of opts (fst (split_eq w)) \<noteq> None
      then Option (fst (split_eq w)) (snd (split_eq w))
      else (case (if starts_with w ''--'' then filter (\<lambda>n. starts_with n (fst (split_eq w))) (map fst opts) else []) of
              [n] \<Rightarrow> Option n (snd (split_eq w))
            | [] \<Rightarrow> if negative_number w \<or> CHR '' '' \<in> set w then Plain else Unknown
            | ns \<Rightarrow> Ambiguous ns))"

definition convert :: "opt_kind \<Rightarrow> string \<Rightarrow> string \<Rightarrow> pyval result" where
  "convert kind name v =
     (if kind = Int_Value
      then (case py_int_of_str v of
              Some i \<Rightarrow> Inr (PInt i)
            | None \<Rightarrow> Inl (RelayValidationError (''argument '' @ name @ '': invalid int value: '' @ repr_str v)))
      else Inr (PStr v))"

text \<open>The words in turn; the result is the options given, in order, and the words left over.\<close>

fun parse_words :: "options \<Rightarrow> string list \<Rightarrow> (pydict \<times> string list) result" where
  "parse_words opts [] = Inr ([], [])"
| "parse_words opts (w # ws) =
     (if w = ''--'' then Inr ([], w # ws)
      else (case classify opts w of
         Option name explicit \<Rightarrow>
           (case (map_of opts name, explicit) of
              (Some Flag, Some v) \<Rightarrow>
                Inl (RelayValidationError (''argument '' @ name @ '': ignored explicit argument '' @ repr_str v))
            | (Some Flag, None) \<Rightarrow> map_sum id (\<lambda>(ns, ex). ((name, PBool True) # ns, ex)) (parse_words opts ws)
            | (Some kind, Some v) \<Rightarrow>
                rbind (convert kind name v) (\<lambda>x.
                  map_sum id (\<lambda>(ns, ex). ((name, x) # ns, ex)) (parse_words opts ws))
            | (Some kind, None) \<Rightarrow>
                (case ws of
                   [] \<Rightarrow> Inl (RelayValidationError (''argument '' @ name @ '': expected one argument''))
                 | v # vs \<Rightarrow>
                     if v \<noteq> ''--'' \<and> classify opts v = Plain
                     then rbind (convert kind name v) (\<lambda>x.
                            map_sum id (\<lambda>(ns, ex). ((name, x) # ns, ex)) (parse_words opts vs))
                     else Inl (RelayValidationError (''argument '' @ name @ '': expected one argument'')))
            | (None, _) \<Rightarrow> map_sum id (\<lambda>(ns, ex). (ns, w # ex)) (parse_words opts ws))
       | _ \<Rightarrow> map_sum id (\<lambda>(ns, ex). (ns, w # ex)) (parse_words opts ws)))"

text \<open>An abbreviation of several options is refused first, anywhere before a bare \<open>--\<close>.\<close>

definition ambiguous :: "options \<Rightarrow> string list \<Rightarrow> (string \<times> string list) option" where
  "ambiguous opts ws =
     List.find (\<lambda>_. True)
       (List.map_filter (\<lambda>w. case classify opts w of Ambiguous ns \<Rightarrow> Some (w, ns) | _ \<Rightarrow> None)
         (takeWhile (\<lambda>w. w \<noteq> ''--'') ws))"

text \<open>\<open>_parse_prompt_args\<close>: the namespace, in which a later option overrides an earlier one.\<close>

definition parse_prompt_args :: "options \<Rightarrow> string list \<Rightarrow> pydict result" where
  "parse_prompt_args opts ws =
     (case ambiguous opts ws of
        Some (w, ns) \<Rightarrow> Inl (RelayValidationError (''ambiguous option: '' @ w @ '' could match '' @ join '', '' ns))
      | None \<Rightarrow>
          rbind (parse_words opts ws) (\<lambda>(ns, ex).
            if ex \<noteq> [] then Inl (RelayValidationError (''unrecognized arguments: '' @ join '' '' ex))
            else Inr (rev ns)))"

lemma parse_words_error: "parse_words opts ws = Inl e \<Longrightarrow> is_RelayValidationError e"
proof (induction opts ws arbitrary: e rule: parse_words.induct)
  case (1 opts)
  then show ?case by simp
next
  case (2 opts w ws)
  have c: "convert k n v = Inl e \<Longrightarrow> is_RelayValidationError e" for k n v e
    by (auto simp: convert_def split: if_splits option.splits)
  have ms: "map_sum id f r = Inl e \<longleftrightarrow> r = Inl e" for f :: "pydict \<times> string list \<Rightarrow> pydict \<times> string list" and r e
    by (cases r) auto
  from 2 show ?case
    by (auto simp: ms rbind_Inl dest: c split: if_splits arg_word.splits option.splits opt_kind.splits list.splits)
qed

lemma parse_prompt_args_error: "parse_prompt_args opts ws = Inl e \<Longrightarrow> is_RelayValidationError e"
  by (auto simp: parse_prompt_args_def rbind_Inl dest: parse_words_error split: option.splits if_splits)

end
