(* ===== verification/Session.thy ===== *)
theory Session
  imports Cli Shell Discovery
begin

text \<open>
  host/rp2350_relay_6ch/session.py: the interactive session, with its heartbeat poller and its
  completer. The session is a record that the handlers thread through; the operations it is
  given (device discovery, selection by serial number, the client factory, sleeping) act on a
  world \<open>'w\<close>, and its input is a list of lines, each read or raising, with the end of the file
  after the last. \<open>sn_opened\<close> and \<open>sn_closed\<close> are ghosts, as in the daemon.
\<close>

section \<open>Constants and state\<close>

definition REBOOT_RECONNECT_SETTLE_S :: rat where "REBOOT_RECONNECT_SETTLE_S = 3 / 2"
definition REBOOT_RECONNECT_ATTEMPTS :: nat where "REBOOT_RECONNECT_ATTEMPTS = 6"

definition CONNECTED_COMMANDS :: "string list" where
  "CONNECTED_COMMANDS =
     [''identity'', ''capabilities'', ''build-info'', ''get'', ''get-all'', ''set'', ''set-all'', ''pulse'',
      ''off-all'', ''status'', ''health'', ''transport'', ''safety'', ''watchdog'', ''smoke'', ''reboot'',
      ''bootsel'', ''disconnect'', ''connect'', ''help'', ''exit'', ''quit'']"

definition DISCONNECTED_COMMANDS :: "string list" where
  "DISCONNECTED_COMMANDS = [''connect'', ''help'', ''exit'', ''quit'']"

record SessionOptions =
  so_port :: "string option"
  so_serial :: "string option"
  so_baud :: int
  so_timeout :: rat
  so_retries :: int

datatype ConnectResult = CONNECTED | FAILED | CANCELLED

record ('w, 'c) session_env =
  se_ops :: "'c relay_ops"
  se_factory :: "string \<Rightarrow> int \<Rightarrow> rat \<Rightarrow> int \<Rightarrow> ('w, 'c) sexc"
  se_discover :: "('w, RelayUsbDevice list) sexc"
  se_select :: "string \<Rightarrow> ('w, RelayUsbDevice) sexc"
  se_sleep :: "rat \<Rightarrow> unit result"
  se_color :: bool
  se_options :: SessionOptions

record ('w, 'c) session =
  sn_world :: 'w
  sn_input :: "string result list"
  sn_out :: "string list"
  sn_client :: "'c option"
  sn_connected :: bool
  sn_heartbeat :: bool
  sn_port :: "string option"
  sn_usb_serial :: "string option"
  sn_product :: "string option"
  sn_preferred_port :: "string option"
  sn_preferred_serial :: "string option"
  sn_should_exit :: bool
  sn_opened :: nat
  sn_closed :: "'c list"

definition new_session :: "SessionOptions \<Rightarrow> 'w \<Rightarrow> string result list \<Rightarrow> ('w, 'c) session" where
  "new_session options w input =
     \<lparr>sn_world = w, sn_input = input, sn_out = [], sn_client = None, sn_connected = False, sn_heartbeat = False,
      sn_port = so_port options, sn_usb_serial = so_serial options, sn_product = None,
      sn_preferred_port = so_port options, sn_preferred_serial = so_serial options,
      sn_should_exit = False, sn_opened = 0, sn_closed = []\<rparr>"

section \<open>Steps the handlers are made of\<close>

definition upd :: "(('w, 'c) session \<Rightarrow> ('w, 'c) session) \<Rightarrow> (('w, 'c) session, unit) sexc" where
  "upd f = (\<lambda>s. (Inr (), f s))"

definition get_s :: "(('w, 'c) session \<Rightarrow> 'a) \<Rightarrow> (('w, 'c) session, 'a) sexc" where
  "get_s f = (\<lambda>s. (Inr (f s), s))"

definition say :: "string \<Rightarrow> (('w, 'c) session, unit) sexc" where
  "say line = upd (\<lambda>s. s\<lparr>sn_out := sn_out s @ [line]\<rparr>)"

definition on_world :: "('w, 'a) sexc \<Rightarrow> (('w, 'c) session, 'a) sexc" where
  "on_world m = (\<lambda>s. case m (sn_world s) of (r, w) \<Rightarrow> (r, s\<lparr>sn_world := w\<rparr>))"

text \<open>An operation of the current client; \<open>_require_client\<close> raises if there is none.\<close>

definition on_current :: "('c, 'a) sexc \<Rightarrow> (('w, 'c) session, 'a) sexc" where
  "on_current m = (\<lambda>s. case sn_client s of
     None \<Rightarrow> (Inl (RelayTransportError ''not connected''), s)
   | Some c \<Rightarrow> (case m c of (r, c') \<Rightarrow> (r, s\<lparr>sn_client := Some c'\<rparr>)))"

text \<open>\<open>except RelayError\<close>.\<close>

definition catch_relay :: "('s, 'a) sexc \<Rightarrow> (exc \<Rightarrow> ('s, 'a) sexc) \<Rightarrow> ('s, 'a) sexc" where
  "catch_relay m h = scatch m (\<lambda>e. if is_RelayError e then h e else sraise e)"

definition truthy_str :: "string option \<Rightarrow> string option" where
  "truthy_str x = (if x = Some [] then None else x)"

definition error_label :: "exc \<Rightarrow> string" where
  "error_label e =
     (if is_RelayValidationError e then ''argument error''
      else if is_RelayTimeoutError e then ''timeout error''
      else if is_RelayTransportError e then ''transport error''
      else if is_RelayProtocolError e then ''protocol error''
      else if is_RelayDeviceError e then ''device error''
      else if is_RelayError e then ''relay error'' else ''error'')"

definition labelled :: "exc \<Rightarrow> string" where
  "labelled e = error_label e @ '': '' @ exc_str e"

definition format_error :: "exc \<Rightarrow> string" where
  "format_error e =
     (case e of
        RelayDeviceError g rc m \<Rightarrow> ''device error: group='' @ int_str g @ '' rc='' @ int_str rc @ '': '' @ m
      | _ \<Rightarrow> labelled e)"

definition format_channels :: "int \<Rightarrow> string" where
  "format_channels m =
     (let channels = map (\<lambda>channel. ''CH'' @ int_str (channel + 1))
            (filter (\<lambda>channel. m AND push_bit (nat channel) 1 \<noteq> 0) [0 .. RELAY_COUNT - 1])
      in if channels \<noteq> [] then join '', '' channels else ''none'')"

section \<open>The startup box\<close>

definition utf8_bytes :: "nat list \<Rightarrow> string" where
  "utf8_bytes bs = map char_of bs"

definition box_rule :: "nat list \<Rightarrow> nat list \<Rightarrow> nat \<Rightarrow> string" where
  "box_rule l r n = utf8_bytes l @ concat (replicate n (utf8_bytes [226, 148, 128])) @ utf8_bytes r"

definition STARTUP_BOX_MIN_WIDTH :: nat where "STARTUP_BOX_MIN_WIDTH = 60"

definition format_startup_box :: "rows \<Rightarrow> string" where
  "format_startup_box rs =
     (let label_width = foldr max (map (\<lambda>(label, v). py_len label) rs) 0;
          content = [''  RP2350 Relay Session'', []]
            @ map (\<lambda>(label, v). ''  '' @ pad_right (label_width + 1) (label @ '':'') @ ''  '' @ py_str v) rs;
          inner = max STARTUP_BOX_MIN_WIDTH (foldr max (map py_len content) 0);
          bar = utf8_bytes [226, 148, 130]
      in join newline
           ([box_rule [226, 149, 173] [226, 149, 174] (inner + 2)]
            @ map (\<lambda>row. bar @ '' '' @ pad_right inner row @ '' '' @ bar) content
            @ [box_rule [226, 149, 176] [226, 149, 175] (inner + 2)]))"

definition opt_text :: "string option \<Rightarrow> string" where
  "opt_text x = (case truthy_str x of None \<Rightarrow> ''unknown'' | Some s \<Rightarrow> s)"

definition opt_val :: "string option \<Rightarrow> pyval" where
  "opt_val x = (case x of None \<Rightarrow> PNone | Some s \<Rightarrow> PStr s)"

definition print_banner :: "pydict \<Rightarrow> pydict \<Rightarrow> (('w, 'c) session, unit) sexc" where
  "print_banner idn st =
     sbind (lift_result (py_int (dget_or st ''state'' (PInt 0)))) (\<lambda>m.
     sbind (lift_result (py_int (dget_or st ''pulsing'' (PInt 0)))) (\<lambda>p.
     sbind (get_s (\<lambda>s. (sn_port s, sn_usb_serial s))) (\<lambda>(prt, serial).
       say (format_startup_box
         [(''Connection'', PStr ''connected''), (''Port'', opt_val prt), (''Serial'', PStr (opt_text serial)),
          (''Hardware'', dget_or idn ''hardware'' (PStr ''unknown'')),
          (''Protocol'', dget_or idn ''protocol_version'' (PStr ''unknown'')),
          (''Relay count'', dget_or idn ''relay_count'' (PStr ''unknown'')),
          (''State'', PStr (''0x'' @ format_hex 2 m)), (''On'', PStr (format_channels m)),
          (''Pulsing'', PStr (format_channels p))]))))"

section \<open>Opening and closing\<close>

record 'c session_probe =
  sp_client :: 'c
  sp_identity :: pydict
  sp_status :: pydict

definition s_validate_readiness_identity :: "pydict \<Rightarrow> unit result" where
  "s_validate_readiness_identity idn =
     (if \<not> py_eq_int (dget idn ''protocol_version'') PROTOCOL_VERSION
      then Inl (RelayProtocolError (''unexpected relay protocol version '' @ py_str (dget idn ''protocol_version'')))
      else if \<not> py_eq_int (dget idn ''command_model_version'') COMMAND_MODEL_VERSION
      then Inl (RelayProtocolError (''unexpected relay command model version ''
             @ py_str (dget idn ''command_model_version'')))
      else Inr ())"

text \<open>The requests of \<open>_probe_connection\<close>, on the new client.\<close>

definition s_readiness :: "'c relay_ops \<Rightarrow> ('c, pydict \<times> pydict) sexc" where
  "s_readiness C =
     sbind (o_identity C) (\<lambda>idn.
     sbind (lift_result (s_validate_readiness_identity idn)) (\<lambda>_.
     sbind (o_status C) (\<lambda>st. sret (idn, st))))"

definition probe_connection ::
    "('w, 'c) session_env \<Rightarrow> string \<Rightarrow> bool \<Rightarrow> (('w, 'c) session, 'c session_probe option) sexc" where
  "probe_connection E prt quiet = (\<lambda>s.
     let opts = se_options E;
         failed = (\<lambda>e s. if is_RelayError e then (Inr None, if quiet then s else snd (say (labelled e) s))
                         else (Inl e, s))
     in case on_world (se_factory E prt (so_baud opts) (so_timeout opts) (so_retries opts)) s of
          (Inl e, s1) \<Rightarrow> failed e s1
        | (Inr c, s1) \<Rightarrow>
            (let s2 = s1\<lparr>sn_opened := Suc (sn_opened s1)\<rparr> in
             case s_readiness (se_ops E) c of
               (Inl e, c') \<Rightarrow>
                 (if is_RelayError e
                  then failed e (s2\<lparr>sn_closed := sn_closed s2 @ [c']\<rparr>) else (Inl e, s2))
             | (Inr (idn, st), c') \<Rightarrow> (Inr (Some \<lparr>sp_client = c', sp_identity = idn, sp_status = st\<rparr>), s2)))"

definition start_heartbeat :: "(('w, 'c) session, unit) sexc" where
  "start_heartbeat = upd (\<lambda>s. if sn_client s = None then s else s\<lparr>sn_heartbeat := True\<rparr>)"

definition stop_heartbeat :: "(('w, 'c) session, unit) sexc" where
  "stop_heartbeat = upd (\<lambda>s. s\<lparr>sn_heartbeat := False\<rparr>)"

definition adopt_connection ::
    "'c session_probe \<Rightarrow> string \<Rightarrow> string option \<Rightarrow> string option \<Rightarrow> (('w, 'c) session, unit) sexc" where
  "adopt_connection pb prt usb_serial product =
     sbind (upd (\<lambda>s. s\<lparr>sn_client := Some (sp_client pb), sn_connected := True, sn_port := Some prt,
                      sn_usb_serial := usb_serial, sn_product := product\<rparr>)) (\<lambda>_.
     sbind start_heartbeat (\<lambda>_. print_banner (sp_identity pb) (sp_status pb)))"

text \<open>Exceptions of closing are swallowed here, but not in the two that follow.\<close>

definition close_probe :: "'c session_probe \<Rightarrow> (('w, 'c) session, unit) sexc" where
  "close_probe pb = upd (\<lambda>s. s\<lparr>sn_closed := sn_closed s @ [sp_client pb]\<rparr>)"

definition drop_session_client :: "('w, 'c) session_env \<Rightarrow> (('w, 'c) session, unit) sexc" where
  "drop_session_client E = (\<lambda>s.
     (let s1 = s\<lparr>sn_client := None, sn_connected := False\<rparr> in
      case sn_client s of
        None \<Rightarrow> (Inr (), s1)
      | Some c \<Rightarrow> (fst (o_close (se_ops E) c), s1\<lparr>sn_closed := sn_closed s1 @ [c]\<rparr>)))"

definition enter_disconnected :: "('w, 'c) session_env \<Rightarrow> (('w, 'c) session, unit) sexc" where
  "enter_disconnected E = sbind stop_heartbeat (\<lambda>_. drop_session_client E)"

definition close_current :: "('w, 'c) session_env \<Rightarrow> bool \<Rightarrow> bool \<Rightarrow> (('w, 'c) session, unit) sexc" where
  "close_current E force warn =
     sbind (if force \<and> warn then say ''warning: closing without confirmed all-off state'' else sret ()) (\<lambda>_.
     sbind stop_heartbeat (\<lambda>_. drop_session_client E))"

definition s_open ::
    "('w, 'c) session_env \<Rightarrow> string \<Rightarrow> string option \<Rightarrow> string option \<Rightarrow> (('w, 'c) session, bool) sexc" where
  "s_open E prt usb_serial product =
     sbind (get_s sn_connected) (\<lambda>con.
       if con then sbind (say ''already connected: run 'disconnect' first'') (\<lambda>_. sret True)
       else sbind (probe_connection E prt False) (\<lambda>pb.
         case pb of
           None \<Rightarrow> sbind (enter_disconnected E) (\<lambda>_. sret False)
         | Some p \<Rightarrow> sbind (adopt_connection p prt usb_serial product) (\<lambda>_. sret True)))"

section \<open>Choosing a device\<close>

definition metadata_for_port :: "('w, 'c) session_env \<Rightarrow> string \<Rightarrow> (('w, 'c) session, RelayUsbDevice option) sexc" where
  "metadata_for_port E prt =
     catch_relay (sbind (on_world (se_discover E)) (\<lambda>devices. sret (List.find (\<lambda>d. ud_port d = prt) devices)))
       (\<lambda>e. sret None)"

definition device_line :: "nat \<times> RelayUsbDevice \<Rightarrow> string" where
  "device_line = (\<lambda>(index, d).
     ''  '' @ int_str (int index) @ ''. port='' @ ud_port d @ '' serial='' @ opt_text (ud_serial_number d) @ '' ''
     @ (case truthy_str (ud_product d) of
          Some product \<Rightarrow> ''product='' @ product | None \<Rightarrow> ''product=unknown status=unverified''))"

definition print_devices :: "RelayUsbDevice list \<Rightarrow> (('w, 'c) session, unit) sexc" where
  "print_devices devices =
     upd (\<lambda>s. s\<lparr>sn_out := sn_out s @ ''Relay USB candidates:'' # map device_line (enumerate 1 devices)\<rparr>)"

definition print_available_devices :: "('w, 'c) session_env \<Rightarrow> (('w, 'c) session, unit) sexc" where
  "print_available_devices E =
     catch_relay (sbind (on_world (se_discover E)) (\<lambda>devices.
         if devices \<noteq> [] then print_devices devices else sret ()))
       (\<lambda>e. say (labelled e))"

text \<open>\<open>_read_input\<close> on streams: the prompt, then a line or the end of the input.\<close>

definition read_input :: "string \<Rightarrow> (('w, 'c) session, string) sexc" where
  "read_input prompt = (\<lambda>s.
     (let s1 = snd (say prompt s) in
      case sn_input s1 of
        [] \<Rightarrow> (Inl (PyExc ''EOFError'' []), s1)
      | r # rs \<Rightarrow> (r, s1\<lparr>sn_input := rs\<rparr>)))"

datatype selection = Cancelled | No_Device | Device RelayUsbDevice

text \<open>The loop that asks for a number; \<open>n\<close> bounds how often.\<close>

fun choose_device :: "nat \<Rightarrow> RelayUsbDevice list \<Rightarrow> (('w, 'c) session, selection) sexc" where
  "choose_device 0 devices = sret Cancelled"
| "choose_device (Suc n) devices = (\<lambda>s.
     case read_input ''Select device number, or q to cancel: '' s of
       (Inl e, s1) \<Rightarrow> if py_class e = ''EOFError'' then (Inr Cancelled, s1) else (Inl e, s1)
     | (Inr line, s1) \<Rightarrow>
         (let choice = strip line in
          if lower choice \<in> {''q'', ''quit'', ''cancel''} then (Inr Cancelled, s1)
          else (case py_int_of_str choice of
                  None \<Rightarrow> sbind (say ''argument error: selection must be a number'') (\<lambda>_. choose_device n devices) s1
                | Some i \<Rightarrow>
                    if 1 \<le> i \<and> i \<le> int (length devices) then (Inr (Device (devices ! nat (i - 1))), s1)
                    else sbind (say (''argument error: selection must be 1..'' @ int_str (int (length devices))))
                           (\<lambda>_. choose_device n devices) s1)))"

definition select_interactive_device :: "('w, 'c) session_env \<Rightarrow> (('w, 'c) session, selection) sexc" where
  "select_interactive_device E =
     sbind (on_world (se_discover E)) (\<lambda>devices.
       if devices = []
       then sbind (say ''transport error: no relay USB serial devices found'') (\<lambda>_. sret No_Device)
       else sbind (print_devices devices) (\<lambda>_.
              sbind (get_s (\<lambda>s. length (sn_input s))) (\<lambda>n. choose_device (Suc n) devices)))"

section \<open>connect\<close>

definition result_of :: "bool \<Rightarrow> ConnectResult" where
  "result_of ok = (if ok then CONNECTED else FAILED)"

definition open_device :: "('w, 'c) session_env \<Rightarrow> RelayUsbDevice \<Rightarrow> (('w, 'c) session, bool) sexc" where
  "open_device E d = s_open E (ud_port d) (ud_serial_number d) (ud_product d)"

definition open_port :: "('w, 'c) session_env \<Rightarrow> string \<Rightarrow> (('w, 'c) session, bool) sexc" where
  "open_port E prt =
     sbind (metadata_for_port E prt) (\<lambda>d.
       s_open E prt (case d of None \<Rightarrow> None | Some d \<Rightarrow> ud_serial_number d)
         (case d of None \<Rightarrow> None | Some d \<Rightarrow> ud_product d))"

text \<open>Discovery and the numbered list: the last branch of \<open>_connect_from_options\<close>.\<close>

definition connect_interactive :: "('w, 'c) session_env \<Rightarrow> bool \<Rightarrow> (('w, 'c) session, ConnectResult) sexc" where
  "connect_interactive E initial =
     sbind (catch_relay (sbind (select_interactive_device E) (\<lambda>d. sret (Some d)))
              (\<lambda>e. sbind (say (labelled e)) (\<lambda>_. sret None))) (\<lambda>sel.
       case sel of
         None \<Rightarrow> sret FAILED
       | Some Cancelled \<Rightarrow> sret (if initial then CANCELLED else FAILED)
       | Some No_Device \<Rightarrow> sret FAILED
       | Some (Device d) \<Rightarrow> sbind (open_device E d) (\<lambda>ok. sret (result_of ok)))"

text \<open>The selector by serial number, with what happens when it raises a relay error.\<close>

definition select_serial ::
    "('w, 'c) session_env \<Rightarrow> string \<Rightarrow> (('w, 'c) session, ConnectResult) sexc \<Rightarrow> (('w, 'c) session, ConnectResult) sexc" where
  "select_serial E serial on_error =
     sbind (catch_relay (sbind (on_world (se_select E serial)) (\<lambda>d. sret (Some d)))
              (\<lambda>e. sbind (say (labelled e)) (\<lambda>_. sret None))) (\<lambda>d.
       case d of
         None \<Rightarrow> on_error
       | Some d \<Rightarrow> sbind (open_device E d) (\<lambda>ok. sret (result_of ok)))"

definition connect_from_options ::
    "('w, 'c) session_env \<Rightarrow> string option \<Rightarrow> string option \<Rightarrow> bool \<Rightarrow> (('w, 'c) session, ConnectResult) sexc" where
  "connect_from_options E opt_port opt_serial initial =
     (let listing = (if initial then print_available_devices E else sret ()) in
      case truthy_str opt_port of
        Some prt \<Rightarrow>
          sbind (upd (\<lambda>s. s\<lparr>sn_preferred_port := Some prt, sn_preferred_serial := None\<rparr>)) (\<lambda>_.
          sbind (open_port E prt) (\<lambda>ok.
            if ok then sret CONNECTED else sbind listing (\<lambda>_. sret FAILED)))
      | None \<Rightarrow>
          (case truthy_str opt_serial of
             Some serial \<Rightarrow>
               sbind (upd (\<lambda>s. s\<lparr>sn_preferred_serial := Some serial, sn_preferred_port := None\<rparr>)) (\<lambda>_.
                 select_serial E serial (sbind listing (\<lambda>_. sret FAILED)))
           | None \<Rightarrow>
               sbind (get_s (\<lambda>s. (truthy_str (sn_preferred_port s), truthy_str (sn_preferred_serial s)))) (\<lambda>saved.
                 if initial then connect_interactive E initial
                 else (case saved of
                         (Some prt, _) \<Rightarrow>
                           sbind (open_port E prt) (\<lambda>ok. if ok then sret CONNECTED else connect_interactive E False)
                       | (None, Some serial) \<Rightarrow> select_serial E serial (connect_interactive E False)
                       | (None, None) \<Rightarrow> connect_interactive E False))))"

definition handle_connect :: "('w, 'c) session_env \<Rightarrow> string list \<Rightarrow> (('w, 'c) session, unit) sexc" where
  "handle_connect E args =
     sbind (get_s sn_connected) (\<lambda>con.
       if con then say ''already connected: run 'disconnect' first''
       else sbind (lift_result (parse_prompt_args [(''--port'', Value), (''--serial'', Value)] args)) (\<lambda>ns.
         (let prt = (case dget ns ''--port'' of PStr p \<Rightarrow> Some p | _ \<Rightarrow> None);
              serial = (case dget ns ''--serial'' of PStr p \<Rightarrow> Some p | _ \<Rightarrow> None) in
          if truthy_str prt \<noteq> None \<and> truthy_str serial \<noteq> None
          then sraise (RelayValidationError ''--port and --serial are mutually exclusive'')
          else sbind (connect_from_options E prt serial False) (\<lambda>_. sret ()))))"

section \<open>disconnect, exit\<close>

definition parse_force :: "string list \<Rightarrow> bool result" where
  "parse_force args =
     rbind (parse_prompt_args [(''--force'', Flag)] args) (\<lambda>ns. Inr (py_truthy (dget ns ''--force'')))"

text \<open>The relay state as the board reports it, for the check before closing.\<close>

definition reported_masks :: "pydict \<Rightarrow> (int \<times> int) result" where
  "reported_masks st =
     rbind (rbind (ditem st ''state'') py_int) (\<lambda>m.
       rbind (py_int (dget_or st ''pulsing'' (PInt 0))) (\<lambda>p. Inr (m, p)))"

definition close_allowed :: "('w, 'c) session_env \<Rightarrow> bool \<Rightarrow> (('w, 'c) session, bool) sexc" where
  "close_allowed E force =
     (if force then sret True
      else sbind (scatch (sbind (on_current (o_status (se_ops E))) (\<lambda>st.
                    sbind (lift_result (reported_masks st)) (\<lambda>mp. sret (Inr mp))))
                  (\<lambda>e. if is_Exception e then sret (Inl e) else sraise e)) (\<lambda>known.
             case known of
               Inl e \<Rightarrow>
                 sbind (say (''refusing to close: relay state is unknown ('' @ labelled e @ '')'')) (\<lambda>_.
                 sbind (say ''run 'off-all' first or use --force'') (\<lambda>_. sret False))
             | Inr (m, p) \<Rightarrow>
                 if m \<noteq> 0 \<or> p \<noteq> 0
                 then sbind (say (''refusing to close: on='' @ format_channels m @ '' pulsing='' @ format_channels p)) (\<lambda>_.
                      sbind (say ''run 'off-all' first or use --force'') (\<lambda>_. sret False))
                 else sret True))"

definition handle_exit :: "('w, 'c) session_env \<Rightarrow> bool \<Rightarrow> (('w, 'c) session, unit) sexc" where
  "handle_exit E force =
     sbind (get_s sn_connected) (\<lambda>con.
     sbind (if con then close_allowed E force else sret True) (\<lambda>allowed.
       if \<not> allowed then sret ()
       else sbind (get_s sn_connected) (\<lambda>con.
            sbind (if con then close_current E force True else sret ()) (\<lambda>_.
              upd (\<lambda>s. s\<lparr>sn_should_exit := True\<rparr>)))))"

definition handle_disconnect :: "('w, 'c) session_env \<Rightarrow> bool \<Rightarrow> (('w, 'c) session, unit) sexc" where
  "handle_disconnect E force =
     sbind (get_s sn_connected) (\<lambda>con.
       if \<not> con then say ''not connected''
       else sbind (close_allowed E force) (\<lambda>allowed.
         if \<not> allowed then sret ()
         else sbind (close_current E force True) (\<lambda>_. say ''disconnected'')))"

section \<open>reboot, bootsel\<close>

definition session_reboot_fresh :: "pydict \<Rightarrow> pydict \<Rightarrow> bool" where
  "session_reboot_fresh pre post =
     (case (strict_int (dget pre ''uptime_ms''), strict_int (dget post ''uptime_ms'')) of
        (Some a, Some b) \<Rightarrow> b < a
      | _ \<Rightarrow> True)"

definition sleep_s :: "('w, 'c) session_env \<Rightarrow> rat \<Rightarrow> (('w, 'c) session, unit) sexc" where
  "sleep_s E t = lift_result (se_sleep E t)"

text \<open>The attempts to reconnect by serial number; the result says whether one was adopted.\<close>

fun reboot_attempts :: "('w, 'c) session_env \<Rightarrow> string \<Rightarrow> pydict \<Rightarrow> nat \<Rightarrow> (('w, 'c) session, bool) sexc" where
  "reboot_attempts E serial pre 0 = sret False"
| "reboot_attempts E serial pre (Suc n) =
     (let again = sbind (sleep_s E 1) (\<lambda>_. reboot_attempts E serial pre n) in
      sbind (catch_relay (sbind (on_world (se_select E serial)) (\<lambda>d. sret (Some d))) (\<lambda>e. sret None)) (\<lambda>d.
        case d of
          None \<Rightarrow> again
        | Some d \<Rightarrow>
            sbind (probe_connection E (ud_port d) True) (\<lambda>pb.
              case pb of
                None \<Rightarrow> again
              | Some p \<Rightarrow>
                  if session_reboot_fresh pre (sp_status p)
                  then sbind (adopt_connection p (ud_port d) (ud_serial_number d) (ud_product d)) (\<lambda>_. sret True)
                  else sbind (close_probe p) (\<lambda>_. again))))"

definition resume_after_reboot ::
    "('w, 'c) session_env \<Rightarrow> pydict \<Rightarrow> string option \<Rightarrow> (('w, 'c) session, unit) sexc" where
  "resume_after_reboot E pre serial =
     (case truthy_str serial of
        Some sn \<Rightarrow>
          sbind (sleep_s E REBOOT_RECONNECT_SETTLE_S) (\<lambda>_.
          sbind (reboot_attempts E sn pre REBOOT_RECONNECT_ATTEMPTS) (\<lambda>adopted.
            if adopted then sret ()
            else sbind (say ''reboot reconnect failed; run 'connect' to reconnect'') (\<lambda>_. enter_disconnected E)))
      | None \<Rightarrow>
          sbind (say ''reboot closed the connection; run 'connect' to reconnect'') (\<lambda>_. enter_disconnected E))"

definition handle_reboot :: "('w, 'c) session_env \<Rightarrow> string list \<Rightarrow> (('w, 'c) session, unit) sexc" where
  "handle_reboot E args =
     (if args \<noteq> [] then sraise (RelayValidationError ''reboot takes no arguments'')
      else sbind (on_current (o_status (se_ops E))) (\<lambda>pre.
           sbind (on_current (o_reboot (se_ops E))) (\<lambda>_.
           sbind (say ''reboot requested'') (\<lambda>_.
           sbind (get_s sn_usb_serial) (\<lambda>serial.
           sbind (close_current E True False) (\<lambda>_. resume_after_reboot E pre serial))))))"

definition handle_bootsel :: "('w, 'c) session_env \<Rightarrow> string list \<Rightarrow> (('w, 'c) session, unit) sexc" where
  "handle_bootsel E args =
     (if args \<noteq> [] then sraise (RelayValidationError ''bootsel takes no arguments'')
      else sbind (on_current (o_bootsel (se_ops E))) (\<lambda>_.
           sbind (say ''bootsel requested'') (\<lambda>_.
           sbind (close_current E True False) (\<lambda>_.
           sbind (say ''BOOTSEL disconnected; use picotool or UF2'') (\<lambda>_. enter_disconnected E)))))"

section \<open>Relay commands\<close>

definition expect_arg_count :: "string \<Rightarrow> string list \<Rightarrow> nat \<Rightarrow> unit result" where
  "expect_arg_count command args count =
     (if length args \<noteq> count
      then Inl (RelayValidationError (command @ '' takes '' @ int_str (int count) @ '' argument(s)'')) else Inr ())"

definition parse_int_arg :: "string \<Rightarrow> int result" where
  "parse_int_arg value =
     (case py_int_of_str0 value of
        None \<Rightarrow> Inl (RelayValidationError ''value must be an integer'') | Some i \<Rightarrow> Inr i)"

definition parse_channel_arg :: "string \<Rightarrow> int result" where
  "parse_channel_arg value =
     rbind (parse_int_arg value) (\<lambda>channel.
       if channel < 1 \<or> RELAY_COUNT < channel
       then Inl (RelayValidationError (''channel must be 1..'' @ int_str RELAY_COUNT)) else Inr (channel - 1))"

text \<open>\<open>except argparse.ArgumentTypeError\<close>.\<close>

definition as_validation :: "'a result \<Rightarrow> 'a result" where
  "as_validation r =
     (case r of
        Inl e \<Rightarrow> if py_class e = ''ArgumentTypeError'' then Inl (RelayValidationError (exc_str e)) else Inl e
      | Inr x \<Rightarrow> Inr x)"

definition parse_state_arg :: "string \<Rightarrow> int result" where
  "parse_state_arg value = as_validation (parse_state value)"

definition parse_on_off_arg :: "string \<Rightarrow> bool result" where
  "parse_on_off_arg value = as_validation (parse_on_off value)"

text \<open>The client call of a command, once its arguments are parsed.\<close>

definition session_call :: "('w, 'c) session_env \<Rightarrow> string \<Rightarrow> string list \<Rightarrow> ('c, pydict) sexc result" where
  "session_call E command args =
     (let C = se_ops E; no_args = (\<lambda>m. rbind (expect_arg_count command args 0) (\<lambda>_. Inr m)) in
      if command = ''identity'' then no_args (o_identity C)
      else if command = ''capabilities'' then no_args (o_capabilities C)
      else if command = ''build-info'' then no_args (o_build_info C)
      else if command = ''get'' then
        rbind (expect_arg_count command args 1) (\<lambda>_.
          rbind (parse_channel_arg (args ! 0)) (\<lambda>ch. Inr (o_get_relay C (PInt ch))))
      else if command = ''get-all'' then no_args (o_get_all_relays C)
      else if command = ''set'' then
        rbind (expect_arg_count command args 2) (\<lambda>_.
          rbind (parse_channel_arg (args ! 0)) (\<lambda>ch.
            rbind (parse_on_off_arg (args ! 1)) (\<lambda>on. Inr (o_set_relay C (PInt ch) (PBool on)))))
      else if command = ''set-all'' then
        rbind (expect_arg_count command args 1) (\<lambda>_.
          rbind (parse_state_arg (args ! 0)) (\<lambda>m. Inr (o_set_all_relays C (PInt m))))
      else if command = ''pulse'' then
        rbind (expect_arg_count command args 2) (\<lambda>_.
          rbind (parse_channel_arg (args ! 0)) (\<lambda>ch.
            rbind (parse_int_arg (args ! 1)) (\<lambda>ms. Inr (o_pulse_relay C (PInt ch) (PInt ms)))))
      else if command = ''off-all'' then no_args (o_off_all_relays C)
      else if command = ''status'' then no_args (o_status C)
      else if command = ''health'' then no_args (o_health C)
      else if command = ''transport'' then no_args (o_transport_status C)
      else if command = ''safety'' then no_args (o_safety C)
      else if command = ''watchdog'' then no_args (o_watchdog C)
      else if command = ''smoke'' then
        rbind (parse_prompt_args [(''--pulse-ms'', Int_Value)] args) (\<lambda>ns.
          Inr (run_smoke_sequence (smoke_ops C) (\<lambda>ms. se_sleep E (of_int ms / 1000))
                 (case dget ns ''--pulse-ms'' of PInt i \<Rightarrow> i | _ \<Rightarrow> 1000)))
      else Inl (RelayValidationError (''unknown command '' @ command)))"

definition handle_relay_command :: "('w, 'c) session_env \<Rightarrow> string \<Rightarrow> string list \<Rightarrow> (('w, 'c) session, unit) sexc" where
  "handle_relay_command E command args =
     sbind (on_current (sret ())) (\<lambda>_.
     sbind (lift_result (session_call E command args)) (\<lambda>call.
     sbind (on_current call) (\<lambda>payload.
     sbind (lift_result (format_human command payload)) say)))"

section \<open>The loop\<close>

definition help_text :: string where
  "help_text = join newline
     [''Inspect:'',
      ''  status                       show relay state, transport counters, and last error'',
      ''  get <channel>                show one relay state'',
      ''  get-all                      show all relay states'',
      ''  identity                     show controller hardware and protocol information'',
      ''  capabilities                 show controller capabilities'',
      ''  build-info                   show firmware build details'',
      ''  health                       show health details'',
      ''  transport                    show transport details'',
      ''  safety                       show safety policy details'',
      ''  watchdog                     show watchdog details'',
      [],
      ''Control:'',
      ''  set <channel> <on|off>       set one relay'',
      ''  set-all <mask>               set all relays from a six-bit mask'',
      ''  pulse <channel> <duration>   pulse one relay for duration in ms'',
      ''  off-all                      turn every relay off and cancel pulses'',
      ''  smoke [--pulse-ms <ms>]      pulse each relay and turn all off'',
      [],
      ''Connection:'',
      ''  connect                      connect using saved selector or discovery'',
      ''  connect --port <port>        connect to a serial port'',
      ''  connect --serial <serial>    connect by USB serial number'',
      ''  bootsel                      enter RP2350 ROM BOOTSEL for picotool or UF2'',
      ''  disconnect                   close only when relays are confirmed off'',
      ''  disconnect --force           close without confirmed all-off state'',
      [],
      ''Exit:'',
      ''  exit                         exit only when relays are confirmed off'',
      ''  quit                         same as exit'',
      ''  exit --force                 exit without confirmed all-off state'',
      ''  quit --force                 same as exit --force'',
      [],
      ''Notes:'',
      ''  Channels are board labels: 1 is CH1, 6 is CH6.'',
      ''  Run off-all before disconnecting or exiting.'',
      ''  Use --force only when you intentionally accept unknown or active relay state.'']"

definition dispatch_line :: "('w, 'c) session_env \<Rightarrow> string \<Rightarrow> string list \<Rightarrow> (('w, 'c) session, unit) sexc" where
  "dispatch_line E command args =
     (if command = ''help'' then say help_text
      else if command = ''connect'' then handle_connect E args
      else if command = ''exit'' \<or> command = ''quit'' then
        sbind (lift_result (parse_force args)) (handle_exit E)
      else if command = ''disconnect'' then sbind (lift_result (parse_force args)) (handle_disconnect E)
      else if command = ''reboot'' then handle_reboot E args
      else if command = ''bootsel'' then handle_bootsel E args
      else handle_relay_command E command args)"

definition after_error :: "('w, 'c) session_env \<Rightarrow> exc \<Rightarrow> (('w, 'c) session, unit) sexc" where
  "after_error E e =
     (if is_RelayValidationError e then say (''argument error: '' @ exc_str e)
      else sbind (say (format_error e)) (\<lambda>_.
        if is_RelayTransportError e \<and> \<not> is_RelayTimeoutError e then enter_disconnected E else sret ()))"

definition handle_line :: "('w, 'c) session_env \<Rightarrow> string \<Rightarrow> (('w, 'c) session, unit) sexc" where
  "handle_line E line =
     (case shlex_split line of
        Inl e \<Rightarrow> if py_class e = ''ValueError'' then say (''argument error: '' @ exc_str e) else sraise e
      | Inr [] \<Rightarrow> sret ()
      | Inr (command # args) \<Rightarrow>
          sbind (get_s sn_connected) (\<lambda>con.
            if \<not> con \<and> command \<notin> {''connect'', ''help'', ''exit'', ''quit''}
            then say ''not connected: run 'connect' first''
            else catch_relay (dispatch_line E command args) (after_error E)))"

text \<open>\<open>se_color\<close> of the environment is what \<open>_prompt_color_enabled\<close> finds.\<close>

definition ansi :: "string \<Rightarrow> string" where
  "ansi code = CHR 0x1B # ''['' @ code @ ''m''"

definition ANSI_GREEN :: string where "ANSI_GREEN = ansi ''32''"
definition ANSI_BLUE :: string where "ANSI_BLUE = ansi ''34''"
definition ANSI_RESET :: string where "ANSI_RESET = ansi ''0''"

definition format_prompt :: "bool \<Rightarrow> string \<Rightarrow> string" where
  "format_prompt color st =
     (if color then ANSI_GREEN @ ''rp2350-relay'' @ ANSI_RESET @ ''['' @ ANSI_BLUE @ st @ ANSI_RESET @ '']$ ''
      else ''rp2350-relay['' @ st @ '']$ '')"

definition s_prompt :: "('w, 'c) session_env \<Rightarrow> ('w, 'c) session \<Rightarrow> string" where
  "s_prompt E s =
     format_prompt (se_color E) (if sn_connected s then py_str (opt_val (sn_port s)) else ''disconnected'')"

text \<open>The loop of \<open>run\<close> with a bound on its turns; None when the bound is reached.\<close>

fun session_loop :: "nat \<Rightarrow> ('w, 'c) session_env \<Rightarrow> ('w, 'c) session \<Rightarrow> (int result \<times> ('w, 'c) session) option" where
  "session_loop 0 E s = None"
| "session_loop (Suc n) E s =
     (if sn_should_exit s then Some (Inr 0, s)
      else (case read_input (s_prompt E s) s of
        (Inl e, s1) \<Rightarrow>
          if py_class e = ''KeyboardInterrupt'' then session_loop n E (snd (say ''^C'' s1))
          else if py_class e = ''EOFError'' then
            (case handle_exit E False s1 of (Inl x, s2) \<Rightarrow> Some (Inl x, s2) | (Inr _, s2) \<Rightarrow> Some (Inr 0, s2))
          else Some (Inl e, s1)
      | (Inr line, s1) \<Rightarrow>
          (case handle_line E line s1 of
             (Inl e, s2) \<Rightarrow> Some (Inl e, s2)
           | (Inr _, s2) \<Rightarrow> session_loop n E s2)))"

definition session_run :: "nat \<Rightarrow> ('w, 'c) session_env \<Rightarrow> ('w, 'c) session \<Rightarrow> (int result \<times> ('w, 'c) session) option" where
  "session_run n E s =
     (case connect_from_options E (so_port (se_options E)) (so_serial (se_options E)) True s of
        (Inl e, s1) \<Rightarrow> Some (Inl e, s1)
      | (Inr CANCELLED, s1) \<Rightarrow> Some (Inr 0, s1)
      | (Inr FAILED, s1) \<Rightarrow>
          session_loop n E (snd (say ''disconnected: run 'connect' to select a relay controller'' s1))
      | (Inr CONNECTED, s1) \<Rightarrow> session_loop n E s1)"

text \<open>\<open>run_session\<close>: a new session with the options of the command line.\<close>

definition run_session ::
    "nat \<Rightarrow> ('w, 'c) session_env \<Rightarrow> cli_args \<Rightarrow> 'w \<Rightarrow> string result list \<Rightarrow> (int result \<times> ('w, 'c) session) option" where
  "run_session n E args w input =
     (let opts = \<lparr>so_port = a_port args, so_serial = a_serial args, so_baud = a_baud args, so_timeout = a_timeout args,
                  so_retries = a_retries args\<rparr>
      in session_run n (E\<lparr>se_options := opts\<rparr>) (new_session opts w input))"

section \<open>Heartbeats\<close>

text \<open>A turn of \<open>HeartbeatPoller._run\<close> on its client: the flag \<open>_failed\<close>, and what it prints.\<close>

definition format_heartbeat_error :: "exc \<Rightarrow> string" where
  "format_heartbeat_error e =
     (if is_RelayTimeoutError e then ''heartbeat: no response''
      else if is_RelayTransportError e then ''heartbeat: serial link unavailable''
      else ''heartbeat: '' @ error_label e)"

definition poll_once :: "'c relay_ops \<Rightarrow> bool \<Rightarrow> 'c \<Rightarrow> (bool \<times> string list) result \<times> 'c" where
  "poll_once C failed c =
     (case o_heartbeat C c of
        (Inr _, c') \<Rightarrow> (Inr (False, if failed then [''heartbeat: restored''] else []), c')
      | (Inl e, c') \<Rightarrow> (if is_RelayError e then Inr (True, [format_heartbeat_error e]) else Inl e, c'))"

text \<open>Its turn in a session, between two lines: the lock keeps it off a command's requests.\<close>

definition heartbeat_turn :: "('w, 'c) session_env \<Rightarrow> bool \<Rightarrow> (('w, 'c) session, bool) sexc" where
  "heartbeat_turn E failed = (\<lambda>s.
     case sn_client s of
       Some c \<Rightarrow>
         if sn_heartbeat s
         then (case poll_once (se_ops E) failed c of
                 (Inr (f, lines), c') \<Rightarrow> (Inr f, s\<lparr>sn_client := Some c', sn_out := sn_out s @ lines\<rparr>)
               | (Inl e, c') \<Rightarrow> (Inl e, s\<lparr>sn_client := Some c'\<rparr>))
         else (Inr failed, s)
     | None \<Rightarrow> (Inr failed, s))"

section \<open>Completion\<close>

definition completion_context :: "string \<Rightarrow> (string list \<times> string) option" where
  "completion_context line =
     (case shlex_split line of
        Inl e \<Rightarrow> None
      | Inr tokens \<Rightarrow>
          if line \<noteq> [] \<and> is_space (last line) then Some (tokens, [])
          else if tokens = [] then Some ([], [])
          else Some (butlast tokens, last tokens))"

definition matching :: "string list \<Rightarrow> string \<Rightarrow> string list" where
  "matching values pre = filter (\<lambda>v. starts_with v pre) values"

definition channel_labels :: "string list" where
  "channel_labels = map int_str [1 .. RELAY_COUNT]"

definition suggestions :: "bool \<Rightarrow> string \<Rightarrow> string \<times> string list" where
  "suggestions con line =
     (let commands = (if con then CONNECTED_COMMANDS else DISCONNECTED_COMMANDS) in
      case completion_context line of
        None \<Rightarrow> ([], [])
      | Some ([], pre) \<Rightarrow> (pre, matching commands pre)
      | Some (command # args, pre) \<Rightarrow>
          (pre,
           if command \<notin> set commands then []
           else if command = ''connect'' then matching [''--port'', ''--serial''] pre
           else if command \<in> {''disconnect'', ''exit'', ''quit''} then matching [''--force''] pre
           else if command \<in> {''get'', ''set'', ''pulse''} \<and> args = [] then matching channel_labels pre
           else if command = ''set'' \<and> length args = 1 then matching [''on'', ''off''] pre
           else []))"

end
