(* ===== verification/Triples.thy ===== *)
theory Triples
  imports Session
begin

text \<open>
  A small Hoare logic for computations with exceptions, on the session's steps: what holds when
  one returns and what holds when it raises. An invariant is upheld if it holds after every
  return and after every relay error; an exception of another class ends the session.
\<close>

definition triple :: "('s \<Rightarrow> bool) \<Rightarrow> ('s, 'a) sexc \<Rightarrow> ('a \<Rightarrow> 's \<Rightarrow> bool) \<Rightarrow> (exc \<Rightarrow> 's \<Rightarrow> bool) \<Rightarrow> bool" where
  "triple P m Q R \<longleftrightarrow>
     (\<forall>s r s'. P s \<longrightarrow> m s = (r, s') \<longrightarrow> (case r of Inr x \<Rightarrow> Q x s' | Inl e \<Rightarrow> R e s'))"

definition relay_only :: "('s \<Rightarrow> bool) \<Rightarrow> exc \<Rightarrow> 's \<Rightarrow> bool" where
  "relay_only P = (\<lambda>e s. is_RelayError e \<longrightarrow> P s)"

abbreviation upholds :: "('s \<Rightarrow> bool) \<Rightarrow> ('s, 'a) sexc \<Rightarrow> bool" where
  "upholds P m \<equiv> triple P m (\<lambda>_. P) (relay_only P)"

named_theorems triple_intros \<open>rules of the logic\<close>

lemma tripleI:
  "(\<And>s x s'. P s \<Longrightarrow> m s = (Inr x, s') \<Longrightarrow> Q x s') \<Longrightarrow>
   (\<And>s e s'. P s \<Longrightarrow> m s = (Inl e, s') \<Longrightarrow> R e s') \<Longrightarrow> triple P m Q R"
  by (auto simp: triple_def split: sum.splits)

lemma triple_Inr: "triple P m Q R \<Longrightarrow> P s \<Longrightarrow> m s = (Inr x, s') \<Longrightarrow> Q x s'"
  by (fastforce simp: triple_def)

lemma triple_Inl: "triple P m Q R \<Longrightarrow> P s \<Longrightarrow> m s = (Inl e, s') \<Longrightarrow> R e s'"
  by (fastforce simp: triple_def)

lemma triple_weaken:
  assumes "triple P m Q R" "\<And>s. P' s \<Longrightarrow> P s" "\<And>x s. Q x s \<Longrightarrow> Q' x s" "\<And>e s. R e s \<Longrightarrow> R' e s"
  shows "triple P' m Q' R'"
  using assms by (intro tripleI) (blast dest: triple_Inr triple_Inl)+

lemma triple_sret [triple_intros]: "(\<And>s. P s \<Longrightarrow> Q x s) \<Longrightarrow> triple P (sret x) Q R"
  by (rule tripleI) (auto simp: sret_def)

lemma triple_sraise [triple_intros]: "(\<And>s. P s \<Longrightarrow> R e s) \<Longrightarrow> triple P (sraise e) Q R"
  by (rule tripleI) (auto simp: sraise_def)

lemma triple_lift [triple_intros]:
  "(\<And>s x. P s \<Longrightarrow> Q x s) \<Longrightarrow> (\<And>s e. P s \<Longrightarrow> R e s) \<Longrightarrow> triple P (lift_result r) Q R"
  by (rule tripleI) (auto simp: lift_result_def)

lemma triple_sbind:
  "triple P m Q R \<Longrightarrow> (\<And>x. triple (Q x) (f x) Q' R) \<Longrightarrow> triple P (sbind m f) Q' R"
  by (rule tripleI) (auto elim!: sbind_cases dest: triple_Inr triple_Inl)

text \<open>Sequencing where the same predicate holds in between, the rule for invariants.\<close>

lemma triple_seq [triple_intros]:
  "triple P m (\<lambda>_. P) R \<Longrightarrow> (\<And>x. triple P (f x) Q R) \<Longrightarrow> triple P (sbind m f) Q R"
  by (rule triple_sbind)

lemma triple_prod [triple_intros]:
  "(\<And>a b. triple P (f a b) Q R) \<Longrightarrow> triple P (case x of (a, b) \<Rightarrow> f a b) Q R"
  by (cases x) simp

lemma triple_upd [triple_intros]: "(\<And>s. P s \<Longrightarrow> Q () (f s)) \<Longrightarrow> triple P (upd f) Q R"
  by (rule tripleI) (auto simp: upd_def)

lemma triple_get [triple_intros]: "(\<And>s. P s \<Longrightarrow> Q (f s) s) \<Longrightarrow> triple P (get_s f) Q R"
  by (rule tripleI) (auto simp: get_s_def)

lemma triple_if: "(b \<Longrightarrow> triple P m Q R) \<Longrightarrow> (\<not> b \<Longrightarrow> triple P n Q R) \<Longrightarrow> triple P (if b then m else n) Q R"
  by simp

lemma triple_scatch:
  "triple P m Q R' \<Longrightarrow> (\<And>e. triple (R' e) (h e) Q R) \<Longrightarrow> triple P (scatch m h) Q R"
  by (rule tripleI) (auto simp: scatch_def split: prod.splits sum.splits dest: triple_Inr triple_Inl)

lemma triple_catch_relay [triple_intros]:
  assumes "triple P m Q (relay_only S)" "\<And>e. triple S (h e) Q (relay_only R)"
  shows "triple P (catch_relay m h) Q (relay_only R)"
proof (rule tripleI)
  fix s x s' assume "P s" "catch_relay m h s = (Inr x, s')"
  then show "Q x s'"
    using assms by (auto simp: catch_relay_def scatch_def sraise_def relay_only_def split: prod.splits sum.splits if_splits
        dest: triple_Inr triple_Inl)
next
  fix s e s' assume "P s" "catch_relay m h s = (Inl e, s')"
  then show "relay_only R e s'"
    using assms by (auto simp: catch_relay_def scatch_def sraise_def relay_only_def split: prod.splits sum.splits if_splits
        dest: triple_Inr triple_Inl)
qed

text \<open>Steps that leave the invariant's fields alone.\<close>

lemma triple_say [triple_intros]: "(\<And>s x. P s \<Longrightarrow> Q () (s\<lparr>sn_out := x\<rparr>)) \<Longrightarrow> triple P (say m) Q R"
  by (auto simp: say_def intro!: triple_intros)

lemma triple_on_world [triple_intros]:
  "(\<And>s x w. P s \<Longrightarrow> Q x (s\<lparr>sn_world := w\<rparr>)) \<Longrightarrow> (\<And>s e w. P s \<Longrightarrow> R e (s\<lparr>sn_world := w\<rparr>)) \<Longrightarrow>
   triple P (on_world m) Q R"
  by (rule tripleI) (auto simp: on_world_def split: prod.splits)

lemma triple_on_current [triple_intros]:
  "(\<And>s x c c'. P s \<Longrightarrow> sn_client s = Some c \<Longrightarrow> Q x (s\<lparr>sn_client := Some c'\<rparr>)) \<Longrightarrow>
   (\<And>s e c c'. P s \<Longrightarrow> sn_client s = Some c \<Longrightarrow> R e (s\<lparr>sn_client := Some c'\<rparr>)) \<Longrightarrow>
   (\<And>s. P s \<Longrightarrow> sn_client s = None \<Longrightarrow> R (RelayTransportError ''not connected'') s) \<Longrightarrow>
   triple P (on_current m) Q R"
  by (rule tripleI) (auto simp: on_current_def split: option.splits prod.splits)

section \<open>The invariant of the session\<close>

text \<open>
  Connected exactly if it holds a client, and polling exactly then; every client opened was
  closed once, or is the current one, or is among the \<open>k\<close> being probed.
\<close>

definition session_inv :: "nat \<Rightarrow> ('w, 'c) session \<Rightarrow> bool" where
  "session_inv k s \<longleftrightarrow>
     (sn_connected s \<longleftrightarrow> sn_client s \<noteq> None) \<and> (sn_heartbeat s \<longleftrightarrow> sn_connected s)
     \<and> sn_opened s = length (sn_closed s) + (if sn_connected s then 1 else 0) + k"

definition offline :: "nat \<Rightarrow> ('w, 'c) session \<Rightarrow> bool" where
  "offline k s \<longleftrightarrow> session_inv k s \<and> \<not> sn_connected s"

lemma new_session_inv: "session_inv 0 (new_session opts w input)"
  by (simp add: session_inv_def new_session_def)

lemmas inv_simps = session_inv_def offline_def relay_only_def

lemma drop_session_client_off:
  assumes "P = session_inv k \<or> P = offline k"
  shows "triple P (enter_disconnected E) (\<lambda>_. offline k) (\<lambda>_. offline k)"
    and "triple P (close_current E force warn) (\<lambda>_. offline k) (\<lambda>_. offline k)"
proof -
  show "triple P (enter_disconnected E) (\<lambda>_. offline k) (\<lambda>_. offline k)"
    using assms
    by (intro tripleI) (auto simp: enter_disconnected_def stop_heartbeat_def upd_def drop_session_client_def sbind_def
        inv_simps Let_def split: option.splits)
  show "triple P (close_current E force warn) (\<lambda>_. offline k) (\<lambda>_. offline k)"
    using assms
    by (intro tripleI) (auto simp: close_current_def say_def sret_def stop_heartbeat_def upd_def drop_session_client_def sbind_def
        inv_simps Let_def split: option.splits if_splits)
qed

lemma probe_connection_off:
  "triple (offline k) (probe_connection E prt quiet)
     (\<lambda>pb. offline (case pb of None \<Rightarrow> k | Some _ \<Rightarrow> Suc k)) (relay_only (offline k))"
  by (intro tripleI)
    (auto simp: probe_connection_def Let_def on_world_def inv_simps say_def upd_def split: prod.splits sum.splits if_splits)

lemma print_banner_keeps:
  assumes "\<And>s x. P s \<Longrightarrow> P (s\<lparr>sn_out := x\<rparr>)"
  shows "triple P (print_banner idn st) (\<lambda>_. P) (\<lambda>_. P)"
  unfolding print_banner_def by (intro triple_intros) (auto intro: assms)

lemma adopt_connection_inv:
  "triple (offline (Suc k)) (adopt_connection pb prt usb product) (\<lambda>_ s. session_inv k s \<and> sn_connected s)
     (\<lambda>_ s. session_inv k s \<and> sn_connected s)"
proof -
  let ?I = "\<lambda>s :: ('a, 'b) session. session_inv k s \<and> sn_connected s"
  let ?f = "upd (\<lambda>s. s\<lparr>sn_client := Some (sp_client pb), sn_connected := True, sn_port := Some prt,
        sn_usb_serial := usb, sn_product := product\<rparr>)"
  have "triple (offline (Suc k)) (sbind ?f (\<lambda>_. start_heartbeat)) (\<lambda>_. ?I) (\<lambda>_. ?I)"
    by (intro tripleI) (auto simp: sbind_def upd_def start_heartbeat_def inv_simps split: if_splits)
  then have "triple (offline (Suc k)) (sbind (sbind ?f (\<lambda>_. start_heartbeat)) (\<lambda>_. print_banner (sp_identity pb) (sp_status pb)))
      (\<lambda>_. ?I) (\<lambda>_. ?I)"
    by (rule triple_sbind) (rule print_banner_keeps, auto simp: inv_simps)
  then show ?thesis by (simp add: adopt_connection_def sbind_assoc)
qed

end
