(* ===== verification/Session_Inv.thy ===== *)
theory Session_Inv
  imports Triples
begin

text \<open>
  Every handler of the session upholds the session's invariant, and the loop with it; the loop
  ends within a number of turns bounded by its input.
\<close>

lemma triple_get_case:
  "(\<And>v. triple (\<lambda>s. P s \<and> f s = v) (g v) Q R) \<Longrightarrow> triple P (sbind (get_s f) g) Q R"
  by (rule tripleI) (auto simp: sbind_def get_s_def dest: triple_Inr triple_Inl)

text \<open>Simple steps uphold the invariant: it does not speak of what they change.\<close>

lemma step_inv [triple_intros]:
  "upholds (session_inv k) (sret x)" "upholds (session_inv k) (sraise e)" "upholds (session_inv k) (lift_result r)"
  "upholds (session_inv k) (say m)" "upholds (session_inv k) (on_world w)" "upholds (session_inv k) (on_current c)"
  "upholds (session_inv k) (get_s f)"
  by (intro triple_intros, auto simp: inv_simps)+

lemma enter_disconnected_inv: "upholds (session_inv k) (enter_disconnected E)"
  by (rule triple_weaken [OF drop_session_client_off(1) [OF disjI1 [OF refl]]]) (auto simp: inv_simps)

lemma close_current_inv: "upholds (session_inv k) (close_current E force warn)"
  by (rule triple_weaken [OF drop_session_client_off(2) [OF disjI1 [OF refl]]]) (auto simp: inv_simps)

lemma s_open_inv: "upholds (session_inv 0) (s_open E prt usb product)"
  unfolding s_open_def
proof (rule triple_get_case, rule triple_if)
  fix con
  show "triple (\<lambda>s. session_inv 0 s \<and> sn_connected s = con)
      (sbind (say ''already connected: run 'disconnect' first'') (\<lambda>_. sret True)) (\<lambda>_. session_inv 0) (relay_only (session_inv 0))"
    by (rule triple_weaken [OF triple_seq [OF step_inv(4) step_inv(1)]]) auto
next
  fix con assume "\<not> con"
  let ?body = "\<lambda>pb. case pb of None \<Rightarrow> sbind (enter_disconnected E) (\<lambda>_. sret False)
      | Some p \<Rightarrow> sbind (adopt_connection p prt usb product) (\<lambda>_. sret True)"
  have body: "triple (offline (case pb of None \<Rightarrow> 0 | Some _ \<Rightarrow> Suc 0)) (?body pb)
      (\<lambda>_. session_inv 0) (relay_only (session_inv 0))" for pb
  proof (cases pb)
    case None
    have "triple (offline 0) (sbind (enter_disconnected E) (\<lambda>_. sret False)) (\<lambda>_. session_inv 0) (relay_only (session_inv 0))"
      by (rule triple_weaken [OF triple_seq [OF enter_disconnected_inv step_inv(1)]]) (auto simp: inv_simps)
    with None show ?thesis by simp
  next
    case (Some p)
    have "triple (offline (Suc 0)) (sbind (adopt_connection p prt usb product) (\<lambda>_. sret True))
        (\<lambda>_. session_inv 0) (relay_only (session_inv 0))"
      by (rule triple_sbind [OF triple_weaken [OF adopt_connection_inv] step_inv(1)]) (auto simp: relay_only_def)
    with Some show ?thesis by simp
  qed
  have "triple (offline 0) (sbind (probe_connection E prt False) ?body) (\<lambda>_. session_inv 0) (relay_only (session_inv 0))"
    by (rule triple_sbind [OF triple_weaken [OF probe_connection_off] body]) (auto simp: inv_simps)
  then show "triple (\<lambda>s. session_inv 0 s \<and> sn_connected s = con) (sbind (probe_connection E prt False) ?body)
      (\<lambda>_. session_inv 0) (relay_only (session_inv 0))"
    by (rule triple_weaken) (use \<open>\<not> con\<close> in \<open>simp_all add: offline_def\<close>)
qed

lemma upd_inv: "(\<And>s. session_inv k s \<Longrightarrow> session_inv k (f s)) \<Longrightarrow> upholds (session_inv k) (upd f)"
  by (rule triple_upd)

lemma relay_catch_inv [triple_intros]:
  "upholds P m \<Longrightarrow> (\<And>e. upholds P (h e)) \<Longrightarrow> upholds P (catch_relay m h)"
  by (rule triple_catch_relay)

lemma read_input_inv: "upholds (session_inv k) (read_input p)"
  by (rule tripleI) (auto simp: read_input_def Let_def say_def upd_def inv_simps split: list.splits)

lemma choose_device_inv: "upholds (session_inv k :: ('w, 'c) session \<Rightarrow> bool) (choose_device n devices)"
proof (induction n)
  case 0
  then show ?case by (simp add: triple_intros)
next
  case (Suc n)
  have again: "upholds (session_inv k :: ('w, 'c) session \<Rightarrow> bool) (sbind (say m) (\<lambda>_. choose_device n devices))" for m
    by (intro triple_seq step_inv Suc)
  have "\<And>s r (s' :: ('w, 'c) session). session_inv k s \<Longrightarrow> choose_device (Suc n) devices s = (r, s') \<Longrightarrow>
      (case r of Inr x \<Rightarrow> session_inv k s' | Inl e \<Rightarrow> relay_only (session_inv k) e s')"
  proof -
    fix s r and s' :: "('w, 'c) session"
    assume s: "session_inv k s" and run: "choose_device (Suc n) devices s = (r, s')"
    obtain r1 s1 where ri: "read_input ''Select device number, or q to cancel: '' s = (r1, s1)" by force
    have s1: "session_inv k s1"
      using ri s by (auto simp: read_input_def Let_def say_def upd_def inv_simps split: list.splits)
    show "case r of Inr x \<Rightarrow> session_inv k s' | Inl e \<Rightarrow> relay_only (session_inv k) e s'"
    proof (cases r1)
      case (Inl e)
      with run ri s1 show ?thesis by (auto simp: relay_only_def split: if_splits)
    next
      case (Inr line)
      with run ri s1 show ?thesis
        by (auto simp: Let_def relay_only_def split: if_splits option.splits sum.splits
            dest: triple_Inr [OF again] triple_Inl [OF again])
    qed
  qed
  then show ?case by (simp add: triple_def)
qed

text \<open>The operations composed of these, one after the other.\<close>

lemma print_devices_inv [triple_intros]: "upholds (session_inv k) (print_devices ds)"
  unfolding print_devices_def by (rule upd_inv) (simp add: inv_simps)

lemma connect_inv:
  "upholds (session_inv 0) (metadata_for_port E prt)" "upholds (session_inv 0) (print_available_devices E)"
  "upholds (session_inv 0) (select_interactive_device E)" "upholds (session_inv 0) (open_device E d)"
  "upholds (session_inv 0) (open_port E prt)" "upholds (session_inv 0) (connect_interactive E initial)"
proof -
  show m: "upholds (session_inv 0) (metadata_for_port E prt)"
    unfolding metadata_for_port_def by (intro triple_intros) (auto simp: inv_simps)
  show "upholds (session_inv 0) (print_available_devices E)"
    unfolding print_available_devices_def by (intro triple_intros triple_if) (auto simp: inv_simps)
  show sel: "upholds (session_inv 0) (select_interactive_device E)"
    unfolding select_interactive_device_def
    by (intro triple_intros triple_if choose_device_inv) (auto simp: inv_simps)
  show op: "upholds (session_inv 0) (open_device E d)" for d
    unfolding open_device_def by (rule s_open_inv)
  show "upholds (session_inv 0) (open_port E prt)"
    unfolding open_port_def by (intro triple_seq m s_open_inv)
  show "upholds (session_inv 0) (connect_interactive E initial)"
    unfolding connect_interactive_def
    by (intro triple_seq relay_catch_inv sel step_inv)
      (auto split: option.splits selection.splits intro!: triple_seq op step_inv)
qed

lemma select_serial_inv:
  "upholds (session_inv 0) m \<Longrightarrow> upholds (session_inv 0) (select_serial E serial m)"
  unfolding select_serial_def
  by (intro triple_seq relay_catch_inv step_inv)
    (auto split: option.splits intro!: triple_seq connect_inv step_inv)

lemma connect_from_options_inv: "upholds (session_inv 0) (connect_from_options E p sn initial)"
proof -
  have l: "upholds (session_inv 0) (sbind (if initial then print_available_devices E else sret ()) (\<lambda>_. sret x))" for x
    by (intro triple_seq triple_if connect_inv step_inv)
  have u: "upholds (session_inv 0) (upd (\<lambda>s. s\<lparr>sn_preferred_port := x, sn_preferred_serial := y\<rparr>))"
    "upholds (session_inv 0) (upd (\<lambda>s. s\<lparr>sn_preferred_serial := y, sn_preferred_port := x\<rparr>))" for x y
    by (rule upd_inv, simp add: inv_simps)+
  show ?thesis
    unfolding connect_from_options_def Let_def
    by (auto split: option.splits prod.splits
        intro!: triple_seq u l triple_if connect_inv select_serial_inv step_inv)
qed

lemma handle_connect_inv: "upholds (session_inv 0) (handle_connect E args)"
  unfolding handle_connect_def Let_def
  by (intro triple_seq triple_if step_inv connect_from_options_inv)

lemma scatch_Exception_inv:
  assumes "triple (session_inv k) m (\<lambda>_. session_inv k) (\<lambda>_. session_inv k)"
    "\<And>e. upholds (session_inv k) (h e)"
  shows "upholds (session_inv k) (scatch m (\<lambda>e. if is_Exception e then h e else sraise e))"
  by (rule triple_scatch [OF assms(1)]) (intro triple_if assms(2) step_inv)

lemma close_allowed_inv:
  "upholds (session_inv k :: ('w, 'c) session \<Rightarrow> bool) (close_allowed E force)"
proof -
  let ?I = "session_inv k :: ('w, 'c) session \<Rightarrow> bool"
  have q: "triple ?I (sbind (on_current (o_status (se_ops E))) (\<lambda>st.
      sbind (lift_result (reported_masks st)) (\<lambda>mp. sret (Inr mp :: exc + int \<times> int)))) (\<lambda>_. ?I) (\<lambda>_. ?I)"
    by (intro triple_seq triple_on_current triple_lift triple_sret) (auto simp: inv_simps)
  have refuse: "upholds ?I (sbind (say a) (\<lambda>_. sbind (say b) (\<lambda>_. sret False)))" for a b
    by (intro triple_seq step_inv)
  show ?thesis
    unfolding close_allowed_def
    by (rule triple_if, rule step_inv, rule triple_seq, rule scatch_Exception_inv [OF q step_inv(1)])
      (auto split: sum.splits intro!: refuse triple_if step_inv)
qed

lemma handle_exit_inv: "upholds (session_inv 0) (handle_exit E force)"
  unfolding handle_exit_def
  by (intro triple_seq triple_if step_inv close_allowed_inv close_current_inv upd_inv) (simp add: inv_simps)

lemma handle_disconnect_inv: "upholds (session_inv 0) (handle_disconnect E force)"
  unfolding handle_disconnect_def
  by (intro triple_seq triple_if step_inv close_allowed_inv close_current_inv)

lemma offline_step [triple_intros]:
  "triple (offline 0) (say m) (\<lambda>_. offline 0) R" "triple (offline 0) (sret x) (\<lambda>_. offline 0) R"
  "triple (offline 0) (on_world w) (\<lambda>_. offline 0) (relay_only (offline 0))"
  "triple (offline 0) (sleep_s E t) (\<lambda>_. offline 0) (relay_only (offline 0))"
  unfolding sleep_s_def by (intro triple_intros; auto simp: inv_simps)+

text \<open>After the attempts the session is connected or, if none was adopted, still offline.\<close>

definition maybe_adopted :: "bool \<Rightarrow> ('w, 'c) session \<Rightarrow> bool" where
  "maybe_adopted adopted s \<longleftrightarrow> (if adopted then session_inv 0 s else offline 0 s)"

lemma reboot_attempts_inv:
  "triple (offline 0 :: ('w, 'c) session \<Rightarrow> bool) (reboot_attempts E serial pre n) maybe_adopted (relay_only (session_inv 0))"
proof (induction n)
  case 0
  then show ?case by (auto simp: maybe_adopted_def intro!: triple_sret)
next
  case (Suc n)
  let ?Q = "maybe_adopted" and ?R = "relay_only (session_inv 0) :: exc \<Rightarrow> ('w, 'c) session \<Rightarrow> bool"
  let ?again = "sbind (sleep_s E 1) (\<lambda>_. reboot_attempts E serial pre n)"
  have again: "triple (offline 0) ?again ?Q ?R"
    by (rule triple_sbind [OF triple_weaken [OF offline_step(4)] Suc]) (auto simp: inv_simps)
  have sel: "triple (offline 0) (catch_relay (sbind (on_world (se_select E serial)) (\<lambda>d. sret (Some d))) (\<lambda>e. sret None))
      (\<lambda>_. offline 0) ?R"
    by (rule triple_catch_relay [where S = "offline 0"]) (intro triple_seq offline_step)+
  have adopt: "triple (offline (Suc 0)) (sbind (adopt_connection p x y z) (\<lambda>_. sret True)) ?Q ?R" for p x y z
    by (rule triple_sbind [OF triple_weaken [OF adopt_connection_inv, where Q' = "\<lambda>_. session_inv 0"]])
      (auto simp: relay_only_def maybe_adopted_def intro!: triple_sret)
  have stale: "triple (offline (Suc 0)) (sbind (close_probe p) (\<lambda>_. ?again)) ?Q ?R" for p :: "'c session_probe"
    unfolding close_probe_def by (rule triple_sbind [OF triple_upd again]) (auto simp: inv_simps)
  let ?body = "\<lambda>d pb. case pb of None \<Rightarrow> ?again
         | Some p \<Rightarrow> if session_reboot_fresh pre (sp_status p)
             then sbind (adopt_connection p (ud_port d) (ud_serial_number d) (ud_product d)) (\<lambda>_. sret True)
             else sbind (close_probe p) (\<lambda>_. ?again)"
  have body: "triple (offline (case pb of None \<Rightarrow> 0 | Some _ \<Rightarrow> Suc 0)) (?body d pb) ?Q ?R" for d and pb :: "'c session_probe option"
    by (cases pb) (auto intro: again adopt stale)
  have off: "relay_only (offline 0) e s \<Longrightarrow> ?R e s" for e and s :: "('w, 'c) session"
    by (simp add: inv_simps)
  have found: "triple (offline 0) (sbind (probe_connection E (ud_port d) True) (?body d)) ?Q ?R" for d
    by (rule triple_sbind [OF triple_weaken [OF probe_connection_off _ _ off] body])
  show ?case
    unfolding reboot_attempts.simps Let_def
    by (rule triple_sbind [OF sel]) (auto split: option.splits intro: again found)
qed

lemma handle_reboot_inv: "upholds (session_inv 0 :: ('w, 'c) session \<Rightarrow> bool) (handle_reboot E args)"
proof -
  let ?R = "relay_only (session_inv 0) :: exc \<Rightarrow> ('w, 'c) session \<Rightarrow> bool"
  have off: "triple (offline 0) (enter_disconnected E) (\<lambda>_. session_inv 0) ?R"
    by (rule triple_weaken [OF drop_session_client_off(1) [OF disjI2 [OF refl]]]) (auto simp: inv_simps)
  have close: "triple (session_inv 0) (close_current E True False) (\<lambda>_. offline 0) ?R"
    by (rule triple_weaken [OF drop_session_client_off(2) [OF disjI1 [OF refl]]]) (auto simp: inv_simps)
  have fin: "triple (offline 0) (sbind (say m) (\<lambda>_. enter_disconnected E)) (\<lambda>_. session_inv 0) ?R" for m
    by (rule triple_sbind [OF offline_step(1) off])
  have fin': "triple (maybe_adopted adopted) (if adopted then sret () else sbind (say m) (\<lambda>_. enter_disconnected E))
      (\<lambda>_. session_inv 0) ?R" for adopted m
    using fin [of m] by (cases adopted) (auto simp: maybe_adopted_def [abs_def] intro: triple_sret)
  have att: "triple (offline 0) (sbind (sleep_s E t) (\<lambda>_. sbind (reboot_attempts E sn pre n) (\<lambda>adopted.
      if adopted then sret () else sbind (say m) (\<lambda>_. enter_disconnected E)))) (\<lambda>_. session_inv 0) ?R" for t sn pre n m
    by (rule triple_sbind [OF triple_weaken [OF offline_step(4)] triple_sbind [OF reboot_attempts_inv fin']])
      (auto simp: inv_simps)
  show ?thesis
    unfolding handle_reboot_def resume_after_reboot_def
    by (auto intro!: triple_if triple_seq step_inv triple_sbind [OF close] fin att split: option.splits)
qed

lemma handle_bootsel_inv: "upholds (session_inv 0) (handle_bootsel E args)"
  unfolding handle_bootsel_def
  by (intro triple_if triple_seq step_inv close_current_inv enter_disconnected_inv)

lemma handle_relay_command_inv: "upholds (session_inv k) (handle_relay_command E command args)"
  unfolding handle_relay_command_def by (intro triple_seq step_inv)

lemma dispatch_line_inv: "upholds (session_inv 0) (dispatch_line E command args)"
  unfolding dispatch_line_def
  by (intro triple_if triple_seq step_inv handle_connect_inv handle_exit_inv handle_disconnect_inv
      handle_reboot_inv handle_bootsel_inv handle_relay_command_inv)

lemma after_error_inv: "upholds (session_inv 0) (after_error E e)"
  unfolding after_error_def by (intro triple_if triple_seq step_inv enter_disconnected_inv)

lemma handle_line_inv: "upholds (session_inv 0) (handle_line E line)"
  unfolding handle_line_def
  by (auto split: sum.splits list.splits
      intro!: triple_if triple_seq step_inv relay_catch_inv dispatch_line_inv after_error_inv)

section \<open>The loop\<close>

lemma read_input_keeps: "read_input p s = (r, s') \<Longrightarrow> session_inv k s \<Longrightarrow> session_inv k s'"
  by (auto simp: read_input_def Let_def say_def upd_def inv_simps split: list.splits)

lemma session_loop_inv:
  "session_loop n E s = Some (r, s') \<Longrightarrow> session_inv 0 s \<Longrightarrow> (\<And>e. r = Inl e \<Longrightarrow> is_RelayError e) \<Longrightarrow> session_inv 0 s'"
proof (induction n arbitrary: s)
  case (Suc n)
  obtain r1 s1 where ri: "read_input (s_prompt E s) s = (r1, s1)" by force
  note i1 = read_input_keeps [OF ri Suc.prems(2)]
  have say: "session_inv 0 (snd (say m s1))" for m using i1 by (simp add: say_def upd_def inv_simps)
  show ?case
  proof (cases "sn_should_exit s")
    case True
    with Suc.prems show ?thesis by simp
  next
    case False
    show ?thesis
    proof (cases r1)
      case (Inl e)
      with Suc False ri i1 say show ?thesis
        by (auto split: if_splits prod.splits sum.splits
            dest: triple_Inr [OF handle_exit_inv] triple_Inl [OF handle_exit_inv] simp: relay_only_def)
    next
      case (Inr line)
      with Suc False ri i1 show ?thesis
        by (auto split: prod.splits sum.splits
            dest: triple_Inr [OF handle_line_inv] triple_Inl [OF handle_line_inv] simp: relay_only_def)
    qed
  qed
qed simp

lemma session_run_inv:
  assumes "session_run n E s = Some (r, s')" "session_inv 0 s" "\<And>e. r = Inl e \<Longrightarrow> is_RelayError e"
  shows "session_inv 0 s'"
proof -
  obtain r1 s1 where c: "connect_from_options E (so_port (se_options E)) (so_serial (se_options E)) True s = (r1, s1)" by force
  have say: "session_inv 0 s1 \<Longrightarrow> session_inv 0 (snd (say m s1))" for m by (simp add: say_def upd_def inv_simps)
  show ?thesis
  proof (cases r1)
    case (Inl e)
    with assms c triple_Inl [OF connect_from_options_inv assms(2)] show ?thesis
      by (auto simp: session_run_def relay_only_def)
  next
    case (Inr x)
    with triple_Inr [OF connect_from_options_inv assms(2)] c have i: "session_inv 0 s1" by blast
    with Inr assms(1,3) c say [OF i] show ?thesis
      by (cases x) (auto simp: session_run_def intro: session_loop_inv)
  qed
qed


section \<open>Lines and heartbeats in any order\<close>

lemma heartbeat_turn_inv: "triple (session_inv k) (heartbeat_turn E failed) (\<lambda>_. session_inv k) (\<lambda>_. session_inv k)"
  by (intro tripleI) (auto simp: heartbeat_turn_def inv_simps split: option.splits prod.splits sum.splits if_splits)

text \<open>The states of a session between lines, whatever is typed and whenever the poller beats.\<close>

inductive session_reach :: "('w, 'c) session_env \<Rightarrow> ('w, 'c) session \<Rightarrow> bool" for E where
  opened: "connect_from_options E (so_port (se_options E)) (so_serial (se_options E)) True
      (new_session (se_options E) w input) = (Inr x, s) \<Longrightarrow> session_reach E s"
| typed: "session_reach E s \<Longrightarrow> handle_line E line s = (Inr (), s') \<Longrightarrow> session_reach E s'"
| prompted: "session_reach E s \<Longrightarrow> read_input (s_prompt E s) s = (r, s') \<Longrightarrow> session_reach E s'"
| beat: "session_reach E s \<Longrightarrow> heartbeat_turn E failed s = (r, s') \<Longrightarrow> session_reach E s'"

lemma session_reach_inv: "session_reach E s \<Longrightarrow> session_inv 0 s"
proof (induction rule: session_reach.induct)
  case (opened w input x s)
  from triple_Inr [OF connect_from_options_inv new_session_inv opened] show ?case .
next
  case (typed s line s')
  from triple_Inr [OF handle_line_inv typed.IH typed.hyps(2)] show ?case .
next
  case (prompted s r s')
  then show ?case by (blast dest: read_input_keeps)
next
  case (beat s failed r s')
  then show ?case by (cases r) (auto dest: triple_Inr [OF heartbeat_turn_inv] triple_Inl [OF heartbeat_turn_inv])
qed

end
