(* ===== verification/Session_Loop.thy ===== *)
theory Session_Loop
  imports Session_Inv
begin

text \<open>
  The session's input only ever shrinks: every handler keeps a bound on what is left to read,
  whether it returns or raises. So the loop ends: each turn reads a line, and a fuel beyond the
  number of lines is never used up. The same holds of the loop that asks for a device number.
\<close>

definition left :: "nat \<Rightarrow> ('w, 'c) session \<Rightarrow> bool" where
  "left n s \<longleftrightarrow> length (sn_input s) \<le> n"

lemma left_steps [keeps_intros]:
  "keeps (left n) (say m)" "keeps (left n) (on_world w)" "keeps (left n) (on_current c)" "keeps (left n) (get_s f)"
  "keeps (left n) (sleep_s E t)"
  by (auto simp: keeps_def say_def upd_def on_world_def on_current_def get_s_def sleep_s_def lift_result_def left_def
      split: prod.splits option.splits)

lemma left_upd [keeps_intros]: "(\<And>s. sn_input (f s) = sn_input s) \<Longrightarrow> keeps (left n) (upd f)"
  by (auto simp: keeps_def upd_def left_def)

lemma keeps_catch_relay [keeps_intros]: "keeps P m \<Longrightarrow> (\<And>e. keeps P (h e)) \<Longrightarrow> keeps P (catch_relay m h)"
  unfolding catch_relay_def by (intro keeps_intros)

lemma keeps_cases [keeps_intros]:
  "keeps P a \<Longrightarrow> (\<And>x. keeps P (f x)) \<Longrightarrow> keeps P (case z of None \<Rightarrow> a | Some x \<Rightarrow> f x)"
  "(\<And>x y. keeps P (g x y)) \<Longrightarrow> keeps P (case p of (x, y) \<Rightarrow> g x y)"
  "(\<And>x. keeps P (f' x)) \<Longrightarrow> (\<And>y. keeps P (g' y)) \<Longrightarrow> keeps P (case q of Inl x \<Rightarrow> f' x | Inr y \<Rightarrow> g' y)"
  by (auto split: option.splits prod.splits sum.splits)

lemma left_connection [keeps_intros]:
  "keeps (left n) (probe_connection E prt quiet)" "keeps (left n) (close_probe p)"
  "keeps (left n) (drop_session_client E)" "keeps (left n) start_heartbeat" "keeps (left n) stop_heartbeat"
proof -
  show "keeps (left n) (probe_connection E prt quiet)"
    by (intro keepsI)
      (auto simp: probe_connection_def Let_def on_world_def left_def say_def upd_def split: prod.splits sum.splits if_splits)
  show "keeps (left n) (drop_session_client E)"
    by (intro keepsI) (auto simp: drop_session_client_def Let_def left_def split: option.splits)
  show "keeps (left n) (close_probe p)" "keeps (left n) start_heartbeat" "keeps (left n) stop_heartbeat"
    unfolding close_probe_def start_heartbeat_def stop_heartbeat_def by (intro keeps_intros; simp)+
qed

lemma left_opening [keeps_intros]:
  "keeps (left n) (enter_disconnected E)" "keeps (left n) (close_current E force warn)"
  "keeps (left n) (print_banner idn st)" "keeps (left n) (adopt_connection p prt usb product)"
  unfolding enter_disconnected_def close_current_def print_banner_def adopt_connection_def
  by (intro keeps_intros; simp)+

lemma left_s_open [keeps_intros]: "keeps (left n) (s_open E prt usb product)"
  unfolding s_open_def by (intro keeps_intros)

lemma read_input_left: "read_input p s = (r, s') \<Longrightarrow> left (Suc n) s \<Longrightarrow> left n s' \<or> r = Inl (PyExc ''EOFError'' []) \<and> sn_input s' = []"
  by (auto simp: read_input_def Let_def say_def upd_def left_def split: list.splits)

lemma left_mono: "left m s \<Longrightarrow> m \<le> n \<Longrightarrow> left n s"
  by (simp add: left_def)

lemma read_input_keeps_left: "read_input p s = (r, s') \<Longrightarrow> left n s \<Longrightarrow> left n s'"
  by (auto simp: read_input_def Let_def say_def upd_def left_def split: list.splits)

lemma left_choose_device [keeps_intros]: "keeps (left n :: ('w, 'c) session \<Rightarrow> bool) (choose_device k devices)"
proof (induction k)
  case 0
  then show ?case by (simp add: keeps_intros)
next
  case (Suc k)
  have again: "keeps (left n :: ('w, 'c) session \<Rightarrow> bool) (sbind (say m) (\<lambda>_. choose_device k devices))" for m
    by (intro keeps_intros Suc)
  show ?case
    by (intro keepsI)
      (auto simp: Let_def dest: read_input_keeps_left keepsD [OF again]
        split: prod.splits sum.splits if_splits option.splits)
qed

lemma left_connecting [keeps_intros]:
  "keeps (left n) (metadata_for_port E prt)" "keeps (left n) (print_devices ds)"
  "keeps (left n) (print_available_devices E)" "keeps (left n) (select_interactive_device E)"
  "keeps (left n) (open_port E prt)" "keeps (left n) (open_device E d)"
proof -
  show d: "keeps (left n) (print_devices ds)" for ds
    unfolding print_devices_def by (intro keeps_intros) simp
  show m: "keeps (left n) (metadata_for_port E prt)"
    unfolding metadata_for_port_def by (intro keeps_intros)
  show "keeps (left n) (print_available_devices E)"
    unfolding print_available_devices_def by (intro keeps_intros d)
  show "keeps (left n) (select_interactive_device E)"
    unfolding select_interactive_device_def by (intro keeps_intros d)
  show "keeps (left n) (open_port E prt)" "keeps (left n) (open_device E d)"
    unfolding open_port_def open_device_def by (intro keeps_intros m)+
qed

lemma left_connect_interactive [keeps_intros]: "keeps (left n) (connect_interactive E initial)"
  unfolding connect_interactive_def
  by (intro keeps_intros) (auto split: selection.splits intro!: keeps_intros)

lemma left_select_serial [keeps_intros]: "keeps (left n) m \<Longrightarrow> keeps (left n) (select_serial E serial m)"
  unfolding select_serial_def by (intro keeps_intros)

lemma left_connect_from_options [keeps_intros]: "keeps (left n) (connect_from_options E p sn initial)"
  unfolding connect_from_options_def Let_def by (intro keeps_intros; simp)

lemma left_handle_connect [keeps_intros]: "keeps (left n) (handle_connect E args)"
  unfolding handle_connect_def Let_def by (intro keeps_intros)

lemma left_close_allowed [keeps_intros]: "keeps (left n) (close_allowed E force)"
  unfolding close_allowed_def by (intro keeps_intros)

lemma left_handlers [keeps_intros]:
  "keeps (left n) (handle_exit E force)" "keeps (left n) (handle_disconnect E force)"
  "keeps (left n) (handle_bootsel E args)" "keeps (left n) (handle_relay_command E command args)"
  "keeps (left n) (after_error E e)"
  unfolding handle_exit_def handle_disconnect_def handle_bootsel_def handle_relay_command_def after_error_def
  by (intro keeps_intros; simp)+

lemma left_reboot_attempts [keeps_intros]: "keeps (left n) (reboot_attempts E serial pre k)"
  by (induction k) (simp_all add: Let_def keeps_intros)

lemma left_handle_reboot [keeps_intros]: "keeps (left n) (handle_reboot E args)"
  unfolding handle_reboot_def resume_after_reboot_def by (intro keeps_intros)

lemma left_dispatch_line [keeps_intros]: "keeps (left n) (dispatch_line E command args)"
  unfolding dispatch_line_def by (intro keeps_intros)

lemma left_handle_line: "keeps (left n) (handle_line E line)"
  unfolding handle_line_def by (auto split: sum.splits list.splits intro!: keeps_intros)

section \<open>The loops end\<close>

lemma session_loop_ends:
  "left n s \<Longrightarrow> n + 1 < fuel \<Longrightarrow> \<exists>r. session_loop fuel E s = Some r"
proof (induction n arbitrary: fuel s)
  case 0
  then obtain k where k: "fuel = Suc k" by (cases fuel) auto
  from 0 k show ?case
    by (auto simp: left_def read_input_def Let_def say_def upd_def split: prod.splits sum.splits)
next
  case (Suc n)
  then obtain k where k: "fuel = Suc k" "n + 1 < k" by (cases fuel) auto
  obtain r1 s1 where ri: "read_input (s_prompt E s) s = (r1, s1)" by force
  from read_input_left [OF this Suc.prems(1)] consider "left n s1" | "r1 = Inl (PyExc ''EOFError'' [])" by blast
  then show ?case
  proof cases
    case 1
    then have say: "left n (snd (say m s1))" for m by (simp add: say_def upd_def left_def)
    from 1 have l: "handle_line E line s1 = (Inr x, s2) \<Longrightarrow> left n s2" for line x s2
      by (blast dest: keepsD [OF left_handle_line])
    show ?thesis
      using Suc.IH [OF say k(2)] Suc.IH [OF l k(2)] k(1) ri
      by (auto split: sum.splits prod.splits if_splits)
  next
    case 2
    with k ri show ?thesis by (auto split: sum.splits prod.splits)
  qed
qed

text \<open>More fuel does not change what a loop that ended has done.\<close>

lemma session_loop_more: "session_loop n E s = Some r \<Longrightarrow> n \<le> m \<Longrightarrow> session_loop m E s = Some r"
proof (induction n arbitrary: m s)
  case (Suc n)
  then obtain k where k: "m = Suc k" "n \<le> k" by (cases m) auto
  with Suc show ?case by (auto split: sum.splits prod.splits if_splits)
qed simp

lemma session_run_ends:
  assumes "length (sn_input s) + 1 < fuel"
  shows "\<exists>r. session_run fuel E s = Some r"
proof -
  have l: "left (length (sn_input s)) s" by (simp add: left_def)
  obtain r1 s1 where c: "connect_from_options E (so_port (se_options E)) (so_serial (se_options E)) True s = (r1, s1)" by force
  show ?thesis
  proof (cases r1)
    case (Inr x)
    with c l have "left (length (sn_input s)) s1" by (blast dest: keepsD [OF left_connect_from_options])
    moreover from this have "left (length (sn_input s)) (snd (say m s1))" for m
      by (simp add: say_def upd_def left_def)
    ultimately show ?thesis
      using c Inr session_loop_ends [where s = s1, OF _ assms] session_loop_ends [where s = "snd (say m s1)" for m, OF _ assms]
      by (auto simp: session_run_def split: ConnectResult.splits)
  qed (simp add: session_run_def c)
qed

lemma session_run_more: "session_run n E s = Some r \<Longrightarrow> n \<le> m \<Longrightarrow> session_run m E s = Some r"
  by (auto simp: session_run_def dest: session_loop_more split: prod.splits sum.splits ConnectResult.splits)

text \<open>Nor does it change the answer to the question for a device number.\<close>

lemma choose_device_more:
  fixes s :: "('w, 'c) session"
  shows "length (sn_input s) < n \<Longrightarrow> choose_device (Suc n) devices s = choose_device n devices s"
proof (induction n arbitrary: s)
  case (Suc n)
  have again: "sbind (say m) (\<lambda>_. choose_device (Suc n) devices) s1 = sbind (say m) (\<lambda>_. choose_device n devices) s1"
    if "length (sn_input s1) < n" for m and s1 :: "('w, 'c) session"
    using that Suc.IH [of "snd (say m s1)"] by (auto simp: sbind_def say_def upd_def)
  show ?case
  proof (cases "sn_input s")
    case Nil
    then show ?thesis by (auto simp: read_input_def Let_def say_def upd_def)
  next
    case (Cons r rs)
    define s1 where "s1 = s\<lparr>sn_out := sn_out s @ [''Select device number, or q to cancel: ''], sn_input := rs\<rparr>"
    have ri: "read_input ''Select device number, or q to cancel: '' s = (r, s1)"
      by (simp add: read_input_def say_def upd_def Cons s1_def)
    from Suc.prems Cons have "length (sn_input s1) < n" by (simp add: s1_def)
    with again [of s1] show ?thesis
      by (subst (1 2) choose_device.simps) (simp add: ri Let_def split: sum.splits option.splits)
  qed
qed simp

end
