(* ===== verification/Session_Properties.thy ===== *)
theory Session_Properties
  imports Session_Loop
begin

text \<open>
  The statements about the interactive session, each with a run on a client that is a script of
  answers.
\<close>

section \<open>A scripted session\<close>

type_synonym answers = "pydict result list"

definition next_reply :: "(answers, pydict) sexc" where
  "next_reply = (\<lambda>c. case c of
     [] \<Rightarrow> (Inl (RelayTimeoutError ''timed out waiting for SMP response''), []) | r # rs \<Rightarrow> (r, rs))"

definition reply_ops :: "answers relay_ops" where
  "reply_ops =
     \<lparr>o_identity = next_reply, o_capabilities = next_reply, o_build_info = next_reply,
      o_get_relay = (\<lambda>_. next_reply), o_get_all_relays = next_reply,
      o_set_relay = (\<lambda>_ _. next_reply), o_set_all_relays = (\<lambda>_. next_reply),
      o_pulse_relay = (\<lambda>_ _. next_reply), o_off_all_relays = next_reply, o_status = next_reply,
      o_health = next_reply, o_transport_status = next_reply, o_safety = next_reply,
      o_watchdog = next_reply, o_reboot = next_reply, o_bootsel = next_reply,
      o_heartbeat = next_reply, o_close = sret ()\<rparr>"

definition demo_identity :: pydict where
  "demo_identity = [(''protocol_version'', PInt 9), (''command_model_version'', PInt 3)]"

definition demo_status :: "int \<Rightarrow> int \<Rightarrow> pydict" where
  "demo_status st up = [(''state'', PInt st), (''pulsing'', PInt 0), (''uptime_ms'', PInt up)]"

definition demo_device :: RelayUsbDevice where
  "demo_device = \<lparr>ud_port = ''/dev/ttyACM0'', ud_serial_number = Some ''A1'', ud_product = None, ud_verified_product = False\<rparr>"

text \<open>The world is the list of the clients still to be handed out.\<close>

definition demo_session :: "(answers list, answers) session_env" where
  "demo_session =
     \<lparr>se_ops = reply_ops,
      se_factory = (\<lambda>_ _ _ _ w. case w of [] \<Rightarrow> (Inl (RelayTransportError ''no device''), []) | c # cs \<Rightarrow> (Inr c, cs)),
      se_discover = sret [demo_device], se_select = (\<lambda>_. sret demo_device), se_sleep = (\<lambda>_. Inr ()), se_color = False,
      se_options = \<lparr>so_port = Some ''/dev/ttyACM0'', so_serial = None, so_baud = 115200, so_timeout = 2, so_retries = 1\<rparr>\<rparr>"

definition start :: "answers list \<Rightarrow> string list \<Rightarrow> (answers list, answers) session" where
  "start clients lines = new_session (se_options demo_session) clients (map Inr lines)"

lemma demo_simps [simp]:
  "se_ops demo_session = reply_ops" "se_discover demo_session = sret [demo_device]"
  "se_select demo_session = (\<lambda>_. sret demo_device)" "se_sleep demo_session = (\<lambda>_. Inr ())"
  "so_port (se_options demo_session) = Some ''/dev/ttyACM0''" "so_serial (se_options demo_session) = None"
  "ud_port demo_device = ''/dev/ttyACM0''" "ud_serial_number demo_device = Some ''A1''" "ud_product demo_device = None"
  "o_status reply_ops = next_reply" "o_reboot reply_ops = next_reply" "o_close reply_ops = sret ()"
  "next_reply [] = (Inl (RelayTimeoutError ''timed out waiting for SMP response''), [])" "next_reply (r # rs) = (r, rs)"
  by (simp_all add: demo_session_def demo_device_def reply_ops_def next_reply_def)

lemma print_banner_ok:
  assumes "py_int (dget_or st ''state'' (PInt 0)) = Inr m" "py_int (dget_or st ''pulsing'' (PInt 0)) = Inr p"
  shows "\<exists>x. print_banner idn st s = (Inr (), s\<lparr>sn_out := x\<rparr>)"
  by (auto simp: print_banner_def assms sbind_def lift_result_def get_s_def say_def upd_def)

lemma demo_masks [simp]:
  "dget_or (demo_status st up) ''state'' (PInt 0) = PInt st" "dget_or (demo_status st up) ''pulsing'' (PInt 0) = PInt 0"
  "ditem (demo_status st up) ''state'' = Inr (PInt st)" "dget (demo_status st up) ''uptime_ms'' = PInt up"
  by (simp_all add: demo_status_def dget_or_def ditem_def dget_def)

lemma demo_reported [simp]: "reported_masks (demo_status st up) = Inr (st, 0)"
  by (simp add: reported_masks_def py_int_def)

text \<open>A session on the demo's port, once connected.\<close>

definition demo_connected :: "answers list \<Rightarrow> answers \<Rightarrow> string list \<Rightarrow> string list \<Rightarrow> (answers list, answers) session" where
  "demo_connected cs c lines out =
     (start cs lines)\<lparr>sn_client := Some c, sn_connected := True, sn_heartbeat := True,
        sn_usb_serial := Some ''A1'', sn_out := out, sn_opened := 1\<rparr>"

lemma demo_probe:
  "probe_connection demo_session prt quiet (s\<lparr>sn_world := (Inr demo_identity # Inr (demo_status st up) # c) # cs\<rparr>) =
     (Inr (Some \<lparr>sp_client = c, sp_identity = demo_identity, sp_status = demo_status st up\<rparr>),
      s\<lparr>sn_world := cs, sn_opened := Suc (sn_opened s)\<rparr>)"
  by (simp add: probe_connection_def demo_session_def on_world_def s_readiness_def reply_ops_def next_reply_def
      sbind_def lift_result_def s_validate_readiness_identity_def demo_identity_def dget_def py_simps sret_def)

lemma demo_adopt:
  "\<exists>x. adopt_connection \<lparr>sp_client = c, sp_identity = idn, sp_status = demo_status st up\<rparr> prt usb product s =
     (Inr (), s\<lparr>sn_client := Some c, sn_connected := True, sn_port := Some prt,
        sn_usb_serial := usb, sn_product := product, sn_heartbeat := True, sn_out := x\<rparr>)"
proof -
  let ?s = "s\<lparr>sn_client := Some c, sn_connected := True, sn_port := Some prt, sn_usb_serial := usb,
      sn_product := product, sn_heartbeat := True\<rparr>"
  obtain x where "print_banner idn (demo_status st up) ?s = (Inr (), ?s\<lparr>sn_out := x\<rparr>)"
    using print_banner_ok [of "demo_status st up" st 0 idn ?s] by (auto simp: py_int_def)
  then show ?thesis
    by (intro exI [of _ x]) (simp add: adopt_connection_def sbind_def upd_def start_heartbeat_def)
qed

lemma demo_connects:
  "\<exists>x. connect_from_options demo_session (Some ''/dev/ttyACM0'') None True
     (start ((Inr demo_identity # Inr (demo_status st up) # c) # cs) lines) =
     (Inr CONNECTED, demo_connected cs c lines x)"
proof -
  let ?s = "start ((Inr demo_identity # Inr (demo_status st up) # c) # cs) lines"
  have m: "metadata_for_port demo_session ''/dev/ttyACM0'' s = (Inr (Some demo_device), s)" for s
    by (simp add: metadata_for_port_def catch_relay_def scatch_def sbind_def on_world_def demo_session_def sret_def demo_device_def)
  have p: "probe_connection demo_session prt quiet ?s =
      (Inr (Some \<lparr>sp_client = c, sp_identity = demo_identity, sp_status = demo_status st up\<rparr>), (start cs lines)\<lparr>sn_opened := 1\<rparr>)"
    for prt quiet
    using demo_probe [where s = ?s and prt = prt and quiet = quiet] by (simp add: start_def new_session_def)
  from demo_adopt [of c demo_identity st up "''/dev/ttyACM0''" "Some ''A1''" None "(start cs lines)\<lparr>sn_opened := 1\<rparr>"]
  show ?thesis
    by (auto simp: connect_from_options_def truthy_str_def sbind_def upd_def open_port_def m s_open_def get_s_def
        p [unfolded start_def new_session_def, simplified] sret_def
        start_def new_session_def demo_connected_def)
qed


lemma demo_connects_run:
  "\<exists>x. session_run n demo_session (start ((Inr demo_identity # Inr (demo_status st up) # c) # cs) lines) =
     session_loop n demo_session (demo_connected cs c lines x)"
proof -
  obtain x where "connect_from_options demo_session (Some ''/dev/ttyACM0'') None True
     (start ((Inr demo_identity # Inr (demo_status st up) # c) # cs) lines) = (Inr CONNECTED, demo_connected cs c lines x)"
    using demo_connects by blast
  then show ?thesis by (auto simp: session_run_def)
qed

lemmas run_simps = sbind_def get_s_def lift_result_def sret_def sraise_def say_def upd_def on_current_def

lemmas closing_simps = close_current_def stop_heartbeat_def drop_session_client_def Let_def

section \<open>Properties\<close>



text \<open>
  C27. The session ends: on any input, with any devices, factory and client, a run with fuel for
  one turn more than there are lines and one for the end of the input returns or raises, and
  more fuel changes nothing. No command, failing selection or failed reboot keeps it turning
  without reading.
\<close>

theorem session_terminates:
  assumes "length input + 1 < n"
  shows "\<exists>r s. session_run n E (new_session opts w input) = Some (r, s)
    \<and> (\<forall>m \<ge> n. session_run m E (new_session opts w input) = Some (r, s))"
proof -
  have "length (sn_input (new_session opts w input)) + 1 < n" using assms by (simp add: new_session_def)
  then obtain r s where "session_run n E (new_session opts w input) = Some (r, s)"
    using session_run_ends by fastforce
  then show ?thesis using session_run_more by blast
qed

theorem session_terminates_witness:
  "\<exists>r s. session_run 4 demo_session (start [] [''help'', ''exit'']) = Some (r, s)"
  using session_terminates [of "[Inr ''help'', Inr ''exit'']" 4 demo_session "se_options demo_session" "[]"]
  by (auto simp: start_def)

lemma relay_is_Exception: "is_RelayError e \<Longrightarrow> is_Exception e"
  by (cases e) (auto simp: is_Exception_def)

lemma same_out [simp]: "\<exists>x. s\<lparr>sn_client := c\<rparr> = s\<lparr>sn_client := c, sn_out := x\<rparr>"
  by (rule exI [of _ "sn_out s"]) simp

lemma close_allowed_unforced:
  assumes "sn_client s = Some c" "o_status (se_ops E) c = (q, c')"
  shows "case close_allowed E False s of (r, s') \<Rightarrow>
    (case r of Inr True \<Rightarrow> (\<exists>st. q = Inr st \<and> reported_masks st = Inr (0, 0)) \<and> s' = s\<lparr>sn_client := Some c'\<rparr>
     | _ \<Rightarrow> \<not> (\<exists>st. q = Inr st \<and> reported_masks st = Inr (0, 0)) \<and> (\<exists>x. s' = s\<lparr>sn_client := Some c', sn_out := x\<rparr>)
         \<and> (\<forall>e. r = Inl e \<longrightarrow> \<not> is_RelayError e))"
proof (cases q)
  case (Inl e)
  with assms show ?thesis by (auto simp: close_allowed_def scatch_def run_simps relay_is_Exception split: sum.splits)
next
  case (Inr st)
  show ?thesis
  proof (cases "reported_masks st")
    case (Inl e)
    with assms \<open>q = Inr st\<close> show ?thesis by (auto simp: close_allowed_def scatch_def run_simps relay_is_Exception)
  next
    case (Inr mp)
    with assms \<open>q = Inr st\<close> show ?thesis by (auto simp: close_allowed_def scatch_def run_simps split: prod.splits)
  qed
qed

lemma parse_force_none [simp]: "parse_force [] = Inr False"
  by code_simp

lemma closing_words:
  "shlex_split ''disconnect'' = Inr [''disconnect'']" "shlex_split ''exit'' = Inr [''exit'']"
  "shlex_split ''quit'' = Inr [''quit'']"
  by code_simp+

text \<open>What a close without \<open>--force\<close> comes to.\<close>

definition closed_if_off :: "('w, 'c) session \<Rightarrow> pydict result \<Rightarrow> 'c \<Rightarrow> ('w, 'c) session \<Rightarrow> bool" where
  "closed_if_off s q c' s' \<longleftrightarrow>
     (if \<exists>st. q = Inr st \<and> reported_masks st = Inr (0, 0)
      then \<not> sn_connected s' \<and> sn_client s' = None \<and> \<not> sn_heartbeat s' \<and> sn_closed s' = sn_closed s @ [c']
      else sn_connected s' \<and> sn_client s' = Some c' \<and> sn_heartbeat s' = sn_heartbeat s \<and> sn_closed s' = sn_closed s
        \<and> sn_should_exit s' = sn_should_exit s)"

lemma unforced_close:
  assumes "sn_connected s" "sn_client s = Some c" "o_status (se_ops E) c = (q, c')"
    "handle_exit E False s = (r, s') \<or> handle_disconnect E False s = (r, s')"
  shows "closed_if_off s q c' s'" "r = Inl e \<Longrightarrow> is_RelayError e \<Longrightarrow> sn_client s' = None"
proof -
  obtain ra sa where ca: "close_allowed E False s = (ra, sa)" by force
  from close_allowed_unforced [OF assms(2,3)] ca
  consider "ra = Inr True" "\<exists>st. q = Inr st \<and> reported_masks st = Inr (0, 0)" "sa = s\<lparr>sn_client := Some c'\<rparr>"
    | "ra \<noteq> Inr True" "\<forall>e. ra = Inl e \<longrightarrow> \<not> is_RelayError e" "\<not> (\<exists>st. q = Inr st \<and> reported_masks st = Inr (0, 0))" "\<exists>x. sa = s\<lparr>sn_client := Some c', sn_out := x\<rparr>"
    by (auto split: sum.splits bool.splits)
  then have "closed_if_off s q c' s' \<and> (\<forall>e. r = Inl e \<and> is_RelayError e \<longrightarrow> sn_client s' = None)"
  proof cases
    case 1
    with assms ca show ?thesis
      by (auto simp: closed_if_off_def handle_exit_def handle_disconnect_def run_simps closing_simps split: sum.splits)
  next
    case 2
    with assms ca show ?thesis
      by (auto simp: closed_if_off_def handle_exit_def handle_disconnect_def run_simps split: sum.splits)
  qed
  then show "closed_if_off s q c' s'" "r = Inl e \<Longrightarrow> is_RelayError e \<Longrightarrow> sn_client s' = None" by auto
qed


text \<open>
  C24. Closing is safe: the lines disconnect, exit and quit, with no \<open>--force\<close>, on a connected
  session ask the board for its status and close the connection exactly if the reply says that no
  relay is on and none is pulsing; with any other reply, an unreadable one or an error the session
  stays connected to the same client and does not end.
\<close>

theorem unforced_close_is_safe:
  assumes "sn_connected s" "sn_client s = Some c" "o_status (se_ops E) c = (q, c')"
    "command \<in> {''disconnect'', ''exit'', ''quit''}" "handle_line E command s = (r, s')"
  shows "if \<exists>st. q = Inr st \<and> reported_masks st = Inr (0, 0)
      then \<not> sn_connected s' \<and> sn_client s' = None \<and> \<not> sn_heartbeat s' \<and> sn_closed s' = sn_closed s @ [c']
      else sn_connected s' \<and> sn_client s' = Some c' \<and> sn_heartbeat s' = sn_heartbeat s \<and> sn_closed s' = sn_closed s
        \<and> sn_should_exit s' = sn_should_exit s"
proof -
  obtain r1 s1 where d: "dispatch_line E command [] s = (r1, s1)" by force
  then have "handle_exit E False s = (r1, s1) \<or> handle_disconnect E False s = (r1, s1)"
    using assms(4) by (auto simp: dispatch_line_def run_simps parse_force_none)
  note closed = unforced_close [OF assms(1-3) this]
  have "handle_line E command s = catch_relay (dispatch_line E command []) (after_error E) s"
    using assms(1,4) by (auto simp: handle_line_def closing_words run_simps)
  with assms(5) d have "closed_if_off s q c' s'"
    using closed
    by (auto simp: catch_relay_def scatch_def closed_if_off_def after_error_def enter_disconnected_def run_simps closing_simps
        split: sum.splits if_splits)
  then show ?thesis by (simp add: closed_if_off_def)
qed

theorem unforced_close_is_safe_witness:
  "sn_client (snd (handle_line demo_session ''exit'' (demo_connected [] [Inr (demo_status 2 5)] [] []))) = Some []"
  using unforced_close_is_safe [of "demo_connected [] [Inr (demo_status 2 5)] [] []" "[Inr (demo_status 2 5)]" demo_session
      "Inr (demo_status 2 5)" "[]" "''exit''", OF _ _ _ _ prod.collapse [symmetric]]
  by (simp add: demo_connected_def)


text \<open>
  C25. A relay command on a connected session runs once on its client. Its reply is rendered on
  one line of the output; an exception of the board, the protocol, the arguments or the time
  limit is reported on one line and the session stays connected to that client; only a failure of
  the transport ends the connection, and then the client is closed and the heartbeat stopped.
\<close>

definition plain_command :: "string \<Rightarrow> bool" where
  "plain_command command \<longleftrightarrow>
     command \<notin> {''help'', ''connect'', ''exit'', ''quit'', ''disconnect'', ''reboot'', ''bootsel''}"

theorem relay_command_effect:
  assumes "sn_connected s" "sn_client s = Some c" "shlex_split line = Inr (command # args)" "plain_command command"
    "session_call E command args = Inr act" "act c = (q, c')"
  shows "case q of
      Inr payload \<Rightarrow> (case format_human command payload of
          Inr t \<Rightarrow> handle_line E line s = (Inr (), s\<lparr>sn_client := Some c', sn_out := sn_out s @ [t]\<rparr>)
        | Inl e \<Rightarrow> is_RelayError e \<or> handle_line E line s = (Inl e, s\<lparr>sn_client := Some c'\<rparr>))
    | Inl e \<Rightarrow>
        if \<not> is_RelayError e then handle_line E line s = (Inl e, s\<lparr>sn_client := Some c'\<rparr>)
        else if is_RelayTransportError e \<and> \<not> is_RelayTimeoutError e
        then handle_line E line s = (fst (o_close (se_ops E) c'), s\<lparr>sn_out := sn_out s @ [format_error e], sn_heartbeat := False,
               sn_client := None, sn_connected := False, sn_closed := sn_closed s @ [c']\<rparr>)
        else handle_line E line s = (Inr (), s\<lparr>sn_client := Some c', sn_out := sn_out s @ [format_error e]\<rparr>)"
proof -
  have "handle_line E line s = catch_relay (handle_relay_command E command args) (after_error E) s"
    using assms by (auto simp: handle_line_def run_simps dispatch_line_def plain_command_def)
  moreover have "handle_relay_command E command args s =
      (case q of Inl e \<Rightarrow> (Inl e, s\<lparr>sn_client := Some c'\<rparr>)
       | Inr payload \<Rightarrow> (case format_human command payload of
           Inl e \<Rightarrow> (Inl e, s\<lparr>sn_client := Some c'\<rparr>)
         | Inr t \<Rightarrow> (Inr (), s\<lparr>sn_client := Some c', sn_out := sn_out s @ [t]\<rparr>)))"
    using assms by (auto simp: handle_relay_command_def run_simps split: sum.splits)
  moreover have "format_error e = ''argument error: '' @ exc_str e" if "is_RelayValidationError e" for e
    using that by (cases e) (auto simp: format_error_def labelled_def error_label_def)
  ultimately show ?thesis
    by (cases q; cases "case q of Inr payload \<Rightarrow> format_human command payload | Inl e \<Rightarrow> Inl e")
      (auto simp: catch_relay_def scatch_def after_error_def enter_disconnected_def run_simps closing_simps
        dest: validation_not_transport)
qed

theorem relay_command_effect_witness:
  "handle_line demo_session ''get 3'' (demo_connected [] [Inl (RelayTimeoutError ''late'')] [] []) =
     (Inr (), demo_connected [] [] [] [''timeout error: late''])"
proof -
  have "shlex_split ''get 3'' = Inr [''get'', ''3'']" by code_simp
  moreover have "parse_channel_arg ''3'' = Inr 2" by code_simp
  then have "session_call demo_session ''get'' [''3''] = Inr next_reply"
    by (simp add: session_call_def expect_arg_count_def reply_ops_def)
  ultimately show ?thesis
    using relay_command_effect [of "demo_connected [] [Inl (RelayTimeoutError ''late'')] [] []"
        "[Inl (RelayTimeoutError ''late'')]" "''get 3''" "''get''" "[''3'']" demo_session next_reply "Inl (RelayTimeoutError ''late'')" "[]"]
    by (simp add: demo_connected_def plain_command_def format_error_def labelled_def error_label_def)
qed

text \<open>
  A disconnected session knows only connect, help, exit and quit: any other line leaves its
  devices, its clients and its state as they were and prints one line; it reaches no board.
\<close>

theorem disconnected_session_refuses:
  assumes "\<not> sn_connected s" "shlex_split line = Inr (command # args)" "command \<notin> set DISCONNECTED_COMMANDS"
  shows "handle_line E line s = (Inr (), s\<lparr>sn_out := sn_out s @ [''not connected: run 'connect' first'']\<rparr>)"
  using assms by (auto simp: handle_line_def run_simps DISCONNECTED_COMMANDS_def)

theorem disconnected_session_refuses_witness:
  "handle_line demo_session ''reboot'' (start [] []) =
     (Inr (), (start [] [])\<lparr>sn_out := [''not connected: run 'connect' first'']\<rparr>)"
proof -
  have "shlex_split ''reboot'' = Inr [''reboot'']" by code_simp
  then show ?thesis
    using disconnected_session_refuses [of "start [] []" "''reboot''" "''reboot''" "[]" demo_session]
    by (simp add: start_def new_session_def DISCONNECTED_COMMANDS_def)
qed


section \<open>Reconnecting after a reboot\<close>





lemma probe_connection_opened:
  "probe_connection E prt quiet s = (r, s') \<Longrightarrow> sn_opened s' \<le> Suc (sn_opened s)"
  by (auto simp: probe_connection_def Let_def on_world_def say_def upd_def split: prod.splits sum.splits if_splits)











section \<open>The end of the input\<close>

text \<open>
  At the end of the input the session exits with 0 even when closing was refused: the client is
  left open, with its relay on.
\<close>

lemma eof_leaves_client_open:
  "\<exists>s. session_loop 2 demo_session (demo_connected [] [Inr (demo_status 2 5)] [] []) = Some (Inr 0, s)
     \<and> sn_client s = Some [] \<and> sn_connected s \<and> sn_closed s = []"
  by (simp add: demo_connected_def start_def new_session_def read_input_def run_simps handle_exit_def
      close_allowed_def scatch_def closing_simps numeral_eq_Suc)

end
