(* ===== verification/Cli_Properties.thy ===== *)
theory Cli_Properties
  imports Session_Properties
begin

text \<open>
  The statements about the command line: its values, its commands and exit codes, what it
  prints, and that the interactive session makes the same calls.
\<close>

section \<open>Helpers\<close>

lemma py_class_arg [simp]: "py_class (arg_type_error m) = ''ArgumentTypeError''" "exc_str (arg_type_error m) = m"
  by (simp_all add: arg_type_error_def)



lemma as_validation_Inr [simp]: "as_validation r = Inr x \<longleftrightarrow> r = Inr x"
  by (auto simp: as_validation_def split: sum.splits if_splits)

lemma parse_args_iff [simp]:
  "parse_state_arg v = Inr m \<longleftrightarrow> parse_state v = Inr m" "parse_on_off_arg v = Inr b \<longleftrightarrow> parse_on_off v = Inr b"
  by (simp_all add: parse_state_arg_def parse_on_off_arg_def)

section \<open>Properties\<close>







text \<open>
  Exit codes: a command exits with 0 exactly if it printed its payload and nothing went
  wrong; a relay error prints one line on the error stream, nothing on the output, and the code
  names its class: 2 an argument, 4 a time-out, 3 any other transport failure, 6 the board's own
  refusal, 5 the rest.
\<close>

theorem exit_code_names_failure:
  shows "(out_exit (cli_finish output command r) = Inr 0 \<longleftrightarrow>
      (\<exists>payload line. r = Inr payload \<and> cli_emit output command payload = Inr line
         \<and> out_lines (cli_finish output command r) = [line]))
    \<and> (is_RelayError e \<longrightarrow> out_lines (cli_finish output command (Inl e)) = [] \<and> length (err_lines (cli_finish output command (Inl e))) = 1
      \<and> out_exit (cli_finish output command (Inl e)) =
          Inr (case e of RelayValidationError _ \<Rightarrow> 2 | RelayTransportError _ \<Rightarrow> 3 | RelayTimeoutError _ \<Rightarrow> 4
               | RelayDeviceError _ _ _ \<Rightarrow> 6 | _ \<Rightarrow> 5))"
proof -
  have code: "cli_failure e = Some (line, c) \<Longrightarrow> c \<noteq> 0" for e line c
    by (cases e) (auto simp: cli_failure_def)
  have "out_exit (cli_finish output command r) = Inr 0 \<longleftrightarrow>
      (\<exists>payload line. r = Inr payload \<and> cli_emit output command payload = Inr line
         \<and> out_lines (cli_finish output command r) = [line])"
    by (auto simp: cli_finish_def split: sum.splits option.splits dest: code)
  moreover have "is_RelayError e \<Longrightarrow> out_lines (cli_finish output command (Inl e)) = []
      \<and> length (err_lines (cli_finish output command (Inl e))) = 1
      \<and> out_exit (cli_finish output command (Inl e)) =
          Inr (case e of RelayValidationError _ \<Rightarrow> 2 | RelayTransportError _ \<Rightarrow> 3 | RelayTimeoutError _ \<Rightarrow> 4
               | RelayDeviceError _ _ _ \<Rightarrow> 6 | _ \<Rightarrow> 5)"
    by (cases e) (auto simp: cli_finish_def cli_failure_def)
  ultimately show ?thesis by blast
qed

theorem exit_code_names_failure_witness:
  "out_exit (cli_finish ''human'' ''get'' (Inl (RelayTimeoutError ''late''))) = Inr 4"
  using exit_code_names_failure [of "''human''" "''get''" _ "RelayTimeoutError ''late''"] by simp

section \<open>JSON output\<close>

lemma set_sort_values: "set (sort_values kvs) = (\<lambda>(k, v). (k, sort_keys v)) ` set kvs"
  by (simp add: sort_values_map)

lemma distinct_sort_values: "distinct (map fst (sort_key fst (sort_values kvs))) \<longleftrightarrow> distinct (map fst kvs)"
proof -
  have "distinct (map fst (sort_key fst (sort_values kvs))) \<longleftrightarrow> distinct (map fst (sort_values kvs))"
    by (simp add: distinct_map)
  also have "map fst (sort_values kvs) = map fst kvs" by (simp add: sort_values_map comp_def case_prod_beta)
  finally show ?thesis .
qed

lemma sort_keys_clean: "json_clean v \<Longrightarrow> json_clean (sort_keys v)"
proof (induction v)
  case (PDict kvs)
  have "json_clean (sort_keys v)" "utf8_valid k" if "(k, v) \<in> set kvs" for k v
    using PDict.IH [OF that, of v] PDict.prems that by fastforce+
  with PDict.prems show ?case by (auto simp: set_sort_values distinct_sort_values)
qed auto

lemma sort_keys_depth: "json_depth (sort_keys v) \<le> d \<longleftrightarrow> json_depth v \<le> d"
proof (induction v arbitrary: d)
  case (PDict kvs)
  have "json_depth (sort_keys v) \<le> e \<longleftrightarrow> json_depth v \<le> e" if "(k, v) \<in> set kvs" for k v e
    using PDict.IH [OF that, of v] by simp
  then show ?case
    unfolding sort_keys.simps json_depth_dict set_sort set_sort_values by (fastforce simp: split_beta)
next
  case (PList vs)
  then show ?case unfolding sort_keys.simps json_depth_list by auto
qed auto

text \<open>
  C31. The line that \<open>--output json\<close> prints is read back: it is printable, parsing it gives a
  dictionary with its keys in order and, under each key, the value of the payload, with the keys
  inside in order too.
\<close>

theorem json_output_read_back:
  assumes "json_clean (PDict payload)" "json_depth (PDict payload) \<le> d" "\<forall>c \<in> set w. json_ws c"
  shows "\<exists>line entries. format_json payload = Inr line \<and> all_printable line \<and> json_loads d (line @ w) = Inr (PDict entries)
    \<and> sorted (map fst entries) \<and> (\<forall>k. map_of entries k = map_option sort_keys (map_of payload k))"
proof -
  let ?v = "sort_keys (PDict payload)"
  have clean: "json_clean ?v" and depth: "json_depth ?v \<le> d"
    using assms by (simp_all only: sort_keys_clean sort_keys_depth)
  have "is_sep (CHR '','') '', ''" "is_sep (CHR '':'') '': ''" by (auto simp: is_sep_def json_ws_def)
  from json_loads_text_ws [OF this clean depth assms(3)]
  have "json_loads d (json_text '', '' '': '' ?v @ w) = Inr ?v" .
  moreover have "format_json payload = Inr (json_text '', '' '': '' ?v)"
    by (simp only: format_json_def json_sorted_def json_dumps_def json_clean_ok [OF clean] if_True)
  moreover have "all_printable (json_text '', '' '': '' ?v)"
    by (rule all_printable_text [OF _ _ clean]) (simp_all add: printable_def)
  ultimately show ?thesis
    using assms(1) map_of_sort_keys [of payload] by auto
qed


theorem json_output_read_back_witness:
  "\<exists>line entries. format_json (demo_status 3 7) = Inr line \<and> json_loads 1 line = Inr (PDict entries)
     \<and> map_of entries ''state'' = Some (PInt 3)"
proof -
  have "json_clean (PDict (demo_status 3 7))" "json_depth (PDict (demo_status 3 7)) \<le> 1"
    by code_simp+
  from json_output_read_back [OF this, of "[]"]
  obtain line entries where "format_json (demo_status 3 7) = Inr line" "json_loads 1 line = Inr (PDict entries)"
    "map_of entries ''state'' = map_option sort_keys (map_of (demo_status 3 7) ''state'')" by auto
  then show ?thesis by (simp add: demo_status_def)
qed

section \<open>Masks\<close>

lemma label_simps: "int_str 1 = ''1''" "int_str 2 = ''2''" "int_str 3 = ''3''" "int_str 4 = ''4''" "int_str 5 = ''5''" "int_str 6 = ''6''"
  by code_simp+

lemma all_channels: "[0 .. RELAY_COUNT - 1] = [0, 1, 2, 3, 4, 5]"
  by code_simp

lemma state_channels_bits:
  "state_channels m = map (\<lambda>ch. ''CH'' @ int_str (ch + 1)) (filter (\<lambda>ch. bit m (nat ch)) [0, 1, 2, 3, 4, 5])"
  unfolding state_channels_def all_channels bit_iff_and_push_bit_not_eq_0 ..

lemma state_channels_iff:
  assumes "ch \<in> {0..<RELAY_COUNT}"
  shows "''CH'' @ int_str (ch + 1) \<in> set (state_channels m) \<longleftrightarrow> bit m (nat ch)"
proof -
  from assms have "ch = 0 \<or> ch = 1 \<or> ch = 2 \<or> ch = 3 \<or> ch = 4 \<or> ch = 5"
    by (auto simp: RELAY_COUNT_def)
  then show ?thesis by (elim disjE) (simp_all add: state_channels_bits label_simps)
qed

lemma state_channels_empty:
  assumes "0 \<le> m" "m < 64"
  shows "state_channels m = [] \<longleftrightarrow> m = 0"
proof
  assume "state_channels m = []"
  then have b: "\<not> bit m 0" "\<not> bit m 1" "\<not> bit m 2" "\<not> bit m 3" "\<not> bit m 4" "\<not> bit m 5"
    by (auto simp: state_channels_bits split: if_splits)
  have "m = take_bit 6 m" using assms by (simp add: take_bit_eq_mod)
  also have "\<dots> = 0"
  proof (rule bit_eqI)
    fix n
    have "n < 6 \<Longrightarrow> n = 0 \<or> n = 1 \<or> n = 2 \<or> n = 3 \<or> n = 4 \<or> n = (5 :: nat)" by auto
    with b show "bit (take_bit 6 m) n \<longleftrightarrow> bit 0 n" by (auto simp: bit_take_bit_iff)
  qed
  finally show "m = 0" .
qed (simp add: state_channels_bits)

lemma hex_char_zero: "hex_char 0 = CHR ''0''"
  by code_simp

lemma hex_char_not_space: "d < 16 \<Longrightarrow> \<not> is_space (hex_char d)"
  by (auto simp: is_space_def hex_char_def)

lemma hex_char_not_under: "d < 16 \<Longrightarrow> hex_char d \<noteq> CHR ''_''"
  using digit_in_base_hex [of d] by (auto simp: digit_in_base_def)

lemma format_hex2:
  assumes "n < 256"
  shows "format_hex 2 (int n) = [hex_char (n div 16), hex_char (n mod 16)]"
proof (cases "n < 16")
  case True
  then show ?thesis by (simp add: format_hex_def hex_nat.simps [of n] hex_char_zero)
next
  case False
  with assms have "n div 16 < 16" by simp
  with False show ?thesis by (simp add: format_hex_def hex_nat.simps [of n] hex_nat.simps [of "n div 16"])
qed

lemma parse_state_hex:
  assumes "0 \<le> m" "m < 64"
  shows "parse_state (''0x'' @ format_hex 2 m) = Inr m"
proof -
  define n where "n = nat m"
  have n: "m = int n" "n < 64" using assms by (auto simp: n_def)
  let ?a = "hex_char (n div 16)" and ?b = "hex_char (n mod 16)"
  have d: "n div 16 < 16" "n mod 16 < 16" using n by auto
  have "strip (''0x'' @ [?a, ?b]) = ''0x'' @ [?a, ?b]"
    using hex_char_not_space [OF d(2)] by (simp add: strip_def) (simp add: is_space_def)
  then have "py_int_of_str0 (''0x'' @ [?a, ?b]) = Some (int n)"
    using digit_in_base_hex [OF d(1)] digit_in_base_hex [OF d(2)] hex_char_not_under [OF d(1)] hex_char_not_under [OF d(2)]
    by (simp add: py_int_of_str0_def parse_signed_def scan_base0_def scan_prefixed_def scan_nat_def)
  moreover have "validate_state_mask (PInt m) = Inr ()"
    using assms by (simp add: validate_state_mask_iff as_int_def)
  ultimately show ?thesis
    using n by (simp add: format_hex2 parse_state_def validate_state_mask_def as_int_def split: if_splits)
qed

text \<open>
  What the command line prints of the relays it also reads: of a reply with a mask the state
  row is a word that \<open>set-all\<close> parses as the same mask, and the row of the relays that are on
  lists a board label exactly if its bit is set, or says none.
\<close>

theorem printed_mask_read_back:
  assumes "dget_or payload ''state'' (PInt 0) = PInt m" "0 \<le> m" "m < 64" "dget_or payload ''pulsing'' (PInt 0) = PInt p"
  shows "\<exists>t. relay_mask_rows payload = Inr ([(''state'', PStr t), (''on'', or_none (state_channels m))]
        @ (if dhas payload ''pulsing'' then [(''pulsing'', or_none (state_channels p))] else []))
    \<and> parse_state t = Inr m \<and> (state_channels m = [] \<longleftrightarrow> m = 0)
    \<and> (\<forall>ch \<in> {0..<RELAY_COUNT}. ''CH'' @ int_str (ch + 1) \<in> set (state_channels m) \<longleftrightarrow> bit m (nat ch))"
  using assms parse_state_hex [of m] state_channels_empty [of m] state_channels_iff
  by (auto simp: relay_mask_rows_def py_int_def)

theorem printed_mask_read_back_witness:
  "\<exists>t. relay_mask_rows [(''state'', PInt 42)] = Inr [(''state'', PStr t), (''on'', or_none (state_channels 42))]
     \<and> parse_state t = Inr 42"
  using printed_mask_read_back [of "[(''state'', PInt 42)]" 42 0] by (auto simp: dget_or_def dhas_def)

section \<open>The session and the command line\<close>





text \<open>Durations do differ: the session takes 0x64, and the command line 0100.\<close>

lemma durations_differ:
  "parse_int_arg ''0x64'' = Inr 100" "py_int_of_str ''0x64'' = None"
  "parse_int_arg ''0100'' = Inl (RelayValidationError ''value must be an integer'')" "py_int_of_str ''0100'' = Some 100"
  by code_simp+

end
