(* ===== verification/Config.thy ===== *)
theory Config
  imports Text
begin

text \<open>
  host/rp2350_relay_6ch/config.py: the configuration of a named instance, from a TOML file, the
  environment and overrides. The process's environment and the user database are the record
  \<open>process\<close>; the file system with tomllib is a function from a path to the parsed table or the
  exception (FileNotFoundError, TOMLDecodeError).
\<close>

section \<open>Paths: os.path.expanduser, os.path.expandvars, pathlib\<close>

record process =
  p_environ :: "(string \<times> string) list"
  p_home_of :: "string option \<Rightarrow> string option"

text \<open>\<open>p_home_of None\<close> is the home of the user running the process.\<close>

definition slash :: char where "slash = CHR ''/''"

definition rstrip_slash :: "string \<Rightarrow> string" where
  "rstrip_slash s = rev (dropWhile (\<lambda>c. c = slash) (rev s))"

definition expanduser :: "process \<Rightarrow> string \<Rightarrow> string" where
  "expanduser P path =
     (if \<not> starts_with path ''~'' then path
      else let name = takeWhile (\<lambda>c. c \<noteq> slash) (tl path); rest = dropWhile (\<lambda>c. c \<noteq> slash) (tl path);
               home = (if name = []
                       then (case map_of (p_environ P) ''HOME'' of Some h \<Rightarrow> Some h | None \<Rightarrow> p_home_of P None)
                       else p_home_of P (Some name))
           in (case home of
                 None \<Rightarrow> path
               | Some h \<Rightarrow> (let r = rstrip_slash h @ rest in if r = [] then ''/'' else r)))"

definition word_char :: "char \<Rightarrow> bool" where
  "word_char c \<longleftrightarrow>
     (let n = (of_char c :: nat) in
      (48 \<le> n \<and> n \<le> 57) \<or> (65 \<le> n \<and> n \<le> 90) \<or> (97 \<le> n \<and> n \<le> 122) \<or> n = 95)"

text \<open>What follows a dollar: the name, and the text of the whole reference.\<close>

definition var_ref :: "string \<Rightarrow> (string \<times> string) option" where
  "var_ref s =
     (case s of
        [] \<Rightarrow> None
      | c # cs \<Rightarrow>
          if c = CHR ''{''
          then (let name = takeWhile (\<lambda>x. x \<noteq> CHR ''}'') cs in
                if CHR ''}'' \<in> set cs then Some (name, c # name @ ''}'') else None)
          else (let name = takeWhile word_char s in if name = [] then None else Some (name, name)))"

function expandvars_in :: "(string \<times> string) list \<Rightarrow> string \<Rightarrow> string" where
  "expandvars_in env [] = []"
| "expandvars_in env (c # cs) =
     (if c \<noteq> CHR ''$'' then c # expandvars_in env cs
      else case var_ref cs of
             None \<Rightarrow> c # expandvars_in env cs
           | Some (name, t) \<Rightarrow>
               (case map_of env name of Some v \<Rightarrow> v | None \<Rightarrow> c # t) @ expandvars_in env (drop (length t) cs))"
  by pat_completeness auto

termination by (relation "measure (\<lambda>(env, s). length s)") auto

definition expandvars :: "process \<Rightarrow> string \<Rightarrow> string" where
  "expandvars P = expandvars_in (p_environ P)"

definition expand_path :: "process \<Rightarrow> string \<Rightarrow> string" where
  "expand_path P path = expandvars P (expanduser P path)"

text \<open>\<open>str(Path(s))\<close>: no empty and no dot components; two leading slashes stay.\<close>

fun split_slash :: "string \<Rightarrow> string list" where
  "split_slash [] = [[]]"
| "split_slash (c # cs) =
     (if c = slash then [] # split_slash cs
      else (case split_slash cs of [] \<Rightarrow> [[c]] | w # ws \<Rightarrow> (c # w) # ws))"

definition path_str :: "string \<Rightarrow> string" where
  "path_str s =
     (let root = (if starts_with s ''//'' \<and> \<not> starts_with s ''///'' then ''//''
                  else if starts_with s ''/'' then ''/'' else []);
          parts = filter (\<lambda>w. w \<noteq> [] \<and> w \<noteq> ''.'') (split_slash s);
          r = root @ join ''/'' parts
      in if r = [] then ''.'' else r)"

text \<open>\<open>Path(base) / name\<close>, for a relative name without odd components.\<close>

definition path_join :: "string \<Rightarrow> string \<Rightarrow> string" where
  "path_join base name =
     (let b = path_str base in
      if b = ''.'' then name else if last b = slash then b @ name else b @ ''/'' @ name)"

definition home_path :: "process \<Rightarrow> string result" where
  "home_path P =
     (let home = expanduser P ''~'' in
      if starts_with home ''~'' then Inl (PyExc ''RuntimeError'' ''Could not determine home directory.'')
      else Inr home)"

definition default_config_path :: "process \<Rightarrow> string result" where
  "default_config_path P =
     rbind (case map_of (p_environ P) ''XDG_CONFIG_HOME'' of
              Some (c # cs) \<Rightarrow> Inr (expanduser P (c # cs))
            | _ \<Rightarrow> rbind (home_path P) (\<lambda>h. Inr (path_join h ''.config'')))
       (\<lambda>base. Inr (path_join base ''rp2350-relay/config.toml''))"

definition ENV_CONFIG :: string where "ENV_CONFIG = ''RP2350_RELAY_CONFIG''"
definition ENV_INSTANCE :: string where "ENV_INSTANCE = ''RP2350_RELAY_INSTANCE''"

text \<open>\<open>a or b\<close> on optional strings.\<close>

definition or_str :: "string option \<Rightarrow> string option \<Rightarrow> string option" where
  "or_str x y = (if x = None \<or> x = Some [] then y else x)"

definition config_path_from :: "process \<Rightarrow> string option \<Rightarrow> (string \<times> string) list \<Rightarrow> string result" where
  "config_path_from P explicit env =
     rbind (case or_str (or_str explicit (map_of env ENV_CONFIG)) None of
              Some p \<Rightarrow> Inr p | None \<Rightarrow> default_config_path P)
       (\<lambda>p. Inr (expand_path P p))"

definition configured_config_path :: "process \<Rightarrow> string option \<Rightarrow> string result" where
  "configured_config_path P explicit = config_path_from P explicit (p_environ P)"


section \<open>Numbers: float()\<close>

text \<open>Digits with single underscores between them; the digits, and the rest.\<close>

fun take_digits :: "string \<Rightarrow> string \<times> string" where
  "take_digits (c # u # d # cs) =
     (if \<not> is_digit c then ([], c # u # d # cs)
      else if u = CHR ''_'' \<and> is_digit d then map_prod (Cons c) id (take_digits (d # cs))
      else map_prod (Cons c) id (take_digits (u # d # cs)))"
| "take_digits [c, d] =
     (if \<not> is_digit c then ([], [c, d]) else if is_digit d then ([c, d], []) else ([c], [d]))"
| "take_digits [c] = (if is_digit c then ([c], []) else ([], [c]))"
| "take_digits [] = ([], [])"

definition exponent_of :: "string \<Rightarrow> int option" where
  "exponent_of s =
     (case s of
        [] \<Rightarrow> Some 0
      | c # r \<Rightarrow>
          if c \<noteq> CHR ''e'' \<and> c \<noteq> CHR ''E'' then None
          else (let sg = (if starts_with r ''-'' then -1 else 1);
                    body = (if starts_with r ''-'' \<or> starts_with r ''+'' then tl r else r);
                    (ds, t) = take_digits body
                in if ds = [] \<or> t \<noteq> [] then None else Some (sg * int (digits_val ds))))"

definition unsigned_float_of :: "string \<Rightarrow> rat option" where
  "unsigned_float_of s =
     (let (ip, r) = take_digits s;
          (fp, t) = (if starts_with r ''.'' then take_digits (tl r) else ([], r))
      in if ip = [] \<and> fp = [] then None
         else map_option (\<lambda>e. scale10 (of_nat (digits_val (ip @ fp))) (e - int (length fp))) (exponent_of t))"

definition float_of_str :: "string \<Rightarrow> pyfloat option" where
  "float_of_str s =
     (let t = strip s;
          neg = starts_with t ''-'';
          body = (if neg \<or> starts_with t ''+'' then tl t else t)
      in if lower body \<in> {''inf'', ''infinity''} then Some (Infinite (\<not> neg))
         else if lower body = ''nan'' then Some NaN
         else map_option (\<lambda>q. double_of (if neg then - q else q)) (unsigned_float_of body))"

text \<open>\<open>float(v)\<close>; a float value carries its literal, as in the payloads.\<close>

definition py_float :: "pyval \<Rightarrow> pyfloat result" where
  "py_float v =
     (case v of
        PBool b \<Rightarrow> Inr (Finite (of_bool b))
      | PInt i \<Rightarrow>
          (case double_of (of_int i) of
             Infinite b \<Rightarrow> Inl (PyExc ''OverflowError'' ''int too large to convert to float'')
           | x \<Rightarrow> Inr x)
      | PFloat s \<Rightarrow>
          Inr (case literal_value s of
                 Some q \<Rightarrow> double_of q
               | None \<Rightarrow> if s = ''NaN'' then NaN else Infinite (\<not> starts_with s ''-''))
      | PStr s \<Rightarrow>
          (case float_of_str s of
             Some x \<Rightarrow> Inr x
           | None \<Rightarrow> Inl (PyExc ''ValueError'' (''could not convert string to float: '' @ repr_str s)))
      | _ \<Rightarrow> Inl (PyExc ''TypeError'' ''float() argument must be a string or a real number''))"

text \<open>The comparison of floats: with NaN on either side it is false.\<close>

instantiation pyfloat :: "{ord, zero}"
begin

definition zero_pyfloat :: pyfloat where "zero_pyfloat = Finite 0"

fun less_eq_pyfloat :: "pyfloat \<Rightarrow> pyfloat \<Rightarrow> bool" where
  "less_eq_pyfloat (Finite p) (Finite q) = (p \<le> q)"
| "less_eq_pyfloat (Finite p) (Infinite b) = b"
| "less_eq_pyfloat (Infinite a) (Finite q) = (\<not> a)"
| "less_eq_pyfloat (Infinite a) (Infinite b) = (a \<longrightarrow> b)"
| "less_eq_pyfloat NaN y = False"
| "less_eq_pyfloat x NaN = False"

definition less_pyfloat :: "pyfloat \<Rightarrow> pyfloat \<Rightarrow> bool" where
  "less_pyfloat x y = (x \<le> y \<and> \<not> y \<le> x)"

instance ..

end

lemma pyfloat_le_zero [simp]: "Finite q \<le> 0 \<longleftrightarrow> q \<le> 0" "Infinite b \<le> 0 \<longleftrightarrow> \<not> b" "\<not> NaN \<le> 0"
  by (simp_all add: zero_pyfloat_def)

lemma pyfloat_le_refl: "x \<le> x \<longleftrightarrow> x \<noteq> NaN" for x :: pyfloat
  by (cases x) auto


section \<open>Instances\<close>

definition ENV_FIELDS :: "(string \<times> string) list" where
  "ENV_FIELDS =
     [(''port'', ''RP2350_RELAY_PORT''), (''serial'', ''RP2350_RELAY_SERIAL''), (''socket'', ''RP2350_RELAY_SOCKET''),
      (''baud'', ''RP2350_RELAY_BAUD''), (''timeout'', ''RP2350_RELAY_TIMEOUT''), (''retries'', ''RP2350_RELAY_RETRIES''),
      (''reconnect_interval'', ''RP2350_RELAY_RECONNECT_INTERVAL''), (''wait_device'', ''RP2350_RELAY_WAIT_DEVICE''),
      (''log_level'', ''RP2350_RELAY_LOG_LEVEL'')]"

record RelayInstanceConfig =
  ic_name :: string
  ic_selector_type :: string
  ic_selector_value :: string
  ic_socket_path :: string
  ic_baud :: int
  ic_timeout :: pyfloat
  ic_retries :: int
  ic_reconnect_interval :: pyfloat
  ic_wait_device :: bool
  ic_log_level :: string
  ic_config_path :: string

definition verr :: "string \<Rightarrow> exc" where
  "verr m = RelayValidationError m"

definition coerce_str :: "pyval \<Rightarrow> string \<Rightarrow> string result" where
  "coerce_str v name = (case v of PStr s \<Rightarrow> Inr s | _ \<Rightarrow> Inl (verr (name @ '' must be a string'')))"

text \<open>\<open>except (TypeError, ValueError)\<close>; an OverflowError is neither.\<close>

definition type_or_value :: "exc \<Rightarrow> bool" where
  "type_or_value e \<longleftrightarrow> py_class e \<in> {''TypeError'', ''ValueError''}"

definition guard_number :: "'a result \<Rightarrow> string \<Rightarrow> 'a result" where
  "guard_number r m = (case r of Inl e \<Rightarrow> if type_or_value e then Inl (verr m) else Inl e | Inr x \<Rightarrow> Inr x)"

definition coerce_int :: "pyval \<Rightarrow> string \<Rightarrow> int \<Rightarrow> int result" where
  "coerce_int v name minimum =
     (if is_bool v then Inl (verr (name @ '' must be an integer''))
      else rbind (guard_number (py_int v) (name @ '' must be an integer'')) (\<lambda>i.
        if i < minimum then Inl (verr (name @ '' must be >= '' @ int_str minimum)) else Inr i))"

definition coerce_float :: "pyval \<Rightarrow> string \<Rightarrow> bool \<Rightarrow> pyfloat result" where
  "coerce_float v name positive =
     (if is_bool v then Inl (verr (name @ '' must be a number''))
      else rbind (guard_number (py_float v) (name @ '' must be a number'')) (\<lambda>x.
        if positive \<and> x \<le> 0 then Inl (verr (name @ '' must be positive'')) else Inr x))"

definition coerce_bool :: "pyval \<Rightarrow> string \<Rightarrow> bool result" where
  "coerce_bool v name =
     (case v of
        PBool b \<Rightarrow> Inr b
      | PStr s \<Rightarrow>
          (let normalized = lower (strip s) in
           if normalized \<in> {''1'', ''true'', ''yes'', ''on''} then Inr True
           else if normalized \<in> {''0'', ''false'', ''no'', ''off''} then Inr False
           else Inl (verr (name @ '' must be a bool'')))
      | _ \<Rightarrow> Inl (verr (name @ '' must be a bool'')))"

text \<open>None stands for a missing key or an empty string.\<close>

definition optional_str :: "pyval \<Rightarrow> string \<Rightarrow> string option result" where
  "optional_str v name =
     (if v = PNone then Inr None
      else rbind (coerce_str v name) (\<lambda>s. Inr (if s = [] then None else Some s)))"

definition required_path :: "process \<Rightarrow> pyval \<Rightarrow> string \<Rightarrow> string result" where
  "required_path P v name =
     rbind (coerce_str v name) (\<lambda>s.
       if s = [] then Inl (verr (name @ '' is required'')) else Inr (expand_path P s))"

definition dpop :: "pydict \<Rightarrow> string \<Rightarrow> pydict" where
  "dpop d k = filter (\<lambda>(k', v). k' \<noteq> k) d"

definition clear_other_selector :: "pydict \<Rightarrow> string \<Rightarrow> pydict" where
  "clear_other_selector values key =
     (if key = ''port'' then dpop values ''serial''
      else if key = ''serial'' then dpop values ''port'' else values)"

definition set_value :: "string \<Rightarrow> pyval \<Rightarrow> pydict \<Rightarrow> pydict" where
  "set_value key v values = dset (clear_other_selector values key) key v"

definition apply_env :: "(string \<times> string) list \<Rightarrow> pydict \<Rightarrow> pydict" where
  "apply_env env values =
     fold (\<lambda>(key, env_name) vs. case map_of env env_name of Some s \<Rightarrow> set_value key (PStr s) vs | None \<Rightarrow> vs)
       ENV_FIELDS values"

definition apply_overrides :: "pydict \<Rightarrow> pydict \<Rightarrow> pydict" where
  "apply_overrides overrides values =
     fold (\<lambda>(key, v) vs. if v \<noteq> PNone then set_value key v vs else vs) overrides values"

definition unknown_keys :: "pydict \<Rightarrow> string list" where
  "unknown_keys values = filter (\<lambda>k. k \<notin> fst ` set ENV_FIELDS) (sort (remdups (map fst values)))"

definition validate_instance_keys :: "pydict \<Rightarrow> string \<Rightarrow> unit result" where
  "validate_instance_keys values instance_name =
     (if unknown_keys values \<noteq> []
      then Inl (verr (''instance '' @ instance_name @ '' has unknown config keys: '' @ join '', '' (unknown_keys values)))
      else Inr ())"

definition coerce_instance :: "process \<Rightarrow> string \<Rightarrow> pydict \<Rightarrow> string \<Rightarrow> RelayInstanceConfig result" where
  "coerce_instance P name values config_path =
     rbind (optional_str (dget values ''port'') ''port'') (\<lambda>prt.
     rbind (optional_str (dget values ''serial'') ''serial'') (\<lambda>serial.
       if (prt = None) = (serial = None)
       then Inl (verr ''instance must define exactly one of port or serial'')
       else
     rbind (required_path P (dget values ''socket'') ''socket'') (\<lambda>sock.
     rbind (coerce_int (dget_or values ''baud'' (PInt 115200)) ''baud'' 1) (\<lambda>baud.
     rbind (coerce_float (dget_or values ''timeout'' (PFloat ''2.0'')) ''timeout'' True) (\<lambda>timeout.
     rbind (coerce_int (dget_or values ''retries'' (PInt 1)) ''retries'' 0) (\<lambda>retries.
     rbind (coerce_float (dget_or values ''reconnect_interval'' (PFloat ''1.0'')) ''reconnect_interval'' True) (\<lambda>interval.
     rbind (coerce_bool (dget_or values ''wait_device'' (PBool False)) ''wait_device'') (\<lambda>wait.
     rbind (coerce_str (dget_or values ''log_level'' (PStr ''INFO'')) ''log_level'') (\<lambda>level.
       Inr \<lparr>ic_name = name, ic_selector_type = (if prt \<noteq> None then ''port'' else ''serial''),
            ic_selector_value = (case prt of Some p \<Rightarrow> p | None \<Rightarrow> (case serial of Some s \<Rightarrow> s | None \<Rightarrow> [])),
            ic_socket_path = sock, ic_baud = baud, ic_timeout = timeout, ic_retries = retries,
            ic_reconnect_interval = interval, ic_wait_device = wait, ic_log_level = level,
            ic_config_path = config_path\<rparr>)))))))))"

text \<open>\<open>toml\<close> opens and parses a file.\<close>

definition load_config :: "process \<Rightarrow> (string \<Rightarrow> pydict result) \<Rightarrow> string option \<Rightarrow> pydict result" where
  "load_config P toml path =
     rbind (configured_config_path P path) (\<lambda>config_path.
       case toml config_path of
         Inl e \<Rightarrow>
           if py_class e = ''FileNotFoundError'' then Inl (verr (''config file not found: '' @ config_path))
           else if py_class e = ''TOMLDecodeError'' then Inl (verr (''config file is invalid TOML: '' @ exc_str e))
           else Inl e
       | Inr payload \<Rightarrow> Inr payload)"

definition resolve_instance_config ::
    "process \<Rightarrow> (string \<Rightarrow> pydict result) \<Rightarrow> string option \<Rightarrow> string option \<Rightarrow> pydict \<Rightarrow> (string \<times> string) list option
     \<Rightarrow> RelayInstanceConfig result" where
  "resolve_instance_config P toml inst config_path overrides environ =
     (let env = (case environ of None \<Rightarrow> p_environ P | Some e \<Rightarrow> e) in
      case or_str (or_str inst (map_of env ENV_INSTANCE)) None of
        None \<Rightarrow> Inl (verr ''--instance is required'')
      | Some name \<Rightarrow>
          rbind (config_path_from P config_path env) (\<lambda>path.
          rbind (load_config P toml (Some path)) (\<lambda>payload.
            case dget payload ''instances'' of
              PDict instances \<Rightarrow>
                (case dget instances name of
                   PDict raw \<Rightarrow>
                     rbind (validate_instance_keys raw name) (\<lambda>_.
                       coerce_instance P name (apply_overrides overrides (apply_env env raw)) path)
                 | _ \<Rightarrow> Inl (verr (''instance not found in config: '' @ name)))
            | _ \<Rightarrow> Inl (verr ''config must contain an [instances] table''))))"

definition resolve_socket_for_instance ::
    "process \<Rightarrow> (string \<Rightarrow> pydict result) \<Rightarrow> string option \<Rightarrow> string option \<Rightarrow> string option
     \<Rightarrow> (string \<times> string) list option \<Rightarrow> string result" where
  "resolve_socket_for_instance P toml inst config_path socket_override environ =
     rbind (resolve_instance_config P toml inst config_path
              (case socket_override of Some s \<Rightarrow> [(''socket'', PStr s)] | None \<Rightarrow> []) environ)
       (\<lambda>c. Inr (ic_socket_path c))"

end
