(* ===== verification/Config_Properties.thy ===== *)
theory Config_Properties
  imports Config
begin

text \<open>
  The statements about the configuration: where each setting comes from, and what a configuration
  that was accepted satisfies.
\<close>

section \<open>Reading merged values\<close>

definition displaces :: "string \<Rightarrow> string \<Rightarrow> bool" where
  "displaces key k \<longleftrightarrow> key = ''port'' \<and> k = ''serial'' \<or> key = ''serial'' \<and> k = ''port''"

lemma map_of_dset: "map_of (dset d k v) = (map_of d)(k \<mapsto> v)"
  by (simp add: dset_def update_conv')

lemma map_of_dpop: "map_of (dpop d k) k' = (if k' = k then None else map_of d k')"
  by (induction d) (auto simp: dpop_def)

lemma map_of_set_value:
  "map_of (set_value key v vs) k = (if k = key then Some v else if displaces key k then None else map_of vs k)"
  by (auto simp: set_value_def clear_other_selector_def map_of_dset map_of_dpop displaces_def)

text \<open>A value of one of the sources; an environment variable is a string.\<close>

definition override_value :: "pydict \<Rightarrow> string \<Rightarrow> pyval option" where
  "override_value ov k = (case map_of ov k of Some v \<Rightarrow> if v = PNone then None else Some v | None \<Rightarrow> None)"

definition env_value :: "(string \<times> string) list \<Rightarrow> string \<Rightarrow> pyval option" where
  "env_value env k = (case map_of ENV_FIELDS k of None \<Rightarrow> None | Some n \<Rightarrow> map_option PStr (map_of env n))"

text \<open>The other selector, and whether a source names it.\<close>

definition displaced :: "(string \<Rightarrow> pyval option) \<Rightarrow> string \<Rightarrow> bool" where
  "displaced src k \<longleftrightarrow> k = ''port'' \<and> src ''serial'' \<noteq> None \<or> k = ''serial'' \<and> src ''port'' \<noteq> None"

definition env_step :: "(string \<times> string) list \<Rightarrow> string \<times> string \<Rightarrow> pydict \<Rightarrow> pydict" where
  "env_step env = (\<lambda>(key, n) vs. case map_of env n of Some s \<Rightarrow> set_value key (PStr s) vs | None \<Rightarrow> vs)"

lemma map_of_env_step:
  "map_of (env_step env (key, n) vs) k =
     (if k = key then (case map_of env n of Some s \<Rightarrow> Some (PStr s) | None \<Rightarrow> map_of vs k)
      else if displaces key k \<and> map_of env n \<noteq> None then None else map_of vs k)"
  by (simp add: env_step_def map_of_set_value split: option.splits)

lemma map_of_apply_env:
  assumes "k \<in> fst ` set ENV_FIELDS"
  shows "map_of (apply_env env vs) k =
    (case env_value env k of
       Some v \<Rightarrow> if k = ''port'' \<and> displaced (env_value env) k then None else Some v
     | None \<Rightarrow> if displaced (env_value env) k then None else map_of vs k)"
proof -
  have "apply_env env vs = fold (env_step env) ENV_FIELDS vs" by (simp add: apply_env_def env_step_def)
  with assms show ?thesis
    by (simp add: ENV_FIELDS_def)
      (elim disjE; simp add: map_of_env_step displaces_def env_value_def displaced_def ENV_FIELDS_def split: option.split)
qed

lemma map_of_apply_overrides:
  assumes "distinct (map fst ov)" "override_value ov ''port'' = None \<or> override_value ov ''serial'' = None"
  shows "map_of (apply_overrides ov vs) k =
    (case override_value ov k of
       Some v \<Rightarrow> Some v
     | None \<Rightarrow> if displaced (override_value ov) k then None else map_of vs k)"
  using assms
proof (induction ov arbitrary: vs)
  case Nil
  then show ?case by (simp add: apply_overrides_def override_value_def displaced_def)
next
  case (Cons kv ov)
  obtain key v where kv: "kv = (key, v)" by force
  have ov: "override_value ((key, v) # ov) x = (if x = key then (if v = PNone then None else Some v) else override_value ov x)" for x
    by (simp add: override_value_def)
  have fresh: "override_value ov key = None"
    using Cons.prems(1) kv by (auto simp: override_value_def map_of_eq_None_iff split: option.splits) (metis image_eqI map_of_SomeD fst_conv)
  have other: "override_value ov ''port'' = None \<or> override_value ov ''serial'' = None"
    using Cons.prems(2) fresh by (auto simp: kv ov split: if_splits)
  have step: "apply_overrides (kv # ov) vs = apply_overrides ov (if v \<noteq> PNone then set_value key v vs else vs)"
    by (simp add: apply_overrides_def kv)
  show ?case
    unfolding step
    using Cons.IH [OF _ other] Cons.prems fresh
    by (auto simp: kv ov map_of_set_value displaces_def displaced_def split: option.splits if_splits)
qed

text \<open>The value a setting ends up with: an override, else the environment's, else the file's;
  between the selectors the source of the highest rank decides, and in the environment the serial
  number.\<close>

definition effective :: "pydict \<Rightarrow> (string \<times> string) list \<Rightarrow> pydict \<Rightarrow> string \<Rightarrow> pyval option" where
  "effective ov env raw k =
     (case override_value ov k of
        Some v \<Rightarrow> Some v
      | None \<Rightarrow>
          if displaced (override_value ov) k then None
          else (case env_value env k of
                  Some v \<Rightarrow> if k = ''port'' \<and> displaced (env_value env) k then None else Some v
                | None \<Rightarrow> if displaced (env_value env) k then None else map_of raw k))"


section \<open>An example\<close>

definition demo_process :: process where
  "demo_process = \<lparr>p_environ = [(''HOME'', ''/home/lab'')], p_home_of = (\<lambda>_. None)\<rparr>"

definition demo_toml :: "string \<Rightarrow> pydict result" where
  "demo_toml path = Inr [(''instances'', PDict [(''bench'', PDict
     [(''port'', PStr ''/dev/ttyACM0''), (''socket'', PStr ''~/relay.sock''), (''baud'', PInt 9600)])])]"

definition demo_environ :: "(string \<times> string) list" where
  "demo_environ = [(''RP2350_RELAY_SERIAL'', ''A1''), (''RP2350_RELAY_BAUD'', ''57600'')]"

lemma bits_of_small: "bits_of 0 = 0" "bits_of 1 = 1" "bits_of 2 = 2"
  by (simp_all add: bits_of.simps)

lemma double_of_small: "double_of 1 = Finite 1" "double_of 2 = Finite 2"
  by (simp_all add: double_of_def pow2_def round_even_def bits_of_small)

lemma default_floats:
  "coerce_float (PFloat ''2.0'') name True = Inr (Finite 2)" "coerce_float (PFloat ''1.0'') name True = Inr (Finite 1)"
proof -
  have "literal_value ''2.0'' = Some 2" "literal_value ''1.0'' = Some 1" by code_simp+
  then show "coerce_float (PFloat ''2.0'') name True = Inr (Finite 2)" "coerce_float (PFloat ''1.0'') name True = Inr (Finite 1)"
    by (simp_all add: coerce_float_def is_bool_def guard_number_def py_float_def double_of_small)
qed

definition demo_config :: RelayInstanceConfig where
  "demo_config = \<lparr>ic_name = ''bench'', ic_selector_type = ''serial'', ic_selector_value = ''A1'',
     ic_socket_path = ''/home/lab/relay.sock'', ic_baud = 115200, ic_timeout = Finite 2, ic_retries = 1,
     ic_reconnect_interval = Finite 1, ic_wait_device = False, ic_log_level = ''INFO'', ic_config_path = ''/etc/relay.toml''\<rparr>"

lemma demo_resolves:
  "resolve_instance_config demo_process demo_toml (Some ''bench'') (Some ''/etc/relay.toml'') [(''baud'', PInt 115200)]
     (Some demo_environ) = Inr demo_config"
proof -
  have v: "apply_overrides [(''baud'', PInt 115200)] (apply_env demo_environ
      [(''port'', PStr ''/dev/ttyACM0''), (''socket'', PStr ''~/relay.sock''), (''baud'', PInt 9600)]) =
      [(''socket'', PStr ''~/relay.sock''), (''baud'', PInt 115200), (''serial'', PStr ''A1'')]"
    by code_simp
  have p: "config_path_from demo_process (Some ''/etc/relay.toml'') env = Inr ''/etc/relay.toml''" for env
    by (simp add: config_path_from_def or_str_def expand_path_def expanduser_def expandvars_def)
  have l: "load_config demo_process demo_toml (Some ''/etc/relay.toml'') = demo_toml ''/etc/relay.toml''"
    by (simp add: load_config_def configured_config_path_def p demo_toml_def)
  have x: "expand_path demo_process ''~/relay.sock'' = ''/home/lab/relay.sock''" by code_simp
  have k: "validate_instance_keys [(''port'', PStr ''/dev/ttyACM0''), (''socket'', PStr ''~/relay.sock''), (''baud'', PInt 9600)] name = Inr ()" for name
    by (simp add: validate_instance_keys_def unknown_keys_def ENV_FIELDS_def)
  show ?thesis
    by (simp add: resolve_instance_config_def or_str_def p l k v)
      (simp add: demo_toml_def dget_def v k coerce_instance_def optional_str_def coerce_str_def required_path_def x dget_or_def
        coerce_int_def is_bool_def guard_number_def py_int_def default_floats coerce_bool_def demo_config_def)
qed


section \<open>Properties\<close>

lemma dict_case_Inr: "(case v of PDict d \<Rightarrow> f d | _ \<Rightarrow> Inl e) = Inr x \<longleftrightarrow> (\<exists>d. v = PDict d \<and> f d = Inr x)"
  by (cases v) auto

lemma coerce_int_Inr: "coerce_int v name m = Inr i \<Longrightarrow> m \<le> i"
  by (auto simp: coerce_int_def rbind_Inr split: if_splits)

lemma coerce_float_Inr: "coerce_float v name True = Inr x \<Longrightarrow> \<not> x \<le> 0"
  by (auto simp: coerce_float_def rbind_Inr split: if_splits)

lemma optional_str_Inr: "optional_str v name = Inr (Some s) \<Longrightarrow> v = PStr s \<and> s \<noteq> []"
  by (auto simp: optional_str_def coerce_str_def rbind_Inr split: if_splits pyval.splits)

lemma coerce_instance_Inr:
  assumes "coerce_instance P name vs path = Inr c"
  shows "coerce_int (dget_or vs ''baud'' (PInt 115200)) ''baud'' 1 = Inr (ic_baud c)"
    and "coerce_float (dget_or vs ''timeout'' (PFloat ''2.0'')) ''timeout'' True = Inr (ic_timeout c)"
    and "coerce_int (dget_or vs ''retries'' (PInt 1)) ''retries'' 0 = Inr (ic_retries c)"
    and "coerce_float (dget_or vs ''reconnect_interval'' (PFloat ''1.0'')) ''reconnect_interval'' True = Inr (ic_reconnect_interval c)"
    and "coerce_bool (dget_or vs ''wait_device'' (PBool False)) ''wait_device'' = Inr (ic_wait_device c)"
    and "coerce_str (dget_or vs ''log_level'' (PStr ''INFO'')) ''log_level'' = Inr (ic_log_level c)"
    and "required_path P (dget vs ''socket'') ''socket'' = Inr (ic_socket_path c)"
    and "ic_name c = name" "ic_config_path c = path"
  using assms by (auto simp: coerce_instance_def rbind_Inr split: if_splits)

lemma coerce_instance_selector:
  assumes "coerce_instance P name vs path = Inr c"
  obtains other where "{ic_selector_type c, other} = {''port'', ''serial''}"
    "optional_str (dget vs (ic_selector_type c)) (ic_selector_type c) = Inr (Some (ic_selector_value c))"
    "optional_str (dget vs other) other = Inr None"
proof -
  from assms obtain prt serial where p: "optional_str (dget vs ''port'') ''port'' = Inr prt"
    "optional_str (dget vs ''serial'') ''serial'' = Inr serial" "(prt = None) \<noteq> (serial = None)"
    and c: "ic_selector_type c = (if prt \<noteq> None then ''port'' else ''serial'')"
      "ic_selector_value c = (case prt of Some p \<Rightarrow> p | None \<Rightarrow> (case serial of Some s \<Rightarrow> s | None \<Rightarrow> []))"
    by (auto simp: coerce_instance_def rbind_Inr split: if_splits)
  show ?thesis
  proof (cases prt)
    case None
    with p c that [of "''port''"] show ?thesis by (auto simp: insert_commute)
  next
    case (Some x)
    with p c that [of "''serial''"] show ?thesis by auto
  qed
qed

lemma resolve_Inr:
  assumes "resolve_instance_config P toml inst cp ov (Some env) = Inr c"
  obtains path payload instances raw where "config_path_from P cp env = Inr path" "load_config P toml (Some path) = Inr payload"
    "dget payload ''instances'' = PDict instances" "dget instances (ic_name c) = PDict raw" "ic_name c \<noteq> []"
    "coerce_instance P (ic_name c) (apply_overrides ov (apply_env env raw)) path = Inr c"
proof -
  from assms obtain name path payload instances raw where a: "name \<noteq> []" "config_path_from P cp env = Inr path"
    "load_config P toml (Some path) = Inr payload" "dget payload ''instances'' = PDict instances" "dget instances name = PDict raw"
    "coerce_instance P name (apply_overrides ov (apply_env env raw)) path = Inr c"
    by (auto simp: resolve_instance_config_def or_str_def Let_def rbind_Inr dict_case_Inr split: option.splits if_splits)
  moreover from this(6) have "ic_name c = name"
    by (rule coerce_instance_Inr(8))
  ultimately show ?thesis using that by blast
qed

text \<open>
  C32. An accepted configuration is usable: a baud rate of at least 1, no negative number of
  retries, a time-out and an interval that are not zero or negative (NaN, which is neither, is let
  through), exactly one selector, by port or by serial number, with a text, and the name that was
  asked for.
\<close>

theorem config_is_valid:
  assumes "resolve_instance_config P toml inst cp ov (Some env) = Inr c"
  shows "1 \<le> ic_baud c \<and> 0 \<le> ic_retries c \<and> \<not> ic_timeout c \<le> 0 \<and> \<not> ic_reconnect_interval c \<le> 0
    \<and> (ic_selector_type c = ''port'' \<or> ic_selector_type c = ''serial'') \<and> ic_selector_value c \<noteq> []
    \<and> Some (ic_name c) = or_str inst (map_of env ENV_INSTANCE)"
proof -
  obtain raw path where r: "coerce_instance P (ic_name c) (apply_overrides ov (apply_env env raw)) path = Inr c"
    using resolve_Inr [OF assms] .
  have "Some (ic_name c) = or_str inst (map_of env ENV_INSTANCE)"
    using assms by (auto simp: resolve_instance_config_def or_str_def Let_def rbind_Inr dict_case_Inr
        split: option.splits if_splits dest: coerce_instance_Inr(8))
  moreover obtain other where "{ic_selector_type c, other} = {''port'', ''serial''}"
    "optional_str (dget (apply_overrides ov (apply_env env raw)) (ic_selector_type c)) (ic_selector_type c) = Inr (Some (ic_selector_value c))"
    using coerce_instance_selector [OF r] by metis
  ultimately show ?thesis
    using coerce_int_Inr [OF coerce_instance_Inr(1) [OF r]] coerce_int_Inr [OF coerce_instance_Inr(3) [OF r]]
      coerce_float_Inr [OF coerce_instance_Inr(2) [OF r]] coerce_float_Inr [OF coerce_instance_Inr(4) [OF r]]
    by (auto dest: optional_str_Inr)
qed

theorem config_is_valid_witness:
  "1 \<le> ic_baud demo_config \<and> ic_selector_value demo_config \<noteq> []"
  using config_is_valid [OF demo_resolves] by blast

text \<open>The value of a key, with the default that applies when no source has it.\<close>

definition setting :: "pydict \<Rightarrow> (string \<times> string) list \<Rightarrow> pydict \<Rightarrow> string \<Rightarrow> pyval \<Rightarrow> pyval" where
  "setting ov env raw k d = (case effective ov env raw k of Some v \<Rightarrow> v | None \<Rightarrow> d)"

text \<open>
  C33. Precedence: every setting of an accepted configuration is the conversion of the override of
  that key, else of the environment variable, else of the entry of the instance in the file,
  else of the default; and the selector is the one that the source of the highest rank
  names, the other one being dropped with what lower sources say of it.
\<close>

theorem config_precedence:
  assumes "resolve_instance_config P toml inst cp ov (Some env) = Inr c" "distinct (map fst ov)"
    "override_value ov ''port'' = None \<or> override_value ov ''serial'' = None"
  shows "\<exists>payload instances raw other.
    load_config P toml (Some (ic_config_path c)) = Inr payload \<and> dget payload ''instances'' = PDict instances
    \<and> dget instances (ic_name c) = PDict raw
    \<and> coerce_int (setting ov env raw ''baud'' (PInt 115200)) ''baud'' 1 = Inr (ic_baud c)
    \<and> coerce_float (setting ov env raw ''timeout'' (PFloat ''2.0'')) ''timeout'' True = Inr (ic_timeout c)
    \<and> coerce_int (setting ov env raw ''retries'' (PInt 1)) ''retries'' 0 = Inr (ic_retries c)
    \<and> coerce_float (setting ov env raw ''reconnect_interval'' (PFloat ''1.0'')) ''reconnect_interval'' True = Inr (ic_reconnect_interval c)
    \<and> coerce_bool (setting ov env raw ''wait_device'' (PBool False)) ''wait_device'' = Inr (ic_wait_device c)
    \<and> coerce_str (setting ov env raw ''log_level'' (PStr ''INFO'')) ''log_level'' = Inr (ic_log_level c)
    \<and> required_path P (setting ov env raw ''socket'' PNone) ''socket'' = Inr (ic_socket_path c)
    \<and> {ic_selector_type c, other} = {''port'', ''serial''}
    \<and> setting ov env raw (ic_selector_type c) PNone = PStr (ic_selector_value c)
    \<and> optional_str (setting ov env raw other PNone) other = Inr None"
proof -
  obtain path payload instances raw where a: "load_config P toml (Some path) = Inr payload"
    "dget payload ''instances'' = PDict instances" "dget instances (ic_name c) = PDict raw"
    and r: "coerce_instance P (ic_name c) (apply_overrides ov (apply_env env raw)) path = Inr c"
    using resolve_Inr [OF assms(1)] by metis
  have e: "map_of (apply_overrides ov (apply_env env raw)) k = effective ov env raw k" if "k \<in> fst ` set ENV_FIELDS" for k
    by (simp add: map_of_apply_overrides [OF assms(2,3)] map_of_apply_env [OF that] effective_def split: option.split)
  have g: "dget (apply_overrides ov (apply_env env raw)) k = setting ov env raw k PNone"
    "dget_or (apply_overrides ov (apply_env env raw)) k d = setting ov env raw k d" if "k \<in> fst ` set ENV_FIELDS" for k d
    by (simp_all add: dget_def dget_or_def e [OF that] setting_def)
  let ?vs = "apply_overrides ov (apply_env env raw)"
  have keys: "''port'' \<in> fst ` set ENV_FIELDS" "''serial'' \<in> fst ` set ENV_FIELDS" "''socket'' \<in> fst ` set ENV_FIELDS"
    "''baud'' \<in> fst ` set ENV_FIELDS" "''timeout'' \<in> fst ` set ENV_FIELDS" "''retries'' \<in> fst ` set ENV_FIELDS"
    "''reconnect_interval'' \<in> fst ` set ENV_FIELDS" "''wait_device'' \<in> fst ` set ENV_FIELDS" "''log_level'' \<in> fst ` set ENV_FIELDS"
    by (simp_all add: ENV_FIELDS_def)
  note settings = coerce_instance_Inr [OF r, unfolded g(1) [OF keys(3)] g(2) [OF keys(4)] g(2) [OF keys(5)] g(2) [OF keys(6)]
      g(2) [OF keys(7)] g(2) [OF keys(8)] g(2) [OF keys(9)]]
  obtain other where o: "{ic_selector_type c, other} = {''port'', ''serial''}"
    "optional_str (dget ?vs (ic_selector_type c)) (ic_selector_type c) = Inr (Some (ic_selector_value c))"
    "optional_str (dget ?vs other) other = Inr None"
    using coerce_instance_selector [OF r] by metis
  then have "ic_selector_type c \<in> fst ` set ENV_FIELDS" "other \<in> fst ` set ENV_FIELDS"
    using keys(1,2) by (metis doubleton_eq_iff)+
  with o g(1) have "setting ov env raw (ic_selector_type c) PNone = PStr (ic_selector_value c)"
    "optional_str (setting ov env raw other PNone) other = Inr None"
    by (metis optional_str_Inr)+
  with o(1) a settings show ?thesis by blast
qed

theorem config_precedence_witness:
  "\<exists>raw. setting [(''baud'', PInt 115200)] demo_environ raw ''serial'' PNone = PStr ''A1''
     \<and> coerce_int (setting [(''baud'', PInt 115200)] demo_environ raw ''baud'' (PInt 115200)) ''baud'' 1 = Inr 115200"
  using config_precedence [OF demo_resolves] by (auto simp: override_value_def demo_config_def)

section \<open>What slips through\<close>

text \<open>
  An infinite baud rate raises OverflowError, which is no argument error; a time-out that is not a
  number is accepted as positive.
\<close>

lemma infinite_baud_escapes:
  "coerce_int (PFloat ''Infinity'') ''baud'' 1 = Inl (PyExc ''OverflowError'' ''cannot convert float infinity to integer'')"
proof -
  have "literal_value ''Infinity'' = None" by code_simp
  then show ?thesis by (simp add: coerce_int_def is_bool_def guard_number_def py_int_def float_value_def type_or_value_def)
qed

lemma nan_timeout_accepted: "coerce_float (PStr ''nan'') ''timeout'' True = Inr NaN"
proof -
  have "float_of_str ''nan'' = Some NaN" by code_simp
  then show ?thesis by (simp add: coerce_float_def is_bool_def guard_number_def py_float_def)
qed

end
