(* ===== verification/Systemd.thy ===== *)
theory Systemd
  imports Config Protocol
begin

text \<open>
  host/rp2350_relay_6ch/systemd.py: the user unit of the daemon, installing it and checking it.
  Files are a map from paths to contents beside a list of the directories made; a directory under
  the name of the unit or the configuration is left out. Running the interpreter to try the import is a
  parameter. The two package assets, which are files of the repository, are constants.
\<close>

section \<open>Paths and the process\<close>

record machine = process +
  m_cwd :: string
  m_executable :: string
  m_run :: "string \<Rightarrow> (int \<times> string \<times> string) option"

text \<open>\<open>m_run python\<close> is the return code, standard output and error of the import check; None is
  an OSError.\<close>

text \<open>The files with their text, the directories, and what making a directory or writing a file raises
  where it fails (no permission, no such directory, a directory in the way).\<close>

record files =
  f_contents :: "string \<Rightarrow> string option"
  f_dirs :: "string list"
  f_fails :: "string \<Rightarrow> exc option"

definition proc :: "machine \<Rightarrow> process" where
  "proc M = process.truncate M"

definition path_exists :: "files \<Rightarrow> string \<Rightarrow> bool" where
  "path_exists F p \<longleftrightarrow> f_contents F (path_str p) \<noteq> None \<or> path_str p \<in> set (f_dirs F)"

text \<open>\<open>os.path.normpath\<close> and \<open>os.path.abspath\<close>.\<close>

definition norm_step :: "bool \<Rightarrow> string \<Rightarrow> string list \<Rightarrow> string list" where
  "norm_step rooted part acc =
     (if part = [] \<or> part = ''.'' then acc
      else if part \<noteq> ''..'' \<or> (\<not> rooted \<and> acc = []) \<or> (acc \<noteq> [] \<and> hd acc = ''..'') then part # acc
      else tl acc)"

definition normpath :: "string \<Rightarrow> string" where
  "normpath s =
     (let root = (if starts_with s ''//'' \<and> \<not> starts_with s ''///'' then ''//''
                  else if starts_with s ''/'' then ''/'' else []);
          r = root @ join ''/'' (rev (fold (norm_step (root \<noteq> [])) (split_slash s) []))
      in if r = [] then ''.'' else r)"

definition abspath :: "machine \<Rightarrow> string \<Rightarrow> string" where
  "abspath M s = normpath (if starts_with s ''/'' then s else m_cwd M @ ''/'' @ s)"

definition UNIT_NAME :: string where "UNIT_NAME = ''rp2350-relayd@.service''"

record SystemdPaths =
  sy_config_home :: string
  sy_systemd_user_dir :: string
  sy_relay_config_dir :: string
  sy_config_path :: string
  sy_unit_path :: string

definition default_paths :: "machine \<Rightarrow> SystemdPaths result" where
  "default_paths M =
     (let P = proc M;
          home = path_str (expanduser P (case map_of (p_environ M) ''XDG_CONFIG_HOME'' of
                                           Some x \<Rightarrow> x | None \<Rightarrow> ''~/.config''));
          user_dir = path_join home ''systemd/user''
      in rbind (configured_config_path P None) (\<lambda>c.
           Inr \<lparr>sy_config_home = home, sy_systemd_user_dir = user_dir,
                sy_relay_config_dir = path_join home ''rp2350-relay'', sy_config_path = path_str c,
                sy_unit_path = path_join user_dir UNIT_NAME\<rparr>))"

section \<open>The assets\<close>

definition unit_template :: string where
  "unit_template = join newline
     [''[Unit]'',
      ''Description=RP2350 Relay daemon (%i)'',
      ''After=default.target'',
      [],
      ''[Service]'',
      ''Type=simple'',
      ''Environment=RP2350_RELAY_CONFIG={config}'',
      ''EnvironmentFile=-%h/.config/rp2350-relay/%i.env'',
      ''ExecStart={python} -m rp2350_relay_6ch.daemon --instance %i'',
      ''Restart=on-failure'',
      ''RestartSec=2'',
      [],
      ''[Install]'',
      ''WantedBy=default.target'',
      []]"

definition sample_config :: string where
  "sample_config = join newline
     [''[instances.bench-a]'',
      ''serial = \"E6614C311F4B8B2F\"'',
      ''socket = \"${XDG_RUNTIME_DIR}/rp2350-relay/bench-a.sock\"'',
      ''wait_device = true'',
      ''baud = 115200'',
      ''timeout = 2.0'',
      ''retries = 1'',
      ''reconnect_interval = 1.0'',
      ''log_level = \"INFO\"'',
      []]"

section \<open>The unit\<close>

text \<open>\<open>str.format\<close> with keyword arguments; None is an error of the template.\<close>

fun format_with :: "(string \<times> string) list \<Rightarrow> string \<Rightarrow> nat \<Rightarrow> string option" where
  "format_with kw s 0 = None"
| "format_with kw s (Suc n) =
     (case s of
        [] \<Rightarrow> Some []
      | c # cs \<Rightarrow>
          if c = CHR ''{'' then
            (if starts_with cs ''{'' then map_option (Cons c) (format_with kw (tl cs) n)
             else (case dropWhile (\<lambda>x. x \<noteq> CHR ''}'') cs of
                     [] \<Rightarrow> None
                   | _ # r \<Rightarrow>
                       (case map_of kw (takeWhile (\<lambda>x. x \<noteq> CHR ''}'') cs) of
                          None \<Rightarrow> None
                        | Some v \<Rightarrow> map_option (append v) (format_with kw r n))))
          else if c = CHR ''}'' then
            (if starts_with cs ''}'' then map_option (Cons c) (format_with kw (tl cs) n) else None)
          else map_option (Cons c) (format_with kw cs n))"

fun systemd_escape_arg :: "string \<Rightarrow> string" where
  "systemd_escape_arg [] = []"
| "systemd_escape_arg (c # cs) = (if c = CHR ''%'' then ''%%'' else [c]) @ systemd_escape_arg cs"

fun systemd_unescape_arg :: "string \<Rightarrow> string" where
  "systemd_unescape_arg (c # d # cs) =
     (if c = CHR ''%'' \<and> d = CHR ''%'' then c # systemd_unescape_arg cs else c # systemd_unescape_arg (d # cs))"
| "systemd_unescape_arg s = s"

definition nonempty_or :: "string \<Rightarrow> string \<Rightarrow> string" where
  "nonempty_or x y = (if x = [] then y else x)"

definition validate_python_imports_package :: "machine \<Rightarrow> string \<Rightarrow> unit result" where
  "validate_python_imports_package M python =
     (case m_run M python of
        None \<Rightarrow> Inl (verr (''python is not executable: '' @ python))
      | Some (returncode, out, err) \<Rightarrow>
          if returncode \<noteq> 0
          then Inl (verr (''python cannot import rp2350_relay_6ch: '' @ python @ '': ''
                 @ nonempty_or (strip err) (nonempty_or (strip out) ''import failed'')))
          else Inr ())"

definition render_unit :: "machine \<Rightarrow> string option \<Rightarrow> string option \<Rightarrow> string result" where
  "render_unit M python_path config_path =
     (let P = proc M;
          python = abspath M (expanduser P (case or_str python_path None of Some p \<Rightarrow> p | None \<Rightarrow> m_executable M)) in
      rbind (case or_str config_path None of Some c \<Rightarrow> Inr c | None \<Rightarrow> default_config_path P) (\<lambda>c.
      rbind (validate_python_imports_package M python) (\<lambda>_.
        (case format_with [(''python'', systemd_escape_arg python), (''config'', systemd_escape_arg (expand_path P c))]
                unit_template (Suc (length unit_template)) of
           Some u \<Rightarrow> Inr u
         | None \<Rightarrow> Inl (PyExc ''ValueError'' ''invalid format string'')))))"

text \<open>\<open>^ExecStart=(\\S+)\\s+-m\\s+rp2350_relay_6ch\\.daemon\\b\<close>, on each line's start in turn.\<close>

definition exec_start :: "string \<Rightarrow> string option" where
  "exec_start s =
     (if \<not> starts_with s ''ExecStart='' then None
      else let r = drop 10 s;
               python = takeWhile (\<lambda>c. \<not> is_space c) r;
               r1 = dropWhile (\<lambda>c. \<not> is_space c) r;
               r2 = dropWhile is_space r1;
               r3 = drop 2 r2;
               r4 = dropWhile is_space r3;
               r5 = drop 23 r4
           in if python \<noteq> [] \<and> r1 \<noteq> r2 \<and> starts_with r2 ''-m'' \<and> r3 \<noteq> r4
                 \<and> starts_with r4 ''rp2350_relay_6ch.daemon'' \<and> (r5 = [] \<or> \<not> word_char (hd r5))
              then Some python else None)"

fun search_lines :: "(string \<Rightarrow> string option) \<Rightarrow> bool \<Rightarrow> string \<Rightarrow> string option" where
  "search_lines f at_start s =
     (case (if at_start then f s else None) of
        Some x \<Rightarrow> Some x
      | None \<Rightarrow> (case s of [] \<Rightarrow> None | c # cs \<Rightarrow> search_lines f (c = CHR 0x0A) cs))"

declare search_lines.simps [simp del]

definition python_from_unit :: "string \<Rightarrow> string option" where
  "python_from_unit content = map_option systemd_unescape_arg (search_lines exec_start True content)"

section \<open>Installing\<close>

definition write_file :: "string \<Rightarrow> string \<Rightarrow> bool \<Rightarrow> files \<Rightarrow> unit result \<times> files" where
  "write_file path content force F =
     (if path_exists F path \<and> \<not> force
      then (Inl (verr (''file exists, use --force to overwrite: '' @ path)), F)
      else (case f_fails F (path_str path) of
              Some e \<Rightarrow> (Inl e, F)
            | None \<Rightarrow> (Inr (), F\<lparr>f_contents := (f_contents F)(path_str path \<mapsto> content)\<rparr>)))"

definition make_dir :: "string \<Rightarrow> files \<Rightarrow> unit result \<times> files" where
  "make_dir path F =
     (case f_fails F (path_str path) of
        Some e \<Rightarrow> (Inl e, F) | None \<Rightarrow> (Inr (), F\<lparr>f_dirs := f_dirs F @ [path_str path]\<rparr>))"

definition install_summary :: "SystemdPaths \<Rightarrow> string" where
  "install_summary paths = join newline
     [''installed unit: '' @ sy_unit_path paths,
      ''config file:    '' @ sy_config_path paths,
      [],
      ''Next commands:'',
      ''  systemctl --user daemon-reload'',
      ''  rp2350-relayctl systemd doctor --instance bench-a'',
      ''  systemctl --user enable --now rp2350-relayd@bench-a'',
      ''  journalctl --user -u rp2350-relayd@bench-a'',
      [],
      ''For PC-boot startup before login:'',
      ''  sudo loginctl enable-linger \"$USER\"'']"

definition write_unit_files :: "SystemdPaths \<Rightarrow> string \<Rightarrow> bool \<Rightarrow> (files, unit) sexc" where
  "write_unit_files paths u force =
     sbind (make_dir (sy_systemd_user_dir paths)) (\<lambda>_.
     sbind (make_dir (sy_relay_config_dir paths)) (\<lambda>_.
     sbind (write_file (sy_unit_path paths) u force) (\<lambda>_ F.
       if \<not> path_exists F (sy_config_path paths) \<or> force
       then write_file (sy_config_path paths) sample_config force F else (Inr (), F))))"

definition install_user_unit ::
    "machine \<Rightarrow> bool \<Rightarrow> string option \<Rightarrow> bool \<Rightarrow> files \<Rightarrow> string result \<times> files" where
  "install_user_unit M force python_path print_unit F =
     (case rbind (default_paths M) (\<lambda>paths.
             rbind (render_unit M python_path (Some (sy_config_path paths))) (\<lambda>u. Inr (paths, u))) of
        Inl e \<Rightarrow> (Inl e, F)
      | Inr (paths, u) \<Rightarrow>
          (if print_unit then (Inr u, F)
           else sbind (write_unit_files paths u force) (\<lambda>_. sret (install_summary paths)) F))"

section \<open>doctor\<close>

record DoctorResult =
  dr_ok :: bool
  dr_messages :: "string list"

text \<open>
  What is found of the unit file: whether it is well, and the lines. A directory in its place cannot
  be read.
\<close>

definition unit_check :: "machine \<Rightarrow> files \<Rightarrow> string \<Rightarrow> (bool \<times> string list) result" where
  "unit_check M F unit_path =
     (if \<not> path_exists F unit_path then Inr (False, [''missing unit: '' @ unit_path])
      else (case f_contents F (path_str unit_path) of
        None \<Rightarrow> Inl (PyExc ''IsADirectoryError'' unit_path)
      | Some content \<Rightarrow>
          Inr (case python_from_unit content of
             None \<Rightarrow> (False, [''unit: '' @ unit_path, ''unit ExecStart does not use python -m rp2350_relay_6ch.daemon''])
           | Some python \<Rightarrow>
               if \<not> path_exists F python then (False, [''unit: '' @ unit_path, ''missing python: '' @ python])
               else (case validate_python_imports_package M python of
                       Inr _ \<Rightarrow> (True, [''unit: '' @ unit_path, ''python imports package: '' @ python])
                     | Inl e \<Rightarrow> (False, [''unit: '' @ unit_path, exc_str e])))))"

definition doctor :: "machine \<Rightarrow> (string \<Rightarrow> pydict result) \<Rightarrow> files \<Rightarrow> string option \<Rightarrow> DoctorResult result" where
  "doctor M toml F inst =
     rbind (default_paths M) (\<lambda>paths.
     rbind (unit_check M F (sy_unit_path paths)) (\<lambda>(ok, messages).
       (case or_str inst None of
          None \<Rightarrow> Inr \<lparr>dr_ok = ok, dr_messages = messages @ [''config: '' @ sy_config_path paths]\<rparr>
        | Some name \<Rightarrow>
            (case resolve_instance_config (proc M) toml (Some name) None [] None of
               Inl e \<Rightarrow>
                 if is_RelayValidationError e
                 then Inr \<lparr>dr_ok = False, dr_messages = messages @ [''config error: '' @ exc_str e]\<rparr> else Inl e
             | Inr c \<Rightarrow>
                 Inr \<lparr>dr_ok = ok,
                      dr_messages = messages @ [''instance '' @ ic_name c @ '': '' @ ic_selector_type c @ ''='' @ ic_selector_value c
                        @ '', socket='' @ ic_socket_path c]\<rparr>))))"

end
