(* ===== verification/Systemd_Properties.thy ===== *)
theory Systemd_Properties
  imports Systemd Config_Properties
begin

text \<open>
  The statements about the user unit: what doctor reads back of a rendered unit, what installing
  leaves alone, and what a clean bill of health means.
\<close>

section \<open>Escaping\<close>

lemma unescape_plain: "c \<noteq> CHR ''%'' \<Longrightarrow> systemd_unescape_arg (c # s) = c # systemd_unescape_arg s"
  by (cases s) auto

lemma unescape_escape [simp]: "systemd_unescape_arg (systemd_escape_arg s) = s"
  by (induction s) (auto simp: unescape_plain)

lemma set_escape [simp]: "set (systemd_escape_arg s) = set s"
  by (induction s) auto

section \<open>Rendering\<close>







definition unit_head :: string where
  "unit_head = join newline
     [''[Unit]'', ''Description=RP2350 Relay daemon (%i)'', ''After=default.target'', [], ''[Service]'', ''Type=simple'',
      ''Environment=RP2350_RELAY_CONFIG='']"

definition unit_mid :: string where
  "unit_mid = join newline [[], ''EnvironmentFile=-%h/.config/rp2350-relay/%i.env'', ''ExecStart='']"

definition unit_tail :: string where
  "unit_tail = join newline
     ['' -m rp2350_relay_6ch.daemon --instance %i'', ''Restart=on-failure'', ''RestartSec=2'', [], ''[Install]'',
      ''WantedBy=default.target'', []]"




section \<open>Reading a unit back\<close>

lemma search_skip_line:
  assumes "CHR 0x0A \<notin> set l" "\<not> starts_with (l @ CHR 0x0A # r) ''ExecStart=''"
  shows "search_lines exec_start True (l @ CHR 0x0A # r) = search_lines exec_start True r"
proof -
  have mid: "search_lines exec_start False (m @ CHR 0x0A # r) = search_lines exec_start True r" if "CHR 0x0A \<notin> set m" for m
    using that by (induction m) (subst search_lines.simps; auto)+
  from assms(2) have "exec_start (l @ CHR 0x0A # r) = None" by (simp add: exec_start_def)
  with assms(1) mid [of "tl l"] show ?thesis by (subst search_lines.simps) (cases l; auto)
qed

lemma search_skip_lines:
  assumes "\<forall>l \<in> set ls. CHR 0x0A \<notin> set l \<and> (l = [] \<or> hd l \<noteq> CHR ''E'')"
  shows "search_lines exec_start True (concat (map (\<lambda>l. l @ [CHR 0x0A]) ls) @ r) = search_lines exec_start True r"
  using assms
proof (induction ls)
  case (Cons l ls)
  then have "\<not> starts_with (l @ CHR 0x0A # concat (map (\<lambda>l. l @ [CHR 0x0A]) ls) @ r) ''ExecStart=''"
    by (cases l) auto
  with Cons search_skip_line [of l] show ?case by simp
qed simp

lemma exec_start_line:
  assumes "p \<noteq> []" "\<forall>c \<in> set p. \<not> is_space c"
  shows "exec_start (''ExecStart='' @ p @ unit_tail) = Some p"
proof -
  have sp: "takeWhile (\<lambda>c. \<not> is_space c) (p @ unit_tail) = p" "dropWhile (\<lambda>c. \<not> is_space c) (p @ unit_tail) = unit_tail"
    using assms(2) by (simp_all add: takeWhile_append2 dropWhile_append2)
      (simp_all add: unit_tail_def is_space_def)
  show ?thesis
    unfolding exec_start_def by (simp add: sp assms(1)) (simp add: unit_tail_def is_space_def word_char_def)
qed


lemma newline_char: "newline = [CHR 0x0A]"
  by code_simp

lemma python_from_rendered:
  assumes "p \<noteq> []" "\<forall>c \<in> set p. \<not> is_space c" "CHR 0x0A \<notin> set c"
  shows "python_from_unit (unit_head @ c @ unit_mid @ systemd_escape_arg p @ unit_tail) = Some p"
proof -
  let ?e = "systemd_escape_arg p" and ?nl = "CHR 0x0A :: char"
  have e: "?e \<noteq> []" "\<forall>c \<in> set ?e. \<not> is_space c"
    using assms(1) by (cases p, simp_all) (use assms(2) in simp)
  let ?last = "''ExecStart='' @ ?e @ unit_tail"
  let ?file = "''EnvironmentFile=-%h/.config/rp2350-relay/%i.env'' @ ?nl # ?last"
  let ?env = "(''Environment=RP2350_RELAY_CONFIG='' @ c) @ ?nl # ?file"
  let ?head = "[''[Unit]'', ''Description=RP2350 Relay daemon (%i)'', ''After=default.target'', [], ''[Service]'', ''Type=simple'']"
  have split: "unit_head @ c @ unit_mid @ ?e @ unit_tail = concat (map (\<lambda>l. l @ [?nl]) ?head) @ ?env"
    by (simp add: unit_head_def unit_mid_def newline_char)
  have "search_lines exec_start True ?last = Some ?e"
    using exec_start_line [OF e] by (subst search_lines.simps) simp
  then have "search_lines exec_start True ?file = Some ?e"
    by (subst search_skip_line) auto
  then have "search_lines exec_start True ?env = Some ?e"
    using assms(3) by (subst search_skip_line) auto
  then have "search_lines exec_start True (unit_head @ c @ unit_mid @ ?e @ unit_tail) = Some ?e"
    unfolding split by (subst search_skip_lines) simp_all
  then show ?thesis by (simp add: python_from_unit_def)
qed

section \<open>Properties\<close>



definition demo_machine :: machine where
  "demo_machine = \<lparr>p_environ = [(''HOME'', ''/home/lab'')], p_home_of = (\<lambda>_. None), m_cwd = ''/'',
     m_executable = ''/usr/bin/python3'', m_run = (\<lambda>_. Some (0, [], []))\<rparr>"


text \<open>Without force nothing is overwritten, step by step.\<close>

definition extends :: "files \<Rightarrow> files \<Rightarrow> bool" where
  "extends F F' \<longleftrightarrow> (\<forall>p x. f_contents F p = Some x \<longrightarrow> f_contents F' p = Some x)"

lemma make_dir_run:
  "make_dir path F = (r, F') \<Longrightarrow> f_contents F' = f_contents F"
  by (auto simp: make_dir_def split: option.splits)

lemma write_file_keeps: "write_file path content False F = (r, F') \<Longrightarrow> extends F F'"
  by (auto simp: write_file_def path_exists_def extends_def split: option.splits if_splits)

lemma write_file_Inr:
  "write_file path content False F = (Inr x, F') \<Longrightarrow>
   f_contents F (path_str path) = None \<and> F' = F\<lparr>f_contents := (f_contents F)(path_str path \<mapsto> content)\<rparr>"
  by (auto simp: write_file_def path_exists_def split: option.splits if_splits)

lemma write_unit_files_keeps: "write_unit_files paths u False F = (r, F') \<Longrightarrow> extends F F'"
  unfolding write_unit_files_def
  by (auto elim!: sbind_cases dest!: make_dir_run write_file_keeps split: if_splits simp: extends_def)

lemma write_unit_files_Inr:
  assumes "write_unit_files paths u False F = (Inr x, F')"
  shows "f_contents F (path_str (sy_unit_path paths)) = None \<and> path_exists F' (sy_config_path paths)
    \<and> f_contents F' (path_str (sy_unit_path paths)) = Some u"
  using assms unfolding write_unit_files_def sbind_Inr
  by (auto dest!: make_dir_run write_file_Inr split: if_splits simp: path_exists_def)

lemma install_cases:
  assumes "install_user_unit M force python_path False F = (r, F')"
  shows "(isl r \<and> F' = F) \<or> (\<exists>paths u r'. default_paths M = Inr paths
    \<and> render_unit M python_path (Some (sy_config_path paths)) = Inr u \<and> write_unit_files paths u force F = (r', F')
    \<and> (r' = Inr () \<longleftrightarrow> \<not> isl r))"
proof (cases "rbind (default_paths M) (\<lambda>paths.
             rbind (render_unit M python_path (Some (sy_config_path paths))) (\<lambda>u. Inr (paths, u)))")
  case (Inl e)
  with assms show ?thesis by (auto simp: install_user_unit_def)
next
  case (Inr pu)
  obtain paths u where pu: "pu = (paths, u)" by force
  obtain r' F1 where w: "write_unit_files paths u force F = (r', F1)" by force
  have "default_paths M = Inr paths" "render_unit M python_path (Some (sy_config_path paths)) = Inr u"
    using Inr pu by (auto simp: rbind_Inr)
  with assms Inr pu w show ?thesis
    by (cases r') (auto simp: install_user_unit_def sbind_def sret_def)
qed

text \<open>
  C35. Installing is careful: without \<open>--force\<close>, whatever the outcome, no file that existed is
  changed; and if installing succeeds with a unit to be written, the unit file holds the unit
  that was rendered and the configuration exists.
\<close>

theorem install_keeps_files:
  assumes "install_user_unit M False python_path False F = (r, F')"
  shows "(\<forall>p x. f_contents F p = Some x \<longrightarrow> f_contents F' p = Some x)
    \<and> (\<forall>out. r = Inr out \<longrightarrow> (\<exists>paths u. default_paths M = Inr paths
        \<and> render_unit M python_path (Some (sy_config_path paths)) = Inr u
        \<and> f_contents F (path_str (sy_unit_path paths)) = None \<and> path_exists F' (sy_config_path paths)
        \<and> f_contents F' (path_str (sy_unit_path paths)) = Some u))"
  using install_cases [OF assms] by (auto simp: extends_def dest: write_unit_files_keeps write_unit_files_Inr)

theorem install_keeps_files_witness:
  "f_contents (snd (install_user_unit demo_machine False None False
       \<lparr>f_contents = [''/home/lab/.config/rp2350-relay/config.toml'' \<mapsto> ''mine''], f_dirs = [], f_fails = (\<lambda>_. None)\<rparr>))
     ''/home/lab/.config/rp2350-relay/config.toml'' = Some ''mine''"
  using install_keeps_files [of demo_machine None "\<lparr>f_contents = [''/home/lab/.config/rp2350-relay/config.toml'' \<mapsto> ''mine''], f_dirs = [], f_fails = (\<lambda>_. None)\<rparr>",
      OF prod.collapse [symmetric]]
  by simp

lemma unit_check_ok:
  "unit_check M F p = Inr (True, ms) \<Longrightarrow> \<exists>content python. f_contents F (path_str p) = Some content
     \<and> python_from_unit content = Some python \<and> path_exists F python \<and> validate_python_imports_package M python = Inr ()"
  by (auto simp: unit_check_def split: option.splits sum.splits if_splits)

lemma doctor_cases:
  assumes "doctor M toml F inst = Inr d" "dr_ok d"
  obtains paths ms where "default_paths M = Inr paths" "unit_check M F (sy_unit_path paths) = Inr (True, ms)"
    "inst = None \<or> inst = Some [] \<or> (\<exists>name c. inst = Some name \<and> resolve_instance_config (proc M) toml (Some name) None [] None = Inr c)"
proof -
  from assms(1) obtain paths ok ms where p: "default_paths M = Inr paths"
    and u: "unit_check M F (sy_unit_path paths) = Inr (ok, ms)" by (auto simp: doctor_def rbind_Inr)
  from assms p u that [OF p] show ?thesis
    by (auto simp: doctor_def or_str_def split: option.splits sum.splits if_splits)
qed

text \<open>
  What doctor's clean bill means: the unit file is there, it starts an interpreter that
  exists and imports the package, and the instance asked for has a valid configuration.
\<close>

theorem doctor_ok_means:
  assumes "doctor M toml F inst = Inr d" "dr_ok d"
  shows "\<exists>paths content python. default_paths M = Inr paths \<and> f_contents F (path_str (sy_unit_path paths)) = Some content
    \<and> python_from_unit content = Some python \<and> path_exists F python \<and> validate_python_imports_package M python = Inr ()
    \<and> (\<forall>name. inst = Some name \<longrightarrow> name \<noteq> [] \<longrightarrow> (\<exists>c. resolve_instance_config (proc M) toml (Some name) None [] None = Inr c))"
proof -
  obtain paths ms where p: "default_paths M = Inr paths" "unit_check M F (sy_unit_path paths) = Inr (True, ms)"
    "inst = None \<or> inst = Some [] \<or> (\<exists>name c. inst = Some name \<and> resolve_instance_config (proc M) toml (Some name) None [] None = Inr c)"
    using doctor_cases [OF assms] .
  from unit_check_ok [OF p(2)] p(1,3) show ?thesis by fastforce
qed


definition demo_unit :: string where
  "demo_unit = unit_head @ ''/etc/relay.toml'' @ unit_mid @ systemd_escape_arg ''/usr/bin/python3'' @ unit_tail"

definition demo_files :: files where
  "demo_files =
     \<lparr>f_contents = [''/home/lab/.config/systemd/user/rp2350-relayd@.service'' \<mapsto> demo_unit,
        ''/usr/bin/python3'' \<mapsto> []], f_dirs = [], f_fails = (\<lambda>_. None)\<rparr>"

lemma demo_paths:
  "map_sum id (\<lambda>p. path_str (sy_unit_path p)) (default_paths demo_machine) =
     Inr ''/home/lab/.config/systemd/user/rp2350-relayd@.service''"
  by code_simp

theorem doctor_ok_means_witness:
  "\<exists>paths content. default_paths demo_machine = Inr paths \<and> f_contents demo_files (path_str (sy_unit_path paths)) = Some content
     \<and> python_from_unit content = Some ''/usr/bin/python3''"
proof -
  from demo_paths obtain paths where p: "default_paths demo_machine = Inr paths"
    "path_str (sy_unit_path paths) = ''/home/lab/.config/systemd/user/rp2350-relayd@.service''"
    by (cases "default_paths demo_machine") auto
  have u: "python_from_unit demo_unit = Some ''/usr/bin/python3''"
    unfolding demo_unit_def by (rule python_from_rendered) (simp_all add: is_space_def)
  have e: "path_exists demo_files ''/usr/bin/python3''"
    by (simp add: path_exists_def) (simp add: demo_files_def path_str_def slash_def)
  have f: "f_contents demo_files (path_str (sy_unit_path paths)) = Some demo_unit" by (simp add: p(2) demo_files_def)
  have g: "path_exists demo_files (sy_unit_path paths)" using f by (simp add: path_exists_def)
  obtain ms where "unit_check demo_machine demo_files (sy_unit_path paths) = Inr (True, ms)"
    by (simp add: unit_check_def f g u e validate_python_imports_package_def demo_machine_def)
  then have d: "\<exists>d. doctor demo_machine demo_toml demo_files None = Inr d \<and> dr_ok d"
    by (simp add: doctor_def p(1) or_str_def)
  then obtain d where "doctor demo_machine demo_toml demo_files None = Inr d" "dr_ok d" by blast
  from doctor_ok_means [OF this] p f u show ?thesis by auto
qed

end
