(* ===== verification/Relayctl.thy ===== *)
theory Relayctl
  imports Cli Daemon_Client Systemd
begin

text \<open>
  host/rp2350_relay_6ch/relayctl.py: the command line of the daemon's client. Its commands are
  the operations of a RelayDaemonClient, which a record bundles; what argparse makes of the
  command line is a record, as for the other command line.
\<close>

section \<open>The daemon client as a relay client\<close>

text \<open>It has no heartbeat; \<open>reader_close\<close> is the closing of its buffered reader.\<close>

definition daemon_client_ops ::
    "nat \<Rightarrow> 'k stream_socket \<Rightarrow> ('k, unit) sexc \<Rightarrow> 'k RelayDaemonClient relay_ops" where
  "daemon_client_ops d K reader_close =
     \<lparr>o_identity = dc_identity d K, o_capabilities = dc_capabilities d K, o_build_info = dc_build_info d K,
      o_get_relay = dc_get_relay d K, o_get_all_relays = dc_get_all_relays d K, o_set_relay = dc_set_relay d K,
      o_set_all_relays = dc_set_all_relays d K, o_pulse_relay = dc_pulse_relay d K,
      o_off_all_relays = dc_off_all_relays d K, o_status = dc_status d K, o_health = dc_health d K,
      o_transport_status = dc_transport_status d K, o_safety = dc_safety d K, o_watchdog = dc_watchdog d K,
      o_reboot = dc_reboot d K, o_bootsel = dc_bootsel d K,
      o_heartbeat = sraise (PyExc ''AttributeError'' ''heartbeat''), o_close = dc_close reader_close K\<rparr>"

section \<open>Commands\<close>

record ctl_args =
  ca_command :: string
  ca_systemd_command :: string
  ca_socket :: "string option"
  ca_instance :: "string option"
  ca_config :: "string option"
  ca_timeout :: rat
  ca_output :: string
  ca_channel :: int
  ca_state :: pyval
  ca_duration_ms :: int
  ca_pulse_ms :: int
  ca_force :: bool
  ca_python :: "string option"
  ca_print_unit :: bool

text \<open>The operating system a run meets: the machine, the files read as TOML, the socket and how long
  operations sleep.\<close>

record 'k ctl_env =
  ce_machine :: machine
  ce_toml :: "string \<Rightarrow> pydict result"
  ce_open :: "string \<Rightarrow> rat \<Rightarrow> 'k result"
  ce_socket :: "'k stream_socket"
  ce_reader_close :: "('k, unit) sexc"
  ce_depth :: nat
  ce_sleep :: "int \<Rightarrow> unit result"

definition ctl_socket_path :: "'k ctl_env \<Rightarrow> ctl_args \<Rightarrow> string result" where
  "ctl_socket_path E args =
     (case (or_str (ca_socket args) None, or_str (ca_instance args) None) of
        (None, None) \<Rightarrow> Inl (RelayValidationError ''--socket or --instance is required'')
      | (Some s, None) \<Rightarrow> Inr s
      | (_, Some i) \<Rightarrow>
          resolve_socket_for_instance (proc (ce_machine E)) (ce_toml E) (Some i) (ca_config args) (ca_socket args) None)"

definition ctl_client :: "'k ctl_env \<Rightarrow> ctl_args \<Rightarrow> 'k RelayDaemonClient result" where
  "ctl_client E args = rbind (ctl_socket_path E args) (\<lambda>path. dc_connect (ce_open E) path (ca_timeout args))"

definition ctl_ops :: "'k ctl_env \<Rightarrow> 'k RelayDaemonClient relay_ops" where
  "ctl_ops E = daemon_client_ops (ce_depth E) (ce_socket E) (ce_reader_close E)"

definition ctl_actions :: "'k ctl_env \<Rightarrow> ctl_args \<Rightarrow> (string \<times> ('k RelayDaemonClient, pydict) sexc) list" where
  "ctl_actions E args =
     (let C = ctl_ops E in
      [(''identity'', o_identity C), (''capabilities'', o_capabilities C), (''build-info'', o_build_info C),
       (''get'', o_get_relay C (PInt (ca_channel args))), (''get-all'', o_get_all_relays C),
       (''set'', o_set_relay C (PInt (ca_channel args)) (ca_state args)),
       (''set-all'', o_set_all_relays C (ca_state args)),
       (''pulse'', o_pulse_relay C (PInt (ca_channel args)) (PInt (ca_duration_ms args))),
       (''off-all'', o_off_all_relays C), (''status'', o_status C), (''health'', o_health C),
       (''transport'', o_transport_status C), (''safety'', o_safety C), (''watchdog'', o_watchdog C),
       (''reboot'', o_reboot C), (''bootsel'', o_bootsel C),
       (''daemon-status'', dc_daemon_status (ce_depth E) (ce_socket E)),
       (''smoke'', run_smoke_sequence (smoke_ops C) (ce_sleep E) (ca_pulse_ms args))])"

text \<open>\<open>with _client(args) as client\<close>: the client is closed however the action ends.\<close>

definition with_daemon :: "'k ctl_env \<Rightarrow> ctl_args \<Rightarrow> ('k RelayDaemonClient, 'a) sexc \<Rightarrow> ('k RelayDaemonClient, 'a) cmd" where
  "with_daemon E args act =
     (case ctl_client E args of
        Inl e \<Rightarrow> (Inl e, None)
      | Inr c \<Rightarrow> (case sfinally act (o_close (ctl_ops E)) c of (r, c') \<Rightarrow> (r, Some c')))"

definition cmd_systemd_install :: "'k ctl_env \<Rightarrow> ctl_args \<Rightarrow> files \<Rightarrow> pydict result \<times> files" where
  "cmd_systemd_install E args F =
     (case install_user_unit (ce_machine E) (ca_force args) (ca_python args) (ca_print_unit args) F of
        (Inl e, F') \<Rightarrow> (Inl e, F') | (Inr out, F') \<Rightarrow> (Inr [(''message'', PStr out)], F'))"

definition cmd_systemd_doctor :: "'k ctl_env \<Rightarrow> ctl_args \<Rightarrow> files \<Rightarrow> pydict result" where
  "cmd_systemd_doctor E args F =
     rbind (doctor (ce_machine E) (ce_toml E) F (ca_instance args)) (\<lambda>d.
       Inr [(''ok'', PBool (dr_ok d)), (''messages'', PList (map PStr (dr_messages d)))])"

definition ctl_command :: "'k ctl_env \<Rightarrow> ctl_args \<Rightarrow> files \<Rightarrow> pydict result \<times> 'k RelayDaemonClient option \<times> files" where
  "ctl_command E args F =
     (let command = ca_command args in
      if command = ''systemd-install'' then (case cmd_systemd_install E args F of (r, F') \<Rightarrow> (r, None, F'))
      else if command = ''systemd-doctor'' then (cmd_systemd_doctor E args F, None, F)
      else (case map_of (ctl_actions E args) command of
              Some act \<Rightarrow> (case with_daemon E args act of (r, c) \<Rightarrow> (r, c, F))
            | None \<Rightarrow> (Inl (PyExc ''KeyError'' (repr_str command)), None, F)))"

section \<open>run\<close>

text \<open>What a payload prints.\<close>

definition ctl_emit :: "ctl_args \<Rightarrow> pydict \<Rightarrow> string result" where
  "ctl_emit args payload =
     (if ca_command args = ''systemd-install'' then Inr (py_str (dget payload ''message''))
      else if ca_command args = ''systemd-doctor''
      then Inr (join newline (case dget payload ''messages'' of PList ms \<Rightarrow> map py_str ms | _ \<Rightarrow> []))
      else cli_emit (ca_output args) (ca_command args) payload)"

definition ctl_finish :: "ctl_args \<Rightarrow> pydict result \<Rightarrow> cli_outcome" where
  "ctl_finish args r =
     (case r of
        Inl e \<Rightarrow> (case cli_failure e of
                    Some (line, code) \<Rightarrow> \<lparr>out_lines = [], err_lines = [line], out_exit = Inr code\<rparr>
                  | None \<Rightarrow> \<lparr>out_lines = [], err_lines = [], out_exit = Inl e\<rparr>)
      | Inr payload \<Rightarrow>
          (case ctl_emit args payload of
             Inr line \<Rightarrow> \<lparr>out_lines = [line], err_lines = [], out_exit = Inr EXIT_OK\<rparr>
           | Inl e \<Rightarrow> \<lparr>out_lines = [], err_lines = [], out_exit = Inl e\<rparr>))"

text \<open>\<open>systemd install\<close> and \<open>systemd doctor\<close> become one command name each.\<close>

definition ctl_named :: "ctl_args \<Rightarrow> ctl_args" where
  "ctl_named args =
     (if ca_command args = ''systemd'' then args\<lparr>ca_command := ''systemd-'' @ ca_systemd_command args\<rparr> else args)"

definition ctl_run :: "'k ctl_env \<Rightarrow> ctl_args \<Rightarrow> files \<Rightarrow> cli_outcome \<times> 'k RelayDaemonClient option \<times> files" where
  "ctl_run E args0 F =
     (let args = ctl_named args0 in case ctl_command E args F of (r, c, F') \<Rightarrow> (ctl_finish args r, c, F'))"

text \<open>A doubtful unit does not fail the command: whatever doctor finds, the exit code is 0.\<close>

lemma doctor_exits_ok:
  assumes "doctor (ce_machine E) (ce_toml E) F (ca_instance args) = Inr d" "ca_command args = ''systemd''" "ca_systemd_command args = ''doctor''"
  shows "out_exit (fst (ctl_run E args F)) = Inr 0 \<and> out_lines (fst (ctl_run E args F)) = [join newline (dr_messages d)]"
  using assms by (simp add: ctl_run_def ctl_named_def ctl_command_def cmd_systemd_doctor_def ctl_finish_def ctl_emit_def dget_def
      py_str_def comp_def)

end
