(* ===== verification/Relayctl_Properties.thy ===== *)
theory Relayctl_Properties
  imports Relayctl Protocol_Properties
begin












end
