(* ===== verification/Oled.thy ===== *)
theory Oled
  imports Text "HOL-Library.Word"
begin

unbundle bit_operations_syntax

text \<open>
  scripts/generate-oled-indicator-preview.py: the renderer of the indicator's display. A frame is
  64 rows of 128 pixels. What is drawn with Pillow is the list of rectangles the script asks for, in
  order; writing the file is left out.
\<close>

section \<open>Constants\<close>

definition DISPLAY_WIDTH :: int where [simp]: "DISPLAY_WIDTH = 128"
definition DISPLAY_HEIGHT :: int where [simp]: "DISPLAY_HEIGHT = 64"
definition DISPLAY_GLYPH_WIDTH :: int where [simp]: "DISPLAY_GLYPH_WIDTH = 5"
definition DISPLAY_GLYPH_HEIGHT :: int where [simp]: "DISPLAY_GLYPH_HEIGHT = 7"
definition DISPLAY_TEXT_SPACING :: int where [simp]: "DISPLAY_TEXT_SPACING = 1"
definition DISPLAY_UI_TOP_TEXT_Y :: int where [simp]: "DISPLAY_UI_TOP_TEXT_Y = 3"
definition DISPLAY_UI_TOP_RULE_Y :: int where [simp]: "DISPLAY_UI_TOP_RULE_Y = 13"
definition DISPLAY_UI_CELL_X0 :: int where [simp]: "DISPLAY_UI_CELL_X0 = 3"
definition DISPLAY_UI_CELL_Y :: int where [simp]: "DISPLAY_UI_CELL_Y = 18"
definition DISPLAY_UI_CELL_W :: int where [simp]: "DISPLAY_UI_CELL_W = 17"
definition DISPLAY_UI_CELL_H :: int where [simp]: "DISPLAY_UI_CELL_H = 27"
definition DISPLAY_UI_CELL_PITCH :: int where [simp]: "DISPLAY_UI_CELL_PITCH = 21"
definition DISPLAY_UI_BOTTOM_RULE_Y :: int where [simp]: "DISPLAY_UI_BOTTOM_RULE_Y = 50"
definition DISPLAY_UI_STATUS_Y :: int where [simp]: "DISPLAY_UI_STATUS_Y = 54"
definition DISPLAY_UI_RULE_X0 :: int where [simp]: "DISPLAY_UI_RULE_X0 = 3"
definition DISPLAY_UI_RULE_X1 :: int where [simp]: "DISPLAY_UI_RULE_X1 = 124"
definition DISPLAY_UI_RULE_W :: int where "DISPLAY_UI_RULE_W = DISPLAY_UI_RULE_X1 - DISPLAY_UI_RULE_X0 + 1"
definition DISPLAY_UI_TEXT_X0 :: int where [simp]: "DISPLAY_UI_TEXT_X0 = 3"
definition DISPLAY_UI_TEXT_X1 :: int where [simp]: "DISPLAY_UI_TEXT_X1 = 124"
definition DISPLAY_UI_PULSE_BAR_Y :: int where [simp]: "DISPLAY_UI_PULSE_BAR_Y = 46"
definition DISPLAY_UI_PULSE_BAR_H :: int where [simp]: "DISPLAY_UI_PULSE_BAR_H = 2"
definition DISPLAY_UI_PULSE_BAR_W :: int where "DISPLAY_UI_PULSE_BAR_W = DISPLAY_UI_CELL_W - 2"
definition DISPLAY_UI_PULSE_BAR_MAX_RADIUS :: int where
  "DISPLAY_UI_PULSE_BAR_MAX_RADIUS = (DISPLAY_UI_PULSE_BAR_W + 1) div 2"

lemma derived_constants [simp]:
  "DISPLAY_UI_RULE_W = 122" "DISPLAY_UI_PULSE_BAR_W = 15" "DISPLAY_UI_PULSE_BAR_MAX_RADIUS = 8"
  by (simp_all add: DISPLAY_UI_RULE_W_def DISPLAY_UI_PULSE_BAR_W_def DISPLAY_UI_PULSE_BAR_MAX_RADIUS_def)

text \<open>The rows of a glyph, the leftmost pixel in bit 4.\<close>

definition GLYPHS :: "(char \<times> int list) list" where
  "GLYPHS =
     [(CHR ''0'', [14, 17, 19, 21, 25, 17, 14]), (CHR ''1'', [4, 12, 20, 4, 4, 4, 31]),
      (CHR ''2'', [14, 17, 1, 2, 4, 8, 31]), (CHR ''3'', [30, 1, 1, 14, 1, 1, 30]),
      (CHR ''4'', [2, 6, 10, 18, 31, 2, 2]), (CHR ''5'', [31, 16, 16, 30, 1, 1, 30]),
      (CHR ''6'', [14, 16, 16, 30, 17, 17, 14]), (CHR '':'', [0, 4, 4, 0, 4, 4, 0]),
      (CHR ''*'', [0, 21, 14, 31, 14, 21, 0]), (CHR ''A'', [14, 17, 17, 31, 17, 17, 17]),
      (CHR ''B'', [30, 17, 17, 30, 17, 17, 30]), (CHR ''C'', [15, 16, 16, 16, 16, 16, 15]),
      (CHR ''D'', [30, 17, 17, 17, 17, 17, 30]), (CHR ''E'', [31, 16, 16, 30, 16, 16, 31]),
      (CHR ''F'', [31, 16, 16, 30, 16, 16, 16]), (CHR ''G'', [15, 16, 16, 19, 17, 17, 15]),
      (CHR ''H'', [17, 17, 17, 31, 17, 17, 17]), (CHR ''I'', [31, 4, 4, 4, 4, 4, 31]),
      (CHR ''J'', [7, 2, 2, 2, 18, 18, 12]), (CHR ''K'', [17, 18, 20, 24, 20, 18, 17]),
      (CHR ''L'', [16, 16, 16, 16, 16, 16, 31]), (CHR ''M'', [17, 27, 21, 21, 17, 17, 17]),
      (CHR ''N'', [17, 25, 25, 21, 19, 19, 17]), (CHR ''O'', [14, 17, 17, 17, 17, 17, 14]),
      (CHR ''P'', [30, 17, 17, 30, 16, 16, 16]), (CHR ''Q'', [14, 17, 17, 17, 21, 18, 13]),
      (CHR ''R'', [30, 17, 17, 30, 20, 18, 17]), (CHR ''S'', [15, 16, 16, 14, 1, 1, 30]),
      (CHR ''T'', [31, 4, 4, 4, 4, 4, 4]), (CHR ''U'', [17, 17, 17, 17, 17, 17, 14]),
      (CHR ''V'', [17, 17, 17, 17, 17, 10, 4]), (CHR ''W'', [17, 17, 17, 21, 21, 21, 10]),
      (CHR ''X'', [17, 17, 10, 4, 10, 17, 17]), (CHR ''Y'', [17, 17, 10, 4, 4, 4, 4]),
      (CHR ''Z'', [31, 1, 2, 4, 8, 16, 31]), (CHR ''-'', [0, 0, 0, 31, 0, 0, 0]),
      (CHR ''/'', [1, 1, 2, 4, 8, 16, 16])]"

definition glyph_of :: "char \<Rightarrow> int list result" where
  "glyph_of c =
     (case map_of GLYPHS c of
        Some rows \<Rightarrow> Inr rows
      | None \<Rightarrow> Inl (PyExc ''ValueError'' (''unsupported glyph: '' @ repr_str [c])))"

definition glyph_bit :: "int \<Rightarrow> int \<Rightarrow> bool" where
  "glyph_bit bits col \<longleftrightarrow> bits AND push_bit (nat (DISPLAY_GLYPH_WIDTH - 1 - col)) 1 \<noteq> 0"

text \<open>The pixels of a glyph at a place, row by row.\<close>

definition glyph_pixels :: "int \<Rightarrow> int \<Rightarrow> int list \<Rightarrow> (int \<times> int) list" where
  "glyph_pixels x y rows =
     concat (map (\<lambda>(row, bits). map (\<lambda>col. (x + col, y + int row))
                    (filter (glyph_bit bits) [0 .. DISPLAY_GLYPH_WIDTH - 1]))
       (enumerate 0 rows))"

section \<open>Frames\<close>

type_synonym frame = "bool list list"

definition blank :: frame where
  "blank = replicate (nat DISPLAY_HEIGHT) (replicate (nat DISPLAY_WIDTH) False)"

definition put_pixel :: "bool \<Rightarrow> int \<Rightarrow> int \<Rightarrow> frame \<Rightarrow> frame" where
  "put_pixel v x y f =
     (if 0 \<le> x \<and> x < DISPLAY_WIDTH \<and> 0 \<le> y \<and> y < DISPLAY_HEIGHT
      then f[nat y := (f ! nat y)[nat x := v]] else f)"

definition set_pixel :: "int \<Rightarrow> int \<Rightarrow> frame \<Rightarrow> frame" where
  "set_pixel = put_pixel True"

definition clear_pixel :: "int \<Rightarrow> int \<Rightarrow> frame \<Rightarrow> frame" where
  "clear_pixel = put_pixel False"

definition draw_hline :: "int \<Rightarrow> int \<Rightarrow> int \<Rightarrow> frame \<Rightarrow> frame" where
  "draw_hline x y width = fold (\<lambda>col. set_pixel (x + col) y) [0 .. width - 1]"

definition draw_vline :: "int \<Rightarrow> int \<Rightarrow> int \<Rightarrow> frame \<Rightarrow> frame" where
  "draw_vline x y height = fold (\<lambda>row. set_pixel x (y + row)) [0 .. height - 1]"

definition clear_vline :: "int \<Rightarrow> int \<Rightarrow> int \<Rightarrow> frame \<Rightarrow> frame" where
  "clear_vline x y height = fold (\<lambda>row. clear_pixel x (y + row)) [0 .. height - 1]"

definition draw_rect :: "int \<Rightarrow> int \<Rightarrow> int \<Rightarrow> int \<Rightarrow> bool \<Rightarrow> frame \<Rightarrow> frame" where
  "draw_rect x y width height filled f =
     (if filled then fold (\<lambda>row. draw_hline x (y + row) width) [0 .. height - 1] f
      else draw_vline (x + width - 1) y height (draw_vline x y height
             (draw_hline x (y + height - 1) width (draw_hline x y width f))))"

definition draw_char :: "int \<Rightarrow> int \<Rightarrow> char \<Rightarrow> bool \<Rightarrow> frame \<Rightarrow> frame result" where
  "draw_char x y c clear f =
     rbind (glyph_of c) (\<lambda>rows. Inr (fold (\<lambda>(a, b). put_pixel (\<not> clear) a b) (glyph_pixels x y rows) f))"

text \<open>Text breaks off at the first character that would not fit.\<close>

fun draw_text_from :: "int \<Rightarrow> int \<Rightarrow> string \<Rightarrow> frame \<Rightarrow> frame result" where
  "draw_text_from x y [] f = Inr f"
| "draw_text_from x y (c # cs) f =
     (if DISPLAY_WIDTH - DISPLAY_GLYPH_WIDTH < x then Inr f
      else rbind (if c = CHR '' '' then Inr f else draw_char x y c False f)
             (draw_text_from (x + DISPLAY_GLYPH_WIDTH + DISPLAY_TEXT_SPACING) y cs))"

definition draw_text :: "int \<Rightarrow> int \<Rightarrow> string \<Rightarrow> frame \<Rightarrow> frame result" where
  "draw_text = draw_text_from"

definition draw_pulse_mark :: "int \<Rightarrow> int \<Rightarrow> bool \<Rightarrow> frame \<Rightarrow> frame" where
  "draw_pulse_mark x y filled =
     fold (\<lambda>offset f. if filled then clear_vline (x + offset + 1) y 2 (clear_vline (x + offset) y 2 f)
                 else draw_vline (x + offset + 1) y 2 (draw_vline (x + offset) y 2 f)) [0, 3]"

definition pulse_radius :: "int \<Rightarrow> int \<Rightarrow> int \<Rightarrow> int" where
  "pulse_radius duration_ms end_ms now_ms =
     (let remaining_ms = min (end_ms - now_ms) duration_ms in
      max ((remaining_ms * DISPLAY_UI_PULSE_BAR_MAX_RADIUS + duration_ms - 1) div duration_ms) 1)"

definition draw_pulse_countdown :: "int \<Rightarrow> int \<Rightarrow> int \<Rightarrow> int \<Rightarrow> frame \<Rightarrow> frame" where
  "draw_pulse_countdown cell_x duration_ms end_ms now_ms f =
     (if duration_ms = 0 \<or> end_ms \<le> now_ms then f
      else let radius = pulse_radius duration_ms end_ms now_ms;
               left = cell_x + DISPLAY_UI_CELL_W div 2 - radius + 1;
               width = radius * 2 - 1
           in fold (\<lambda>row. draw_hline left (DISPLAY_UI_PULSE_BAR_Y + row) width) [0 .. DISPLAY_UI_PULSE_BAR_H - 1] f)"

section \<open>The indicator\<close>

record PreviewState =
  ps_heading :: string
  ps_mode :: string
  ps_detail :: string
  ps_ready :: bool
  ps_state_mask :: int
  ps_pulse_mask :: int
  ps_error :: bool
  ps_timed_pulses :: bool

definition text_width :: "string \<Rightarrow> int \<Rightarrow> int" where
  "text_width s scale =
     (if s = [] then 0
      else ((DISPLAY_GLYPH_WIDTH + DISPLAY_TEXT_SPACING) * int (py_len s) - DISPLAY_TEXT_SPACING) * scale)"

definition has_bit :: "int \<Rightarrow> int \<Rightarrow> bool" where
  "has_bit m channel \<longleftrightarrow> m AND push_bit (nat channel) 1 \<noteq> 0"

definition active_mask :: "PreviewState \<Rightarrow> int" where
  "active_mask s = ps_state_mask s OR ps_pulse_mask s"

text \<open>The duration and the end of a channel's pulse, both 1000 where one is timed.\<close>

definition pulse_ms :: "PreviewState \<Rightarrow> int \<Rightarrow> int" where
  "pulse_ms s channel = (if ps_timed_pulses s \<and> has_bit (ps_pulse_mask s) channel then 1000 else 0)"

definition cell_x :: "int \<Rightarrow> int" where
  "cell_x channel = DISPLAY_UI_CELL_X0 + channel * DISPLAY_UI_CELL_PITCH"

definition draw_cell :: "PreviewState \<Rightarrow> int list \<Rightarrow> int \<Rightarrow> frame \<Rightarrow> frame result" where
  "draw_cell s pulse_now_ms channel f =
     (let cx = cell_x channel;
          filled = has_bit (active_mask s) channel;
          digit_x = cx + (DISPLAY_UI_CELL_W - DISPLAY_GLYPH_WIDTH) div 2;
          digit_y = DISPLAY_UI_CELL_Y + (DISPLAY_UI_CELL_H - DISPLAY_GLYPH_HEIGHT) div 2
      in rbind (draw_char digit_x digit_y (hd (int_str (channel + 1))) filled
                  (draw_rect cx DISPLAY_UI_CELL_Y DISPLAY_UI_CELL_W DISPLAY_UI_CELL_H filled f)) (\<lambda>f1.
           Inr (if has_bit (ps_pulse_mask s) channel
                then (let now_ms = (if nat channel < length pulse_now_ms then pulse_now_ms ! nat channel else 0)
                      in draw_pulse_countdown cx (pulse_ms s channel) (pulse_ms s channel) now_ms
                           (draw_pulse_mark (cx + 11) (DISPLAY_UI_CELL_Y + 4) filled f1))
                else f1)))"

fun rfold :: "('a \<Rightarrow> 'b \<Rightarrow> 'b result) \<Rightarrow> 'a list \<Rightarrow> 'b \<Rightarrow> 'b result" where
  "rfold g [] b = Inr b"
| "rfold g (x # xs) b = rbind (g x b) (rfold g xs)"

definition draw_label :: "bool \<Rightarrow> int \<Rightarrow> string \<Rightarrow> frame \<Rightarrow> frame result" where
  "draw_label shown offset s f =
     (if shown then draw_text (DISPLAY_UI_TEXT_X0 + offset) DISPLAY_UI_TOP_TEXT_Y s f else Inr f)"

definition draw_top :: "PreviewState \<Rightarrow> frame \<Rightarrow> frame result" where
  "draw_top s f =
     rbind (draw_label True 0 ''USB'' f) (\<lambda>f1.
     rbind (draw_label (ps_ready s) 26 ''RDY'' f1) (\<lambda>f2.
     rbind (draw_label (active_mask s \<noteq> 0) 52 ''ACT'' f2) (\<lambda>f3.
     rbind (draw_label (ps_pulse_mask s \<noteq> 0) 78 ''PLS'' f3) (\<lambda>f4.
     rbind (draw_label (ps_error s) 108 ''ERR'' f4) (\<lambda>f5.
       Inr (draw_hline DISPLAY_UI_RULE_X0 DISPLAY_UI_BOTTOM_RULE_Y DISPLAY_UI_RULE_W
              (draw_hline DISPLAY_UI_RULE_X0 DISPLAY_UI_TOP_RULE_Y DISPLAY_UI_RULE_W f5)))))))"

definition draw_status :: "PreviewState \<Rightarrow> frame \<Rightarrow> frame result" where
  "draw_status s f =
     rbind (draw_text DISPLAY_UI_TEXT_X0 DISPLAY_UI_STATUS_Y (ps_mode s) f) (\<lambda>f1.
       if ps_detail s \<noteq> []
       then draw_text (DISPLAY_UI_TEXT_X1 - text_width (ps_detail s) 1 + 1) DISPLAY_UI_STATUS_Y (ps_detail s) f1
       else Inr f1)"

definition render_frame :: "PreviewState \<Rightarrow> int list \<Rightarrow> frame result" where
  "render_frame s pulse_now_ms =
     rbind (draw_top s blank) (\<lambda>f.
     rbind (rfold (draw_cell s pulse_now_ms) [0 .. 5] f) (draw_status s))"


section \<open>Sheets: the rectangles drawn with Pillow\<close>

type_synonym color = "int \<times> int \<times> int"

definition BG :: color where "BG = (242, 243, 238)"
definition CARD_BG :: color where "CARD_BG = (225, 228, 222)"
definition CARD_BORDER :: color where "CARD_BORDER = (176, 181, 172)"
definition BEZEL :: color where "BEZEL = (22, 27, 22)"
definition OLED_OFF :: color where "OLED_OFF = (0, 0, 0)"
definition OLED_ON :: color where "OLED_ON = (232, 255, 234)"
definition SHEET_TEXT :: color where "SHEET_TEXT = (39, 47, 42)"

definition CANVAS_W :: int where "CANVAS_W = 1900"
definition CANVAS_H :: int where "CANVAS_H = 1216"
definition CARD_W :: int where "CARD_W = 584"
definition CARD_H :: int where "CARD_H = 340"
definition CARD_X :: "int list" where "CARD_X = [46, 658, 1270]"
definition CARD_Y :: "int list" where "CARD_Y = [106, 474, 842]"
definition OLED_X_OFFSET :: int where "OLED_X_OFFSET = 38"
definition OLED_Y_OFFSET :: int where "OLED_Y_OFFSET = 60"
definition OLED_SCALE :: int where "OLED_SCALE = 4"
definition OLED_OUTER_X_OFFSET :: int where "OLED_OUTER_X_OFFSET = 28"
definition OLED_OUTER_Y_OFFSET :: int where "OLED_OUTER_Y_OFFSET = 50"
definition OLED_OUTER_W :: int where "OLED_OUTER_W = 528"
definition OLED_OUTER_H :: int where "OLED_OUTER_H = 272"

text \<open>\<open>draw.rectangle(box, fill=..)\<close> or with an outline of some width.\<close>

datatype paint = Fill color | Outline color int

type_synonym rectangle = "(int \<times> int \<times> int \<times> int) \<times> paint"

record image =
  im_size :: "int \<times> int"
  im_background :: color
  im_rectangles :: "rectangle list"

definition square :: "int \<Rightarrow> int \<Rightarrow> int \<Rightarrow> color \<Rightarrow> rectangle" where
  "square x y scale c = ((x, y, x + scale - 1, y + scale - 1), Fill c)"

definition glyph_squares :: "int \<Rightarrow> int \<Rightarrow> int \<Rightarrow> color \<Rightarrow> int list \<Rightarrow> rectangle list" where
  "glyph_squares x y scale c rows =
     map (\<lambda>(a, b). square (x + a * scale) (y + b * scale) scale c) (glyph_pixels 0 0 rows)"

fun sheet_text :: "int \<Rightarrow> int \<Rightarrow> string \<Rightarrow> int \<Rightarrow> color \<Rightarrow> rectangle list result" where
  "sheet_text x y [] scale c = Inr []"
| "sheet_text x y (g # gs) scale c =
     rbind (if g = CHR '' '' then Inr [] else rbind (glyph_of g) (\<lambda>rows. Inr (glyph_squares x y scale c rows))) (\<lambda>a.
     rbind (sheet_text (x + (DISPLAY_GLYPH_WIDTH + DISPLAY_TEXT_SPACING) * scale) y gs scale c) (\<lambda>b. Inr (a @ b)))"

definition draw_centered_text :: "int \<times> int \<times> int \<times> int \<Rightarrow> string \<Rightarrow> int \<Rightarrow> color \<Rightarrow> rectangle list result" where
  "draw_centered_text = (\<lambda>(x0, y0, x1, y1) s scale c.
     sheet_text (x0 + ((x1 - x0 + 1) - text_width s scale) div 2)
       (y0 + ((y1 - y0 + 1) - DISPLAY_GLYPH_HEIGHT * scale) div 2) s scale c)"

definition paste_frame :: "frame \<Rightarrow> int \<Rightarrow> int \<Rightarrow> rectangle list" where
  "paste_frame f x0 y0 =
     ((x0, y0, x0 + DISPLAY_WIDTH * OLED_SCALE - 1, y0 + DISPLAY_HEIGHT * OLED_SCALE - 1), Fill OLED_OFF)
     # concat (map (\<lambda>(y, row). map (\<lambda>(x, enabled). square (x0 + int x * OLED_SCALE) (y0 + int y * OLED_SCALE) OLED_SCALE OLED_ON)
                  (filter snd (enumerate 0 row))) (enumerate 0 f))"

definition mk_state :: "string \<Rightarrow> string \<Rightarrow> string \<Rightarrow> bool \<Rightarrow> int \<Rightarrow> int \<Rightarrow> bool \<Rightarrow> bool \<Rightarrow> PreviewState" where
  "mk_state heading mode detail ready sm pm err timed =
     \<lparr>ps_heading = heading, ps_mode = mode, ps_detail = detail, ps_ready = ready, ps_state_mask = sm, ps_pulse_mask = pm,
      ps_error = err, ps_timed_pulses = timed\<rparr>"

definition STATES :: "PreviewState list" where
  "STATES =
     [mk_state ''BOOT'' ''BOOT'' [] False 0 0 False False,
      mk_state ''READY'' ''READY'' ''OK'' True 0 0 False False,
      mk_state ''ACTIVE 1'' ''ACTIVE'' ''OK'' True 1 0 False False,
      mk_state ''ACTIVE 1/3/6'' ''ACTIVE'' ''OK'' True 37 0 False False,
      mk_state ''PULSE 2'' ''ACTIVE'' ''P2'' True 0 2 False True,
      mk_state ''PULSE MULTI'' ''ACTIVE'' ''P*'' True 0 18 False True,
      mk_state ''ATTN ARG'' ''ATTN'' ''E:ARG'' True 0 0 True False,
      mk_state ''REBOOT'' ''REBOOT'' ''HOLD'' True 0 0 False False,
      mk_state ''FAULT'' ''FAULT'' ''E:IO'' False 0 0 True False]"

definition state_by_heading :: "string \<Rightarrow> PreviewState result" where
  "state_by_heading heading =
     (case List.find (\<lambda>s. ps_heading s = heading) STATES of
        Some s \<Rightarrow> Inr s | None \<Rightarrow> Inl (PyExc ''ValueError'' (''unknown preview state: '' @ heading)))"

definition draw_card :: "nat \<Rightarrow> PreviewState \<Rightarrow> rectangle list result" where
  "draw_card idx s =
     (let card_x = CARD_X ! (idx mod 3); card_y = CARD_Y ! (idx div 3);
          outer_x = card_x + OLED_OUTER_X_OFFSET; outer_y = card_y + OLED_OUTER_Y_OFFSET;
          card = (card_x, card_y, card_x + CARD_W - 1, card_y + CARD_H - 1)
      in rbind (draw_centered_text (card_x, card_y + 12, card_x + CARD_W - 1, card_y + 46) (ps_heading s) 3 SHEET_TEXT) (\<lambda>t.
         rbind (render_frame s []) (\<lambda>f.
           Inr ([(card, Fill CARD_BG), (card, Outline CARD_BORDER 2)] @ t
             @ [((outer_x, outer_y, outer_x + OLED_OUTER_W - 1, outer_y + OLED_OUTER_H - 1), Fill BEZEL),
                ((outer_x + 4, outer_y + 4, outer_x + OLED_OUTER_W - 5, outer_y + OLED_OUTER_H - 5), Outline (56, 66, 57) 2)]
             @ paste_frame f (card_x + OLED_X_OFFSET) (card_y + OLED_Y_OFFSET)))))"

definition draw_contact_sheet :: "image result" where
  "draw_contact_sheet =
     rbind (draw_centered_text (0, 22, CANVAS_W - 1, 82) ''OLED INDICATOR GENERATED OUTPUT PREVIEW'' 4 SHEET_TEXT) (\<lambda>t.
     rbind (rmap (\<lambda>(idx, s). draw_card idx s) (enumerate 0 STATES)) (\<lambda>cards.
       Inr \<lparr>im_size = (CANVAS_W, CANVAS_H), im_background = BG, im_rectangles = t @ concat cards\<rparr>))"

definition draw_solo_display :: "PreviewState \<Rightarrow> int list \<Rightarrow> image result" where
  "draw_solo_display s pulse_now_ms =
     rbind (render_frame s pulse_now_ms) (\<lambda>f.
       Inr \<lparr>im_size = (DISPLAY_WIDTH * OLED_SCALE, DISPLAY_HEIGHT * OLED_SCALE), im_background = OLED_OFF,
            im_rectangles = paste_frame f 0 0\<rparr>)"

record PreviewAsset =
  pa_name :: string
  pa_kind :: string
  pa_path :: string
  pa_state :: "PreviewState option"
  pa_pulse_now_ms :: "int list"

definition render_asset :: "PreviewAsset \<Rightarrow> image result" where
  "render_asset asset =
     (if pa_kind asset = ''contact-sheet'' then draw_contact_sheet
      else if pa_kind asset = ''solo'' then
        (case pa_state asset of
           None \<Rightarrow> Inl (PyExc ''ValueError'' (''solo asset '' @ repr_str (pa_name asset) @ '' must declare a state''))
         | Some s \<Rightarrow> draw_solo_display s (pa_pulse_now_ms asset))
      else Inl (PyExc ''ValueError'' (''unknown asset kind for '' @ repr_str (pa_name asset) @ '': '' @ pa_kind asset)))"

text \<open>The assets, their paths relative to docs/assets/discussions.\<close>

definition DEFAULT_ASSETS :: "PreviewAsset list result" where
  "DEFAULT_ASSETS =
     rbind (state_by_heading ''ACTIVE 1'') (\<lambda>active1.
     rbind (state_by_heading ''PULSE 2'') (\<lambda>pulse2.
       Inr [\<lparr>pa_name = ''contact-sheet'', pa_kind = ''contact-sheet'',
             pa_path = ''oled-indicator-ui-generated-output-preview.png'', pa_state = None, pa_pulse_now_ms = []\<rparr>,
            \<lparr>pa_name = ''active-1'', pa_kind = ''solo'', pa_path = ''oled-indicator-ui-active-1.png'',
             pa_state = Some active1, pa_pulse_now_ms = []\<rparr>,
            \<lparr>pa_name = ''pulse-2'', pa_kind = ''solo'', pa_path = ''oled-indicator-ui-pulse-2.png'',
             pa_state = Some pulse2, pa_pulse_now_ms = []\<rparr>,
            \<lparr>pa_name = ''active-1-pulse-2-3'', pa_kind = ''solo'', pa_path = ''oled-indicator-ui-active-1-pulse-2-3.png'',
             pa_state = Some (mk_state ''ACTIVE 1 PULSE 2/3'' ''ACTIVE'' ''P*'' True 1 6 False True),
             pa_pulse_now_ms = [0, 500, 0, 0, 0, 0]\<rparr>]))"

definition selected_assets :: "string option \<Rightarrow> PreviewAsset list result" where
  "selected_assets name =
     rbind DEFAULT_ASSETS (\<lambda>assets.
       Inr (case name of
              Some (c # cs) \<Rightarrow> filter (\<lambda>a. pa_name a = c # cs) assets
            | _ \<Rightarrow> assets))"

section \<open>A run\<close>

text \<open>The files a run has written, the latest last; each is also printed by its path.\<close>

type_synonym written = "(string \<times> image) list"

fun write_assets :: "PreviewAsset list \<Rightarrow> written \<Rightarrow> unit result \<times> written" where
  "write_assets [] W = (Inr (), W)"
| "write_assets (a # rest) W =
     (case render_asset a of
        Inl e \<Rightarrow> (Inl e, W)
      | Inr im \<Rightarrow> write_assets rest (W @ [(pa_path a, im)]))"

definition list_lines :: "PreviewAsset list \<Rightarrow> string list" where
  "list_lines = map (\<lambda>a. pa_name a @ '': '' @ pa_path a)"

text \<open>The end of a run, the lines it prints and the files it writes.\<close>

definition preview_main :: "string option \<Rightarrow> bool \<Rightarrow> unit result \<times> string list \<times> written" where
  "preview_main name list_assets =
     (case (DEFAULT_ASSETS, selected_assets name) of
        (Inr assets, Inr chosen) \<Rightarrow>
          (if list_assets then (Inr (), list_lines assets, [])
           else (case write_assets chosen [] of (r, W) \<Rightarrow> (r, map fst W, W)))
      | (Inl e, _) \<Rightarrow> (Inl e, [], [])
      | (_, Inl e) \<Rightarrow> (Inl e, [], []))"

end
