(* ===== verification/Oled_Properties.thy ===== *)
theory Oled_Properties
  imports Oled
begin

text \<open>
  The statements about the renderer: what each drawing step touches, and with it what a frame
  shows of the relays.
\<close>

section \<open>Pixels\<close>

definition wf_frame :: "frame \<Rightarrow> bool" where
  "wf_frame f \<longleftrightarrow> length f = 64 \<and> (\<forall>r \<in> set f. length r = 128)"

definition on_screen :: "int \<Rightarrow> int \<Rightarrow> bool" where
  "on_screen x y \<longleftrightarrow> 0 \<le> x \<and> x < 128 \<and> 0 \<le> y \<and> y < 64"

definition lit :: "frame \<Rightarrow> int \<Rightarrow> int \<Rightarrow> bool" where
  "lit f x y \<longleftrightarrow> on_screen x y \<and> f ! nat y ! nat x"

lemma wf_blank [simp]: "wf_frame blank" "\<not> lit blank x y"
  by (auto simp: wf_frame_def blank_def lit_def on_screen_def)

lemma wf_put_pixel [simp]: "wf_frame f \<Longrightarrow> wf_frame (put_pixel v x y f)"
  by (auto simp: wf_frame_def put_pixel_def dest!: set_update_subset_insert [THEN subsetD])

lemma lit_put_pixel [simp]:
  "wf_frame f \<Longrightarrow> lit (put_pixel v a b f) x y = (if x = a \<and> y = b \<and> on_screen a b then v else lit f x y)"
  by (cases "x = a"; cases "y = b")
    (auto simp: lit_def put_pixel_def on_screen_def wf_frame_def nth_list_update eq_nat_nat_iff)

text \<open>A step touches only pixels of a region.\<close>

definition touches :: "(int \<Rightarrow> int \<Rightarrow> bool) \<Rightarrow> (frame \<Rightarrow> frame) \<Rightarrow> bool" where
  "touches R m \<longleftrightarrow> (\<forall>f. wf_frame f \<longrightarrow> wf_frame (m f) \<and> (\<forall>x y. \<not> R x y \<longrightarrow> lit (m f) x y = lit f x y))"

lemma touchesD: "touches R m \<Longrightarrow> wf_frame f \<Longrightarrow> wf_frame (m f)" "touches R m \<Longrightarrow> wf_frame f \<Longrightarrow> \<not> R x y \<Longrightarrow> lit (m f) x y = lit f x y"
  by (auto simp: touches_def)

lemma touches_put: "R x y \<Longrightarrow> touches R (put_pixel v x y)"
  by (auto simp: touches_def)

lemma touches_comp: "touches R m \<Longrightarrow> touches R n \<Longrightarrow> touches R (\<lambda>f. n (m f))"
  by (auto simp: touches_def)

lemma touches_fold: "(\<And>a. a \<in> set xs \<Longrightarrow> touches R (g a)) \<Longrightarrow> touches R (fold g xs)"
  by (induction xs) (auto simp: touches_def)

lemma touches_mono: "touches R m \<Longrightarrow> (\<And>x y. R x y \<Longrightarrow> S x y) \<Longrightarrow> touches S m"
  unfolding touches_def by blast

definition box :: "int \<Rightarrow> int \<Rightarrow> int \<Rightarrow> int \<Rightarrow> int \<Rightarrow> int \<Rightarrow> bool" where
  "box x0 y0 w h x y \<longleftrightarrow> x0 \<le> x \<and> x < x0 + w \<and> y0 \<le> y \<and> y < y0 + h"

lemma touches_lines:
  "touches (box x y w 1) (draw_hline x y w)" "touches (box x y 1 h) (draw_vline x y h)" "touches (box x y 1 h) (clear_vline x y h)"
  unfolding draw_hline_def draw_vline_def clear_vline_def set_pixel_def clear_pixel_def
  by (rule touches_fold, rule touches_put, simp add: box_def)+

lemma lit_hline:
  assumes "wf_frame f"
  shows "lit (draw_hline a b w f) x y \<longleftrightarrow> lit f x y \<or> on_screen x y \<and> box a b w 1 x y"
proof -
  have "wf_frame f \<Longrightarrow> lit (fold (\<lambda>col. set_pixel (a + col) b) cs f) x y \<longleftrightarrow> lit f x y \<or> on_screen x y \<and> y = b \<and> x - a \<in> set cs" for cs
    by (induction cs arbitrary: f) (auto simp: set_pixel_def)
  from this [OF assms] show ?thesis by (auto simp: draw_hline_def box_def)
qed


lemma touches_hlines:
  "touches (box x y w h) (fold (\<lambda>row. draw_hline x (y + row) w) [0 .. h - 1])"
  by (rule touches_fold, rule touches_mono [OF touches_lines(1)]) (simp add: box_def)

lemma lit_rows:
  assumes "wf_frame f"
  shows "lit (fold (\<lambda>row. draw_hline a (b + row) w) [0 .. h - 1] f) x y \<longleftrightarrow> lit f x y \<or> on_screen x y \<and> box a b w h x y"
proof -
  have "wf_frame f \<Longrightarrow>
      lit (fold (\<lambda>row. draw_hline a (b + row) w) rs f) x y \<longleftrightarrow> lit f x y \<or> on_screen x y \<and> a \<le> x \<and> x < a + w \<and> y - b \<in> set rs" for rs
    by (induction rs arbitrary: f) (auto simp: lit_hline touchesD(1) [OF touches_lines(1)] box_def)
  from this [OF assms] show ?thesis by (auto simp: box_def)
qed

lemma touches_outline:
  assumes "\<And>a b. box x y w 1 a b \<or> box x (y + h - 1) w 1 a b \<or> box x y 1 h a b \<or> box (x + w - 1) y 1 h a b \<Longrightarrow> R a b"
  shows "touches R (draw_rect x y w h False)"
proof -
  have h: "touches R (draw_hline x y w)" "touches R (draw_hline x (y + h - 1) w)"
    by (rule touches_mono [OF touches_lines(1)], simp add: assms)+
  have v: "touches R (draw_vline x y h)" "touches R (draw_vline (x + w - 1) y h)"
    by (rule touches_mono [OF touches_lines(2)], simp add: assms)+
  show ?thesis using touches_comp [OF touches_comp [OF touches_comp [OF h] v(1)] v(2)]
    by (simp add: draw_rect_def touches_def)
qed

lemma touches_rect:
  assumes "0 < w" "0 < h"
  shows "touches (box x y w h) (draw_rect x y w h v)"
proof (cases v)
  case True
  then show ?thesis using touches_hlines by (simp add: draw_rect_def touches_def)
next
  case False
  have "touches (box x y w h) (draw_rect x y w h False)"
    by (rule touches_outline) (use assms in \<open>auto simp: box_def\<close>)
  with False show ?thesis by simp
qed

text \<open>The inside of a rectangle: lit where it is filled, left alone where it is not.\<close>

lemma lit_rect_inside:
  assumes "wf_frame f" "x0 < x" "x < x0 + w - 1" "y0 < y" "y < y0 + h - 1" "on_screen x y"
  shows "lit (draw_rect x0 y0 w h v f) x y = (v \<or> lit f x y)"
proof (cases v)
  case True
  then show ?thesis using assms by (simp add: draw_rect_def lit_rows box_def)
next
  case False
  have "touches (\<lambda>a b. \<not> (x0 < a \<and> a < x0 + w - 1 \<and> y0 < b \<and> b < y0 + h - 1)) (draw_rect x0 y0 w h False)"
    by (rule touches_outline) (simp add: box_def, arith)
  from touchesD(2) [OF this assms(1), of x y] False assms(2-5) show ?thesis by simp
qed

section \<open>Glyphs and text\<close>

definition rtouches :: "(int \<Rightarrow> int \<Rightarrow> bool) \<Rightarrow> (frame \<Rightarrow> frame result) \<Rightarrow> bool" where
  "rtouches R m \<longleftrightarrow>
     (\<forall>f f'. wf_frame f \<longrightarrow> m f = Inr f' \<longrightarrow> wf_frame f' \<and> (\<forall>x y. \<not> R x y \<longrightarrow> lit f' x y = lit f x y))"

lemma rtouchesD:
  "rtouches R m \<Longrightarrow> wf_frame f \<Longrightarrow> m f = Inr f' \<Longrightarrow> wf_frame f'"
  "rtouches R m \<Longrightarrow> wf_frame f \<Longrightarrow> m f = Inr f' \<Longrightarrow> \<not> R x y \<Longrightarrow> lit f' x y = lit f x y"
  unfolding rtouches_def by blast+

lemma rtouches_mono: "rtouches R m \<Longrightarrow> (\<And>x y. R x y \<Longrightarrow> S x y) \<Longrightarrow> rtouches S m"
  unfolding rtouches_def by blast

lemma rtouches_Inr: "touches R m \<Longrightarrow> rtouches R (\<lambda>f. Inr (m f))"
  by (auto simp: rtouches_def touches_def)

lemma rtouchesI:
  "(\<And>f f'. wf_frame f \<Longrightarrow> m f = Inr f' \<Longrightarrow> wf_frame f' \<and> (\<forall>x y. \<not> R x y \<longrightarrow> lit f' x y = lit f x y)) \<Longrightarrow> rtouches R m"
  by (simp add: rtouches_def)

lemma rtouches_bind:
  assumes m: "rtouches R m" and n: "rtouches R n"
  shows "rtouches R (\<lambda>f. rbind (m f) n)"
proof (rule rtouchesI)
  fix f f'
  assume f: "wf_frame f" and "rbind (m f) n = Inr f'"
  from this(2) obtain g where g: "m f = Inr g" "n g = Inr f'" by (cases "m f") auto
  have wf: "wf_frame g" by (rule rtouchesD(1) [OF m f g(1)])
  show "wf_frame f' \<and> (\<forall>x y. \<not> R x y \<longrightarrow> lit f' x y = lit f x y)"
    using rtouchesD [OF n wf g(2)] rtouchesD(2) [OF m f g(1)] by auto
qed

lemma rtouches_rfold: "(\<And>a. a \<in> set xs \<Longrightarrow> rtouches R (g a)) \<Longrightarrow> rtouches R (rfold g xs)"
proof (induction xs)
  case Nil
  show ?case by (simp add: rtouches_def)
next
  case (Cons a xs)
  have "rtouches R (\<lambda>f. rbind (g a f) (rfold g xs))" using Cons by (intro rtouches_bind) auto
  then show ?case by (simp add: rtouches_def)
qed

lemma glyph_heights: "\<forall>(c, rows) \<in> set GLYPHS. length rows = 7"
  by (simp add: GLYPHS_def)

lemma glyph_of_height: "glyph_of c = Inr rows \<Longrightarrow> length rows = 7"
  using glyph_heights by (auto simp: glyph_of_def split: option.splits dest!: map_of_SomeD)

lemma glyph_pixels_in: "(a, b) \<in> set (glyph_pixels x y rows) \<Longrightarrow> length rows = 7 \<Longrightarrow> box x y 5 7 a b"
  by (auto simp: glyph_pixels_def box_def in_set_enumerate_eq)

lemma touches_glyph:
  "glyph_of c = Inr rows \<Longrightarrow> touches (box x y 5 7) (fold (\<lambda>(a, b). put_pixel v a b) (glyph_pixels x y rows))"
  by (rule touches_fold) (auto intro!: touches_put dest: glyph_pixels_in glyph_of_height)

lemma rtouches_char: "rtouches (box x y 5 7) (draw_char x y c v)"
proof (cases "glyph_of c")
  case (Inr rows)
  then show ?thesis using rtouches_Inr [OF touches_glyph [OF Inr]] by (simp add: draw_char_def rtouches_def)
qed (simp add: draw_char_def rtouches_def)

definition rows_from :: "int \<Rightarrow> int \<Rightarrow> int \<Rightarrow> int \<Rightarrow> bool" where
  "rows_from y0 h x y \<longleftrightarrow> y0 \<le> y \<and> y < y0 + h"

lemma rtouches_text: "rtouches (rows_from y 7) (draw_text_from x y cs)"
proof (induction cs arbitrary: x)
  case Nil
  show ?case by (simp add: rtouches_def)
next
  case (Cons c cs)
  have "rtouches (rows_from y 7) (\<lambda>f. if c = CHR '' '' then Inr f else draw_char x y c False f)"
  proof (cases "c = CHR '' ''")
    case False
    have "rtouches (rows_from y 7) (draw_char x y c False)"
      by (rule rtouches_mono [OF rtouches_char]) (simp add: box_def rows_from_def)
    with False show ?thesis by simp
  qed (simp add: rtouches_def)
  from rtouches_bind [OF this Cons.IH] show ?case by (auto simp: rtouches_def)
qed

text \<open>Text is drawn whenever every character has a glyph or is a blank.\<close>

definition drawable :: "string \<Rightarrow> bool" where
  "drawable cs \<longleftrightarrow> list_all (\<lambda>c. c = CHR '' '' \<or> map_of GLYPHS c \<noteq> None) cs"

lemma draw_text_total: "drawable cs \<Longrightarrow> \<exists>f'. draw_text_from x y cs f = Inr f'"
proof (induction cs arbitrary: x f)
  case (Cons c cs)
  then show ?case
    by (cases "map_of GLYPHS c") (auto simp: drawable_def draw_char_def glyph_of_def)
qed simp

section \<open>The countdown bar\<close>

lemma pulse_radius_bounds:
  assumes "0 < d" "now < e"
  shows "1 \<le> pulse_radius d e now" "pulse_radius d e now \<le> 8"
proof -
  define m where "m = min (e - now) d"
  have "m \<le> d" by (simp add: m_def)
  then have "m * 8 + d - 1 \<le> d * 8 + (d - 1)" by linarith
  then have "(m * 8 + d - 1) div d \<le> (d * 8 + (d - 1)) div d" using assms(1) by (rule zdiv_mono1)
  also have "\<dots> = 8" using assms(1) by (intro int_div_pos_eq [of _ _ _ "d - 1"]) simp_all
  finally show "pulse_radius d e now \<le> 8" by (simp add: pulse_radius_def Let_def m_def)
  show "1 \<le> pulse_radius d e now" by (simp add: pulse_radius_def Let_def)
qed

definition bar_region :: "int \<Rightarrow> int \<Rightarrow> int \<Rightarrow> bool" where
  "bar_region cx = box (cx + 1) 46 15 2"

lemma touches_countdown:
  assumes "0 \<le> d"
  shows "touches (bar_region cx) (draw_pulse_countdown cx d e now)"
proof (cases "d = 0 \<or> e \<le> now")
  case False
  define r where "r = pulse_radius d e now"
  have r: "1 \<le> r" "r \<le> 8" using pulse_radius_bounds [of d now e] False assms by (auto simp: r_def)
  have "touches (bar_region cx) (fold (\<lambda>row. draw_hline (cx + 9 - r) (46 + row) (r * 2 - 1)) [0 .. 2 - 1])"
    by (rule touches_mono [OF touches_hlines]) (use r in \<open>auto simp: box_def bar_region_def\<close>)
  moreover have "draw_pulse_countdown cx d e now = fold (\<lambda>row. draw_hline (cx + 9 - r) (46 + row) (r * 2 - 1)) [0 .. 2 - 1]"
    using False by (simp add: draw_pulse_countdown_def Let_def r_def [symmetric] fun_eq_iff algebra_simps)
  ultimately show ?thesis by simp
qed (auto simp: draw_pulse_countdown_def touches_def)

section \<open>A cell\<close>

definition cell_region :: "int \<Rightarrow> int \<Rightarrow> int \<Rightarrow> bool" where
  "cell_region ch = box (cell_x ch) 18 17 31"

definition digit_region :: "int \<Rightarrow> int \<Rightarrow> int \<Rightarrow> bool" where
  "digit_region ch = box (cell_x ch + 6) 28 5 7"

definition mark_region :: "int \<Rightarrow> int \<Rightarrow> int \<Rightarrow> bool" where
  "mark_region ch = box (cell_x ch + 11) 22 5 2"

text \<open>The face of a cell: inside its border, and clear of the digit and of the pulse mark.\<close>

definition face :: "int \<Rightarrow> int \<Rightarrow> int \<Rightarrow> bool" where
  "face ch x y \<longleftrightarrow> box (cell_x ch + 1) 19 15 25 x y \<and> \<not> digit_region ch x y \<and> \<not> mark_region ch x y"

lemma touches_mark: "touches (mark_region ch) (draw_pulse_mark (cell_x ch + 11) 22 v)"
proof -
  have m: "touches (mark_region ch) (\<lambda>f. clear_vline (cell_x ch + 11 + k + 1) 22 2 (clear_vline (cell_x ch + 11 + k) 22 2 f))"
       "touches (mark_region ch) (\<lambda>f. draw_vline (cell_x ch + 11 + k + 1) 22 2 (draw_vline (cell_x ch + 11 + k) 22 2 f))"
    if "k \<in> {0, 3}" for k
    using that
    by (safe; intro touches_comp [OF touches_mono [OF touches_lines(3)] touches_mono [OF touches_lines(3)]]
        touches_comp [OF touches_mono [OF touches_lines(2)] touches_mono [OF touches_lines(2)]];
        simp add: box_def mark_region_def)+
  show ?thesis unfolding draw_pulse_mark_def
    by (cases v; rule touches_fold; use m(1) [of 0] m(1) [of 3] m(2) [of 0] m(2) [of 3] in \<open>auto simp: add_ac\<close>)
qed

lemma pulse_ms_nonneg: "0 \<le> pulse_ms s ch" by (simp add: pulse_ms_def)

text \<open>What \<open>draw_cell\<close> draws over the rectangle.\<close>

definition cell_over :: "PreviewState \<Rightarrow> int list \<Rightarrow> int \<Rightarrow> frame \<Rightarrow> frame result" where
  "cell_over s now ch g =
     rbind (draw_char (cell_x ch + 6) 28 (hd (int_str (ch + 1))) (has_bit (active_mask s) ch) g) (\<lambda>f1.
       Inr (if has_bit (ps_pulse_mask s) ch
            then draw_pulse_countdown (cell_x ch) (pulse_ms s ch) (pulse_ms s ch)
                   (if nat ch < length now then now ! nat ch else 0)
                   (draw_pulse_mark (cell_x ch + 11) 22 (has_bit (active_mask s) ch) f1)
            else f1))"

lemma draw_cell_over:
  "draw_cell s now ch f = cell_over s now ch (draw_rect (cell_x ch) 18 17 27 (has_bit (active_mask s) ch) f)"
  by (simp add: draw_cell_def cell_over_def Let_def cong: if_cong)

lemma rtouches_over:
  "rtouches (\<lambda>x y. digit_region ch x y \<or> mark_region ch x y \<or> bar_region (cell_x ch) x y) (cell_over s now ch)"
  (is "rtouches ?R _")
proof -
  have 1: "rtouches ?R (draw_char (cell_x ch + 6) 28 c v)" for c v
    by (rule rtouches_mono [OF rtouches_char]) (simp add: digit_region_def)
  have 2: "touches ?R (\<lambda>f. draw_pulse_countdown (cell_x ch) (pulse_ms s ch) (pulse_ms s ch) n
              (draw_pulse_mark (cell_x ch + 11) 22 v f))" for n v
    by (rule touches_comp [OF touches_mono [OF touches_mark] touches_mono [OF touches_countdown [OF pulse_ms_nonneg]]]) simp_all
  have 3: "touches ?R (\<lambda>f. f)" by (simp add: touches_def)
  show ?thesis unfolding cell_over_def
    by (cases "has_bit (ps_pulse_mask s) ch") (simp_all add: rtouches_bind [OF 1 rtouches_Inr [OF 2]] rtouches_bind [OF 1 rtouches_Inr [OF 3]])
qed

lemma rtouches_cell: "rtouches (cell_region ch) (draw_cell s now ch)"
proof -
  have 1: "rtouches (cell_region ch) (cell_over s now ch)"
    by (rule rtouches_mono [OF rtouches_over])
      (auto simp: cell_region_def digit_region_def mark_region_def bar_region_def box_def)
  have 2: "touches (cell_region ch) (draw_rect (cell_x ch) 18 17 27 v)" for v
    by (rule touches_mono [OF touches_rect]) (auto simp: cell_region_def box_def)
  show ?thesis using 1 touchesD [OF 2] unfolding rtouches_def draw_cell_over by metis
qed

lemma cell_face:
  assumes "wf_frame f" "draw_cell s now ch f = Inr f'" "face ch x y" "0 \<le> ch" "ch < 6" "\<not> lit f x y"
  shows "lit f' x y = has_bit (active_mask s) ch"
proof -
  let ?g = "draw_rect (cell_x ch) 18 17 27 (has_bit (active_mask s) ch) f"
  have on: "on_screen x y" using assms(3-5) by (simp add: face_def box_def on_screen_def cell_x_def)
  have wf: "wf_frame ?g" by (rule touchesD(1) [OF touches_rect assms(1)]) simp_all
  have "lit f' x y = lit ?g x y"
    by (rule rtouchesD(2) [OF rtouches_over wf assms(2) [unfolded draw_cell_over]])
      (use assms(3) in \<open>auto simp: face_def bar_region_def box_def\<close>)
  also have "\<dots> = (has_bit (active_mask s) ch \<or> lit f x y)"
    by (rule lit_rect_inside [OF assms(1)]) (use assms(3) on in \<open>auto simp: face_def box_def\<close>)
  finally show ?thesis using assms(6) by simp
qed

lemma cell_regions_disjoint: "cell_region ch x y \<Longrightarrow> cell_region ch' x y \<Longrightarrow> ch = ch'"
  by (auto simp: cell_region_def box_def cell_x_def)

lemma face_in_cell: "face ch x y \<Longrightarrow> cell_region ch x y"
  by (auto simp: face_def cell_region_def box_def)

lemma rtouches_cells: "rtouches (\<lambda>x y. \<exists>c \<in> set chs. cell_region c x y) (rfold (draw_cell s now) chs)"
  by (rule rtouches_rfold, rule rtouches_mono [OF rtouches_cell]) auto

lemma cells_face:
  "\<lbrakk>rfold (draw_cell s now) chs f = Inr f'; wf_frame f; distinct chs; ch \<in> set chs; 0 \<le> ch; ch < 6; face ch x y; \<not> lit f x y\<rbrakk>
   \<Longrightarrow> lit f' x y = has_bit (active_mask s) ch"
proof (induction chs arbitrary: f)
  case (Cons c cs)
  from Cons.prems(1) obtain g where g: "draw_cell s now c f = Inr g" "rfold (draw_cell s now) cs g = Inr f'"
    by (cases "draw_cell s now c f") auto
  have wf: "wf_frame g" by (rule rtouchesD(1) [OF rtouches_cell Cons.prems(2) g(1)])
  show ?case
  proof (cases "ch = c")
    case True
    have "\<not> (\<exists>c \<in> set cs. cell_region c x y)"
      using Cons.prems(3) True cell_regions_disjoint face_in_cell [OF Cons.prems(7)] by auto
    then have "lit f' x y = lit g x y" by (rule rtouchesD(2) [OF rtouches_cells wf g(2)])
    with cell_face [OF Cons.prems(2) g(1)] True Cons.prems(5-8) show ?thesis by simp
  next
    case False
    then have "\<not> cell_region c x y" using cell_regions_disjoint face_in_cell [OF Cons.prems(7)] by blast
    then have "lit g x y = lit f x y" by (rule rtouchesD(2) [OF rtouches_cell Cons.prems(2) g(1)])
    with Cons.IH [OF g(2) wf] Cons.prems(3-8) False show ?thesis by simp
  qed
qed simp

section \<open>A frame\<close>

definition top_region :: "int \<Rightarrow> int \<Rightarrow> bool" where
  "top_region x y \<longleftrightarrow> y < 18 \<or> y = 50"

definition status_region :: "int \<Rightarrow> int \<Rightarrow> bool" where
  "status_region x y \<longleftrightarrow> 54 \<le> y"

lemma rtouches_label: "rtouches top_region (draw_label shown k cs)"
proof -
  have "rtouches top_region (draw_text_from (3 + k) 3 cs)"
    by (rule rtouches_mono [OF rtouches_text]) (simp add: rows_from_def top_region_def)
  then show ?thesis by (auto simp: draw_label_def draw_text_def rtouches_def)
qed

lemma rtouches_top: "rtouches top_region (draw_top s)"
proof -
  have "touches top_region (draw_hline 3 13 122)" "touches top_region (draw_hline 3 50 122)"
    by (rule touches_mono [OF touches_lines(1)], simp add: box_def top_region_def)+
  then have r: "rtouches top_region (\<lambda>f. Inr (draw_hline 3 50 122 (draw_hline 3 13 122 f)))"
    by (intro rtouches_Inr) (rule touches_comp)
  show ?thesis unfolding draw_top_def
    by (rule rtouches_bind [OF rtouches_label rtouches_bind [OF rtouches_label rtouches_bind [OF rtouches_label
          rtouches_bind [OF rtouches_label rtouches_bind [OF rtouches_label]]]]]) (use r in simp)
qed

lemma rtouches_status: "rtouches status_region (draw_status s)"
proof -
  have t: "rtouches status_region (draw_text x DISPLAY_UI_STATUS_Y cs)" for x cs
    unfolding draw_text_def by (rule rtouches_mono [OF rtouches_text]) (simp add: rows_from_def status_region_def)
  then show ?thesis unfolding draw_status_def
    using rtouches_bind [OF t t] rtouches_bind [OF t rtouches_Inr, of "\<lambda>f. f"]
    by (cases "ps_detail s = []") (simp_all add: touches_def)
qed

text \<open>Nothing but a character without a glyph stops a frame.\<close>

lemma draw_char_total: "map_of GLYPHS c \<noteq> None \<Longrightarrow> \<exists>f'. draw_char x y c v f = Inr f'"
  by (auto simp: draw_char_def glyph_of_def)

lemma draw_label_total: "drawable cs \<Longrightarrow> \<exists>f'. draw_label v k cs f = Inr f'"
  by (simp add: draw_label_def draw_text_def draw_text_total)

lemma label_strings: "drawable ''USB''" "drawable ''RDY''" "drawable ''ACT''" "drawable ''PLS''" "drawable ''ERR''"
  by (simp_all add: drawable_def GLYPHS_def)

lemma draw_top_total: "\<exists>f'. draw_top s f = Inr f'"
proof -
  have ex: "\<exists>f'. m f = Inr f' \<Longrightarrow> (\<And>g. \<exists>f'. n g = Inr f') \<Longrightarrow> \<exists>f'. rbind (m f) n = Inr f'"
    for m :: "frame \<Rightarrow> frame result" and n :: "frame \<Rightarrow> frame result" and f by auto
  show ?thesis unfolding draw_top_def
    by (intro ex draw_label_total label_strings) auto
qed

lemma draw_status_total: "drawable (ps_mode s) \<Longrightarrow> drawable (ps_detail s) \<Longrightarrow> \<exists>f'. draw_status s f = Inr f'"
  unfolding draw_status_def draw_text_def
  using draw_text_total [of "ps_mode s" DISPLAY_UI_TEXT_X0 DISPLAY_UI_STATUS_Y f] draw_text_total [of "ps_detail s"]
  by auto

lemma cell_over_total:
  assumes "map_of GLYPHS (hd (int_str (c + 1))) \<noteq> None"
  shows "\<exists>g. cell_over s now c f = Inr g"
proof -
  from draw_char_total [OF assms] obtain g
    where "draw_char (cell_x c + 6) 28 (hd (int_str (c + 1))) (has_bit (active_mask s) c) f = Inr g" by blast
  then show ?thesis unfolding cell_over_def by simp
qed

lemma draw_cells_total:
  "(\<And>c. c \<in> set chs \<Longrightarrow> map_of GLYPHS (hd (int_str (c + 1))) \<noteq> None) \<Longrightarrow> \<exists>f'. rfold (draw_cell s now) chs f = Inr f'"
proof (induction chs arbitrary: f)
  case (Cons c cs)
  from cell_over_total [OF Cons.prems [of c]] obtain g where g: "draw_cell s now c f = Inr g"
    unfolding draw_cell_over by (meson list.set_intros(1))
  have "\<exists>f'. rfold (draw_cell s now) cs g = Inr f'" by (rule Cons.IH) (simp add: Cons.prems)
  with g show ?case by simp
qed simp

lemma channel_digits: "c \<in> set [0 .. 5] \<Longrightarrow> map_of GLYPHS (hd (int_str (c + 1))) \<noteq> None"
proof -
  assume "c \<in> set [0 .. 5]"
  then have "c \<in> {0, 1, 2, 3, 4, 5}" by auto
  moreover have "hd (int_str 1) = CHR ''1''" "hd (int_str 2) = CHR ''2''" "hd (int_str 3) = CHR ''3''"
    "hd (int_str 4) = CHR ''4''" "hd (int_str 5) = CHR ''5''" "hd (int_str 6) = CHR ''6''"
    by code_simp+
  ultimately show ?thesis by (auto simp: GLYPHS_def)
qed

lemma drawable_details: "drawable []" "drawable (c # cs) = ((c = CHR '' '' \<or> map_of GLYPHS c \<noteq> None) \<and> drawable cs)"
  by (simp_all add: drawable_def)

lemma render_frame_relays:
  assumes "drawable (ps_mode s)" "drawable (ps_detail s)"
  shows "\<exists>f. render_frame s now = Inr f \<and> wf_frame f
           \<and> list_all (\<lambda>ch. \<forall>x y. face ch x y \<longrightarrow> lit f x y = has_bit (active_mask s) ch) [0 .. 5]"
proof -
  obtain f1 where f1: "draw_top s blank = Inr f1" using draw_top_total by blast
  obtain f2 where f2: "rfold (draw_cell s now) [0 .. 5] f1 = Inr f2"
    using draw_cells_total [OF channel_digits] by blast
  obtain f where f: "draw_status s f2 = Inr f" using draw_status_total [OF assms] by blast
  have wf1: "wf_frame f1" by (rule rtouchesD(1) [OF rtouches_top wf_blank(1) f1])
  have wf2: "wf_frame f2" by (rule rtouchesD(1) [OF rtouches_cells wf1 f2])
  have "lit f x y = has_bit (active_mask s) ch" if c: "ch \<in> set [0 .. 5]" and p: "face ch x y" for ch x y
  proof -
    have "\<not> lit f1 x y"
      using rtouchesD(2) [OF rtouches_top wf_blank(1) f1, of x y] p by (simp add: top_region_def face_def box_def)
    then have "lit f2 x y = has_bit (active_mask s) ch"
      by (intro cells_face [OF f2 wf1 _ c _ _ p]) (use c in auto)
    moreover have "lit f x y = lit f2 x y"
      by (rule rtouchesD(2) [OF rtouches_status wf2 f]) (use p in \<open>simp add: status_region_def face_def box_def\<close>)
    ultimately show ?thesis by simp
  qed
  moreover have "wf_frame f" by (rule rtouchesD(1) [OF rtouches_status wf2 f])
  moreover have "render_frame s now = Inr f" using f1 f2 f by (simp add: render_frame_def)
  ultimately show ?thesis by (auto simp: list_all_iff)
qed

text \<open>
  C36. A frame shows every relay. If the mode and the detail of the indicator can be drawn (each
  character a blank or one with a glyph), the renderer returns a frame of 64 rows of 128 pixels for
  any countdown times, and in each of the six cells the face (inside the border, clear of the digit
  and of the pulse mark) is lit exactly where the channel's bit is set in the state mask or in the
  pulse mask. The labels, the rules, the status line and the countdown bars of the other channels
  never reach it.
\<close>

theorem frame_shows_relays:
  assumes "drawable (ps_mode s)" "drawable (ps_detail s)"
  shows "\<exists>f. render_frame s now = Inr f \<and> wf_frame f
           \<and> list_all (\<lambda>ch. \<forall>x y. face ch x y \<longrightarrow> lit f x y = has_bit (active_mask s) ch) [0 .. 5]"
  by (rule render_frame_relays [OF assms])

theorem frame_shows_relays_witness:
  "\<exists>f. render_frame (STATES ! 4) [0, 500] = Inr f \<and> wf_frame f \<and> lit f 25 20 \<and> \<not> lit f 4 20"
proof -
  have s: "ps_mode (STATES ! 4) = ''ACTIVE''" "ps_detail (STATES ! 4) = ''P2''" "active_mask (STATES ! 4) = 2"
    by (simp_all add: STATES_def mk_state_def active_mask_def)
  have b: "has_bit 2 1" "\<not> has_bit 2 0" by (simp_all add: has_bit_def)
  have p: "face 1 25 20" "face 0 4 20" by (simp_all add: face_def box_def cell_x_def digit_region_def mark_region_def)
  have "drawable ''ACTIVE''" "drawable ''P2''" by (simp_all add: drawable_def GLYPHS_def)
  with frame_shows_relays [of "STATES ! 4" "[0, 500]"] s obtain f where f: "render_frame (STATES ! 4) [0, 500] = Inr f" "wf_frame f"
    "list_all (\<lambda>ch. \<forall>x y. face ch x y \<longrightarrow> lit f x y = has_bit 2 ch) [0 .. 5]" by auto
  from f(3) have "lit f 25 20 = has_bit 2 1" "lit f 4 20 = has_bit 2 0" using p by (auto simp: list_all_iff)
  with f b show ?thesis by auto
qed

section \<open>Every asset can be drawn\<close>

lemma glyph_of_drawable: "c \<noteq> CHR '' '' \<Longrightarrow> map_of GLYPHS c \<noteq> None \<Longrightarrow> \<exists>rows. glyph_of c = Inr rows"
  by (auto simp: glyph_of_def)

lemma sheet_text_total: "drawable cs \<Longrightarrow> \<exists>rs. sheet_text x y cs k col = Inr rs"
proof (induction cs arbitrary: x)
  case (Cons c cs)
  then have "drawable cs" by (simp add: drawable_details)
  from Cons.IH [OF this, of "x + 6 * k"] obtain rs where rs: "sheet_text (x + 6 * k) y cs k col = Inr rs" by blast
  show ?case
  proof (cases "c = CHR '' ''")
    case False
    with Cons.prems obtain rows where "glyph_of c = Inr rows"
      using glyph_of_drawable by (auto simp: drawable_details)
    with False rs show ?thesis by simp
  qed (use rs in simp)
qed simp

definition drawable_state :: "PreviewState \<Rightarrow> bool" where
  "drawable_state s \<longleftrightarrow> drawable (ps_heading s) \<and> drawable (ps_mode s) \<and> drawable (ps_detail s)"

lemma states_drawable: "list_all drawable_state STATES"
  by (simp add: STATES_def mk_state_def drawable_state_def drawable_def GLYPHS_def)

lemma render_frame_total: "drawable_state s \<Longrightarrow> \<exists>f. render_frame s now = Inr f"
  using render_frame_relays unfolding drawable_state_def by blast

lemma centered_text_total: "drawable cs \<Longrightarrow> \<exists>rs. draw_centered_text (x0, y0, x1, y1) cs k col = Inr rs"
  unfolding draw_centered_text_def prod.case by (rule sheet_text_total)

lemma draw_card_total:
  assumes "drawable_state s"
  shows "\<exists>c. draw_card idx s = Inr c"
proof -
  obtain f where f: "render_frame s [] = Inr f" using render_frame_total [OF assms] by blast
  have "drawable (ps_heading s)" using assms by (simp add: drawable_state_def)
  note t = centered_text_total [OF this]
  show ?thesis using t [of "CARD_X ! (idx mod 3)" "CARD_Y ! (idx div 3) + 12" "CARD_X ! (idx mod 3) + CARD_W - 1"
      "CARD_Y ! (idx div 3) + 46" 3 SHEET_TEXT] f by (auto simp: draw_card_def Let_def)
qed

lemma rmap_total: "(\<And>x. x \<in> set xs \<Longrightarrow> \<exists>y. g x = Inr y) \<Longrightarrow> \<exists>ys. rmap g xs = Inr ys"
  by (induction xs) force+

lemma contact_sheet_total: "\<exists>im. draw_contact_sheet = Inr im"
proof -
  have "\<exists>cards. rmap (\<lambda>(idx, s). draw_card idx s) (enumerate 0 STATES) = Inr cards"
    using states_drawable
    by (intro rmap_total) (auto simp: in_set_enumerate_eq list_all_iff intro!: draw_card_total)
  moreover have "drawable ''OLED INDICATOR GENERATED OUTPUT PREVIEW''" by (simp add: drawable_def GLYPHS_def)
  ultimately show ?thesis
    using centered_text_total [of "''OLED INDICATOR GENERATED OUTPUT PREVIEW''" 0 22 "CANVAS_W - 1" 82 4 SHEET_TEXT]
    by (auto simp: draw_contact_sheet_def)
qed

lemma solo_total: "drawable_state s \<Longrightarrow> \<exists>im. draw_solo_display s now = Inr im"
  using render_frame_total [of s now] by (auto simp: draw_solo_display_def)

lemma default_assets:
  "\<exists>assets. DEFAULT_ASSETS = Inr assets \<and> map pa_name assets = [''contact-sheet'', ''active-1'', ''pulse-2'', ''active-1-pulse-2-3'']
     \<and> list_all (\<lambda>a. \<exists>im. render_asset a = Inr im) assets"
proof -
  have st: "state_by_heading ''ACTIVE 1'' = Inr (STATES ! 2)" "state_by_heading ''PULSE 2'' = Inr (STATES ! 4)"
    by (simp_all add: state_by_heading_def STATES_def mk_state_def)
  have d: "drawable_state (STATES ! 2)" "drawable_state (STATES ! 4)"
    "drawable_state (mk_state ''ACTIVE 1 PULSE 2/3'' ''ACTIVE'' ''P*'' True 1 6 False True)"
    by (simp_all add: STATES_def mk_state_def drawable_state_def drawable_def GLYPHS_def)
  show ?thesis unfolding DEFAULT_ASSETS_def st rbind_simps
    by (rule exI, rule conjI, rule refl) (simp add: render_asset_def contact_sheet_total solo_total d)
qed

lemma write_assets_total:
  "list_all (\<lambda>a. \<exists>im. render_asset a = Inr im) as \<Longrightarrow>
   \<exists>ims. write_assets as W = (Inr (), W @ ims) \<and> map fst ims = map pa_path as"
proof (induction as arbitrary: W)
  case (Cons a as)
  then obtain im where im: "render_asset a = Inr im" by auto
  from Cons.IH [of "W @ [(pa_path a, im)]"] Cons.prems obtain ims where
    "write_assets as (W @ [(pa_path a, im)]) = (Inr (), (W @ [(pa_path a, im)]) @ ims)" "map fst ims = map pa_path as" by auto
  with im show ?case by (intro exI [of _ "(pa_path a, im) # ims"]) simp
qed simp

text \<open>
  A run of the preview script never fails. Whatever asset is asked for, it ends without an
  exception; without \<open>--list-assets\<close> it writes the selected assets and nothing else, each at its own
  path and in the order of the table; with it, it writes nothing and prints a line for each of the
  four assets.
\<close>

theorem preview_never_fails:
  "\<exists>assets chosen. DEFAULT_ASSETS = Inr assets \<and> selected_assets name = Inr chosen \<and> length assets = 4
     \<and> fst (preview_main name listing) = Inr ()
     \<and> (if listing then fst (snd (preview_main name listing)) = list_lines assets \<and> snd (snd (preview_main name listing)) = []
        else map fst (snd (snd (preview_main name listing))) = map pa_path chosen)"
proof -
  obtain assets where a: "DEFAULT_ASSETS = Inr assets" "list_all (\<lambda>a. \<exists>im. render_asset a = Inr im) assets"
    and n: "map pa_name assets = [''contact-sheet'', ''active-1'', ''pulse-2'', ''active-1-pulse-2-3'']"
    by (rule exE [OF default_assets]) (elim conjE, rule that, assumption+)
  have l: "length assets = 4" using arg_cong [OF n, of length] by simp
  obtain chosen where c: "selected_assets name = Inr chosen" "set chosen \<subseteq> set assets"
    by (rule that [of "case name of Some (c # cs) \<Rightarrow> filter (\<lambda>a. pa_name a = c # cs) assets | _ \<Rightarrow> assets"])
      (simp_all add: selected_assets_def a(1) split: option.split list.split)
  from a(2) c(2) have "list_all (\<lambda>a. \<exists>im. render_asset a = Inr im) chosen" by (auto simp: list_all_iff)
  from write_assets_total [OF this, of "[]"] obtain ims where
    w: "write_assets chosen [] = (Inr (), ims)" "map fst ims = map pa_path chosen" by auto
  show ?thesis
    by (rule exI [of _ assets], rule exI [of _ chosen]) (simp add: preview_main_def a(1) c(1) l w)
qed

end
