(* ===== verification/Build_Host.thy ===== *)
theory Build_Host
  imports Prelude
begin

text \<open>
  scripts/build_host_executable.py: the name of the executable that is built, and the command
  that builds it. The platform is what the platform module answers; running PyInstaller is left out.
\<close>

record platform =
  pf_system :: string
  pf_machine :: string
  pf_python :: string
  pf_root :: string

definition machine_names :: "(string \<times> string) list" where
  "machine_names = [(''amd64'', ''x64''), (''x86_64'', ''x64''), (''aarch64'', ''arm64'')]"

definition machine_name :: "platform \<Rightarrow> string" where
  "machine_name pf =
     (let m = lower (pf_machine pf) in case map_of machine_names m of Some n \<Rightarrow> n | None \<Rightarrow> m)"

definition artifact_name :: "string \<Rightarrow> platform \<Rightarrow> string" where
  "artifact_name version pf =
     (let system = lower (pf_system pf); machine = machine_name pf;
          suffix = (if system = ''windows'' then ''windows-'' @ machine
                    else if system = ''darwin'' then ''macos-'' @ machine
                    else if system = ''linux'' then ''linux-'' @ machine
                    else system @ ''-'' @ machine)
      in ''rp2350_relay_6ch-'' @ version @ ''-'' @ suffix)"

text \<open>The arguments of the build, and the line printed after it.\<close>

definition build_command :: "string \<Rightarrow> platform \<Rightarrow> string list" where
  "build_command version pf =
     [pf_python pf, ''-m'', ''PyInstaller'', ''--clean'', ''--onefile'', ''--name'', artifact_name version pf,
      ''--specpath'', pf_root pf @ ''/build/pyinstaller-spec'', ''--paths'', ''host'', ''tools/rp2350_relay_cli.py'']"

definition build_message :: "string \<Rightarrow> platform \<Rightarrow> string" where
  "build_message version pf =
     ''Built dist/'' @ artifact_name version pf @ (if lower (pf_system pf) = ''windows'' then ''.exe'' else [])"

text \<open>Names differ where the machines differ, also across the three systems that have a name here.\<close>

lemma artifact_name_machine:
  "pf_system p = pf_system q \<Longrightarrow> artifact_name v p = artifact_name v q \<longleftrightarrow> machine_name p = machine_name q"
  by (simp add: artifact_name_def Let_def)

end
