(* ===== verification/Daemon_Start.thy ===== *)
theory Daemon_Start
  imports Daemon_Service Daemon_Client Config
begin

text \<open>
  The outside of host/rp2350_relay_6ch/daemon.py: from the arguments of the command line to a
  DaemonConfig, the socket path and what may already be there, the life of the process
  (\<open>RelayDaemon.run\<close> from the first connection to the clean-up) and the exit codes. The file system
  is what is found at the socket's path; what argparse makes of the command line is a record.
\<close>

section \<open>Arguments\<close>

text \<open>The numbers with a fraction are the floats argparse read, as Python values; None is PNone.\<close>

record daemon_args =
  da_instance :: "string option"
  da_config :: "string option"
  da_port :: "string option"
  da_serial :: "string option"
  da_socket :: "string option"
  da_baud :: "int option"
  da_timeout :: pyval
  da_retries :: "int option"
  da_reconnect_interval :: pyval
  da_wait_device :: "bool option"
  da_log_level :: "string option"

definition opt_val :: "('a \<Rightarrow> pyval) \<Rightarrow> 'a option \<Rightarrow> pyval" where
  "opt_val f x = (case x of None \<Rightarrow> PNone | Some v \<Rightarrow> f v)"

definition overrides_of :: "daemon_args \<Rightarrow> pydict" where
  "overrides_of args =
     [(''port'', opt_val PStr (da_port args)), (''serial'', opt_val PStr (da_serial args)),
      (''socket'', opt_val PStr (da_socket args)), (''baud'', opt_val PInt (da_baud args)),
      (''timeout'', da_timeout args), (''retries'', opt_val PInt (da_retries args)),
      (''reconnect_interval'', da_reconnect_interval args),
      (''wait_device'', opt_val PBool (da_wait_device args)), (''log_level'', opt_val PStr (da_log_level args))]"

definition HEARTBEAT_INTERVAL_S :: pyfloat where "HEARTBEAT_INTERVAL_S = Finite (5 / 2)"

definition config_of_instance :: "RelayInstanceConfig \<Rightarrow> DaemonConfig" where
  "config_of_instance r =
     \<lparr>selector_type = ic_selector_type r, selector_value = ic_selector_value r, socket_path = ic_socket_path r,
      cfg_baud = ic_baud r, cfg_timeout = ic_timeout r, cfg_retries = ic_retries r,
      reconnect_interval = ic_reconnect_interval r, heartbeat_interval = HEARTBEAT_INTERVAL_S,
      wait_device = ic_wait_device r\<rparr>"

definition given :: "string option \<Rightarrow> bool" where
  "given x \<longleftrightarrow> (case x of Some (c # cs) \<Rightarrow> True | _ \<Rightarrow> False)"

definition float_or :: "pyval \<Rightarrow> pyfloat \<Rightarrow> pyfloat result" where
  "float_or v d = (if v = PNone then Inr d else py_float v)"

definition or_else :: "'a option \<Rightarrow> 'a \<Rightarrow> 'a" where
  "or_else x d = (case x of None \<Rightarrow> d | Some v \<Rightarrow> v)"

definition config_from_flags :: "daemon_args \<Rightarrow> DaemonConfig result" where
  "config_from_flags args =
     (if \<not> given (da_port args) \<and> \<not> given (da_serial args)
      then Inl (RelayValidationError ''--instance or exactly one of --port/--serial is required'')
      else if \<not> given (da_socket args) then Inl (RelayValidationError ''--socket is required'')
      else rbind (float_or (da_timeout args) (Finite 2)) (\<lambda>timeout.
           rbind (float_or (da_reconnect_interval args) (Finite 1)) (\<lambda>interval.
             let retries = or_else (da_retries args) 1 in
             if timeout \<le> 0 then Inl (RelayValidationError ''--timeout must be positive'')
             else if retries < 0 then Inl (RelayValidationError ''--retries must be non-negative'')
             else if interval \<le> 0 then Inl (RelayValidationError ''--reconnect-interval must be positive'')
             else Inr \<lparr>selector_type = (if given (da_port args) then ''port'' else ''serial''),
                       selector_value = the (if given (da_port args) then da_port args else da_serial args),
                       socket_path = the (da_socket args), cfg_baud = or_else (da_baud args) 115200,
                       cfg_timeout = timeout, cfg_retries = retries, reconnect_interval = interval,
                       heartbeat_interval = HEARTBEAT_INTERVAL_S, wait_device = or_else (da_wait_device args) False\<rparr>)))"

definition resolve_args :: "process \<Rightarrow> (string \<Rightarrow> pydict result) \<Rightarrow> daemon_args \<Rightarrow> RelayInstanceConfig result" where
  "resolve_args P toml args =
     resolve_instance_config P toml (da_instance args) (da_config args) (overrides_of args) None"

definition config_from_args :: "process \<Rightarrow> (string \<Rightarrow> pydict result) \<Rightarrow> daemon_args \<Rightarrow> DaemonConfig result" where
  "config_from_args P toml args =
     (if given (da_instance args) then rbind (resolve_args P toml args) (\<lambda>r. Inr (config_of_instance r))
      else config_from_flags args)"

section \<open>The socket's path\<close>

datatype path_kind = Nothing_There | Other_File | Unix_Socket

text \<open>
  What a start meets: whether the directory of the socket can be made and kept private, whether a
  socket that is already there accepts a connection, whether it can be removed, whether a new
  one can be bound and then listened on (each an OSError if not), and how a daemon client is
  opened on it.
\<close>

record 'k start_env =
  se_make_parent :: "unit result"
  se_accepts :: bool
  se_unlink :: "unit result"
  se_bind :: "unit result"
  se_listen :: "unit result"
  se_open :: "string \<Rightarrow> rat \<Rightarrow> 'k result"
  se_socket :: "'k stream_socket"
  se_reader_close :: "('k, unit) sexc"
  se_depth :: nat

definition unlink_path :: "'k start_env \<Rightarrow> (path_kind, unit) sexc" where
  "unlink_path E = (\<lambda>k. case se_unlink E of Inl e \<Rightarrow> (Inl e, k) | Inr _ \<Rightarrow> (Inr (), Nothing_There))"

text \<open>Asking whoever listens for its status.\<close>

definition ask_status :: "'k start_env \<Rightarrow> string \<Rightarrow> pydict result" where
  "ask_status E path =
     rbind (dc_connect (se_open E) path (1 / 5)) (\<lambda>c.
       fst (sfinally (dc_daemon_status (se_depth E) (se_socket E)) (dc_close (se_reader_close E) (se_socket E)) c))"

definition running_message :: "string \<Rightarrow> string" where
  "running_message path = ''relay daemon is already running at '' @ path"

definition prepare_socket_path :: "'k start_env \<Rightarrow> string \<Rightarrow> (path_kind, unit) sexc" where
  "prepare_socket_path E path =
     sbind (lift_result (se_make_parent E)) (\<lambda>_ k.
       (case k of
          Nothing_There \<Rightarrow> (Inr (), k)
        | Other_File \<Rightarrow> (Inl (RelayTransportError (''socket path exists and is not a socket: '' @ path)), k)
        | Unix_Socket \<Rightarrow>
            (if \<not> se_accepts E then unlink_path E k
             else (case ask_status E path of
                     Inl e \<Rightarrow>
                       (Inl (if is_RelayError e
                             then RelayTransportError (''socket path is in use by a non-daemon listener: '' @ path)
                             else e), k)
                   | Inr _ \<Rightarrow> (Inl (RelayTransportError (running_message path)), k)))))"

text \<open>A path that was bound is there, whether or not listening then succeeds.\<close>

definition bind_socket :: "'k start_env \<Rightarrow> string \<Rightarrow> (path_kind, unit) sexc" where
  "bind_socket E path =
     sbind (prepare_socket_path E path) (\<lambda>_.
     sbind (lift_result (se_bind E)) (\<lambda>_ k. (se_listen E, Unix_Socket)))"

text \<open>The end of shutdown: whatever is at the path is removed, if it can be.\<close>

definition remove_path :: "'k start_env \<Rightarrow> path_kind \<Rightarrow> path_kind" where
  "remove_path E k = (if k = Nothing_There then k else snd (unlink_path E k))"

section \<open>The life of the process\<close>

text \<open>
  \<open>acts\<close> is what the accept loop and the four threads do from their start until the last of them
  has ended; a signal is one of the turns.
\<close>

record 'c process_end =
  pe_result :: "int result"
  pe_daemon :: "'c daemon"
  pe_path :: path_kind

definition finish_run :: "'c relay_ops \<Rightarrow> 'k start_env \<Rightarrow> unit result \<Rightarrow> 'c daemon \<Rightarrow> path_kind \<Rightarrow> 'c process_end" where
  "finish_run C E r dm k =
     (case shutdown C dm of
        (Inl e, dm') \<Rightarrow> \<lparr>pe_result = Inl e, pe_daemon = dm', pe_path = k\<rparr>
      | (Inr _, dm') \<Rightarrow>
          \<lparr>pe_result = (case r of
                          Inl e \<Rightarrow> Inl e
                        | Inr _ \<Rightarrow> (case d_fatal_error dm' of Some e \<Rightarrow> Inl e | None \<Rightarrow> Inr 0)),
           pe_daemon = dm', pe_path = remove_path E k\<rparr>)"

definition daemon_run ::
    "nat \<Rightarrow> 'c relay_ops \<Rightarrow> DaemonConfig \<Rightarrow> string \<Rightarrow> 'c env \<Rightarrow> 'k start_env \<Rightarrow> 'c act list \<Rightarrow> path_kind \<Rightarrow> 'c process_end" where
  "daemon_run d C cfg version env E acts k =
     (case initial_connect C cfg env new_daemon of
        (Inl e, dm) \<Rightarrow> finish_run C E (Inl e) dm k
      | (Inr _, dm) \<Rightarrow>
          (case bind_socket E (socket_path cfg) k of
             (Inl e, k') \<Rightarrow> finish_run C E (Inl e) dm k'
           | (Inr _, k') \<Rightarrow>
               finish_run C E (Inr ()) (sv_daemon (service_run d C cfg version acts (new_service dm))) k'))"

section \<open>Exit codes\<close>

definition EXIT_DAEMON :: int where [simp]: "EXIT_DAEMON = 7"

text \<open>The line on standard error and the code; None for an exception that leaves the program.\<close>

definition daemon_failure :: "exc \<Rightarrow> (string \<times> int) option" where
  "daemon_failure e =
     (if is_RelayValidationError e then Some (''argument error: '' @ exc_str e, 2)
      else if is_RelayTransportError e then Some (''transport error: '' @ exc_str e, 3)
      else if is_RelayProtocolError e then Some (''protocol error: '' @ exc_str e, 5)
      else if is_RelayError e then Some (''daemon error: '' @ exc_str e, EXIT_DAEMON)
      else None)"

text \<open>The level of the log is looked up first; a configuration that is refused does not stop there.\<close>

definition log_level_of :: "process \<Rightarrow> (string \<Rightarrow> pydict result) \<Rightarrow> daemon_args \<Rightarrow> string result" where
  "log_level_of P toml args =
     (let level = (if given (da_log_level args) then the (da_log_level args) else ''INFO'') in
      if given (da_instance args)
      then (case resolve_args P toml args of
              Inl e \<Rightarrow> if is_RelayValidationError e then Inr level else Inl e
            | Inr r \<Rightarrow> Inr (ic_log_level r))
      else Inr level)"

record daemon_outcome =
  do_err :: "string list"
  do_exit :: "int result"

definition daemon_exit :: "int result \<Rightarrow> daemon_outcome" where
  "daemon_exit r =
     (case r of
        Inr code \<Rightarrow> \<lparr>do_err = [], do_exit = Inr code\<rparr>
      | Inl e \<Rightarrow> (case daemon_failure e of
                   Some (line, code) \<Rightarrow> \<lparr>do_err = [line], do_exit = Inr code\<rparr>
                 | None \<Rightarrow> \<lparr>do_err = [], do_exit = Inl e\<rparr>))"

definition daemon_main ::
    "process \<Rightarrow> (string \<Rightarrow> pydict result) \<Rightarrow> nat \<Rightarrow> 'c relay_ops \<Rightarrow> string \<Rightarrow> 'c env \<Rightarrow> 'k start_env \<Rightarrow> 'c act list
     \<Rightarrow> daemon_args \<Rightarrow> path_kind \<Rightarrow> daemon_outcome \<times> path_kind" where
  "daemon_main P toml d C version env E acts args k =
     (case log_level_of P toml args of
        Inl e \<Rightarrow> (\<lparr>do_err = [], do_exit = Inl e\<rparr>, k)
      | Inr _ \<Rightarrow>
          (case config_from_args P toml args of
             Inl e \<Rightarrow> (daemon_exit (Inl e), k)
           | Inr cfg \<Rightarrow>
               (let e = daemon_run d C cfg version env E acts k in (daemon_exit (pe_result e), pe_path e))))"

section \<open>The USB instance behind a port\<close>

text \<open>
  What sysfs answers: the real path of a tty's device (a failure is an OSError or RuntimeError) and
  the text of a devnum file.
\<close>

record sysfs =
  fs_platform :: string
  fs_resolve :: "string \<Rightarrow> string option"
  fs_read :: "string \<Rightarrow> string result"

definition base_name :: "string \<Rightarrow> string" where
  "base_name p = last (split_slash p)"

text \<open>A path and its parents, the path first, for an absolute resolved path.\<close>

fun ancestors :: "string list \<Rightarrow> string list list" where
  "ancestors [] = [[]]"
| "ancestors (w # ws) = (w # ws) # ancestors ws"

definition dir_of :: "string list \<Rightarrow> string" where
  "dir_of rev_parts = ''/'' @ join ''/'' (rev rev_parts)"

fun find_devnum :: "sysfs \<Rightarrow> string list list \<Rightarrow> string option result" where
  "find_devnum S [] = Inr None"
| "find_devnum S (rp # rest) =
     (case fs_read S (path_join (dir_of rp) ''devnum'') of
        Inl e \<Rightarrow> if is_OSError e then find_devnum S rest else Inl e
      | Inr text \<Rightarrow>
          Inr (case py_int_of_str (strip text) of
                 None \<Rightarrow> None
               | Some n \<Rightarrow> Some ((case rp of [] \<Rightarrow> [] | w # _ \<Rightarrow> w) @ '':'' @ int_str n)))"

definition linux_usb_instance_id_for_port :: "sysfs \<Rightarrow> string \<Rightarrow> string option result" where
  "linux_usb_instance_id_for_port S p =
     (if fs_platform S \<noteq> ''linux'' \<or> \<not> starts_with p ''/'' then Inr None
      else if base_name p = [] then Inr None
      else (case fs_resolve S (path_join (path_join ''/sys/class/tty'' (base_name p)) ''device'') of
              None \<Rightarrow> Inr None
            | Some device_path \<Rightarrow> find_devnum S (ancestors (rev (filter (\<lambda>w. w \<noteq> []) (split_slash device_path))))))"

end
