(* ===== verification/Daemon_Start_Properties.thy ===== *)
theory Daemon_Start_Properties
  imports Daemon_Start Daemon_Properties Config_Properties
begin

text \<open>
  The statements about starting and ending the daemon process: the configurations it accepts, the
  paths it binds, and what is left of clients and of the path at the end.
\<close>

section \<open>The configuration\<close>

definition usable_config :: "DaemonConfig \<Rightarrow> bool" where
  "usable_config cfg \<longleftrightarrow>
     0 \<le> cfg_retries cfg \<and> \<not> cfg_timeout cfg \<le> 0 \<and> \<not> reconnect_interval cfg \<le> 0
     \<and> selector_type cfg \<in> {''port'', ''serial''} \<and> selector_value cfg \<noteq> []"

lemma given_Some: "given x \<Longrightarrow> \<exists>v. x = Some v \<and> v \<noteq> []"
  by (auto simp: given_def split: option.splits list.splits)

lemma flags_usable: "config_from_flags args = Inr cfg \<Longrightarrow> usable_config cfg \<and> socket_path cfg \<noteq> []"
  by (auto simp: config_from_flags_def usable_config_def rbind_Inr Let_def split: if_splits dest!: given_Some)

section \<open>The path\<close>

definition free_path :: "'k start_env \<Rightarrow> path_kind \<Rightarrow> bool" where
  "free_path E k \<longleftrightarrow> k = Nothing_There \<or> k = Unix_Socket \<and> \<not> se_accepts E \<and> se_unlink E = Inr ()"

lemma prepare_run:
  "prepare_socket_path E path k =
     (case se_make_parent E of
        Inl e \<Rightarrow> (Inl e, k)
      | Inr _ \<Rightarrow>
          (if k = Nothing_There then (Inr (), k)
           else if k = Other_File then (Inl (RelayTransportError (''socket path exists and is not a socket: '' @ path)), k)
           else if \<not> se_accepts E then unlink_path E k
           else (Inl (case ask_status E path of
                        Inl e \<Rightarrow> if is_RelayError e
                                then RelayTransportError (''socket path is in use by a non-daemon listener: '' @ path) else e
                      | Inr _ \<Rightarrow> RelayTransportError (running_message path)), k)))"
  by (cases k) (auto simp: prepare_socket_path_def sbind_def lift_result_def split: sum.splits)

lemma unlink_run: "unlink_path E k = (case se_unlink E of Inl e \<Rightarrow> (Inl e, k) | Inr _ \<Rightarrow> (Inr (), Nothing_There))"
  by (simp add: unlink_path_def)

lemma bind_socket_Inr:
  "fst (bind_socket E path k) = Inr () \<longleftrightarrow>
     se_make_parent E = Inr () \<and> free_path E k \<and> se_bind E = Inr () \<and> se_listen E = Inr ()"
  by (cases "se_make_parent E"; cases "se_unlink E"; cases "se_bind E"; cases k)
    (auto simp: bind_socket_def sbind_def lift_result_def prepare_run unlink_run free_path_def)

lemma bind_socket_refused:
  assumes "\<not> free_path E k" "fst (bind_socket E path k) \<noteq> Inr ()"
  shows "snd (bind_socket E path k) = k"
  using assms
  by (cases "se_make_parent E"; cases "se_unlink E"; cases k)
    (auto simp: bind_socket_def sbind_def lift_result_def prepare_run unlink_run free_path_def)

text \<open>
  C37. A daemon listens only where nobody else does. Binding the socket succeeds exactly if the
  directory can be made private, the path is free (there is nothing, or a socket that accepts no
  connection and can be removed) and binding and listening succeed; it is then a socket. Where
  the path is not free, binding leaves it as it is.
\<close>

theorem listens_only_on_free_path:
  "(fst (bind_socket E path k) = Inr () \<longleftrightarrow>
      se_make_parent E = Inr () \<and> free_path E k \<and> se_bind E = Inr () \<and> se_listen E = Inr ())
   \<and> snd (bind_socket E path k) =
       (if \<not> free_path E k then k
        else if se_make_parent E = Inr () then (if se_bind E = Inr () then Unix_Socket else Nothing_There)
        else k)"
proof
  show "fst (bind_socket E path k) = Inr () \<longleftrightarrow>
      se_make_parent E = Inr () \<and> free_path E k \<and> se_bind E = Inr () \<and> se_listen E = Inr ()"
    by (rule bind_socket_Inr)
  show "snd (bind_socket E path k) =
       (if \<not> free_path E k then k
        else if se_make_parent E = Inr () then (if se_bind E = Inr () then Unix_Socket else Nothing_There)
        else k)"
    by (cases "se_make_parent E"; cases "se_unlink E"; cases "se_bind E"; cases k)
      (auto simp: bind_socket_def sbind_def lift_result_def prepare_run unlink_run free_path_def)
qed

section \<open>The end of the process\<close>

lemma service_act_daemon: "daemon_inv (sv_daemon v) \<Longrightarrow> daemon_inv (sv_daemon (service_act d C cfg ver a v))"
proof (cases a)
  case (Work env)
  assume "daemon_inv (sv_daemon v)"
  then have "daemon_inv (snd (worker_turn C cfg ver env q (sv_daemon v)))" for q
    unfolding worker_turn_state by (rule keeps_snd [OF handle_request_inv])
  then have w: "worker_turn C cfg ver env q (sv_daemon v) = (r, y) \<Longrightarrow> daemon_inv y" for q r y
    by (metis snd_conv)
  show ?thesis using Work \<open>daemon_inv (sv_daemon v)\<close>
    by (auto dest: w simp: work_next_def Let_def split: list.splits prod.splits sum.splits)
next
  case (Turn t)
  then show "daemon_inv (sv_daemon v) \<Longrightarrow> ?thesis"
    by (cases t) (auto intro: take_turn_inv simp del: take_turn.simps)
qed (auto simp: parse_next_def Let_def split: list.splits prod.splits sum.splits)

lemma service_run_daemon: "daemon_inv (sv_daemon v) \<Longrightarrow> daemon_inv (sv_daemon (service_run d C cfg ver acts v))"
  by (induction acts arbitrary: v) (simp_all add: service_act_daemon del: service_act.simps)

text \<open>Every run ends in \<open>finish_run\<close>, on a daemon that satisfies the invariant.\<close>

lemma daemon_run_finish:
  "\<exists>r dm k'. daemon_run d C cfg v env E acts k = finish_run C E r dm k' \<and> daemon_inv dm"
proof -
  obtain r dm where i: "initial_connect C cfg env new_daemon = (r, dm)" by force
  have inv: "daemon_inv dm" using keepsD [OF initial_connect_inv i new_daemon_inv] .
  have "daemon_inv (sv_daemon (service_run d C cfg v acts (new_service dm)))"
    by (rule service_run_daemon) (simp add: new_service_def inv)
  with inv i show ?thesis unfolding daemon_run_def by (auto split: sum.splits prod.splits)
qed

lemma shutdown_clean:
  assumes "daemon_inv dm" "\<And>c e c'. o_off_all_relays C c = (Inl e, c') \<Longrightarrow> is_RelayError e"
  shows "\<exists>dm'. shutdown C dm = (Inr (), dm') \<and> d_client dm' = None \<and> \<not> d_connected dm' \<and> d_stop dm'
     \<and> d_opened dm' = length (d_closed dm')"
  using assms
  by (auto simp: shutdown_def drop_client_def close_quietly_def close_client_def Let_def inv_loan_def daemon_shape_def
      split: option.splits prod.splits sum.splits)

lemma finish_run_error: "isl (pe_result (finish_run C E (Inl e) dm k))"
  by (simp add: finish_run_def split: sum.splits prod.splits)

lemma remove_path_free: "se_unlink E = Inr () \<Longrightarrow> remove_path E k = Nothing_There"
  by (simp add: remove_path_def unlink_run)

lemma daemon_run_end:
  assumes "\<And>c e c'. o_off_all_relays C c = (Inl e, c') \<Longrightarrow> is_RelayError e" "se_unlink E = Inr ()"
  shows "let x = daemon_run d C cfg v env E acts k in
    d_client (pe_daemon x) = None \<and> \<not> d_connected (pe_daemon x) \<and> d_opened (pe_daemon x) = length (d_closed (pe_daemon x))
    \<and> pe_path x = Nothing_There"
proof -
  obtain r dm k' where f: "daemon_run d C cfg v env E acts k = finish_run C E r dm k'" and i: "daemon_inv dm"
    using daemon_run_finish by blast
  obtain dm' where "shutdown C dm = (Inr (), dm')" "d_client dm' = None" "\<not> d_connected dm'"
    "d_opened dm' = length (d_closed dm')" using shutdown_clean [OF i, of C] assms(1) by blast
  then show ?thesis unfolding f Let_def by (simp add: finish_run_def remove_path_free [OF assms(2)])
qed


definition quiet_ops :: "unit relay_ops" where
  "quiet_ops = \<lparr>o_identity = sret good_identity, o_capabilities = sret [], o_build_info = sret [],
      o_get_relay = (\<lambda>_. sret []), o_get_all_relays = sret [], o_set_relay = (\<lambda>_ _. sret []),
      o_set_all_relays = (\<lambda>_. sret []), o_pulse_relay = (\<lambda>_ _. sret []), o_off_all_relays = sret [], o_status = sret [],
      o_health = sret [], o_transport_status = sret [], o_safety = sret [], o_watchdog = sret [], o_reboot = sret [],
      o_bootsel = sret [], o_heartbeat = sret [], o_close = sret ()\<rparr>"

definition quiet_env :: "unit env" where
  "quiet_env = \<lparr>monotonic = 0, usb_ports = [], client_factory = (\<lambda>_. Inr ()), usb_instance_id = (\<lambda>_. None)\<rparr>"

text \<open>A socket on which a daemon answers; nothing can go wrong in the file system.\<close>

definition mute_socket :: "unit stream_socket" where
  "mute_socket = \<lparr>k_sendall = (\<lambda>_. sret ()), k_readline = sret [], k_close = sret ()\<rparr>"

definition busy_env :: "unit start_env" where
  "busy_env = \<lparr>se_make_parent = Inr (), se_accepts = True, se_unlink = Inr (), se_bind = Inr (), se_listen = Inr (),
      se_open = (\<lambda>_ _. Inr ()), se_socket = mute_socket, se_reader_close = sret (), se_depth = 1\<rparr>"

lemma quiet_off: "o_off_all_relays quiet_ops c = (Inl e, c') \<Longrightarrow> is_RelayError e"
  by (simp add: quiet_ops_def sret_def)

lemma busy_unlink: "se_unlink busy_env = Inr ()"
  by (simp add: busy_env_def)


text \<open>
  C39. A refused start destroys what it was refused for. If at the socket's path there is a file
  that is no socket, or a socket on which somebody listens, the start fails, as it should; but
  the clean-up of the failed run then removes the path all the same: the file of somebody else, or
  the socket of the daemon that is already running, which no client can reach from then on.
\<close>

theorem refused_start_removes_path:
  assumes "k = Other_File \<or> k = Unix_Socket \<and> se_accepts E"
    "\<And>c e c'. o_off_all_relays C c = (Inl e, c') \<Longrightarrow> is_RelayError e" "se_unlink E = Inr ()"
  shows "snd (bind_socket E (socket_path cfg) k) = k
    \<and> isl (pe_result (daemon_run d C cfg v env E acts k))
    \<and> pe_path (daemon_run d C cfg v env E acts k) = Nothing_There"
proof -
  have nf: "\<not> free_path E k" using assms(1) by (auto simp: free_path_def)
  then have b: "fst (bind_socket E (socket_path cfg) k) \<noteq> Inr ()" by (simp add: bind_socket_Inr)
  obtain r dm where i: "initial_connect C cfg env new_daemon = (r, dm)" by force
  have "\<exists>e k'. daemon_run d C cfg v env E acts k = finish_run C E (Inl e) dm k'"
    using b i unfolding daemon_run_def by (auto split: sum.splits prod.splits)
  then have "isl (pe_result (daemon_run d C cfg v env E acts k))"
    by (auto simp: finish_run_error)
  moreover have "pe_path (daemon_run d C cfg v env E acts k) = Nothing_There"
    using daemon_run_end [OF assms(2,3), where d = d and cfg = cfg and v = v and env = env and acts = acts and k = k]
    by (simp add: Let_def)
  ultimately show ?thesis using bind_socket_refused [OF nf b] by simp
qed

theorem refused_start_removes_path_witness:
  "snd (bind_socket busy_env ''/run/relay.sock'' Unix_Socket) = Unix_Socket
   \<and> pe_path (daemon_run 1 quiet_ops demo_cfg ''1'' quiet_env busy_env [] Unix_Socket) = Nothing_There"
proof -
  have "Unix_Socket = Other_File \<or> Unix_Socket = Unix_Socket \<and> se_accepts busy_env" by (simp add: busy_env_def)
  from refused_start_removes_path [OF this quiet_off busy_unlink, where cfg = demo_cfg and d = 1 and v = "''1''" and env = quiet_env
      and acts = "[]"]
  show ?thesis by (simp add: demo_cfg_def)
qed

end
