(* ===== verification/Hardware_Smoke.thy ===== *)
theory Hardware_Smoke
  imports Protocol Text
begin

text \<open>
  tools/host_library_hardware_smoke.py: the manual test of the host library on a board. Its state
  is the client and what has been printed: a line per heading, and the values shown as JSON.
\<close>

section \<open>Printing and checking\<close>

type_synonym hw_log = "(string \<times> pyval option) list"

type_synonym ('c, 'a) hw = "('c \<times> hw_log, 'a) sexc"

definition hw_use :: "('c, 'a) sexc \<Rightarrow> ('c, 'a) hw" where
  "hw_use m = (\<lambda>(c, l). case m c of (r, c') \<Rightarrow> (r, (c', l)))"

definition hw_heading :: "string \<Rightarrow> ('c, unit) hw" where
  "hw_heading label = (\<lambda>(c, l). (Inr (), (c, l @ [(label, None)])))"

text \<open>The heading is out before \<open>json.dumps\<close> may refuse the value.\<close>

definition hw_json :: "string \<Rightarrow> pyval \<Rightarrow> ('c, unit) hw" where
  "hw_json label v =
     sbind (lift_result (json_sorted v)) (\<lambda>_ (c, l). (Inr (), (c, l @ [(label, Some v)])))"

definition print_response :: "string \<Rightarrow> pydict \<Rightarrow> ('c, unit) hw" where
  "print_response label response = sbind (hw_heading label) (\<lambda>_. hw_json label (PDict response))"

definition hw_require :: "bool \<Rightarrow> string \<Rightarrow> ('c, unit) hw" where
  "hw_require condition message = (if condition then sret () else sraise (PyExc ''AssertionError'' message))"

text \<open>Printing what a command answers.\<close>

definition hw_show :: "string \<Rightarrow> ('c, pydict) sexc \<Rightarrow> ('c, pydict) hw" where
  "hw_show label act =
     sbind (hw_use act) (\<lambda>response. sbind (print_response label response) (\<lambda>_. sret response))"

definition expect_device_error :: "string \<Rightarrow> ('c, pydict) sexc \<Rightarrow> int \<Rightarrow> ('c, unit) hw" where
  "expect_device_error label act rc =
     sbind (hw_heading label) (\<lambda>_ (c, l).
       (case act c of
          (Inr response, c') \<Rightarrow>
            (Inl (PyExc ''AssertionError'' (label @ '': expected device error rc '' @ int_str rc @ '', got ''
               @ py_repr (PDict response))), (c', l))
        | (Inl (RelayDeviceError g r m), c') \<Rightarrow>
            sbind (hw_json label (PDict [(''group'', PInt g), (''rc'', PInt r), (''error'', PStr m)])) (\<lambda>_.
            sbind (hw_require (g = 64) (label @ '': expected error group 64, got '' @ int_str g)) (\<lambda>_.
              hw_require (r = rc) (label @ '': expected rc '' @ int_str rc @ '', got '' @ int_str r))) (c', l)
        | (Inl e, c') \<Rightarrow> (Inl e, (c', l))))"

section \<open>The test\<close>

text \<open>\<open>_request\<close> of the client, which the two invalid requests use to get past its own checks.\<close>

type_synonym 'c raw_request = "int \<Rightarrow> int \<Rightarrow> pydict \<Rightarrow> ('c, pydict) sexc"

definition send_invalid_channel :: "'c raw_request \<Rightarrow> ('c, pydict) sexc" where
  "send_invalid_channel req = req CMD_SET OP_WRITE [(''channel'', PInt 6), (''on'', PBool True)]"

definition send_invalid_pulse :: "'c raw_request \<Rightarrow> ('c, pydict) sexc" where
  "send_invalid_pulse req = req CMD_PULSE OP_WRITE [(''channel'', PInt 0), (''duration_ms'', PInt 1)]"

definition hw_check_identity :: "pydict \<Rightarrow> ('c, unit) hw" where
  "hw_check_identity idn =
     sbind (hw_require (py_eq_int (dget idn ''protocol_version'') 8) ''protocol_version is not 8'') (\<lambda>_.
     sbind (hw_require (py_eq_int (dget idn ''command_model_version'') 2) ''command_model_version is not 2'') (\<lambda>_.
     sbind (hw_require (py_eq_int (dget idn ''relay_count'') 6) ''relay_count is not 6'') (\<lambda>_.
       hw_require (dget idn ''hardware'' = PStr ''Waveshare RP2350-Relay-6CH'') ''unexpected hardware name'')))"

definition hw_body :: "'c relay_ops \<Rightarrow> 'c raw_request \<Rightarrow> int \<Rightarrow> ('c, unit) hw" where
  "hw_body C req pulse_ms =
     sbind (hw_show ''identity'' (o_identity C)) (\<lambda>idn.
     sbind (hw_check_identity idn) (\<lambda>_.
     sbind (hw_show ''capabilities'' (o_capabilities C)) (\<lambda>capabilities.
     sbind (hw_require (dget capabilities ''capabilities'' \<noteq> PNone) ''missing capabilities'') (\<lambda>_.
     sbind (hw_show ''status'' (o_status C)) (\<lambda>st.
     sbind (hw_require (py_eq_int (dget st ''state'') 0) ''relays are not all off at start'') (\<lambda>_.
     sbind (hw_show ''get all'' (o_get_all_relays C)) (\<lambda>_.
     sbind (hw_show ''set CH1 on'' (o_set_relay C (PInt 0) (PBool True))) (\<lambda>_.
     sbind (hw_show ''get CH1'' (o_get_relay C (PInt 0))) (\<lambda>_.
     sbind (hw_show ''set CH1 off'' (o_set_relay C (PInt 0) (PBool False))) (\<lambda>_.
     sbind (hw_show ''set CH1 and CH6 on'' (o_set_all_relays C (PInt 33))) (\<lambda>_.
     sbind (hw_show ''off all'' (o_off_all_relays C)) (\<lambda>_.
     sbind (hw_show ''pulse CH1'' (o_pulse_relay C (PInt 0) (PInt pulse_ms))) (\<lambda>_.
     sbind (hw_show ''get CH1 after pulse request'' (o_get_relay C (PInt 0))) (\<lambda>_.
     sbind (expect_device_error ''invalid channel'' (send_invalid_channel req) 2) (\<lambda>_.
     sbind (expect_device_error ''invalid pulse'' (send_invalid_pulse req) 2) (\<lambda>_.
     sbind (hw_show ''final status'' (o_status C)) (\<lambda>_. sret ())))))))))))))))))"

text \<open>The relays are switched off however the body ends, and then the client is closed.\<close>

definition hw_run :: "'c relay_ops \<Rightarrow> 'c raw_request \<Rightarrow> 'c result \<Rightarrow> int \<Rightarrow> unit result \<times> ('c \<times> hw_log) option" where
  "hw_run C req opened pulse_ms =
     (case opened of
        Inl e \<Rightarrow> (Inl e, None)
      | Inr c \<Rightarrow>
          (case sfinally
                  (sfinally (hw_body C req pulse_ms)
                     (sbind (hw_show ''final off all'' (o_off_all_relays C)) (\<lambda>_. sret ())))
                  (hw_use (o_close C)) (c, []) of
             (r, s) \<Rightarrow> (r, Some s)))"

text \<open>The exit code; None for an exception that is no Exception.\<close>

definition hw_main :: "unit result \<Rightarrow> int result" where
  "hw_main r = (case r of Inr _ \<Rightarrow> Inr 0 | Inl e \<Rightarrow> if is_Exception e then Inr 1 else Inl e)"

section \<open>Its end\<close>

text \<open>Off-all is the last command before the client is closed, whatever happened.\<close>

lemma hw_ends_off:
  assumes "hw_run C req (Inr c) pulse_ms = (r, Some (c', l))"
  shows "\<exists>c1. c' = snd (o_close C (snd (o_off_all_relays C c1)))"
proof -
  obtain rb cb lb where b: "hw_body C req pulse_ms (c, []) = (rb, (cb, lb))" by (metis prod.exhaust)
  have p: "\<exists>l2 r2. print_response label x (a, l1) = (r2, (a, l2))" for label x and a :: 'a and l1
    by (auto simp: print_response_def hw_heading_def hw_json_def sbind_def lift_result_def split: sum.splits)
  obtain ro co where o: "o_off_all_relays C cb = (ro, co)" by force
  have "\<exists>r2 l2. sbind (hw_show ''final off all'' (o_off_all_relays C)) (\<lambda>_. sret ()) (cb, lb) = (r2, (co, l2))"
  proof (cases ro)
    case (Inl e)
    with o show ?thesis by (simp add: hw_show_def hw_use_def sbind_def)
  next
    case (Inr x)
    from p [of "''final off all''" x co lb] obtain l2 r2 where
      "print_response ''final off all'' x (co, lb) = (r2, (co, l2))" by blast
    with o Inr show ?thesis by (cases r2) (simp_all add: hw_show_def hw_use_def sbind_def sret_def)
  qed
  then obtain r2 l2 where f: "sbind (hw_show ''final off all'' (o_off_all_relays C)) (\<lambda>_. sret ()) (cb, lb) = (r2, (co, l2))"
    by blast
  from assms b f have "c' = snd (o_close C co)"
    by (auto simp: hw_run_def sfinally_def hw_use_def split: prod.splits sum.splits)
  with o show ?thesis by (intro exI [of _ cb]) simp
qed

text \<open>The version it asks for is not the version the library of this repository speaks.\<close>

lemma hw_refuses_current_protocol:
  assumes "o_identity C c = (Inr idn, c1)" "dget idn ''protocol_version'' = PInt PROTOCOL_VERSION" "json_ok (sort_keys (PDict idn))"
  shows "fst (hw_body C req pulse_ms (c, [])) = Inl (PyExc ''AssertionError'' ''protocol_version is not 8'')"
  using assms
  by (simp add: hw_body_def hw_show_def hw_use_def sbind_def print_response_def hw_heading_def hw_json_def lift_result_def
      json_sorted_def json_dumps_def sret_def hw_check_identity_def hw_require_def py_eq_int_PInt sraise_def)

end
