(* ===== verification/Spec2Isabelle.thy ===== *)
theory Spec2Isabelle
  imports Usb_Smoke Smoke Discovery Service_Properties Protocol_Properties Cli_Properties
    Config_Properties Systemd_Properties Relayctl_Properties Oled_Properties Build_Host Daemon_Start_Properties Hardware_Smoke
begin

text \<open>
  Host software of the RP2350 six-channel relay board: a model of the Python code under
  src/host/rp2350_relay_6ch, src/tools and src/scripts, and what was proved of it.

  The program. A board is reached over a USB serial port with SMP packets whose payload is CBOR.
  A RelayClient sends the commands. It is used directly, by the command line and by an interactive
  session, or inside a daemon, which owns the port, serves a Unix socket with one JSON object
  per line, and reconnects when the board goes away. A second command line talks to the daemon; named
  instances come from a TOML file and the environment, and systemd units start one daemon each.
  Beside these there are two test tools and a script that draws what the board's display shows.

  Theories and sources, a theory after those it uses:

  \<^item> Prelude: the exception classes of exceptions.py, Python values (\<open>pyval\<close>: None, bool, int, float
    by its text, str, bytes, list, dict), results (\<open>'a result\<close>, \<open>Inl\<close> the exception), computations on a state that
    may raise (\<open>('s, 'a) sexc\<close>, with \<open>sbind\<close>, \<open>scatch\<close>, \<open>sfinally\<close>), \<open>int(str)\<close>, doubles, and the rules
    \<open>keeps\<close> and \<open>ensures\<close> for invariants. Utf8 is UTF-8 decoding; Text is padding, hexadecimal and splitlines.
    Strings are lists of bytes in UTF-8.
  \<^item> Constants: constants.py.
  \<^item> Wire, Cbor, Usb_Smoke: tools/usb_rpc_smoke.py (frames and their checksum; CBOR; one call, the smoke run).
  \<^item> Smp, Transport, Client, Smoke, Discovery: smp.py, transport.py, client.py, smoke.py, discovery.py.
  \<^item> Json: what the code uses of the json package, a printer and a parser.
  \<^item> Protocol: the requests and responses of daemon.py. Daemon: class RelayDaemon, the link to
    the board, one definition per method. Daemon_Steps: the turns of its threads as a step relation. Daemon_Link: the
    abstract link they refine. Daemon_Socket: connections, buffers, lines. Daemon_Service: the queues
    between the threads. Daemon_Start: arguments, socket path, the life of the process, exit codes.
    Daemon_Client: daemon_client.py.
  \<^item> Cli: cli.py. Shell, Session: session.py (and what it uses of shlex). Triples, Session_Inv, Session_Loop: the
    rules and lemmas for it. Config: config.py. Systemd: systemd.py. Relayctl: relayctl.py.
  \<^item> Oled: scripts/generate-oled-indicator-preview.py. Hardware_Smoke:
    tools/host_library_hardware_smoke.py. Build_Host: scripts/build_host_executable.py.
  \<^item> The theories named \<open>.._Properties\<close> hold the statements about the parts before them.

  How state corresponds. Each object is a record with the fields of the class (RelayClient, daemon, socket_state, session), each
  method a definition that takes and returns it; \<open>d_opened\<close>, \<open>d_closed\<close> and their like are ghosts that
  count what was opened and closed. What the code gets from outside is an argument: pyserial (\<open>transport_ops\<close> and a
  serial device), the smp and cbor2 packages (\<open>smp_lib\<close>), the client factory, the clock and the list of USB
  ports (\<open>env\<close>), sockets (\<open>stream_socket\<close>, and the chunks that are received), files and processes (\<open>machine\<close>, \<open>files\<close>,
  \<open>start_env\<close>), the TOML parser. The USB tool's own codec is such a package (\<open>smoke_lib\<close>); the locales for transports, packages and
  clients are interpreted on it, on the serial transport and on the simulated one.

  Threads. A turn of a daemon thread (a request, a heartbeat, an attempt to reconnect, a signal) is atomic,
  as it runs under the command lock; statements hold for every sequence of turns, and of
  accepting, reading, parsing and working. A session's heartbeat acts between lines.

  What the lemmas show, in groups: frames, CBOR, JSON, unit files and masks are read back as they were
  written, and damaged frames are refused; a client accepts only the matching reply and checks its arguments; the
  daemon's state invariant, its refinement of the abstract link, its progress, and the
  order, bounds and number of its answers; the session's invariant, its termination, and that it closes only on a
  safe board; that command line and session agree; that relayctl prints what the daemon answers; precedence and validity of the
  configuration; that files and other listeners are left alone, where that holds, and a theorem where it does
  not (a refused start removes the path it was refused for); that a frame of the display shows every relay.

  Fuel and bounds. \<open>read_value\<close> of CBOR and the JSON parser have a depth, the recursion limit of the interpreter; the
  statements ask for a depth above that of the data, or hold for all. \<open>session_run\<close> has fuel for its turns:
  one more than there are lines and one for the end suffices (session_terminates), as each turn uses up a
  line or ends. \<open>choose_device\<close> uses a line per turn. \<open>format_with\<close> has the length of the template. All
  other loops are structural or have a measure.

  Not modelled: argparse (its result is a record; the conversions it calls are modelled), prompt_toolkit's
  editor, logging, the layout of indented JSON in the test tools, PNG encoding, systemd and PyInstaller themselves;
  interleavings inside a turn, such as the unlocked reads of the reconnect loop; file permissions beyond success or
  failure. tools/rp2350_relay_cli.py only calls main.
\<close>

end
